(* ===== verification/P2P_Prelude.thy ===== *)
theory P2P_Prelude
  imports Main "HOL-Library.Word" "HOL-Library.AList" "HOL-Library.List_Lexorder"
    "HOL-Library.Char_ord"
begin

text \<open>
  The shared vocabulary of the development: the Rust types the crates are written in
  (machine integers as words, \<open>String\<close> as a list of UTF-8 bytes, \<open>Result\<close> as a sum,
  \<open>HashMap\<close> as an association list with distinct keys), the parts of the Rust standard
  library the crates use (decimal and hexadecimal formatting, \<open>parse\<close>, \<open>trim\<close>, \<open>split\<close>,
  \<open>join\<close>, big-endian integers, \<open>clamp\<close>), and the generic interfaces: \<open>hash_map\<close> (what
  every table of the program relies on), \<open>packet_codec\<close> (a self-delimiting encoding) and
  \<open>stepped_invariant\<close> and \<open>transition_invariant\<close> (a state machine, as a function of its events or
  as a step relation, that keeps an invariant).

  A hash map iterates in an unspecified order; the model iterates in the order of its list,
  and statements quantify over every list, so they hold for every order.
\<close>

section \<open>Rust types\<close>

type_synonym u8 = "8 word"
type_synonym u16 = "16 word"
type_synonym u32 = "32 word"
type_synonym u64 = "64 word"
type_synonym i32 = "32 word"
type_synonym i64 = "64 word"
type_synonym uuid = "128 word"
type_synonym bytes = "u8 list"
type_synonym 'a result = "string + 'a"
type_synonym ('k, 'v) hmap = "('k \<times> 'v) list"

named_theorems hm_simps \<open>how the table operations act on lookups and on key distinctness\<close>
named_theorems fmt_simps \<open>facts on the standard library's formatting and parsing\<close>

section \<open>Results\<close>

definition bind_result :: "'e + 'a \<Rightarrow> ('a \<Rightarrow> 'e + 'b) \<Rightarrow> 'e + 'b" where
  "bind_result r f = (case r of Inl e \<Rightarrow> Inl e | Inr a \<Rightarrow> f a)"

definition map_err :: "('e \<Rightarrow> 'f) \<Rightarrow> 'e + 'a \<Rightarrow> 'f + 'a" where
  "map_err g r = (case r of Inl e \<Rightarrow> Inl (g e) | Inr a \<Rightarrow> Inr a)"

definition ok_or :: "'e \<Rightarrow> 'a option \<Rightarrow> 'e + 'a" where
  "ok_or e v = (case v of None \<Rightarrow> Inl e | Some a \<Rightarrow> Inr a)"

definition is_ok :: "'e + 'a \<Rightarrow> bool" where
  "is_ok r = (case r of Inl _ \<Rightarrow> False | Inr _ \<Rightarrow> True)"

section \<open>Hash maps\<close>

definition hm_insert :: "'k \<Rightarrow> 'v \<Rightarrow> ('k, 'v) hmap \<Rightarrow> ('k, 'v) hmap" where
  "hm_insert k v m = AList.update k v m"

definition hm_remove :: "'k \<Rightarrow> ('k, 'v) hmap \<Rightarrow> ('k, 'v) hmap" where
  "hm_remove k m = AList.delete k m"

definition hm_contains :: "('k, 'v) hmap \<Rightarrow> 'k \<Rightarrow> bool" where
  "hm_contains m k = (map_of m k \<noteq> None)"

definition hm_wf :: "('k, 'v) hmap \<Rightarrow> bool" where
  "hm_wf m = distinct (map fst m)"

text \<open>\<open>entry(k).or_insert(d)\<close> followed by a mutation of the entry.\<close>

definition hm_upsert :: "'k \<Rightarrow> 'v \<Rightarrow> ('v \<Rightarrow> 'v) \<Rightarrow> ('k, 'v) hmap \<Rightarrow> ('k, 'v) hmap" where
  "hm_upsert k d f m = hm_insert k (f (case map_of m k of None \<Rightarrow> d | Some v \<Rightarrow> v)) m"

text \<open>\<open>if let Some(v) = m.get_mut(k)\<close> followed by a mutation.\<close>

definition hm_adjust :: "'k \<Rightarrow> ('v \<Rightarrow> 'v) \<Rightarrow> ('k, 'v) hmap \<Rightarrow> ('k, 'v) hmap" where
  "hm_adjust k f m = (case map_of m k of None \<Rightarrow> m | Some v \<Rightarrow> hm_insert k (f v) m)"

definition hm_retain :: "('k \<Rightarrow> 'v \<Rightarrow> bool) \<Rightarrow> ('k, 'v) hmap \<Rightarrow> ('k, 'v) hmap" where
  "hm_retain P m = filter (\<lambda>(k, v). P k v) m"

text \<open>A loop that inserts one entry per element.\<close>

definition hm_insert_all :: "('a \<Rightarrow> 'k) \<Rightarrow> ('a \<Rightarrow> 'v) \<Rightarrow> 'a list \<Rightarrow> ('k, 'v) hmap \<Rightarrow> ('k, 'v) hmap" where
  "hm_insert_all kf vf xs m = fold (\<lambda>x. hm_insert (kf x) (vf x)) xs m"

section \<open>Integers\<close>

definition clamp_nat :: "nat \<Rightarrow> nat \<Rightarrow> nat \<Rightarrow> nat" where
  "clamp_nat lo hi x = (if x < lo then lo else if x > hi then hi else x)"

definition clamp_int :: "int \<Rightarrow> int \<Rightarrow> int \<Rightarrow> int" where
  "clamp_int lo hi x = (if x < lo then lo else if x > hi then hi else x)"

definition u16_to_be_bytes :: "u16 \<Rightarrow> bytes" where
  "u16_to_be_bytes w = [word_of_nat (unat w div 256), word_of_nat (unat w mod 256)]"

definition u16_from_be_bytes :: "u8 \<Rightarrow> u8 \<Rightarrow> u16" where
  "u16_from_be_bytes a b = word_of_nat (unat a * 256 + unat b)"

definition u32_to_be_bytes :: "u32 \<Rightarrow> bytes" where
  "u32_to_be_bytes w =
     [word_of_nat (unat w div 16777216), word_of_nat (unat w div 65536 mod 256),
      word_of_nat (unat w div 256 mod 256), word_of_nat (unat w mod 256)]"

definition u32_from_be_bytes :: "u8 \<Rightarrow> u8 \<Rightarrow> u8 \<Rightarrow> u8 \<Rightarrow> u32" where
  "u32_from_be_bytes a b c d =
     word_of_nat (unat a * 16777216 + unat b * 65536 + unat c * 256 + unat d)"

section \<open>Formatting and parsing\<close>

definition digit_char :: "nat \<Rightarrow> char" where
  "digit_char d = char_of (48 + d)"

fun show_nat :: "nat \<Rightarrow> string" where
  "show_nat n = (if n < 10 then [digit_char n] else show_nat (n div 10) @ [digit_char (n mod 10)])"

declare show_nat.simps [simp del]

definition is_digit_char :: "char \<Rightarrow> bool" where
  "is_digit_char c = (48 \<le> (of_char c :: nat) \<and> (of_char c :: nat) \<le> 57)"

definition read_digits :: "string \<Rightarrow> nat" where
  "read_digits s = foldl (\<lambda>n c. 10 * n + ((of_char c :: nat) - 48)) 0 s"

text \<open>\<open>str::parse::<u16>\<close>: an optional plus sign, at least one digit, a value in range.\<close>

definition parse_u16 :: "string \<Rightarrow> u16 option" where
  "parse_u16 s =
     (let t = (case s of [] \<Rightarrow> [] | c # cs \<Rightarrow> if c = CHR ''+'' then cs else s)
      in if t \<noteq> [] \<and> list_all is_digit_char t \<and> read_digits t < 65536
         then Some (word_of_nat (read_digits t)) else None)"

definition hex_upper_char :: "nat \<Rightarrow> char" where
  "hex_upper_char d = (if d < 10 then char_of (48 + d) else char_of (55 + d))"

fun show_hex_upper :: "nat \<Rightarrow> string" where
  "show_hex_upper n =
     (if n < 16 then [hex_upper_char n] else show_hex_upper (n div 16) @ [hex_upper_char (n mod 16)])"

declare show_hex_upper.simps [simp del]

text \<open>\<open>format!("{:0wX}", n)\<close>.\<close>

definition pad_hex_upper :: "nat \<Rightarrow> nat \<Rightarrow> string" where
  "pad_hex_upper w n =
     (let s = show_hex_upper n in replicate (w - length s) (CHR ''0'') @ s)"

fun join_str :: "string \<Rightarrow> string list \<Rightarrow> string" where
  "join_str sep [] = []"
| "join_str sep [x] = x"
| "join_str sep (x # y # ys) = x @ sep @ join_str sep (y # ys)"

text \<open>\<open>str::split\<close> on one character: always at least one piece.\<close>

fun split_char :: "char \<Rightarrow> string \<Rightarrow> string list" where
  "split_char c [] = [[]]"
| "split_char c (x # xs) =
     (if x = c then [] # split_char c xs
      else (case split_char c xs of [] \<Rightarrow> [[x]] | p # ps \<Rightarrow> (x # p) # ps))"

text \<open>The UTF-8 encodings of the characters with Unicode property \<open>White_Space\<close>, which
  \<open>str::trim\<close> removes.\<close>

definition white_space :: "string list" where
  "white_space =
     map (map char_of)
       [[9::nat], [10], [11], [12], [13], [32], [194, 133], [194, 160], [225, 154, 128],
        [226, 128, 128], [226, 128, 129], [226, 128, 130], [226, 128, 131], [226, 128, 132],
        [226, 128, 133], [226, 128, 134], [226, 128, 135], [226, 128, 136], [226, 128, 137],
        [226, 128, 138], [226, 128, 168], [226, 128, 169], [226, 128, 175], [226, 129, 159],
        [227, 128, 128]]"

definition strip_one :: "string list \<Rightarrow> string \<Rightarrow> string option" where
  "strip_one pats s =
     (case filter (\<lambda>p. p \<noteq> [] \<and> take (length p) s = p) pats of
        [] \<Rightarrow> None | p # _ \<Rightarrow> Some (drop (length p) s))"

lemma strip_one_shorter: "strip_one pats s = Some t \<Longrightarrow> length t < length s"
proof -
  assume "strip_one pats s = Some t"
  then obtain p ps where f: "filter (\<lambda>p. p \<noteq> [] \<and> take (length p) s = p) pats = p # ps"
    and t: "t = drop (length p) s"
    by (auto simp: strip_one_def split: list.splits)
  from f have "p \<in> set (filter (\<lambda>p. p \<noteq> [] \<and> take (length p) s = p) pats)"
    by simp
  then have p: "p \<noteq> []" "take (length p) s = p" by auto
  then have "s \<noteq> []" by auto
  with p show ?thesis by (auto simp: t)
qed

function strip_all :: "string list \<Rightarrow> string \<Rightarrow> string" where
  "strip_all pats s = (case strip_one pats s of None \<Rightarrow> s | Some t \<Rightarrow> strip_all pats t)"
  by pat_completeness auto
termination
  by (relation "measure (\<lambda>(pats, s). length s)") (simp_all add: strip_one_shorter)

declare strip_all.simps [simp del]

definition trim :: "string \<Rightarrow> string" where
  "trim s = rev (strip_all (map rev white_space) (rev (strip_all white_space s)))"

section \<open>Facts on results\<close>

lemma bind_result_simps [simp]:
  "bind_result (Inl e) f = Inl e"
  "bind_result (Inr a) f = f a"
  by (simp_all add: bind_result_def)

lemma bind_result_Inr [simp]:
  "bind_result r f = Inr b \<longleftrightarrow> (\<exists>a. r = Inr a \<and> f a = Inr b)"
  by (cases r) simp_all

lemma map_err_simps [simp]:
  "map_err g (Inl e) = Inl (g e)"
  "map_err g (Inr a) = Inr a"
  "(map_err g r = Inr a) = (r = Inr a)"
  by (simp_all add: map_err_def split: sum.splits)

lemma ok_or_simps [simp]:
  "ok_or e None = Inl e"
  "ok_or e (Some a) = Inr a"
  "(ok_or e v = Inr a) = (v = Some a)"
  by (simp_all add: ok_or_def split: option.splits)

lemma is_ok_simps [simp]: "\<not> is_ok (Inl e)" "is_ok (Inr a)"
  by (simp_all add: is_ok_def)

lemma is_ok_iff: "is_ok r \<longleftrightarrow> (\<exists>a. r = Inr a)"
  by (cases r) simp_all

section \<open>Facts on integers and formatting\<close>

lemma clamp_nat_bounds: "lo \<le> hi \<Longrightarrow> lo \<le> clamp_nat lo hi x \<and> clamp_nat lo hi x \<le> hi"
  by (simp add: clamp_nat_def)

lemma clamp_nat_id: "lo \<le> x \<Longrightarrow> x \<le> hi \<Longrightarrow> clamp_nat lo hi x = x"
  by (simp add: clamp_nat_def)

lemma clamp_int_bounds: "lo \<le> hi \<Longrightarrow> lo \<le> clamp_int lo hi x \<and> clamp_int lo hi x \<le> hi"
  by (simp add: clamp_int_def)

lemma unat_u16_less: "unat (w :: u16) < 65536"
  using unsigned_less [of w, where ?'a = nat] by simp

lemma unat_u8_less: "unat (w :: u8) < 256"
  using unsigned_less [of w, where ?'a = nat] by simp

lemma unat_u32_less: "unat (w :: u32) < 4294967296"
  using unsigned_less [of w, where ?'a = nat] by simp

lemma unat_of_nat_u8: "n < 256 \<Longrightarrow> unat (word_of_nat n :: u8) = n"
  by (simp add: unsigned_of_nat take_bit_nat_eq_self)

lemma unat_of_nat_u16: "n < 65536 \<Longrightarrow> unat (word_of_nat n :: u16) = n"
  by (simp add: unsigned_of_nat take_bit_nat_eq_self)

lemma unat_of_nat_u32: "n < 4294967296 \<Longrightarrow> unat (word_of_nat n :: u32) = n"
  by (simp add: unsigned_of_nat take_bit_nat_eq_self)

lemma unat_of_nat_u64: "n < 18446744073709551616 \<Longrightarrow> unat (word_of_nat n :: u64) = n"
  by (simp add: unsigned_of_nat take_bit_nat_eq_self)

lemma length_u16_be [simp]: "length (u16_to_be_bytes w) = 2"
  by (simp add: u16_to_be_bytes_def)

lemma length_u32_be [simp]: "length (u32_to_be_bytes w) = 4"
  by (simp add: u32_to_be_bytes_def)

lemma u16_be_roundtrip:
  "u16_to_be_bytes w = [a, b] \<Longrightarrow> u16_from_be_bytes a b = w"
proof -
  assume "u16_to_be_bytes w = [a, b]"
  then have a: "a = word_of_nat (unat w div 256)" and b: "b = word_of_nat (unat w mod 256)"
    by (simp_all add: u16_to_be_bytes_def)
  have "unat w div 256 < 256" using unat_u16_less [of w] by simp
  then have "unat a = unat w div 256" "unat b = unat w mod 256"
    by (simp_all add: a b unat_of_nat_u8)
  then have "u16_from_be_bytes a b = word_of_nat (unat w div 256 * 256 + unat w mod 256)"
    by (simp add: u16_from_be_bytes_def)
  also have "\<dots> = w" by (simp only: div_mult_mod_eq) simp
  finally show ?thesis .
qed

lemma u32_be_digits:
  fixes n :: nat
  shows "n div 16777216 * 16777216 + n div 65536 mod 256 * 65536 + n div 256 mod 256 * 256
    + n mod 256 = n"
proof -
  have "n div 65536 = n div 16777216 * 256 + n div 65536 mod 256"
    "n div 256 = n div 65536 * 256 + n div 256 mod 256" "n = n div 256 * 256 + n mod 256"
    by (simp_all add: div_mult2_eq [of n 65536 256, simplified] div_mult2_eq [of n 256 256, simplified])
  then show ?thesis by linarith
qed

lemma u32_be_roundtrip:
  "u32_to_be_bytes w = [a, b, c, d] \<Longrightarrow> u32_from_be_bytes a b c d = w"
proof -
  assume eq: "u32_to_be_bytes w = [a, b, c, d]"
  have "unat w div 16777216 < 256" using unat_u32_less [of w] by simp
  with eq have "unat a = unat w div 16777216" "unat b = unat w div 65536 mod 256"
    "unat c = unat w div 256 mod 256" "unat d = unat w mod 256"
    by (auto simp: u32_to_be_bytes_def unat_of_nat_u8)
  then show ?thesis by (simp only: u32_from_be_bytes_def u32_be_digits) simp
qed

lemma of_char_digit: "d < 10 \<Longrightarrow> (of_char (digit_char d) :: nat) = 48 + d"
  by (simp add: digit_char_def)

lemma show_nat_digits [fmt_simps]: "list_all is_digit_char (show_nat n)"
proof (induction n rule: show_nat.induct)
  case (1 n)
  then show ?case
    by (subst show_nat.simps) (auto simp: is_digit_char_def [of "digit_char _"] of_char_digit)
qed

lemma show_nat_nonempty [simp, fmt_simps]: "show_nat n \<noteq> []"
  by (subst show_nat.simps) simp

lemma read_show_nat [simp, fmt_simps]: "read_digits (show_nat n) = n"
proof (induction n rule: show_nat.induct)
  case (1 n)
  then show ?case
    by (subst show_nat.simps) (simp add: read_digits_def of_char_digit)
qed

lemma show_nat_inj [simp, fmt_simps]: "show_nat m = show_nat n \<longleftrightarrow> m = n"
  using read_show_nat by metis

lemma show_nat_no_char: "\<not> is_digit_char c \<Longrightarrow> c \<notin> set (show_nat n)"
  using show_nat_digits [of n] by (auto simp: list_all_iff)

lemma parse_show_u16 [fmt_simps]: "parse_u16 (show_nat (unat p)) = Some p"
proof -
  obtain c cs where s: "show_nat (unat p) = c # cs"
    by (cases "show_nat (unat p)") simp_all
  have "is_digit_char c" using show_nat_digits [of "unat p"] by (simp add: s)
  then have "c \<noteq> CHR ''+''" by (auto simp: is_digit_char_def)
  moreover have "list_all is_digit_char (c # cs)" "read_digits (c # cs) = unat p"
    using show_nat_digits [of "unat p"] read_show_nat [of "unat p"] by (simp_all only: s)
  ultimately show ?thesis
    using unat_u16_less [of p] by (simp only: parse_u16_def s) (simp add: Let_def)
qed

lemma length_pad_hex: "length (show_hex_upper n) \<le> w \<Longrightarrow> length (pad_hex_upper w n) = w"
  by (simp add: pad_hex_upper_def Let_def)

lemma length_show_hex: "n < 16 ^ Suc k \<Longrightarrow> length (show_hex_upper n) \<le> Suc k"
proof (induction k arbitrary: n)
  case 0
  then show ?case by (subst show_hex_upper.simps) simp
next
  case (Suc k)
  from Suc.prems have "n div 16 < 16 ^ Suc k" by (simp add: less_mult_imp_div_less)
  then have "length (show_hex_upper (n div 16)) \<le> Suc k" by (rule Suc.IH)
  then show ?case by (subst show_hex_upper.simps) simp
qed

text \<open>Two colon-separated renderings agree only on the same pieces.\<close>

lemma append_sep_inj:
  assumes "c \<notin> set a" "c \<notin> set a'" "a @ c # r = a' @ c # r'"
  shows "a = a' \<and> r = r'"
  using assms
proof (induction a arbitrary: a')
  case Nil
  then show ?case by (cases a') auto
next
  case (Cons x xs)
  then show ?case by (cases a') auto
qed

lemma split_char_nonempty [simp]: "split_char c s \<noteq> []"
  by (induction s) (auto split: list.splits)

lemma split_char_no_sep: "p \<in> set (split_char c s) \<Longrightarrow> c \<notin> set p"
  by (induction s arbitrary: p) (auto split: list.splits if_splits)

lemma join_split_char: "join_str [c] (split_char c s) = s"
proof (induction s)
  case Nil
  then show ?case by simp
next
  case (Cons x xs)
  obtain p ps where "split_char c xs = p # ps" by (cases "split_char c xs") auto
  with Cons show ?case by (cases ps) auto
qed

lemma strip_all_stop: "strip_one pats (strip_all pats s) = None"
proof (induction pats s rule: strip_all.induct)
  case (1 pats s)
  then show ?case
    by (cases "strip_one pats s") (simp_all add: strip_all.simps [of pats s])
qed

lemma strip_all_id: "strip_one pats s = None \<Longrightarrow> strip_all pats s = s"
  by (simp add: strip_all.simps)

lemma strip_all_suffix: "\<exists>p. s = p @ strip_all pats s"
proof (induction pats s rule: strip_all.induct)
  case (1 pats s)
  show ?case
  proof (cases "strip_one pats s")
    case None
    then show ?thesis by (simp add: strip_all_id)
  next
    case (Some t)
    then obtain p where "t = p @ strip_all pats t" using 1 by blast
    moreover from Some have "\<exists>q. s = q @ t"
      by (auto simp: strip_one_def split: list.splits) (metis append_take_drop_id)
    ultimately have "\<exists>q. s = (q @ p) @ strip_all pats t" by (metis append_assoc)
    with Some show ?thesis by (auto simp: strip_all.simps [of pats s])
  qed
qed

lemma strip_one_None_iff:
  "strip_one pats s = None \<longleftrightarrow> (\<forall>p\<in>set pats. p = [] \<or> take (length p) s \<noteq> p)"
proof (cases "filter (\<lambda>p. p \<noteq> [] \<and> take (length p) s = p) pats")
  case Nil
  then show ?thesis by (auto simp: strip_one_def filter_empty_conv)
next
  case (Cons q qs)
  then have "q \<in> set (filter (\<lambda>p. p \<noteq> [] \<and> take (length p) s = p) pats)" by simp
  then have "q \<in> set pats" "q \<noteq> []" "take (length q) s = q" by auto
  with Cons show ?thesis by (auto simp: strip_one_def)
qed

lemma strip_all_Nil [simp]: "strip_all pats [] = []"
  by (rule strip_all_id) (auto simp: strip_one_None_iff)

lemma trim_Nil [simp]: "trim [] = []"
  by (simp add: trim_def)

lemma strip_one_prefix_None:
  assumes "strip_one pats (u @ v) = None"
  shows "strip_one pats u = None"
proof -
  have "take (length p) u \<noteq> p" if "p \<in> set pats" "p \<noteq> []" for p
  proof
    assume p: "take (length p) u = p"
    then have "length p \<le> length u" by (metis nat_le_linear take_all_iff)
    with p have "take (length p) (u @ v) = p" by simp
    with assms that show False by (auto simp: strip_one_None_iff)
  qed
  then show ?thesis by (auto simp: strip_one_None_iff)
qed

lemma trim_idem: "trim (trim s) = trim s"
proof -
  let ?t = "strip_all white_space s" and ?W = "map rev white_space"
  have trim: "trim s = rev (strip_all ?W (rev ?t))" by (simp add: trim_def)
  obtain p where "rev ?t = p @ strip_all ?W (rev ?t)" using strip_all_suffix by blast
  then have "?t = trim s @ rev p" by (metis trim rev_append rev_rev_ident)
  then have "strip_one white_space (trim s) = None"
    using strip_all_stop [of white_space s] by (metis strip_one_prefix_None)
  then have "strip_all white_space (trim s) = trim s" by (rule strip_all_id)
  then show ?thesis
    by (simp add: trim trim_def [of "rev _"] strip_all_id strip_all_stop)
qed

section \<open>The table interface\<close>

text \<open>
  What the program relies on of every table it keeps: a lookup after an insertion or a
  removal, and that iterating over the entries agrees with looking keys up.
\<close>

locale hash_map =
  fixes get :: "'m \<Rightarrow> 'k \<Rightarrow> 'v option"
    and insert_entry :: "'k \<Rightarrow> 'v \<Rightarrow> 'm \<Rightarrow> 'm"
    and remove_entry :: "'k \<Rightarrow> 'm \<Rightarrow> 'm"
    and entries :: "'m \<Rightarrow> ('k \<times> 'v) list"
    and wf :: "'m \<Rightarrow> bool"
  assumes get_insert: "get (insert_entry k v m) = (get m)(k \<mapsto> v)"
    and get_remove: "get (remove_entry k m) = (get m)(k := None)"
    and entries_get: "wf m \<Longrightarrow> (k, v) \<in> set (entries m) \<longleftrightarrow> get m k = Some v"
    and wf_insert: "wf m \<Longrightarrow> wf (insert_entry k v m)"
    and wf_remove: "wf m \<Longrightarrow> wf (remove_entry k m)"
begin

text \<open>A loop of insertions: for each key the last element written wins.\<close>

lemma get_insert_loop:
  "get (fold (\<lambda>x. insert_entry (kf x) (vf x)) xs m) k =
     (case map_of (rev (map (\<lambda>x. (kf x, vf x)) xs)) k of None \<Rightarrow> get m k | Some v \<Rightarrow> Some v)"
  by (induction xs arbitrary: m) (auto simp: get_insert map_add_def split: option.splits)

lemma get_insert_loop_other:
  "k \<notin> kf ` set xs \<Longrightarrow> get (fold (\<lambda>x. insert_entry (kf x) (vf x)) xs m) k = get m k"
  by (induction xs arbitrary: m) (auto simp: get_insert)

lemma get_insert_loop_distinct:
  assumes "distinct (map kf xs)" "x \<in> set xs"
  shows "get (fold (\<lambda>x. insert_entry (kf x) (vf x)) xs m) (kf x) = Some (vf x)"
  using assms
proof (induction xs arbitrary: m)
  case Nil
  then show ?case by simp
next
  case (Cons y ys)
  show ?case
  proof (cases "x = y")
    case True
    with Cons.prems have "kf x \<notin> kf ` set ys" by auto
    then show ?thesis by (simp add: True get_insert_loop_other get_insert)
  next
    case False
    with Cons show ?thesis by simp
  qed
qed

lemma dom_insert_loop:
  "dom (get (fold (\<lambda>x. insert_entry (kf x) (vf x)) xs m)) = kf ` set xs \<union> dom (get m)"
  by (induction xs arbitrary: m) (auto simp: get_insert)

lemma wf_insert_loop:
  "wf m \<Longrightarrow> wf (fold (\<lambda>x. insert_entry (kf x) (vf x)) xs m)"
  by (induction xs arbitrary: m) (auto simp: wf_insert)

lemma insert_then_remove: "get (remove_entry k (insert_entry k v m)) = (get m)(k := None)"
  by (simp add: get_remove get_insert)

lemma remove_present_iff:
  "k \<in> dom (get (remove_entry k' m)) \<longleftrightarrow> k \<noteq> k' \<and> k \<in> dom (get m)"
  by (auto simp: get_remove)

end

interpretation hm: hash_map "map_of :: ('k, 'v) hmap \<Rightarrow> 'k \<Rightarrow> 'v option" hm_insert hm_remove id hm_wf
proof unfold_locales
  fix k :: 'k and v :: 'v and m :: "('k, 'v) hmap"
  show "map_of (hm_insert k v m) = (map_of m)(k \<mapsto> v)"
    by (simp add: hm_insert_def update_conv')
  show "map_of (hm_remove k m) = (map_of m)(k := None)"
    by (simp add: hm_remove_def delete_conv')
  show "hm_wf m \<Longrightarrow> (k, v) \<in> set (id m) \<longleftrightarrow> map_of m k = Some v"
    by (simp add: hm_wf_def)
  show "hm_wf m \<Longrightarrow> hm_wf (hm_insert k v m)"
    by (simp add: hm_wf_def hm_insert_def distinct_update)
  show "hm_wf m \<Longrightarrow> hm_wf (hm_remove k m)"
    by (simp add: hm_wf_def hm_remove_def distinct_delete)
qed

declare hm.get_insert [simp, hm_simps] hm.get_remove [simp, hm_simps]
declare hm.wf_insert [simp, intro, hm_simps] hm.wf_remove [simp, intro, hm_simps]

lemma hm_wf_Nil [simp, hm_simps]: "hm_wf []"
  by (simp add: hm_wf_def)

lemma hm_contains_iff [simp, hm_simps]: "hm_contains m k \<longleftrightarrow> k \<in> dom (map_of m)"
  by (auto simp: hm_contains_def)

lemma get_hm_upsert [simp, hm_simps]:
  "map_of (hm_upsert k d f m) =
     (map_of m)(k \<mapsto> f (case map_of m k of None \<Rightarrow> d | Some v \<Rightarrow> v))"
  by (simp add: hm_upsert_def)

lemma wf_hm_upsert [simp, intro, hm_simps]: "hm_wf m \<Longrightarrow> hm_wf (hm_upsert k d f m)"
  by (simp add: hm_upsert_def)

lemma get_hm_adjust [simp, hm_simps]:
  "map_of (hm_adjust k f m) = (map_of m)(k := map_option f (map_of m k))"
  by (auto simp: hm_adjust_def split: option.splits)

lemma wf_hm_adjust [simp, intro, hm_simps]: "hm_wf m \<Longrightarrow> hm_wf (hm_adjust k f m)"
  by (simp add: hm_adjust_def split: option.splits)

lemma get_hm_retain [simp, hm_simps]:
  "hm_wf m \<Longrightarrow> map_of (hm_retain P m) k =
     (case map_of m k of None \<Rightarrow> None | Some v \<Rightarrow> if P k v then Some v else None)"
  by (induction m) (auto simp: hm_retain_def hm_wf_def map_of_eq_None_iff image_iff
      split: option.splits)

lemma wf_hm_retain [simp, intro, hm_simps]: "hm_wf m \<Longrightarrow> hm_wf (hm_retain P m)"
  by (auto simp: hm_retain_def hm_wf_def intro: distinct_map_filter)

lemma wf_hm_insert_all [simp, intro, hm_simps]: "hm_wf m \<Longrightarrow> hm_wf (hm_insert_all kf vf xs m)"
  by (simp add: hm_insert_all_def hm.wf_insert_loop)

lemma get_hm_insert_all [hm_simps]:
  "map_of (hm_insert_all kf vf xs m) k =
     (case map_of (rev (map (\<lambda>x. (kf x, vf x)) xs)) k of None \<Rightarrow> map_of m k | Some v \<Rightarrow> Some v)"
  by (simp add: hm_insert_all_def hm.get_insert_loop)

lemma dom_hm_insert_all [simp, hm_simps]:
  "dom (map_of (hm_insert_all kf vf xs m)) = kf ` set xs \<union> dom (map_of m)"
  by (simp add: hm_insert_all_def hm.dom_insert_loop)

lemma hm_wf_SomeD: "hm_wf m \<Longrightarrow> (k, v) \<in> set m \<Longrightarrow> map_of m k = Some v"
  by (simp add: hm_wf_def)

section \<open>Self-delimiting encodings\<close>

text \<open>
  A reader that consumes exactly what the writer produced and hands the rest back, so that
  packets written one after the other are read back one by one.
\<close>

locale packet_codec =
  fixes enc :: "'p \<Rightarrow> bytes"
    and dec :: "bytes \<Rightarrow> 'e + ('p \<times> bytes)"
    and sendable :: "'p \<Rightarrow> bool"
  assumes dec_enc: "sendable p \<Longrightarrow> dec (enc p @ rest) = Inr (p, rest)"
begin

primrec read_n :: "nat \<Rightarrow> bytes \<Rightarrow> 'e + ('p list \<times> bytes)" where
  "read_n 0 bs = Inr ([], bs)"
| "read_n (Suc n) bs =
     (case dec bs of Inl e \<Rightarrow> Inl e
      | Inr (p, bs') \<Rightarrow> (case read_n n bs' of Inl e \<Rightarrow> Inl e | Inr (ps, r) \<Rightarrow> Inr (p # ps, r)))"

lemma read_n_stream:
  "list_all sendable ps \<Longrightarrow> read_n (length ps) (concat (map enc ps) @ rest) = Inr (ps, rest)"
  by (induction ps) (simp_all add: dec_enc)

lemma enc_inj_on_sendable:
  assumes "sendable p" "sendable q" "enc p @ r = enc q @ r'"
  shows "p = q \<and> r = r'"
proof -
  from assms have "Inr (p, r) = (Inr (q, r') :: 'e + ('p \<times> bytes))"
    using dec_enc [of p r] dec_enc [of q r'] by metis
  then show ?thesis by simp
qed

end

section \<open>State machines that keep an invariant\<close>

locale stepped_invariant =
  fixes step :: "'ev \<Rightarrow> 's \<Rightarrow> 's"
    and inv :: "'s \<Rightarrow> bool"
  assumes step_inv: "inv s \<Longrightarrow> inv (step e s)"
begin

lemma run_inv: "inv s \<Longrightarrow> inv (fold step es s)"
  by (induction es arbitrary: s) (simp_all add: step_inv)

lemma run_prefix_inv: "inv s \<Longrightarrow> inv (fold step (take n es) s)"
  by (rule run_inv)

end

text \<open>The same for a step relation: what holds at the start and is kept by every step holds in
  every reachable state.\<close>

locale transition_invariant =
  fixes step :: "'s \<Rightarrow> 's \<Rightarrow> bool"
    and inv :: "'s \<Rightarrow> bool"
  assumes step_inv: "step s s' \<Longrightarrow> inv s \<Longrightarrow> inv s'"
begin

lemma reachable_inv: "step\<^sup>*\<^sup>* s s' \<Longrightarrow> inv s \<Longrightarrow> inv s'"
  by (induction rule: rtranclp_induct) (auto intro: step_inv)

end

end
