(* ===== verification/Api_Types.thy ===== *)
theory Api_Types
  imports P2P_Prelude
begin

text \<open>
  The crate \<open>nodeinnet-api\<close> without its cryptography: shared resources and nodes
  (\<open>lib.rs\<close>), accounts and devices (\<open>account.rs\<close>), WebRTC signalling and TURN
  credentials (\<open>rtc.rs\<close>), and the messages of the signalling web socket (\<open>ws.rs\<close>).
  Fields carry a prefix that names their struct. A \<open>DateTime<Utc>\<close> is a count of
  nanoseconds. Serialisation attributes are not modelled: \<open>serde\<close> is not part of the
  repository.
\<close>

section \<open>Resources and nodes\<close>

datatype resource_type =
    Filesystem | SystemInfo | Terminal | Registry | SharedNetwork | SyncFolder | RemoteDesktop

record shared_resource =
  res_id :: string
  res_name :: string
  res_type :: resource_type
  res_config :: "string option"
  res_is_active :: bool
  res_session_token :: "string option"

definition without_config :: "shared_resource \<Rightarrow> shared_resource" where
  "without_config r = r\<lparr>res_config := None\<rparr>"

fun is_only_local :: "resource_type \<Rightarrow> bool" where
  "is_only_local SyncFolder = True"
| "is_only_local _ = False"

fun is_only_remote :: "resource_type \<Rightarrow> bool" where
  "is_only_remote Terminal = True"
| "is_only_remote SharedNetwork = True"
| "is_only_remote RemoteDesktop = True"
| "is_only_remote _ = False"

record node_info =
  ni_id :: string
  ni_name :: string
  ni_os :: string
  ni_version :: string
  ni_app_type :: string
  ni_build_type :: string
  ni_public_key :: string
  ni_resources :: "shared_resource list"
  ni_is_online :: bool
  ni_last_used :: i64
  ni_is_temporary :: bool

definition announced :: "node_info \<Rightarrow> node_info" where
  "announced n = n\<lparr>ni_resources := map without_config (ni_resources n)\<rparr>"

record resource_wrapper =
  rw_display_name :: "string option"
  rw_os :: "string option"
  rw_app_type :: "string option"
  rw_version :: "string option"
  rw_resources :: "shared_resource list"

section \<open>Signalling and TURN credentials\<close>

datatype rtc_signal =
    Offer string bool \<comment> \<open>sdp, ice_restart\<close>
  | Answer string \<comment> \<open>sdp\<close>
  | IceCandidate string "string option" "u16 option" \<comment> \<open>candidate, sdp_mid, sdp_mline_index\<close>

record rtc_signal_envelope =
  env_to_node_id :: string
  env_signal :: rtc_signal

record inbound_rtc_signal =
  inb_from_node_id :: string
  inb_signal :: rtc_signal

record turn_credentials =
  turn_username :: string
  turn_credential :: string
  turn_uris :: "string list"

datatype turn_region = Auto | Eu | Us | Main | Custom

definition default_region :: turn_region where
  "default_region = Auto"

fun region_as_str :: "turn_region \<Rightarrow> string" where
  "region_as_str Auto = ''auto''"
| "region_as_str Eu = ''eu''"
| "region_as_str Us = ''us''"
| "region_as_str Main = ''main''"
| "region_as_str Custom = ''custom''"

definition region_parse :: "string \<Rightarrow> turn_region option" where
  "region_parse s =
     (if s = ''auto'' then Some Auto
      else if s = ''eu'' then Some Eu
      else if s = ''us'' then Some Us
      else if s = ''main'' then Some Main
      else if s = ''custom'' then Some Custom
      else None)"

definition CENTRAL_RELAY :: string where
  "CENTRAL_RELAY = ''turn:node.in.net:3478''"

definition EU_RELAYS :: "string list" where
  "EU_RELAYS = [''turn:eu.node.in.net:3478'', ''turns:eu.node.in.net:443?transport=tcp'']"

definition US_RELAYS :: "string list" where
  "US_RELAYS = []"

definition show_int :: "int \<Rightarrow> string" where
  "show_int i = (if i < 0 then CHR ''-'' # show_nat (nat (- i)) else show_nat (nat i))"

text \<open>
  \<open>mac secret username\<close> stands for base64 of HMAC-SHA1 (crates \<open>hmac\<close>, \<open>sha1\<close>,
  \<open>base64\<close>), \<open>None\<close> for a key they refuse; \<open>now\<close> is the clock in seconds and
  \<open>turn_servers\<close> the environment variable \<open>TURN_SERVERS\<close>.
\<close>

definition get_turn_credentials ::
  "(string \<Rightarrow> string \<Rightarrow> string option) \<Rightarrow> int \<Rightarrow> string option \<Rightarrow> string \<Rightarrow> string \<Rightarrow> turn_region
     \<Rightarrow> turn_credentials option" where
  "get_turn_credentials mac now turn_servers login secret region =
     (let turn_username = show_int (now + 24 * 3600) @ '':'' @ login
      in case mac secret turn_username of
           None \<Rightarrow> None
         | Some turn_password \<Rightarrow>
             (let env = (case turn_servers of None \<Rightarrow> [] | Some e \<Rightarrow> e)
              in if trim env \<noteq> []
                 then Some \<lparr>turn_username = turn_username, turn_credential = turn_password,
                            turn_uris = map trim (split_char (CHR '','') env)\<rparr>
                 else if region = Main \<or> region = Custom
                 then Some \<lparr>turn_username = turn_username, turn_credential = turn_password,
                            turn_uris = [CENTRAL_RELAY]\<rparr>
                 else
                   (let regional = (if region = Eu then EU_RELAYS
                                    else if region = Us then US_RELAYS
                                    else EU_RELAYS @ US_RELAYS);
                        uris = [CENTRAL_RELAY] @
                               (if regional = [] then EU_RELAYS @ US_RELAYS else regional)
                    in Some \<lparr>turn_username = turn_username, turn_credential = turn_password,
                             turn_uris = uris\<rparr>)))"

section \<open>Accounts and devices\<close>

record device =
  dev_id :: string
  dev_name :: string
  dev_resources :: bytes
  dev_created_at :: int
  dev_last_used :: i64

record user =
  usr_id :: i32
  usr_username :: string
  usr_email :: string
  usr_login :: string
  usr_node_name :: string
  usr_premium :: i32
  usr_created_at :: int

record register_request =
  reg_username :: string
  reg_email :: string
  reg_login :: string
  reg_password :: string

record login_request =
  lrq_login :: string
  lrq_password :: string
  lrq_region :: turn_region

record login_response =
  lrs_access_token :: string
  lrs_refresh_token :: string
  lrs_devices :: "device list"
  lrs_session_id :: string
  lrs_ws_url :: string
  lrs_turn :: "turn_credentials option"
  lrs_premium :: i32
  lrs_turn_region :: turn_region

record refresh_request =
  rrq_refresh_token :: string
  rrq_region :: turn_region

record refresh_response =
  rrs_access_token :: string
  rrs_refresh_token :: string
  rrs_devices :: "device list"
  rrs_ws_url :: string
  rrs_turn :: "turn_credentials option"
  rrs_premium :: i32
  rrs_turn_region :: turn_region

record error_response =
  err_msg :: string

record change_password_request =
  cpr_current_password :: string
  cpr_new_password :: string

record edit_request =
  edr_username :: string
  edr_email :: string

section \<open>Messages of the signalling web socket\<close>

datatype ws_message =
    WsPing
  | WsPong u64
  | ListNodes
  | WsRtcSignal rtc_signal_envelope
  | UpdateNodeInfo node_info
  | NodesList "node_info list"
  | WsInboundRtcSignal inbound_rtc_signal
  | DeviceUpdated string
  | DeviceAdded device
  | DeviceDeleted string

section \<open>The enumerations as finite types\<close>

instantiation resource_type :: enum
begin

definition enum_resource_type :: "resource_type list" where
  "enum_resource_type =
     [Filesystem, SystemInfo, Terminal, Registry, SharedNetwork, SyncFolder, RemoteDesktop]"

definition enum_all_resource_type :: "(resource_type \<Rightarrow> bool) \<Rightarrow> bool" where
  "enum_all_resource_type P = list_all P (enum_class.enum :: resource_type list)"

definition enum_ex_resource_type :: "(resource_type \<Rightarrow> bool) \<Rightarrow> bool" where
  "enum_ex_resource_type P = list_ex P (enum_class.enum :: resource_type list)"

instance
proof
  show univ: "(UNIV :: resource_type set) = set enum_class.enum"
    by (auto simp: enum_resource_type_def) (metis resource_type.exhaust)
  show "distinct (enum_class.enum :: resource_type list)"
    by (simp add: enum_resource_type_def)
  show "enum_class.enum_all P = Ball UNIV P" for P :: "resource_type \<Rightarrow> bool"
    by (simp add: enum_all_resource_type_def univ list_all_iff)
  show "enum_class.enum_ex P = Bex UNIV P" for P :: "resource_type \<Rightarrow> bool"
    by (simp add: enum_ex_resource_type_def univ list_ex_iff)
qed

end

section \<open>Facts\<close>

lemma without_config_simps [simp]:
  "res_config (without_config r) = None"
  "res_id (without_config r) = res_id r"
  "res_name (without_config r) = res_name r"
  "res_type (without_config r) = res_type r"
  "res_is_active (without_config r) = res_is_active r"
  "res_session_token (without_config r) = res_session_token r"
  "without_config (without_config r) = without_config r"
  by (simp_all add: without_config_def)

lemma announced_simps [simp]:
  "ni_id (announced n) = ni_id n"
  "ni_public_key (announced n) = ni_public_key n"
  "ni_resources (announced n) = map without_config (ni_resources n)"
  "announced (announced n) = announced n"
  by (simp_all add: announced_def)

lemma region_parse_as_str: "region_parse (region_as_str r) = Some r"
  by (cases r) (simp_all add: region_parse_def)

lemma region_parse_Some: "region_parse s = Some r \<Longrightarrow> s = region_as_str r"
  by (auto simp: region_parse_def split: if_splits)

lemma only_local_not_only_remote: "\<not> (is_only_local t \<and> is_only_remote t)"
  by (cases t) simp_all

lemma turn_uris_no_override:
  assumes "get_turn_credentials mac now env login secret region = Some c"
    and "trim (case env of None \<Rightarrow> [] | Some e \<Rightarrow> e) = []"
  shows "turn_uris c =
    (if region = Main \<or> region = Custom then [CENTRAL_RELAY]
     else CENTRAL_RELAY # EU_RELAYS @ US_RELAYS)"
  using assms
  by (cases region) (auto simp: get_turn_credentials_def Let_def US_RELAYS_def split: option.splits)

section \<open>Properties\<close>

text \<open>A node's announcement carries every resource of the node, in order and with its
  identifier, type, activity flag and session token, and never the host's private
  configuration of it; announcing is idempotent and keeps the node's identity and key.\<close>

theorem announced_hides_config:
  "map (\<lambda>r. (res_id r, res_type r, res_is_active r, res_session_token r)) (ni_resources (announced n)) =
     map (\<lambda>r. (res_id r, res_type r, res_is_active r, res_session_token r)) (ni_resources n)
   \<and> list_all (\<lambda>r. res_config r = None) (ni_resources (announced n))
   \<and> announced (announced n) = announced n
   \<and> ni_id (announced n) = ni_id n \<and> ni_public_key (announced n) = ni_public_key n"
  by (simp add: list_all_iff comp_def)

text \<open>The string form of a TURN region is a bijection onto the strings the parser
  accepts: printing then parsing gives the region back, and whatever parses was printed.\<close>

theorem region_string_roundtrip: "(region_parse s = Some r) = (s = region_as_str r)"
  using region_parse_as_str region_parse_Some by auto

text \<open>Without a \<open>TURN_SERVERS\<close> override the relay list of the credentials starts with
  the central relay in every region; \<open>Main\<close> and \<open>Custom\<close> stay on it alone and every other
  region (the undeployed \<open>Us\<close> included) offers exactly the relays that \<open>Auto\<close> offers.\<close>

theorem turn_relays_by_region:
  assumes "get_turn_credentials mac now env login secret region = Some c"
    and "trim (case env of None \<Rightarrow> [] | Some e \<Rightarrow> e) = []"
  shows "turn_uris c \<noteq> [] \<and> hd (turn_uris c) = CENTRAL_RELAY
    \<and> (region = Main \<or> region = Custom \<longrightarrow> turn_uris c = [CENTRAL_RELAY])
    \<and> (region \<noteq> Main \<and> region \<noteq> Custom \<longrightarrow>
        get_turn_credentials mac now env login secret Auto = Some c)"
proof -
  have "get_turn_credentials mac now env login secret Auto = Some c"
    if "region \<noteq> Main" "region \<noteq> Custom"
    using assms that
    by (cases region) (auto simp: get_turn_credentials_def Let_def US_RELAYS_def split: option.splits)
  then show ?thesis using turn_uris_no_override [OF assms] by simp
qed

theorem turn_relays_by_region_witness:
  "turn_uris (the (get_turn_credentials (\<lambda>s u. Some ''pw'') 1000 None ''alice'' ''topsecret'' Us))
     = [CENTRAL_RELAY] @ EU_RELAYS
   \<and> hd (turn_uris (the (get_turn_credentials (\<lambda>s u. Some ''pw'') 1000 None ''alice'' ''topsecret'' Us)))
     = CENTRAL_RELAY"
proof -
  obtain c where c: "get_turn_credentials (\<lambda>s u. Some ''pw'') 1000 None ''alice'' ''topsecret'' Us = Some c"
    by (simp add: get_turn_credentials_def Let_def)
  have t: "trim (case None of None \<Rightarrow> [] | Some e \<Rightarrow> e) = []"
    by simp
  show ?thesis
    using turn_relays_by_region [OF c t] turn_uris_no_override [OF c t]
    by (simp add: c US_RELAYS_def)
qed

end
