(* ===== verification/Api_Crypto.thy ===== *)
theory Api_Crypto
  imports P2P_Prelude
begin

text \<open>
  \<open>nodeinnet-api/src/crypto.rs\<close>: handshake and message signatures, HMACs, digests and
  password hashes. The primitives come from third-party crates and are fields of a
  parameter record \<open>crypto_prims\<close>; the wrappers around them (the order of the checks, the
  exact payloads, every error) are modelled as written. Error texts produced by a crate
  are whatever the parameter returns.
\<close>

section \<open>The primitives as parameters\<close>

record crypto_prims =
  b64_decode :: "string \<Rightarrow> bytes result" \<comment> \<open>base64, STANDARD_NO_PAD\<close>
  b64_encode :: "bytes \<Rightarrow> string"
  ed_sign :: "bytes \<Rightarrow> bytes \<Rightarrow> bytes" \<comment> \<open>ed25519: signing key, message\<close>
  ed_public :: "bytes \<Rightarrow> bytes"
  ed_key_check :: "bytes \<Rightarrow> unit result" \<comment> \<open>VerifyingKey::from_bytes\<close>
  ed_verify :: "bytes \<Rightarrow> bytes \<Rightarrow> bytes \<Rightarrow> unit result" \<comment> \<open>verifying key, message, signature\<close>
  hex_decode :: "string \<Rightarrow> bytes option"
  hex_encode :: "bytes \<Rightarrow> string"
  hmac_sha256 :: "bytes \<Rightarrow> bytes \<Rightarrow> bytes" \<comment> \<open>key, payload\<close>
  sha256 :: "bytes \<Rightarrow> bytes"
  argon_salt :: "string \<Rightarrow> string result" \<comment> \<open>SaltString::from_b64\<close>
  argon_hash :: "bytes \<Rightarrow> string \<Rightarrow> string result"
  argon_parse :: "string \<Rightarrow> string result" \<comment> \<open>PasswordHash::new\<close>
  argon_check :: "bytes \<Rightarrow> string \<Rightarrow> unit result" \<comment> \<open>verify_password\<close>

definition as_bytes :: "string \<Rightarrow> bytes" where
  "as_bytes s = map (\<lambda>c. word_of_nat (of_char c)) s"

section \<open>Passwords\<close>

fun trim_end_matches :: "char \<Rightarrow> string \<Rightarrow> string" where
  "trim_end_matches c s = rev (dropWhile (\<lambda>x. x = c) (rev s))"

text \<open>The salt that \<open>SaltString::generate\<close> draws is an argument.\<close>

definition argon2_hash_password :: "crypto_prims \<Rightarrow> string \<Rightarrow> string \<Rightarrow> string result" where
  "argon2_hash_password C salt password = argon_hash C (as_bytes password) salt"

definition argon2_verify_password :: "crypto_prims \<Rightarrow> string \<Rightarrow> string \<Rightarrow> unit result" where
  "argon2_verify_password C password hash =
     bind_result (argon_parse C hash) (\<lambda>parsed. argon_check C (as_bytes password) parsed)"

definition argon2_hash_password_with_salt :: "crypto_prims \<Rightarrow> string \<Rightarrow> string \<Rightarrow> string result" where
  "argon2_hash_password_with_salt C password salt_b64 =
     bind_result (argon_salt C (trim_end_matches (CHR ''='') salt_b64))
       (\<lambda>salt. argon_hash C (as_bytes password) salt)"

text \<open>The random bytes are an argument.\<close>

definition argon2_generate_salt :: "crypto_prims \<Rightarrow> bytes \<Rightarrow> string" where
  "argon2_generate_salt C salt_bytes = b64_encode C salt_bytes"

section \<open>Keys and signatures\<close>

definition generate_ed25519_keypair :: "crypto_prims \<Rightarrow> bytes \<Rightarrow> string \<times> string" where
  "generate_ed25519_keypair C seed = (b64_encode C seed, b64_encode C (ed_public C seed))"

definition handshake_payload :: "string \<Rightarrow> string \<Rightarrow> u64 \<Rightarrow> string" where
  "handshake_payload signer_id peer_id timestamp =
     signer_id @ '':'' @ peer_id @ '':'' @ show_nat (unat timestamp)"

definition sign_message :: "crypto_prims \<Rightarrow> string \<Rightarrow> bytes \<Rightarrow> string result" where
  "sign_message C private_key_b64 message =
     bind_result (b64_decode C private_key_b64) (\<lambda>priv_bytes.
       if length priv_bytes \<noteq> 32 then Inl ''Invalid private key length''
       else Inr (b64_encode C (ed_sign C priv_bytes message)))"

definition verify_message :: "crypto_prims \<Rightarrow> string \<Rightarrow> string \<Rightarrow> bytes \<Rightarrow> unit result" where
  "verify_message C signature_b64 public_key_b64 message =
     bind_result (b64_decode C public_key_b64) (\<lambda>pub_bytes.
       if length pub_bytes \<noteq> 32 then Inl ''Invalid public key length''
       else bind_result (ed_key_check C pub_bytes) (\<lambda>_.
         bind_result (b64_decode C signature_b64) (\<lambda>sig_bytes.
           if length sig_bytes \<noteq> 64 then Inl ''Invalid signature length''
           else ed_verify C pub_bytes message sig_bytes)))"

definition sign_p2p_handshake ::
  "crypto_prims \<Rightarrow> string \<Rightarrow> string \<Rightarrow> string \<Rightarrow> u64 \<Rightarrow> string result" where
  "sign_p2p_handshake C private_key_b64 my_id peer_id timestamp =
     bind_result (b64_decode C private_key_b64) (\<lambda>priv_bytes.
       if length priv_bytes \<noteq> 32 then Inl ''Invalid private key length''
       else Inr (b64_encode C
              (ed_sign C priv_bytes (as_bytes (handshake_payload my_id peer_id timestamp)))))"

definition verify_p2p_handshake ::
  "crypto_prims \<Rightarrow> string \<Rightarrow> string \<Rightarrow> string \<Rightarrow> string \<Rightarrow> u64 \<Rightarrow> unit result" where
  "verify_p2p_handshake C signature_b64 public_key_b64 peer_id my_id timestamp =
     bind_result (b64_decode C public_key_b64) (\<lambda>pub_bytes.
       if length pub_bytes \<noteq> 32 then Inl ''Invalid public key length''
       else bind_result (ed_key_check C pub_bytes) (\<lambda>_.
         bind_result (b64_decode C signature_b64) (\<lambda>sig_bytes.
           if length sig_bytes \<noteq> 64 then Inl ''Invalid signature length''
           else ed_verify C pub_bytes
                  (as_bytes (handshake_payload peer_id my_id timestamp)) sig_bytes)))"

section \<open>Session tokens, HMACs and digests\<close>

definition generate_session_token :: "crypto_prims \<Rightarrow> bytes \<Rightarrow> string" where
  "generate_session_token C random_bytes = hex_encode C random_bytes"

definition hmac_key :: "crypto_prims \<Rightarrow> string \<Rightarrow> bytes" where
  "hmac_key C key_hex = (case hex_decode C key_hex of None \<Rightarrow> [] | Some k \<Rightarrow> k)"

definition compute_hmac_sha256 :: "crypto_prims \<Rightarrow> bytes \<Rightarrow> string \<Rightarrow> string" where
  "compute_hmac_sha256 C payload key_hex =
     hex_encode C (hmac_sha256 C (hmac_key C key_hex) payload)"

definition verify_hmac_sha256 :: "crypto_prims \<Rightarrow> bytes \<Rightarrow> string \<Rightarrow> string \<Rightarrow> bool" where
  "verify_hmac_sha256 C payload key_hex expected_mac =
     (case hex_decode C expected_mac of
        Some expected_bytes \<Rightarrow> hmac_sha256 C (hmac_key C key_hex) payload = expected_bytes
      | None \<Rightarrow> False)"

definition compute_sha256 :: "crypto_prims \<Rightarrow> string \<Rightarrow> string" where
  "compute_sha256 C text = hex_encode C (sha256 C (as_bytes text))"

section \<open>What the crates document\<close>

definition b64_law :: "crypto_prims \<Rightarrow> bool" where
  "b64_law C = (\<forall>bs. b64_decode C (b64_encode C bs) = Inr bs)"

definition hex_law :: "crypto_prims \<Rightarrow> bool" where
  "hex_law C = (\<forall>bs. hex_decode C (hex_encode C bs) = Some bs)"

text \<open>Ed25519: public keys have 32 bytes and signatures 64, a public key is well formed, and
  a signature verifies under the matching public key for the message signed.\<close>

definition ed25519_law :: "crypto_prims \<Rightarrow> bool" where
  "ed25519_law C =
     (\<forall>sk m. length sk = 32 \<longrightarrow>
        length (ed_public C sk) = 32 \<and> length (ed_sign C sk m) = 64
        \<and> ed_key_check C (ed_public C sk) = Inr ()
        \<and> ed_verify C (ed_public C sk) m (ed_sign C sk m) = Inr ())"

text \<open>The signature of one message is not one of another: the property of the scheme that a
  claim about two given messages needs.\<close>

definition ed_separates :: "crypto_prims \<Rightarrow> bytes \<Rightarrow> bytes \<Rightarrow> bytes \<Rightarrow> bool" where
  "ed_separates C sk m m' = (m \<noteq> m' \<longrightarrow> \<not> is_ok (ed_verify C (ed_public C sk) m' (ed_sign C sk m)))"

section \<open>Facts\<close>

lemma as_bytes_inj [simp]: "as_bytes s = as_bytes t \<longleftrightarrow> s = t"
proof
  assume eq: "as_bytes s = as_bytes t"
  have "map (\<lambda>w. char_of (unat w)) (as_bytes u) = u" for u
    by (induction u) (simp_all add: as_bytes_def unat_of_nat_u8)
  then show "s = t" using eq by metis
qed simp

lemma colon_not_digit: "CHR '':'' \<notin> set (show_nat n)"
  by (rule show_nat_no_char) (simp add: is_digit_char_def)

lemma handshake_payload_inj:
  assumes "CHR '':'' \<notin> set a" "CHR '':'' \<notin> set b" "CHR '':'' \<notin> set a'" "CHR '':'' \<notin> set b'"
  shows "handshake_payload a b t = handshake_payload a' b' t' \<longleftrightarrow> a = a' \<and> b = b' \<and> t = t'"
proof
  assume eq: "handshake_payload a b t = handshake_payload a' b' t'"
  then have "a = a' \<and> b @ CHR '':'' # show_nat (unat t) = b' @ CHR '':'' # show_nat (unat t')"
    using assms by (intro append_sep_inj) (simp_all add: handshake_payload_def)
  then have "a = a' \<and> b = b' \<and> show_nat (unat t) = show_nat (unat t')"
    using assms append_sep_inj by metis
  then show "a = a' \<and> b = b' \<and> t = t'" by (simp add: word_unat_eq_iff)
qed simp

lemma handshake_payload_colon:
  "handshake_payload (a @ CHR '':'' # b) c t = handshake_payload a (b @ CHR '':'' # c) t"
  by (simp add: handshake_payload_def)

lemma verify_p2p_handshake_as_message:
  "verify_p2p_handshake C sig pub peer my ts =
     verify_message C sig pub (as_bytes (handshake_payload peer my ts))"
  by (simp add: verify_p2p_handshake_def verify_message_def)

lemma sign_p2p_handshake_as_message:
  "sign_p2p_handshake C priv my peer ts =
     sign_message C priv (as_bytes (handshake_payload my peer ts))"
  by (simp add: sign_p2p_handshake_def sign_message_def)

lemma verify_message_ok_iff:
  "verify_message C sig pub m = Inr () \<longleftrightarrow>
     (\<exists>p s. b64_decode C pub = Inr p \<and> length p = 32 \<and> ed_key_check C p = Inr ()
        \<and> b64_decode C sig = Inr s \<and> length s = 64 \<and> ed_verify C p m s = Inr ())"
  by (auto simp: verify_message_def)

lemma sign_verify_message:
  assumes "b64_law C" "ed25519_law C" "length seed = 32"
    and "generate_ed25519_keypair C seed = (priv, pub)"
    and "sign_message C priv m = Inr sig"
  shows "verify_message C sig pub m' = ed_verify C (ed_public C seed) m' (ed_sign C seed m)"
  using assms
  by (auto simp: verify_message_def sign_message_def generate_ed25519_keypair_def b64_law_def
      ed25519_law_def)

lemma sign_message_total:
  assumes "b64_law C" "length seed = 32" "generate_ed25519_keypair C seed = (priv, pub)"
  shows "sign_message C priv m = Inr (b64_encode C (ed_sign C seed m))"
  using assms by (auto simp: sign_message_def generate_ed25519_keypair_def b64_law_def)

section \<open>A concrete instance of the primitives\<close>

text \<open>Used in witnesses only: base64 and hex as bytes rendered one character each, and a
  signature of 64 bytes that carries the message and the key.\<close>

definition bytes_string :: "bytes \<Rightarrow> string" where
  "bytes_string bs = map (\<lambda>b. char_of (unat b)) bs"

definition pad_to :: "nat \<Rightarrow> bytes \<Rightarrow> bytes" where
  "pad_to n bs = take n (bs @ replicate n 0)"

definition demo_crypto :: crypto_prims where
  "demo_crypto =
     \<lparr>b64_decode = (\<lambda>s. Inr (as_bytes s)), b64_encode = bytes_string,
      ed_sign = (\<lambda>sk m. pad_to 64 (m @ sk)), ed_public = (\<lambda>sk. pad_to 32 sk),
      ed_key_check = (\<lambda>_. Inr ()),
      ed_verify = (\<lambda>pk m s. if s = pad_to 64 (m @ pk) then Inr () else Inl ''signature error''),
      hex_decode = (\<lambda>s. Some (as_bytes s)), hex_encode = bytes_string,
      hmac_sha256 = (\<lambda>k p. pad_to 32 (p @ k)), sha256 = (\<lambda>p. pad_to 32 p),
      argon_salt = Inr, argon_hash = (\<lambda>p s. Inr (bytes_string p @ s)),
      argon_parse = Inr, argon_check = (\<lambda>p h. Inr ())\<rparr>"

lemma as_bytes_bytes_string: "as_bytes (bytes_string bs) = bs"
  by (induction bs) (simp_all add: as_bytes_def bytes_string_def unat_u8_less)

lemma length_pad_to [simp]: "length (pad_to n bs) = n"
  by (simp add: pad_to_def)

lemma pad_to_same: "length bs = n \<Longrightarrow> pad_to n bs = bs"
  by (simp add: pad_to_def)

lemma demo_crypto_laws: "b64_law demo_crypto" "hex_law demo_crypto" "ed25519_law demo_crypto"
  by (simp_all add: b64_law_def hex_law_def ed25519_law_def demo_crypto_def as_bytes_bytes_string
      pad_to_same)

section \<open>Properties\<close>

text \<open>C26: a handshake signed with a generated private key for a peer and a time verifies
  under the matching public key, and fails for every other claimed signer, addressee or
  time (node identifiers hold no colon), as long as the scheme separates the two payloads.\<close>

theorem handshake_sign_verify:
  assumes "b64_law C" "ed25519_law C" "length seed = 32"
    and "generate_ed25519_keypair C seed = (priv, pub)"
    and "CHR '':'' \<notin> set a" "CHR '':'' \<notin> set b" "CHR '':'' \<notin> set a'" "CHR '':'' \<notin> set b'"
    and "ed_separates C seed (as_bytes (handshake_payload a b t)) (as_bytes (handshake_payload a' b' t'))"
  shows "\<exists>sig. sign_p2p_handshake C priv a b t = Inr sig
    \<and> (is_ok (verify_p2p_handshake C sig pub a' b' t') \<longleftrightarrow> a' = a \<and> b' = b \<and> t' = t)"
proof -
  let ?m = "as_bytes (handshake_payload a b t)" and ?m' = "as_bytes (handshake_payload a' b' t')"
  from assms obtain sig where s: "sign_message C priv ?m = Inr sig"
    using sign_message_total by blast
  have "is_ok (ed_verify C (ed_public C seed) ?m' (ed_sign C seed ?m)) \<longleftrightarrow> ?m = ?m'"
  proof (cases "?m = ?m'")
    case True
    with assms(2,3) show ?thesis by (auto simp: ed25519_law_def is_ok_iff)
  next
    case False
    with assms(9) show ?thesis by (simp add: ed_separates_def)
  qed
  moreover have "?m = ?m' \<longleftrightarrow> a' = a \<and> b' = b \<and> t' = t"
    using handshake_payload_inj [OF assms(5-8)] by auto
  ultimately show ?thesis
    using s sign_verify_message [OF assms(1-4) s, of ?m']
    by (auto simp: sign_p2p_handshake_as_message verify_p2p_handshake_as_message)
qed

theorem handshake_sign_verify_witness:
  "\<exists>sig. sign_p2p_handshake demo_crypto (bytes_string (replicate 32 7)) ''node_a'' ''node_b'' 1000 = Inr sig
    \<and> (is_ok (verify_p2p_handshake demo_crypto sig (bytes_string (replicate 32 7)) ''node_a'' ''evil'' 1000)
        \<longleftrightarrow> ''node_a'' = ''node_a'' \<and> ''evil'' = ''node_b'' \<and> (1000 :: u64) = 1000)"
proof -
  have kp: "generate_ed25519_keypair demo_crypto (replicate 32 7)
      = (bytes_string (replicate 32 7), bytes_string (replicate 32 7))"
    by (simp add: generate_ed25519_keypair_def demo_crypto_def pad_to_same)
  have sep: "ed_separates demo_crypto (replicate 32 7) (as_bytes (handshake_payload ''node_a'' ''node_b'' 1000))
      (as_bytes (handshake_payload ''node_a'' ''evil'' 1000))"
    by (simp add: ed_separates_def demo_crypto_def pad_to_def as_bytes_def handshake_payload_def
        show_nat.simps digit_char_def)
  show ?thesis
    by (rule handshake_sign_verify [OF demo_crypto_laws(1,3) _ kp _ _ _ _ sep]) simp_all
qed

text \<open>The payload does not quote its parts, so identifiers that hold a colon are
  ambiguous: a signature made by node \<open>a:b\<close> for peer \<open>c\<close> is, byte for byte, one made by
  \<open>a\<close> for \<open>b:c\<close>, and verifies as such.\<close>

theorem handshake_colon_ambiguity:
  "sign_p2p_handshake C priv (a @ '':'' @ b) c t = sign_p2p_handshake C priv a (b @ '':'' @ c) t
   \<and> verify_p2p_handshake C sig pub (a @ '':'' @ b) c t = verify_p2p_handshake C sig pub a (b @ '':'' @ c) t"
  by (simp add: sign_p2p_handshake_as_message verify_p2p_handshake_as_message handshake_payload_colon)

text \<open>An HMAC computed with a session token verifies with that token, and a MAC is
  accepted exactly when it decodes to the HMAC of the payload under the token's key.\<close>

theorem hmac_verify_iff:
  assumes "hex_law C"
  shows "verify_hmac_sha256 C payload key (compute_hmac_sha256 C payload key)
    \<and> (verify_hmac_sha256 C payload key mac \<longleftrightarrow>
        hex_decode C mac = Some (hmac_sha256 C (hmac_key C key) payload))"
  using assms
  by (auto simp: verify_hmac_sha256_def compute_hmac_sha256_def hex_law_def split: option.splits)

theorem hmac_verify_iff_witness:
  "verify_hmac_sha256 demo_crypto [1, 2] ''ab'' (compute_hmac_sha256 demo_crypto [1, 2] ''ab'')"
  using hmac_verify_iff [OF demo_crypto_laws(2), of "[1, 2]" "''ab''" "[]"] by simp

text \<open>A token that is not hexadecimal is used as the empty key without an error: two
  such tokens give the same MAC, and each accepts the MACs made with the other.\<close>

theorem hmac_bad_token_is_empty_key:
  assumes "hex_decode C k1 = None" "hex_decode C k2 = None"
  shows "compute_hmac_sha256 C payload k1 = compute_hmac_sha256 C payload k2
    \<and> compute_hmac_sha256 C payload k1 = hex_encode C (hmac_sha256 C [] payload)
    \<and> verify_hmac_sha256 C payload k1 mac = verify_hmac_sha256 C payload k2 mac"
proof -
  have "hmac_key C k1 = []" "hmac_key C k2 = []" using assms by (simp_all add: hmac_key_def)
  then show ?thesis
    by (simp add: compute_hmac_sha256_def verify_hmac_sha256_def split: option.split)
qed

theorem hmac_bad_token_is_empty_key_witness:
  "compute_hmac_sha256 (demo_crypto\<lparr>hex_decode := \<lambda>s. None\<rparr>) [1] ''xy'' =
   compute_hmac_sha256 (demo_crypto\<lparr>hex_decode := \<lambda>s. None\<rparr>) [1] ''zz''"
  using hmac_bad_token_is_empty_key [of "demo_crypto\<lparr>hex_decode := \<lambda>s. None\<rparr>" "''xy''" "''zz''" "[1]"]
  by simp

end
