(* ===== verification/P2p_Messages.thy ===== *)
theory P2p_Messages
  imports Api_Types
begin

text \<open>
  \<open>nodeinnet-p2p/src/p2p.rs\<close>: the messages two nodes exchange, as one datatype with a
  constructor per variant and the fields in the order of the source (named in the comment
  under each), the payload types, and the three functions that read or change the resource a
  message is addressed to. \<open>is_response\<close> is the table at the head of
  \<open>ClientP2pContext::process_message\<close> (\<open>p2p-node/src/lib.rs\<close>), which decides whether a message is
  checked against the shared resources. An \<open>f32\<close> is its bit pattern, a \<open>usize\<close> has 64 bits,
  and an ordered map or set is the list of its elements.
\<close>

section \<open>Payload types\<close>

type_synonym usize = "64 word"
type_synonym ('k, 'v) btree_map = "('k \<times> 'v) list"
type_synonym 'a btree_set = "'a list"

record node_topology_info =
  nti_id :: string
  nti_name :: string
  nti_public_key :: string
  nti_last_known_addresses :: "string list"

datatype desktop_input_event =
    MouseMove i32 i32
  | MouseDown u8
  | MouseUp u8
  | MouseScroll i32
  | KeyPress u32
  | KeyRelease u32

record sync_file_info =
  sfi_relative_path :: string
  sfi_md5_hash :: string
  sfi_size :: u64
  sfi_last_modified_ms :: u64

record launchable_app =
  la_id :: string
  la_name :: string
  la_icon_name :: "string option"

record remote_app_session =
  ras_session_id :: uuid
  ras_app_id :: string
  ras_started_unix_ms :: u64

datatype sync_action = Pull | Push | DeleteLocal | DeleteRemote | Ignore | NoneSelect

datatype file_difference = Modified | LocalOnly | RemoteOnly | Identical

record sync_diff_item =
  sdi_folder_name :: string
  sdi_relative_path :: string
  sdi_local_state :: "sync_file_info option"
  sdi_remote_state :: "sync_file_info option"
  sdi_difference :: file_difference

record entry_info =
  ei_name :: string
  ei_entry_type :: string
  ei_size :: u64

datatype file_transfer_status =
    Accepted u64
  | Rejected string

record sys_info =
  si_hostname :: string
  si_os_family :: string
  si_os_type :: string
  si_os_version :: string
  si_cpu_arch :: string
  si_cpu_cores :: usize
  si_cpu_usage :: u32
  si_total_memory :: u64
  si_used_memory :: u64
  si_total_swap :: u64
  si_used_swap :: u64
  si_uptime :: u64
  si_network_interfaces :: "string list"

datatype registry_value_data =
    StringValue string
  | MultiString "string list"
  | DWord u32
  | QWord u64
  | Binary bytes
  | ExpandString string
  | Unknown

record registry_value_info =
  rvi_name :: string
  rvi_data :: registry_value_data

fun as_string :: "registry_value_data \<Rightarrow> string" where
  "as_string (StringValue s) = s"
| "as_string (MultiString v) = join_str [char_of (10 :: nat)] v"
| "as_string (DWord d) =
     ''0x'' @ pad_hex_upper 8 (unat d) @ '' ('' @ show_nat (unat d) @ '')''"
| "as_string (QWord q) =
     ''0x'' @ pad_hex_upper 16 (unat q) @ '' ('' @ show_nat (unat q) @ '')''"
| "as_string (Binary b) =
     ''['' @ join_str '', '' (map (\<lambda>x. pad_hex_upper 2 (unat x)) b) @ '']''"
| "as_string (ExpandString s) = s"
| "as_string Unknown = ''(Unknown Type)''"

section \<open>Messages\<close>

datatype (plugins only: size) p2p_message =
    Ping u64
  | Pong u64
  | Goodbye
  | TextMessage string
      \<comment> \<open>text\<close>
  | Handshake string u64 string "(resource_type list) option" "usize option" "u16 option" "string
        option"
      \<comment> \<open>node_version, timestamp_ms, signature, requested_resources,
        max_chunk_size, local_tcp_port, from_node_id\<close>
  | HandshakeResponse "shared_resource list"
      \<comment> \<open>resources\<close>
  | PeersSync "node_info list" "(string, string list) hmap"
      \<comment> \<open>nodes, addresses\<close>
  | RequestEntries uuid string string
      \<comment> \<open>request_id, resource_id, path\<close>
  | EntriesResponse uuid string string "string list" "(string \<times> u64) list" "((string
        \<times> string) list) option" "((string \<times> u64 \<times> string) list) option" "((u32
        option) list) option" "((u32 option) list) option"
      \<comment> \<open>request_id, resource_id, path, directories, files,
        directories_with_dates, files_with_dates, directories_permissions, files_permissions\<close>
  | RequestMetadata uuid string string
      \<comment> \<open>request_id, resource_id, path\<close>
  | MetadataResponse uuid string string "entry_info option"
      \<comment> \<open>request_id, resource_id, path, metadata\<close>
  | CreateDirectoryRequest uuid string string string "u32 option"
      \<comment> \<open>request_id, resource_id, parent_path, dir_name, permissions\<close>
  | CreateDirectoryResponse uuid string string "unit result"
      \<comment> \<open>request_id, resource_id, parent_path, result\<close>
  | DeleteEntryRequest uuid string string
      \<comment> \<open>request_id, resource_id, path\<close>
  | DeleteEntryResponse uuid string string "unit result"
      \<comment> \<open>request_id, resource_id, parent_path, result\<close>
  | RenameEntryRequest uuid string string string
      \<comment> \<open>request_id, resource_id, path, new_path\<close>
  | RenameEntryResponse uuid string string "unit result"
      \<comment> \<open>request_id, resource_id, parent_path, result\<close>
  | SetPermissionsRequest uuid string string u32
      \<comment> \<open>request_id, resource_id, path, permissions\<close>
  | SetPermissionsResponse uuid string string "unit result"
      \<comment> \<open>request_id, resource_id, parent_path, result\<close>
  | RequestSystemInfo string
      \<comment> \<open>resource_id\<close>
  | SystemInfoResponse string sys_info
      \<comment> \<open>resource_id, info\<close>
  | StartTerminal string
      \<comment> \<open>resource_id\<close>
  | StopTerminal string
      \<comment> \<open>resource_id\<close>
  | TerminalInput string bytes
      \<comment> \<open>resource_id, data\<close>
  | TerminalOutput string bytes
      \<comment> \<open>resource_id, data\<close>
  | TerminalResize string u16 u16
      \<comment> \<open>resource_id, rows, cols\<close>
  | FileDownloadRequest string string uuid u64 "u64 option"
      \<comment> \<open>resource_id, file_path, transfer_id, offset, length\<close>
  | FileUploadRequest string string string u64 uuid "u32 option"
      \<comment> \<open>resource_id, target_path, file_name, total_size, transfer_id, permissions\<close>
  | FileTransferResponse uuid file_transfer_status
      \<comment> \<open>transfer_id, status\<close>
  | FileChunk uuid u64 bytes
      \<comment> \<open>transfer_id, offset, data\<close>
  | FileTransferComplete uuid "string option"
      \<comment> \<open>transfer_id, checksum\<close>
  | RequestRegistryKeys uuid string string
      \<comment> \<open>request_id, resource_id, path\<close>
  | RegistryKeysResponse uuid string string "string list" "registry_value_info list" "string option"
      \<comment> \<open>request_id, resource_id, path, subkeys, values, error\<close>
  | CreateRegistryKeyRequest uuid string string string
      \<comment> \<open>request_id, resource_id, parent_path, key_name\<close>
  | CreateRegistryKeyResponse uuid string string "unit result"
      \<comment> \<open>request_id, resource_id, parent_path, result\<close>
  | DeleteRegistryEntryRequest uuid string string "string option" bool
      \<comment> \<open>request_id, resource_id, path, value_name, is_key\<close>
  | DeleteRegistryEntryResponse uuid string string "unit result"
      \<comment> \<open>request_id, resource_id, parent_path, result\<close>
  | SetRegistryValueRequest uuid string string string registry_value_data
      \<comment> \<open>request_id, resource_id, path, value_name, value_data\<close>
  | SetRegistryValueResponse uuid string string "unit result"
      \<comment> \<open>request_id, resource_id, path, result\<close>
  | SocksConnectRequest string uuid string u16
      \<comment> \<open>resource_id, stream_id, host, port\<close>
  | SocksConnectResponse string uuid bool "string option"
      \<comment> \<open>resource_id, stream_id, is_success, error_msg\<close>
  | SocksData string uuid bytes
      \<comment> \<open>resource_id, stream_id, data\<close>
  | SocksClose string uuid
      \<comment> \<open>resource_id, stream_id\<close>
  | AppListRequest string uuid
      \<comment> \<open>resource_id, request_id\<close>
  | AppListResponse string "uuid option" "launchable_app list" "remote_app_session list" "string
        option" "string option"
      \<comment> \<open>resource_id, request_id, apps, sessions, refused, event\<close>
  | AppLaunchRequest string uuid uuid string
      \<comment> \<open>resource_id, request_id, session_id, app_id\<close>
  | AppStopRequest string uuid uuid
      \<comment> \<open>resource_id, request_id, session_id\<close>
  | AppActionResponse string uuid "uuid option" "string option" "string option"
      \<comment> \<open>resource_id, request_id, session_id, error, detail\<close>
  | HttpRequest string uuid string string "(string, string) btree_map" "bytes option"
      \<comment> \<open>resource_id, request_id, method, url, headers, body\<close>
  | HttpResponseStart string uuid u16 "(string, string) btree_map"
      \<comment> \<open>resource_id, request_id, status, headers\<close>
  | HttpResponseChunk string uuid bytes
      \<comment> \<open>resource_id, request_id, chunk\<close>
  | HttpResponseComplete string uuid
      \<comment> \<open>resource_id, request_id\<close>
  | SyncStateRequest string "string list"
      \<comment> \<open>resource_id, target_folder_names\<close>
  | SyncStateResponse string "string btree_set" "(string, sync_file_info list) btree_map"
      \<comment> \<open>resource_id, available_folders, folder_states\<close>
  | RemoteDesktopRequest string bool bool "u32 option" bool
      \<comment> \<open>resource_id, start, original_size, bitrate_bps, force_select\<close>
  | RemoteDesktopResponse string bool "string option" "usize option" "usize option"
      \<comment> \<open>resource_id, success, error_msg, width, height\<close>
  | RemoteDesktopSdpOffer string string
      \<comment> \<open>resource_id, sdp\<close>
  | RemoteDesktopSdpAnswer string string
      \<comment> \<open>resource_id, sdp\<close>
  | RemoteDesktopInput string desktop_input_event
      \<comment> \<open>resource_id, event\<close>
  | RtcSignal string string string "string option" "u16 option"
      \<comment> \<open>target_node_id, signal_type, sdp_or_candidate, sdp_mid, sdp_mline_index\<close>
  | RequestTopology
  | ResponseTopology "node_topology_info list"
      \<comment> \<open>peers\<close>

record secured_p2p_envelope =
  sec_mac :: "string option"
  sec_message :: p2p_message

datatype (plugins only: size) outbound_p2p_payload =
    OutMessage secured_p2p_envelope
  | OutUnsigned p2p_message
  | OutBinary bytes

record recent_resource =
  rr_peer_id :: string
  rr_peer_name :: string
  rr_resource_id :: string
  rr_resource_name :: string
  rr_resource_type :: resource_type
  rr_last_accessed :: u64
  rr_access_count :: u32

section \<open>The resource a message is addressed to\<close>

fun allowed_resource_types :: "p2p_message \<Rightarrow> resource_type list" where
  "allowed_resource_types (RequestEntries _ _ _) = [Filesystem, SyncFolder]"
| "allowed_resource_types (EntriesResponse _ _ _ _ _ _ _ _ _) = [Filesystem, SyncFolder]"
| "allowed_resource_types (RequestMetadata _ _ _) = [Filesystem, SyncFolder]"
| "allowed_resource_types (MetadataResponse _ _ _ _) = [Filesystem, SyncFolder]"
| "allowed_resource_types (CreateDirectoryRequest _ _ _ _ _) = [Filesystem, SyncFolder]"
| "allowed_resource_types (CreateDirectoryResponse _ _ _ _) = [Filesystem, SyncFolder]"
| "allowed_resource_types (DeleteEntryRequest _ _ _) = [Filesystem, SyncFolder]"
| "allowed_resource_types (DeleteEntryResponse _ _ _ _) = [Filesystem, SyncFolder]"
| "allowed_resource_types (RenameEntryRequest _ _ _ _) = [Filesystem, SyncFolder]"
| "allowed_resource_types (RenameEntryResponse _ _ _ _) = [Filesystem, SyncFolder]"
| "allowed_resource_types (SetPermissionsRequest _ _ _ _) = [Filesystem, SyncFolder]"
| "allowed_resource_types (SetPermissionsResponse _ _ _ _) = [Filesystem, SyncFolder]"
| "allowed_resource_types (FileDownloadRequest _ _ _ _ _) = [Filesystem, SyncFolder]"
| "allowed_resource_types (FileUploadRequest _ _ _ _ _ _) = [Filesystem, SyncFolder]"
| "allowed_resource_types (RequestSystemInfo _) = [SystemInfo]"
| "allowed_resource_types (SystemInfoResponse _ _) = [SystemInfo]"
| "allowed_resource_types (StartTerminal _) = [Terminal]"
| "allowed_resource_types (StopTerminal _) = [Terminal]"
| "allowed_resource_types (TerminalInput _ _) = [Terminal]"
| "allowed_resource_types (TerminalOutput _ _) = [Terminal]"
| "allowed_resource_types (TerminalResize _ _ _) = [Terminal]"
| "allowed_resource_types (RequestRegistryKeys _ _ _) = [Registry]"
| "allowed_resource_types (RegistryKeysResponse _ _ _ _ _ _) = [Registry]"
| "allowed_resource_types (CreateRegistryKeyRequest _ _ _ _) = [Registry]"
| "allowed_resource_types (CreateRegistryKeyResponse _ _ _ _) = [Registry]"
| "allowed_resource_types (DeleteRegistryEntryRequest _ _ _ _ _) = [Registry]"
| "allowed_resource_types (DeleteRegistryEntryResponse _ _ _ _) = [Registry]"
| "allowed_resource_types (SetRegistryValueRequest _ _ _ _ _) = [Registry]"
| "allowed_resource_types (SetRegistryValueResponse _ _ _ _) = [Registry]"
| "allowed_resource_types (SocksConnectRequest _ _ _ _) = [SharedNetwork]"
| "allowed_resource_types (SocksConnectResponse _ _ _ _) = [SharedNetwork]"
| "allowed_resource_types (SocksData _ _ _) = [SharedNetwork]"
| "allowed_resource_types (SocksClose _ _) = [SharedNetwork]"
| "allowed_resource_types (HttpRequest _ _ _ _ _ _) = [SharedNetwork]"
| "allowed_resource_types (HttpResponseStart _ _ _ _) = [SharedNetwork]"
| "allowed_resource_types (HttpResponseChunk _ _ _) = [SharedNetwork]"
| "allowed_resource_types (HttpResponseComplete _ _) = [SharedNetwork]"
| "allowed_resource_types (AppListRequest _ _) = [SharedNetwork]"
| "allowed_resource_types (AppListResponse _ _ _ _ _ _) = [SharedNetwork]"
| "allowed_resource_types (AppLaunchRequest _ _ _ _) = [SharedNetwork]"
| "allowed_resource_types (AppStopRequest _ _ _) = [SharedNetwork]"
| "allowed_resource_types (AppActionResponse _ _ _ _ _) = [SharedNetwork]"
| "allowed_resource_types (SyncStateRequest _ _) = [SyncFolder]"
| "allowed_resource_types (SyncStateResponse _ _ _) = [SyncFolder]"
| "allowed_resource_types (RemoteDesktopRequest _ _ _ _ _) = [RemoteDesktop]"
| "allowed_resource_types (RemoteDesktopResponse _ _ _ _ _) = [RemoteDesktop]"
| "allowed_resource_types (RemoteDesktopSdpOffer _ _) = [RemoteDesktop]"
| "allowed_resource_types (RemoteDesktopSdpAnswer _ _) = [RemoteDesktop]"
| "allowed_resource_types (RemoteDesktopInput _ _) = [RemoteDesktop]"
| "allowed_resource_types (Ping _) = []"
| "allowed_resource_types (Pong _) = []"
| "allowed_resource_types Goodbye = []"
| "allowed_resource_types (TextMessage _) = []"
| "allowed_resource_types (Handshake _ _ _ _ _ _ _) = []"
| "allowed_resource_types (HandshakeResponse _) = []"
| "allowed_resource_types (PeersSync _ _) = []"
| "allowed_resource_types (FileTransferResponse _ _) = []"
| "allowed_resource_types (FileChunk _ _ _) = []"
| "allowed_resource_types (RtcSignal _ _ _ _ _) = []"
| "allowed_resource_types RequestTopology = []"
| "allowed_resource_types (ResponseTopology _) = []"
| "allowed_resource_types (FileTransferComplete _ _) = []"

fun resource_id :: "p2p_message \<Rightarrow> string option" where
  "resource_id (RequestEntries _ r _) = Some r"
| "resource_id (EntriesResponse _ r _ _ _ _ _ _ _) = Some r"
| "resource_id (RequestMetadata _ r _) = Some r"
| "resource_id (MetadataResponse _ r _ _) = Some r"
| "resource_id (CreateDirectoryRequest _ r _ _ _) = Some r"
| "resource_id (CreateDirectoryResponse _ r _ _) = Some r"
| "resource_id (DeleteEntryRequest _ r _) = Some r"
| "resource_id (DeleteEntryResponse _ r _ _) = Some r"
| "resource_id (RenameEntryRequest _ r _ _) = Some r"
| "resource_id (RenameEntryResponse _ r _ _) = Some r"
| "resource_id (SetPermissionsRequest _ r _ _) = Some r"
| "resource_id (SetPermissionsResponse _ r _ _) = Some r"
| "resource_id (SystemInfoResponse r _) = Some r"
| "resource_id (StartTerminal r) = Some r"
| "resource_id (StopTerminal r) = Some r"
| "resource_id (TerminalInput r _) = Some r"
| "resource_id (TerminalOutput r _) = Some r"
| "resource_id (TerminalResize r _ _) = Some r"
| "resource_id (HttpRequest r _ _ _ _ _) = Some r"
| "resource_id (HttpResponseStart r _ _ _) = Some r"
| "resource_id (HttpResponseChunk r _ _) = Some r"
| "resource_id (HttpResponseComplete r _) = Some r"
| "resource_id (SocksConnectRequest r _ _ _) = Some r"
| "resource_id (SocksConnectResponse r _ _ _) = Some r"
| "resource_id (SocksData r _ _) = Some r"
| "resource_id (SocksClose r _) = Some r"
| "resource_id (AppListRequest r _) = Some r"
| "resource_id (AppListResponse r _ _ _ _ _) = Some r"
| "resource_id (AppLaunchRequest r _ _ _) = Some r"
| "resource_id (AppStopRequest r _ _) = Some r"
| "resource_id (AppActionResponse r _ _ _ _) = Some r"
| "resource_id (RequestSystemInfo r) = Some r"
| "resource_id (FileDownloadRequest r _ _ _ _) = Some r"
| "resource_id (FileUploadRequest r _ _ _ _ _) = Some r"
| "resource_id (RegistryKeysResponse _ r _ _ _ _) = Some r"
| "resource_id (RequestRegistryKeys _ r _) = Some r"
| "resource_id (CreateRegistryKeyRequest _ r _ _) = Some r"
| "resource_id (CreateRegistryKeyResponse _ r _ _) = Some r"
| "resource_id (DeleteRegistryEntryRequest _ r _ _ _) = Some r"
| "resource_id (DeleteRegistryEntryResponse _ r _ _) = Some r"
| "resource_id (SetRegistryValueRequest _ r _ _ _) = Some r"
| "resource_id (SetRegistryValueResponse _ r _ _) = Some r"
| "resource_id (SyncStateRequest r _) = Some r"
| "resource_id (SyncStateResponse r _ _) = Some r"
| "resource_id (RemoteDesktopRequest r _ _ _ _) = Some r"
| "resource_id (RemoteDesktopResponse r _ _ _ _) = Some r"
| "resource_id (RemoteDesktopSdpOffer r _) = Some r"
| "resource_id (RemoteDesktopSdpAnswer r _) = Some r"
| "resource_id (RemoteDesktopInput r _) = Some r"
| "resource_id (FileTransferResponse _ _) = None"
| "resource_id (FileChunk _ _ _) = None"
| "resource_id (FileTransferComplete _ _) = None"
| "resource_id (TextMessage _) = None"
| "resource_id (Handshake _ _ _ _ _ _ _) = None"
| "resource_id Goodbye = None"
| "resource_id (Ping _) = None"
| "resource_id (Pong _) = None"
| "resource_id (HandshakeResponse _) = None"
| "resource_id (PeersSync _ _) = None"
| "resource_id (RtcSignal _ _ _ _ _) = None"
| "resource_id RequestTopology = None"
| "resource_id (ResponseTopology _) = None"

fun set_resource_id :: "p2p_message \<Rightarrow> string \<Rightarrow> p2p_message" where
  "set_resource_id (RequestEntries x0 _ x2) new_id = RequestEntries x0 new_id x2"
| "set_resource_id (EntriesResponse x0 _ x2 x3 x4 x5 x6 x7 x8) new_id = EntriesResponse x0 new_id
        x2 x3 x4 x5 x6 x7 x8"
| "set_resource_id (RequestMetadata x0 _ x2) new_id = RequestMetadata x0 new_id x2"
| "set_resource_id (MetadataResponse x0 _ x2 x3) new_id = MetadataResponse x0 new_id x2 x3"
| "set_resource_id (CreateDirectoryRequest x0 _ x2 x3 x4) new_id = CreateDirectoryRequest x0 new_id
        x2 x3 x4"
| "set_resource_id (CreateDirectoryResponse x0 _ x2 x3) new_id = CreateDirectoryResponse x0 new_id
        x2 x3"
| "set_resource_id (DeleteEntryRequest x0 _ x2) new_id = DeleteEntryRequest x0 new_id x2"
| "set_resource_id (DeleteEntryResponse x0 _ x2 x3) new_id = DeleteEntryResponse x0 new_id x2 x3"
| "set_resource_id (RenameEntryRequest x0 _ x2 x3) new_id = RenameEntryRequest x0 new_id x2 x3"
| "set_resource_id (RenameEntryResponse x0 _ x2 x3) new_id = RenameEntryResponse x0 new_id x2 x3"
| "set_resource_id (SetPermissionsRequest x0 _ x2 x3) new_id = SetPermissionsRequest x0 new_id x2
        x3"
| "set_resource_id (SetPermissionsResponse x0 _ x2 x3) new_id = SetPermissionsResponse x0 new_id x2
        x3"
| "set_resource_id (RequestSystemInfo _) new_id = RequestSystemInfo new_id"
| "set_resource_id (SystemInfoResponse _ x1) new_id = SystemInfoResponse new_id x1"
| "set_resource_id (StartTerminal _) new_id = StartTerminal new_id"
| "set_resource_id (StopTerminal _) new_id = StopTerminal new_id"
| "set_resource_id (TerminalInput _ x1) new_id = TerminalInput new_id x1"
| "set_resource_id (TerminalOutput _ x1) new_id = TerminalOutput new_id x1"
| "set_resource_id (TerminalResize _ x1 x2) new_id = TerminalResize new_id x1 x2"
| "set_resource_id (FileDownloadRequest _ x1 x2 x3 x4) new_id = FileDownloadRequest new_id x1 x2 x3
        x4"
| "set_resource_id (FileUploadRequest _ x1 x2 x3 x4 x5) new_id = FileUploadRequest new_id x1 x2 x3
        x4 x5"
| "set_resource_id (RequestRegistryKeys x0 _ x2) new_id = RequestRegistryKeys x0 new_id x2"
| "set_resource_id (RegistryKeysResponse x0 _ x2 x3 x4 x5) new_id = RegistryKeysResponse x0 new_id
        x2 x3 x4 x5"
| "set_resource_id (CreateRegistryKeyRequest x0 _ x2 x3) new_id = CreateRegistryKeyRequest x0
        new_id x2 x3"
| "set_resource_id (CreateRegistryKeyResponse x0 _ x2 x3) new_id = CreateRegistryKeyResponse x0
        new_id x2 x3"
| "set_resource_id (DeleteRegistryEntryRequest x0 _ x2 x3 x4) new_id = DeleteRegistryEntryRequest
        x0 new_id x2 x3 x4"
| "set_resource_id (DeleteRegistryEntryResponse x0 _ x2 x3) new_id = DeleteRegistryEntryResponse x0
        new_id x2 x3"
| "set_resource_id (SetRegistryValueRequest x0 _ x2 x3 x4) new_id = SetRegistryValueRequest x0
        new_id x2 x3 x4"
| "set_resource_id (SetRegistryValueResponse x0 _ x2 x3) new_id = SetRegistryValueResponse x0
        new_id x2 x3"
| "set_resource_id (SocksConnectRequest _ x1 x2 x3) new_id = SocksConnectRequest new_id x1 x2 x3"
| "set_resource_id (SocksConnectResponse _ x1 x2 x3) new_id = SocksConnectResponse new_id x1 x2 x3"
| "set_resource_id (SocksData _ x1 x2) new_id = SocksData new_id x1 x2"
| "set_resource_id (SocksClose _ x1) new_id = SocksClose new_id x1"
| "set_resource_id (AppListRequest _ x1) new_id = AppListRequest new_id x1"
| "set_resource_id (AppListResponse _ x1 x2 x3 x4 x5) new_id = AppListResponse new_id x1 x2 x3 x4
        x5"
| "set_resource_id (AppLaunchRequest _ x1 x2 x3) new_id = AppLaunchRequest new_id x1 x2 x3"
| "set_resource_id (AppStopRequest _ x1 x2) new_id = AppStopRequest new_id x1 x2"
| "set_resource_id (AppActionResponse _ x1 x2 x3 x4) new_id = AppActionResponse new_id x1 x2 x3 x4"
| "set_resource_id (HttpRequest _ x1 x2 x3 x4 x5) new_id = HttpRequest new_id x1 x2 x3 x4 x5"
| "set_resource_id (HttpResponseStart _ x1 x2 x3) new_id = HttpResponseStart new_id x1 x2 x3"
| "set_resource_id (HttpResponseChunk _ x1 x2) new_id = HttpResponseChunk new_id x1 x2"
| "set_resource_id (HttpResponseComplete _ x1) new_id = HttpResponseComplete new_id x1"
| "set_resource_id (SyncStateRequest _ x1) new_id = SyncStateRequest new_id x1"
| "set_resource_id (SyncStateResponse _ x1 x2) new_id = SyncStateResponse new_id x1 x2"
| "set_resource_id (RemoteDesktopRequest _ x1 x2 x3 x4) new_id = RemoteDesktopRequest new_id x1 x2
        x3 x4"
| "set_resource_id (RemoteDesktopResponse _ x1 x2 x3 x4) new_id = RemoteDesktopResponse new_id x1
        x2 x3 x4"
| "set_resource_id (RemoteDesktopSdpOffer _ x1) new_id = RemoteDesktopSdpOffer new_id x1"
| "set_resource_id (RemoteDesktopSdpAnswer _ x1) new_id = RemoteDesktopSdpAnswer new_id x1"
| "set_resource_id (RemoteDesktopInput _ x1) new_id = RemoteDesktopInput new_id x1"
| "set_resource_id m _ = m"

fun is_response :: "p2p_message \<Rightarrow> bool" where
  "is_response (EntriesResponse _ _ _ _ _ _ _ _ _) = True"
| "is_response (MetadataResponse _ _ _ _) = True"
| "is_response (CreateDirectoryResponse _ _ _ _) = True"
| "is_response (DeleteEntryResponse _ _ _ _) = True"
| "is_response (RenameEntryResponse _ _ _ _) = True"
| "is_response (SetPermissionsResponse _ _ _ _) = True"
| "is_response (SystemInfoResponse _ _) = True"
| "is_response (RegistryKeysResponse _ _ _ _ _ _) = True"
| "is_response (CreateRegistryKeyResponse _ _ _ _) = True"
| "is_response (DeleteRegistryEntryResponse _ _ _ _) = True"
| "is_response (SetRegistryValueResponse _ _ _ _) = True"
| "is_response (HttpResponseStart _ _ _ _) = True"
| "is_response (HttpResponseChunk _ _ _) = True"
| "is_response (HttpResponseComplete _ _) = True"
| "is_response (SocksConnectResponse _ _ _ _) = True"
| "is_response (SocksData _ _ _) = True"
| "is_response (SocksClose _ _) = True"
| "is_response (FileTransferResponse _ _) = True"
| "is_response (FileChunk _ _ _) = True"
| "is_response (FileTransferComplete _ _) = True"
| "is_response (TerminalOutput _ _) = True"
| "is_response (SyncStateResponse _ _ _) = True"
| "is_response (RemoteDesktopResponse _ _ _ _ _) = True"
| "is_response (HandshakeResponse _) = True"
| "is_response (AppListResponse _ _ _ _ _ _) = True"
| "is_response (AppActionResponse _ _ _ _ _) = True"
| "is_response _ = False"

section \<open>Addressing as an interface\<close>

text \<open>
  What the senders and the receiver of messages rely on: the address can be read back after
  it is set, setting it changes nothing else, and a message that has no address is left alone.
  Every attribute \<open>kind\<close> of a message that does not depend on its address survives
  retagging.
\<close>

locale addressed =
  fixes address :: "'m \<Rightarrow> 'a option"
    and retag :: "'m \<Rightarrow> 'a \<Rightarrow> 'm"
    and kind :: "'m \<Rightarrow> 'k"
  assumes address_retag: "address (retag m a) = map_option (\<lambda>_. a) (address m)"
    and retag_same: "address m = Some a \<Longrightarrow> retag m a = m"
    and retag_none: "address m = None \<Longrightarrow> retag m a = m"
    and retag_retag: "retag (retag m a) b = retag m b"
    and kind_retag: "kind (retag m a) = kind m"
begin

lemma retag_undo: "address m = Some a \<Longrightarrow> retag (retag m b) a = m"
  by (simp add: retag_retag retag_same)

lemma retag_inj:
  assumes "retag m a = retag m' a" "address m = address m'"
  shows "m = m'"
proof (cases "address m")
  case None
  with assms show ?thesis by (metis retag_none)
next
  case (Some b)
  with assms show ?thesis by (metis retag_undo)
qed

lemma retag_last_wins: "foldl retag m (as @ [a]) = retag m a"
  by (induction as arbitrary: m) (simp_all add: retag_retag)

lemma kind_retag_many: "kind (foldl retag m as) = kind m"
  by (induction as arbitrary: m) (simp_all add: kind_retag)

end

lemma resource_id_set: "resource_id (set_resource_id m a) = map_option (\<lambda>_. a) (resource_id m)"
  by (cases m) simp_all

lemma set_resource_id_same: "resource_id m = Some a \<Longrightarrow> set_resource_id m a = m"
  by (cases m) simp_all

lemma set_resource_id_none: "resource_id m = None \<Longrightarrow> set_resource_id m a = m"
  by (cases m) simp_all

lemma set_resource_id_twice: "set_resource_id (set_resource_id m a) b = set_resource_id m b"
  by (cases m) simp_all

lemma allowed_types_set: "allowed_resource_types (set_resource_id m a) = allowed_resource_types m"
  by (cases m) simp_all

lemma is_response_set: "is_response (set_resource_id m a) = is_response m"
  by (cases m) simp_all

interpretation msg: addressed resource_id set_resource_id
  "\<lambda>m. (allowed_resource_types m, is_response m)"
  by unfold_locales
    (simp_all add: resource_id_set set_resource_id_same set_resource_id_none set_resource_id_twice
      allowed_types_set is_response_set)

lemma allowed_types_empty_iff: "allowed_resource_types m = [] \<longleftrightarrow> resource_id m = None"
  by (cases m) simp_all

lemma unaddressed_cases:
  "resource_id m = None \<longleftrightarrow>
     (case m of Ping _ \<Rightarrow> True | Pong _ \<Rightarrow> True | Goodbye \<Rightarrow> True | TextMessage _ \<Rightarrow> True
      | Handshake _ _ _ _ _ _ _ \<Rightarrow> True | HandshakeResponse _ \<Rightarrow> True | PeersSync _ _ \<Rightarrow> True
      | FileTransferResponse _ _ \<Rightarrow> True | FileChunk _ _ _ \<Rightarrow> True
      | FileTransferComplete _ _ \<Rightarrow> True | RtcSignal _ _ _ _ _ \<Rightarrow> True
      | RequestTopology \<Rightarrow> True | ResponseTopology _ \<Rightarrow> True | _ \<Rightarrow> False)"
  by (cases m) simp_all

section \<open>Properties\<close>

text \<open>The receiver's type check is never empty for an addressed message: a message
  names a resource exactly when it lists resource types it may be used on, so no message that
  reaches a resource escapes the type check because its list is empty.\<close>

theorem addressed_iff_type_checked:
  "resource_id m \<noteq> None \<longleftrightarrow> allowed_resource_types m \<noteq> []"
  by (simp add: allowed_types_empty_iff)

text \<open>Retagging is a lens on the resource id: the new id is read back exactly when the
  message had one, the last of several retaggings wins, retagging with the old id restores the
  message, and neither the resource types a message may be used on nor its being a response
  depends on the id, so retagging cannot move a message out of the type check.\<close>

theorem set_resource_id_lens:
  "resource_id (set_resource_id m a) = (if resource_id m = None then None else Some a)
   \<and> foldl set_resource_id m (as @ [a]) = set_resource_id m a
   \<and> (case resource_id m of None \<Rightarrow> set_resource_id m a = m
      | Some old \<Rightarrow> set_resource_id (set_resource_id m a) old = m)
   \<and> allowed_resource_types (foldl set_resource_id m as) = allowed_resource_types m
   \<and> is_response (foldl set_resource_id m as) = is_response m"
  using msg.retag_last_wins [of m as a] msg.kind_retag_many [of m as]
  by (cases "resource_id m")
    (simp_all add: resource_id_set set_resource_id_none msg.retag_undo)

text \<open>The registry values of a fixed width are printed with all their hexadecimal digits
  and two different values of one kind never print alike.\<close>

theorem registry_numbers_print_injective:
  "(as_string (DWord d) = as_string (DWord d') \<longleftrightarrow> d = d')
   \<and> (as_string (QWord q) = as_string (QWord q') \<longleftrightarrow> q = q')
   \<and> take 10 (as_string (DWord d)) = ''0x'' @ pad_hex_upper 8 (unat d)
   \<and> take 18 (as_string (QWord q)) = ''0x'' @ pad_hex_upper 16 (unat q)"
proof -
  have l: "length (pad_hex_upper 8 (unat e)) = 8" "length (pad_hex_upper 16 (unat p)) = 16"
    for e :: u32 and p :: u64
    using unsigned_less [of e, where ?'a = nat] unsigned_less [of p, where ?'a = nat]
      length_show_hex [of "unat e" 7] length_show_hex [of "unat p" 15]
    by (simp_all add: length_pad_hex)
  show ?thesis by (auto simp: l word_unat_eq_iff)
qed

end
