(* ===== verification/P2p_Registry.thy ===== *)
theory P2p_Registry
  imports Api_Types
begin

text \<open>
  \<open>nodeinnet-p2p/src/lib.rs\<close>: the process-wide endpoint setting, the table of known public
  keys and names that signatures are checked against, and the peer store. A static cell is a
  field of a record that the operations take and return; a \<open>OnceLock\<close> is \<open>None\<close> until it is
  first initialised. Nothing that holds one of the \<open>RwLock\<close>s panics, so they are never
  poisoned; the mutex of \<open>MemoryPeerStore\<close> runs a caller's closure and carries a poison flag.
  \<open>API_BASE\<close> depends on \<open>debug_assertions\<close> and takes it as an argument, and so do the two
  functions that read environment variables.
\<close>

section \<open>Resource identifiers\<close>

fun resource_id_base :: "resource_type \<Rightarrow> string option" where
  "resource_id_base Filesystem = Some ''fs''"
| "resource_id_base Terminal = Some ''terminal''"
| "resource_id_base RemoteDesktop = Some ''desktop''"
| "resource_id_base SharedNetwork = Some ''network''"
| "resource_id_base Registry = Some ''registry''"
| "resource_id_base SystemInfo = Some ''sysinfo''"
| "resource_id_base SyncFolder = None"

section \<open>Endpoints\<close>

definition API_BASE :: "bool \<Rightarrow> string" where
  "API_BASE debug_assertions =
     (if debug_assertions then ''http://127.0.0.1:8030'' else ''https://node.in.net'')"

record endpoint =
  ep_api :: "string option"
  ep_ws :: "string option"

definition ENDPOINT :: endpoint where
  "ENDPOINT = \<lparr>ep_api = None, ep_ws = None\<rparr>"

definition non_empty :: "string \<Rightarrow> string option" where
  "non_empty s = (let t = trim s in if t \<noteq> [] then Some t else None)"

definition set_api_base :: "string \<Rightarrow> endpoint \<Rightarrow> endpoint" where
  "set_api_base url ep = ep\<lparr>ep_api := non_empty url\<rparr>"

definition set_ws_base :: "string \<Rightarrow> endpoint \<Rightarrow> endpoint" where
  "set_ws_base url ep = ep\<lparr>ep_ws := non_empty url\<rparr>"

definition api_base :: "bool \<Rightarrow> string option \<Rightarrow> endpoint \<Rightarrow> string" where
  "api_base debug_assertions env_api ep =
     (case ep_api ep of
        Some url \<Rightarrow> url
      | None \<Rightarrow> (case Option.bind env_api non_empty of
           Some url \<Rightarrow> url
         | None \<Rightarrow> API_BASE debug_assertions))"

definition ws_base :: "string option \<Rightarrow> string \<Rightarrow> endpoint \<Rightarrow> string" where
  "ws_base env_ws advertised ep =
     (case ep_ws ep of
        Some url \<Rightarrow> url
      | None \<Rightarrow> (case Option.bind env_ws non_empty of
           Some url \<Rightarrow> url
         | None \<Rightarrow> advertised))"

section \<open>Peer stores\<close>

record peer_config =
  pc_name :: string
  pc_public_key :: string
  pc_os :: string
  pc_last_known_addresses :: "string list"

definition peer_config_default :: peer_config where
  "peer_config_default =
     \<lparr>pc_name = [], pc_public_key = [], pc_os = [], pc_last_known_addresses = []\<rparr>"

type_synonym peer_table = "(string, peer_config) hmap"

record memory_peer_store =
  mps_peers :: peer_table
  mps_poisoned :: bool

definition memory_peer_store_default :: memory_peer_store where
  "memory_peer_store_default = \<lparr>mps_peers = [], mps_poisoned = False\<rparr>"

definition store_load :: "memory_peer_store \<Rightarrow> peer_table" where
  "store_load s = (if mps_poisoned s then [] else mps_peers s)"

definition store_update :: "(peer_table \<Rightarrow> peer_table) \<Rightarrow> memory_peer_store \<Rightarrow> memory_peer_store" where
  "store_update f s = (if mps_poisoned s then s else s\<lparr>mps_peers := f (mps_peers s)\<rparr>)"

section \<open>Known keys and names\<close>

record known_registry =
  KNOWN_PUBLIC_KEYS :: "(string, string) hmap option"
  KNOWN_PEER_NAMES :: "(string, string) hmap option"
  KNOWN_RESOURCE_NAMES :: "(string \<times> string, string) hmap option"

definition known_registry_new :: known_registry where
  "known_registry_new =
     \<lparr>KNOWN_PUBLIC_KEYS = None, KNOWN_PEER_NAMES = None, KNOWN_RESOURCE_NAMES = None\<rparr>"

definition get_known_public_key :: "known_registry \<Rightarrow> string \<Rightarrow> string option" where
  "get_known_public_key g node_id = Option.bind (KNOWN_PUBLIC_KEYS g) (\<lambda>m. map_of m node_id)"

definition get_known_peer_name :: "known_registry \<Rightarrow> string \<Rightarrow> string option" where
  "get_known_peer_name g node_id = Option.bind (KNOWN_PEER_NAMES g) (\<lambda>m. map_of m node_id)"

definition get_known_resource_name :: "known_registry \<Rightarrow> string \<Rightarrow> string \<Rightarrow> string option" where
  "get_known_resource_name g peer_id resource_id =
     Option.bind (KNOWN_RESOURCE_NAMES g) (\<lambda>m. map_of m (peer_id, resource_id))"

definition get_or_init :: "('k, 'v) hmap option \<Rightarrow> ('k, 'v) hmap" where
  "get_or_init c = (case c of None \<Rightarrow> [] | Some m \<Rightarrow> m)"

definition update_known_public_keys :: "node_info list \<Rightarrow> known_registry \<Rightarrow> known_registry" where
  "update_known_public_keys nodes g =
     g\<lparr>KNOWN_PUBLIC_KEYS :=
          Some (fold (\<lambda>n. hm_insert (ni_id n) (ni_public_key n)) nodes (get_or_init (KNOWN_PUBLIC_KEYS g))),
       KNOWN_PEER_NAMES :=
          Some (fold (\<lambda>n. hm_insert (ni_id n) (ni_name n)) nodes (get_or_init (KNOWN_PEER_NAMES g))),
       KNOWN_RESOURCE_NAMES :=
          Some (fold (\<lambda>n. fold (\<lambda>r. hm_insert (ni_id n, res_id r) (res_name r)) (ni_resources n))
                  nodes (get_or_init (KNOWN_RESOURCE_NAMES g)))\<rparr>"

text \<open>A registry with one more key, to state examples with.\<close>

definition insert_known_public_key :: "string \<Rightarrow> string \<Rightarrow> known_registry \<Rightarrow> known_registry" where
  "insert_known_public_key node_id key g =
     g\<lparr>KNOWN_PUBLIC_KEYS := Some (hm_insert node_id key (get_or_init (KNOWN_PUBLIC_KEYS g)))\<rparr>"

section \<open>The peer-store interface\<close>

text \<open>
  What the callers of a \<open>PeerStore\<close> rely on: while the store is usable, an update acts on
  exactly what a load returns, and the store stays usable.
\<close>

locale peer_store =
  fixes load_peers :: "'s \<Rightarrow> ('k, 'v) hmap"
    and update_peers :: "(('k, 'v) hmap \<Rightarrow> ('k, 'v) hmap) \<Rightarrow> 's \<Rightarrow> 's"
    and usable :: "'s \<Rightarrow> bool"
  assumes load_update: "usable s \<Longrightarrow> load_peers (update_peers f s) = f (load_peers s)"
    and usable_update: "usable (update_peers f s) = usable s"
    and load_unusable: "\<not> usable s \<Longrightarrow> load_peers (update_peers f s) = load_peers s"
begin

lemma load_updates:
  "usable s \<Longrightarrow> load_peers (fold update_peers fs s) = fold id fs (load_peers s)"
  by (induction fs arbitrary: s) (simp_all add: load_update usable_update)

lemma upsert_visible:
  "usable s \<Longrightarrow> map_of (load_peers (update_peers (hm_upsert k d f) s)) k =
     Some (f (case map_of (load_peers s) k of None \<Rightarrow> d | Some v \<Rightarrow> v))"
  by (simp add: load_update)

lemma upsert_other:
  "k' \<noteq> k \<Longrightarrow> map_of (load_peers (update_peers (hm_upsert k d f) s)) k' = map_of (load_peers s) k'"
  by (cases "usable s") (simp_all add: load_update load_unusable)

end

interpretation mem: peer_store store_load store_update "\<lambda>s. \<not> mps_poisoned s"
  by unfold_locales (simp_all add: store_load_def store_update_def)

lemma mps_poisoned_update [simp]: "mps_poisoned (store_update f s) = mps_poisoned s"
  by (simp add: store_update_def)

section \<open>Facts\<close>

lemma get_or_init_lookup [simp]: "map_of (get_or_init c) k = Option.bind c (\<lambda>m. map_of m k)"
  by (cases c) (simp_all add: get_or_init_def)

lemma get_known_public_key_insert [simp]:
  "get_known_public_key (insert_known_public_key i key g) j =
     (if j = i then Some key else get_known_public_key g j)"
  by (simp add: get_known_public_key_def insert_known_public_key_def)

lemma fold_insert_find:
  "map_of (fold (\<lambda>x. hm_insert (kf x) (vf x)) xs m) k =
     (case find (\<lambda>x. kf x = k) (rev xs) of Some x \<Rightarrow> Some (vf x) | None \<Rightarrow> map_of m k)"
proof (induction xs rule: rev_induct)
  case Nil
  then show ?case by simp
next
  case (snoc x xs)
  then show ?case by simp
qed

lemma fold_nested:
  "fold (\<lambda>n. fold (f n) (g n)) ns m = fold (\<lambda>(n, r). f n r) (concat (map (\<lambda>n. map (Pair n) (g n)) ns)) m"
  by (induction ns arbitrary: m) (simp_all add: fold_map comp_def)

lemma get_known_public_key_update:
  "get_known_public_key (update_known_public_keys nodes g) i =
     (case find (\<lambda>n. ni_id n = i) (rev nodes) of
        Some n \<Rightarrow> Some (ni_public_key n) | None \<Rightarrow> get_known_public_key g i)"
  by (simp add: get_known_public_key_def update_known_public_keys_def fold_insert_find
      split: option.split)

lemma non_empty_SomeD: "non_empty s = Some t \<Longrightarrow> t \<noteq> [] \<and> trim t = t \<and> t = trim s"
  by (auto simp: non_empty_def Let_def trim_idem split: if_splits)

lemma API_BASE_nonempty: "API_BASE d \<noteq> []"
  by (simp add: API_BASE_def)

lemma resource_id_base_None_iff: "resource_id_base t = None \<longleftrightarrow> t = SyncFolder"
  by (cases t) simp_all

section \<open>Properties\<close>

text \<open>After an announcement of nodes, looking up the key or the name of a node gives
  what the last announced node with that identifier carries, and for a node that was not
  announced whatever was known before; a resource name likewise, by node and resource.\<close>

theorem known_registry_lookup_after_update:
  "get_known_public_key (update_known_public_keys nodes g) i =
     (case find (\<lambda>n. ni_id n = i) (rev nodes) of
        Some n \<Rightarrow> Some (ni_public_key n) | None \<Rightarrow> get_known_public_key g i)
   \<and> get_known_peer_name (update_known_public_keys nodes g) i =
     (case find (\<lambda>n. ni_id n = i) (rev nodes) of
        Some n \<Rightarrow> Some (ni_name n) | None \<Rightarrow> get_known_peer_name g i)
   \<and> get_known_resource_name (update_known_public_keys nodes g) i r =
     (case find (\<lambda>(n, res). (ni_id n, res_id res) = (i, r))
             (rev (concat (map (\<lambda>n. map (Pair n) (ni_resources n)) nodes))) of
        Some (n, res) \<Rightarrow> Some (res_name res) | None \<Rightarrow> get_known_resource_name g i r)"
  by (simp add: get_known_public_key_def get_known_peer_name_def get_known_resource_name_def
      update_known_public_keys_def fold_insert_find fold_nested case_prod_unfold
      split: option.split)

text \<open>The server address in use is never empty: an explicit setting wins when it is not
  blank, a blank setting falls back to the environment, a blank environment to the built-in
  address; settings are taken without the blanks around them.\<close>

theorem api_base_precedence:
  "api_base d env (set_api_base url ep) =
     (if trim url \<noteq> [] then trim url
      else case env of Some v \<Rightarrow> if trim v \<noteq> [] then trim v else API_BASE d | None \<Rightarrow> API_BASE d)
   \<and> api_base d env (set_api_base url ep) \<noteq> []
   \<and> api_base d env (set_ws_base url ep) = api_base d env ep
   \<and> ws_base env adv (set_ws_base url ep) =
      (if trim url \<noteq> [] then trim url
       else case env of Some v \<Rightarrow> if trim v \<noteq> [] then trim v else adv | None \<Rightarrow> adv)"
  by (auto simp: api_base_def ws_base_def set_api_base_def set_ws_base_def non_empty_def Let_def
      API_BASE_def split: option.splits bind_splits)

text \<open>Two shared resources of different types never get the same base identifier, and
  the only type without one is the folder that is local to a node.\<close>

theorem resource_id_base_distinct:
  "(resource_id_base t = None \<longleftrightarrow> is_only_local t)
   \<and> (resource_id_base t = resource_id_base u \<longleftrightarrow> t = u)"
  by (cases t; cases u) simp_all

text \<open>Updates of a usable peer store are seen by the next load in the order they were
  made, and an entry that is written leaves every other one as it was, usable or not.\<close>

theorem peer_store_updates_visible:
  assumes "\<not> mps_poisoned s"
  shows "store_load (fold store_update fs s) = fold id fs (store_load s)
    \<and> map_of (store_load (store_update (hm_upsert k d f) s)) k =
        Some (f (case map_of (store_load s) k of None \<Rightarrow> d | Some v \<Rightarrow> v))
    \<and> (k' = k \<or> map_of (store_load (store_update (hm_upsert k d f) s)) k' = map_of (store_load s) k')"
  using mem.load_updates [OF assms] mem.upsert_visible [OF assms] mem.upsert_other by blast

theorem peer_store_updates_visible_witness:
  "map_of (store_load (store_update (hm_upsert ''n'' peer_config_default (pc_name_update (\<lambda>_. ''x'')))
     memory_peer_store_default)) ''n'' = Some (peer_config_default\<lparr>pc_name := ''x''\<rparr>)"
proof -
  have "\<not> mps_poisoned memory_peer_store_default" by (simp add: memory_peer_store_default_def)
  from peer_store_updates_visible [OF this, of "[]" "''n''" peer_config_default
      "pc_name_update (\<lambda>_. ''x'')" "''m''"]
  show ?thesis by (simp add: memory_peer_store_default_def store_load_def)
qed

end
