(* ===== verification/Rate_Limits.thy ===== *)
theory Rate_Limits
  imports P2p_Messages
begin

text \<open>
  \<open>client-core/src/limits.rs\<close>: the peer limit, the bandwidth limit with the depth of the
  outbound queue it implies, and the timeouts. The three static cells are one record.
  \<open>Ord::clamp\<close> panics when its bounds are out of order and array indexing when the index is
  out of range; both are \<open>None\<close>. Integers keep their width. The token bucket is in \<open>Token_Bucket\<close>.
\<close>

section \<open>Operations\<close>

definition MIN_KBPS :: u32 where "MIN_KBPS = 16"
definition QUEUE_SECONDS :: u64 where "QUEUE_SECONDS = 2"
definition DEFAULT_QUEUE_SLOTS :: u64 where "DEFAULT_QUEUE_SLOTS = 1024"
definition MIN_QUEUE_SLOTS :: u64 where "MIN_QUEUE_SLOTS = 8"

definition clamp_u64 :: "u64 \<Rightarrow> u64 \<Rightarrow> u64 \<Rightarrow> u64 option" where
  "clamp_u64 lo hi x =
     (if lo \<le> hi then Some (if x < lo then lo else if x > hi then hi else x) else None)"

definition saturating_mul :: "u64 \<Rightarrow> u64 \<Rightarrow> u64" where
  "saturating_mul a b = (if unat a * unat b < 2 ^ 64 then a * b else - 1)"

definition effective_kbps :: "u32 \<Rightarrow> u32" where
  "effective_kbps requested = (if requested = 0 then 0 else max requested MIN_KBPS)"

definition queue_slots_for :: "u32 \<Rightarrow> usize \<Rightarrow> usize option" where
  "queue_slots_for kbps item_bytes =
     (if kbps = 0 then Some DEFAULT_QUEUE_SLOTS
      else let per_second = (ucast kbps :: u64) * 1024;
               slots = saturating_mul per_second QUEUE_SECONDS div max item_bytes 1
           in clamp_u64 MIN_QUEUE_SLOTS DEFAULT_QUEUE_SLOTS slots)"

fun is_bulk_stream :: "p2p_message \<Rightarrow> bool" where
  "is_bulk_stream (FileChunk _ _ _) = True"
| "is_bulk_stream (HttpResponseChunk _ _ _) = True"
| "is_bulk_stream _ = False"

record timeouts =
  ping_interval_secs :: u64
  pong_timeout_ms :: u64
  ws_connect_secs :: u64
  dial_stuck_secs :: "u64 list" \<comment> \<open>an array of 6\<close>
  redial_backoff_secs :: "u64 list" \<comment> \<open>an array of 7\<close>
  ice_recovery_grace_secs :: u64
  ice_signaling_stable_secs :: u64
  ice_teardown_secs :: u64

definition timeouts_default :: timeouts where
  "timeouts_default =
     \<lparr>ping_interval_secs = 15, pong_timeout_ms = 45000, ws_connect_secs = 5,
      dial_stuck_secs = [3, 3, 5, 15, 30, 60],
      redial_backoff_secs = [0, 5, 10, 15, 30, 60, 120],
      ice_recovery_grace_secs = 3, ice_signaling_stable_secs = 5, ice_teardown_secs = 12\<rparr>"

text \<open>The loop over an array whose body may panic.\<close>

primrec map_opt :: "('a \<Rightarrow> 'b option) \<Rightarrow> 'a list \<Rightarrow> 'b list option" where
  "map_opt f [] = Some []"
| "map_opt f (x # xs) =
     Option.bind (f x) (\<lambda>y. Option.bind (map_opt f xs) (\<lambda>ys. Some (y # ys)))"

definition sanitised :: "timeouts \<Rightarrow> timeouts option" where
  "sanitised t =
     Option.bind (clamp_u64 1 3600 (ping_interval_secs t)) (\<lambda>ping.
     let floor_ms = saturating_mul ping 3000 in
     Option.bind (clamp_u64 floor_ms (24 * 3600 * 1000) (pong_timeout_ms t)) (\<lambda>pong.
     Option.bind (clamp_u64 1 3600 (ws_connect_secs t)) (\<lambda>ws.
     Option.bind (map_opt (clamp_u64 1 3600) (dial_stuck_secs t)) (\<lambda>stuck.
     let redial = map (\<lambda>v. min v 3600) (redial_backoff_secs t) in
     Option.bind (clamp_u64 1 600 (ice_recovery_grace_secs t)) (\<lambda>grace.
     Option.bind (clamp_u64 1 600 (ice_signaling_stable_secs t)) (\<lambda>stable.
     Option.bind (clamp_u64 1 3600 (ice_teardown_secs t)) (\<lambda>teardown.
       Some \<lparr>ping_interval_secs = ping, pong_timeout_ms = pong, ws_connect_secs = ws,
             dial_stuck_secs = stuck, redial_backoff_secs = redial,
             ice_recovery_grace_secs = grace, ice_signaling_stable_secs = stable,
             ice_teardown_secs = teardown\<rparr>)))))))"

definition index_array :: "'a list \<Rightarrow> nat \<Rightarrow> 'a option" where
  "index_array xs i = (if i < length xs then Some (xs ! i) else None)"

text \<open>Both return a \<open>Duration\<close>: a number of seconds.\<close>

definition redial_backoff :: "timeouts \<Rightarrow> nat \<Rightarrow> u64 option" where
  "redial_backoff t attempt =
     index_array (redial_backoff_secs t) (min attempt (length (redial_backoff_secs t) - 1))"

definition dial_stuck :: "timeouts \<Rightarrow> nat \<Rightarrow> u64 option" where
  "dial_stuck t attempt =
     index_array (dial_stuck_secs t) (min attempt (length (dial_stuck_secs t) - 1))"

record limits_state =
  MAX_PEERS :: u32
  BANDWIDTH_KBPS :: u32
  TIMEOUTS :: "timeouts option"

definition limits_init :: limits_state where
  "limits_init = \<lparr>MAX_PEERS = 0, BANDWIDTH_KBPS = 0, TIMEOUTS = None\<rparr>"

definition set_max_peers :: "u32 \<Rightarrow> limits_state \<Rightarrow> limits_state" where
  "set_max_peers n s = s\<lparr>MAX_PEERS := n\<rparr>"

definition max_peers :: "limits_state \<Rightarrow> u32" where
  "max_peers s = MAX_PEERS s"

definition set_bandwidth_limit_kbps :: "u32 \<Rightarrow> limits_state \<Rightarrow> limits_state" where
  "set_bandwidth_limit_kbps kbps s = s\<lparr>BANDWIDTH_KBPS := effective_kbps kbps\<rparr>"

definition bandwidth_limit_kbps :: "limits_state \<Rightarrow> u32" where
  "bandwidth_limit_kbps s = BANDWIDTH_KBPS s"

definition outbound_queue_slots :: "usize \<Rightarrow> limits_state \<Rightarrow> usize option" where
  "outbound_queue_slots item_bytes s = queue_slots_for (bandwidth_limit_kbps s) item_bytes"

text \<open>The cell holds the default until it is first written.\<close>

definition get_timeouts :: "limits_state \<Rightarrow> timeouts" where
  "get_timeouts s = (case TIMEOUTS s of None \<Rightarrow> timeouts_default | Some t \<Rightarrow> t)"

text \<open>\<open>sanitised\<close> runs before the assignment while the lock is held, so a panic there would
  leave the old value.\<close>

definition set_timeouts :: "timeouts \<Rightarrow> limits_state \<Rightarrow> limits_state" where
  "set_timeouts t s =
     s\<lparr>TIMEOUTS := Some (case sanitised t of Some t' \<Rightarrow> t' | None \<Rightarrow> get_timeouts s)\<rparr>"

text \<open>Every operation that changes the cells, as one step.\<close>

datatype limits_op = SetMaxPeers u32 | SetBandwidth u32 | SetTimeouts timeouts

fun limits_step :: "limits_op \<Rightarrow> limits_state \<Rightarrow> limits_state" where
  "limits_step (SetMaxPeers n) s = set_max_peers n s"
| "limits_step (SetBandwidth k) s = set_bandwidth_limit_kbps k s"
| "limits_step (SetTimeouts t) s = set_timeouts t s"

section \<open>The invariant\<close>

definition timeouts_ok :: "timeouts \<Rightarrow> bool" where
  "timeouts_ok t \<longleftrightarrow>
     1 \<le> ping_interval_secs t \<and> ping_interval_secs t \<le> 3600
     \<and> 3000 * unat (ping_interval_secs t) \<le> unat (pong_timeout_ms t)
     \<and> pong_timeout_ms t \<le> 86400000
     \<and> 1 \<le> ws_connect_secs t \<and> ws_connect_secs t \<le> 3600
     \<and> list_all (\<lambda>v. 1 \<le> v \<and> v \<le> 3600) (dial_stuck_secs t)
     \<and> list_all (\<lambda>v. v \<le> 3600) (redial_backoff_secs t)
     \<and> 1 \<le> ice_recovery_grace_secs t \<and> ice_recovery_grace_secs t \<le> 600
     \<and> 1 \<le> ice_signaling_stable_secs t \<and> ice_signaling_stable_secs t \<le> 600
     \<and> 1 \<le> ice_teardown_secs t \<and> ice_teardown_secs t \<le> 3600"

definition limits_ok :: "limits_state \<Rightarrow> bool" where
  "limits_ok s \<longleftrightarrow>
     (BANDWIDTH_KBPS s = 0 \<or> MIN_KBPS \<le> BANDWIDTH_KBPS s) \<and> timeouts_ok (get_timeouts s)"

section \<open>Facts\<close>

lemma clamp_u64_total: "lo \<le> hi \<Longrightarrow> \<exists>y. clamp_u64 lo hi x = Some y \<and> lo \<le> y \<and> y \<le> hi"
  by (auto simp: clamp_u64_def not_less)

lemma clamp_u64_fix: "lo \<le> x \<Longrightarrow> x \<le> hi \<Longrightarrow> clamp_u64 lo hi x = Some x"
  by (auto simp: clamp_u64_def)

lemma map_opt_total:
  "(\<And>x. \<exists>y. f x = Some y \<and> P y) \<Longrightarrow> \<exists>ys. map_opt f xs = Some ys \<and> list_all P ys \<and> length ys = length xs"
proof (induction xs)
  case Nil
  then show ?case by simp
next
  case (Cons x xs)
  then obtain y ys where "f x = Some y" "P y" "map_opt f xs = Some ys" "list_all P ys"
    "length ys = length xs" by metis
  then show ?case by simp
qed

lemma map_opt_id: "list_all (\<lambda>x. f x = Some x) xs \<Longrightarrow> map_opt f xs = Some xs"
  by (induction xs) simp_all

lemma ping_floor:
  fixes p :: u64
  assumes "p \<le> 3600"
  shows "unat (saturating_mul p 3000) = 3000 * unat p" "saturating_mul p 3000 \<le> 86400000"
proof -
  have "unat p \<le> 3600" using assms by (simp add: word_le_nat_alt)
  then have lt: "unat p * unat (3000 :: u64) < 2 ^ 64" by simp
  then have "unat (p * 3000) = unat p * unat (3000 :: u64)"
    using unat_mult_lem [of p "3000 :: u64"] by simp
  with lt show u: "unat (saturating_mul p 3000) = 3000 * unat p"
    by (simp add: saturating_mul_def)
  show "saturating_mul p 3000 \<le> 86400000"
    using \<open>unat p \<le> 3600\<close> by (simp add: word_le_nat_alt u)
qed

lemma sanitised_ok:
  "\<exists>t'. sanitised t = Some t' \<and> timeouts_ok t'
     \<and> length (dial_stuck_secs t') = length (dial_stuck_secs t)
     \<and> length (redial_backoff_secs t') = length (redial_backoff_secs t)"
proof -
  obtain ping where ping: "clamp_u64 1 3600 (ping_interval_secs t) = Some ping" "1 \<le> ping" "ping \<le> 3600"
    using clamp_u64_total [of 1 3600] by fastforce
  obtain pong where pong: "clamp_u64 (saturating_mul ping 3000) 86400000 (pong_timeout_ms t) = Some pong"
    "saturating_mul ping 3000 \<le> pong" "pong \<le> 86400000"
    using clamp_u64_total [OF ping_floor(2) [OF ping(3)]] by blast
  obtain ws where ws: "clamp_u64 1 3600 (ws_connect_secs t) = Some ws" "1 \<le> ws" "ws \<le> 3600"
    using clamp_u64_total [of 1 3600] by fastforce
  obtain st where st: "map_opt (clamp_u64 1 3600) (dial_stuck_secs t) = Some st"
    "list_all (\<lambda>v. 1 \<le> v \<and> v \<le> 3600) st" "length st = length (dial_stuck_secs t)"
    using map_opt_total [of "clamp_u64 1 3600" "\<lambda>v. 1 \<le> v \<and> v \<le> 3600" "dial_stuck_secs t"]
      clamp_u64_total [of 1 3600] by fastforce
  obtain gr where gr: "clamp_u64 1 600 (ice_recovery_grace_secs t) = Some gr" "1 \<le> gr" "gr \<le> 600"
    using clamp_u64_total [of 1 600] by fastforce
  obtain sb where sb: "clamp_u64 1 600 (ice_signaling_stable_secs t) = Some sb" "1 \<le> sb" "sb \<le> 600"
    using clamp_u64_total [of 1 600] by fastforce
  obtain td where td: "clamp_u64 1 3600 (ice_teardown_secs t) = Some td" "1 \<le> td" "td \<le> 3600"
    using clamp_u64_total [of 1 3600] by fastforce
  have "3000 * unat ping \<le> unat pong"
    using pong(2) by (simp add: word_le_nat_alt ping_floor(1) [OF ping(3)])
  then show ?thesis
    using ping pong ws st gr sb td
    by (simp add: sanitised_def Let_def timeouts_ok_def list_all_iff)
qed

lemma sanitised_fix: "timeouts_ok t \<Longrightarrow> sanitised t = Some t"
proof -
  assume ok: "timeouts_ok t"
  then have "saturating_mul (ping_interval_secs t) 3000 \<le> pong_timeout_ms t"
    by (simp add: timeouts_ok_def word_le_nat_alt ping_floor(1) [unfolded word_le_nat_alt])
  moreover have "map_opt (clamp_u64 1 3600) (dial_stuck_secs t) = Some (dial_stuck_secs t)"
    using ok by (intro map_opt_id) (auto simp: timeouts_ok_def list_all_iff clamp_u64_fix)
  moreover have "map (\<lambda>v. min v 3600) (redial_backoff_secs t) = redial_backoff_secs t"
    using ok by (auto simp: timeouts_ok_def list_all_iff intro: map_idI)
  ultimately show ?thesis
    using ok by (simp add: sanitised_def Let_def clamp_u64_fix timeouts_ok_def)
qed

lemma timeouts_default_ok: "timeouts_ok timeouts_default"
  by (simp add: timeouts_ok_def timeouts_default_def)

lemma queue_slots_nat:
  assumes "kbps \<noteq> 0"
  shows "map_option unat (queue_slots_for kbps item) =
    Some (clamp_nat 8 1024 (unat kbps * 2048 div max (unat item) 1))"
proof -
  let ?k = "(ucast kbps :: u64)"
  have k: "unat ?k = unat kbps" 
    using unat_u32_less [of kbps] by (simp add: unsigned_ucast_eq take_bit_nat_eq_self)
  have b: "unat kbps < 4294967296" by (rule unat_u32_less)
  have m1: "unat (?k * 1024) = unat kbps * 1024"
    using unat_mult_lem [of ?k 1024] k b by simp
  have "unat (saturating_mul (?k * 1024) 2) = unat kbps * 2048"
    using unat_mult_lem [of "?k * 1024" 2] m1 b by (simp add: saturating_mul_def)
  moreover have "unat (max item 1) = max (unat item) 1"
    by (auto simp: max_def word_le_nat_alt)
  ultimately have s: "unat (saturating_mul (?k * 1024) 2 div max item 1) = unat kbps * 2048 div max (unat item) 1"
    by (simp add: unat_div)
  show ?thesis
    using assms s
    by (simp add: queue_slots_for_def Let_def clamp_u64_def QUEUE_SECONDS_def MIN_QUEUE_SLOTS_def
        DEFAULT_QUEUE_SLOTS_def clamp_nat_def word_less_nat_alt)
qed

lemma effective_kbps_floor: "effective_kbps k = 0 \<or> MIN_KBPS \<le> effective_kbps k"
  by (auto simp: effective_kbps_def)

interpretation lim: stepped_invariant limits_step limits_ok
proof
  fix s e
  assume ok: "limits_ok s"
  show "limits_ok (limits_step e s)"
  proof (cases e)
    case (SetTimeouts t)
    with ok sanitised_ok [of t] show ?thesis
      by (auto simp: limits_ok_def get_timeouts_def set_timeouts_def)
  qed (use ok effective_kbps_floor in \<open>auto simp: limits_ok_def get_timeouts_def
      set_max_peers_def set_bandwidth_limit_kbps_def\<close>)
qed

section \<open>Properties\<close>

text \<open>C30: whatever is configured, in whatever order, the limits in force are usable: the
  bandwidth is unlimited or at least the floor, every timeout lies in its range, and a peer is
  given at least three ping intervals to answer before it is declared dead. Clamping never
  panics, and values already in range are left alone.\<close>

theorem limits_always_usable:
  "limits_ok (fold limits_step ops limits_init)
   \<and> (\<exists>t'. sanitised t = Some t' \<and> timeouts_ok t' \<and> sanitised t' = Some t')"
proof
  have "limits_ok limits_init"
    by (simp add: limits_ok_def limits_init_def get_timeouts_def timeouts_default_ok)
  then show "limits_ok (fold limits_step ops limits_init)" by (rule lim.run_inv)
  show "\<exists>t'. sanitised t = Some t' \<and> timeouts_ok t' \<and> sanitised t' = Some t'"
    using sanitised_ok sanitised_fix by blast
qed

text \<open>The outbound queue has between 8 and 1024 slots, and between those bounds it
  holds what the link carries in two seconds: one item fewer fits, one more does not.\<close>

theorem queue_slots_two_seconds:
  "\<exists>n. queue_slots_for kbps item = Some n \<and> 8 \<le> unat n \<and> unat n \<le> 1024
    \<and> (kbps = 0 \<longrightarrow> unat n = 1024)
    \<and> (kbps \<noteq> 0 \<and> 8 < unat n \<and> unat n < 1024 \<longrightarrow>
         unat n * max (unat item) 1 \<le> unat kbps * 2048
         \<and> unat kbps * 2048 < (unat n + 1) * max (unat item) 1)"
proof (cases "kbps = 0")
  case True
  then show ?thesis by (simp add: queue_slots_for_def DEFAULT_QUEUE_SLOTS_def)
next
  case False
  let ?i = "max (unat item) 1" and ?q = "unat kbps * 2048"
  from queue_slots_nat [OF False, of item] obtain n where
    n: "queue_slots_for kbps item = Some n" "unat n = clamp_nat 8 1024 (?q div ?i)"
    by auto
  moreover have "?q div ?i * ?i \<le> ?q" "?q < (?q div ?i + 1) * ?i"
    by (simp_all add: div_times_less_eq_dividend dividend_less_div_times)
  ultimately show ?thesis
    using False clamp_nat_bounds [of 8 1024] by (auto simp: clamp_nat_def split: if_splits)
qed

theorem queue_slots_two_seconds_witness:
  "\<exists>n. queue_slots_for 1024 16384 = Some n \<and> unat n = 128
    \<and> unat n * 16384 \<le> 1024 * 2048 \<and> 1024 * 2048 < (unat n + 1) * 16384"
proof -
  from queue_slots_two_seconds [of 1024 16384] obtain n where
    n: "queue_slots_for 1024 16384 = Some n"
       "8 < unat n \<and> unat n < 1024 \<longrightarrow>
          unat n * 16384 \<le> 1024 * 2048 \<and> 1024 * 2048 < (unat n + 1) * 16384"
    by auto
  moreover from queue_slots_nat [of 1024 16384] n(1) have "unat n = 128"
    by (simp add: clamp_nat_def)
  ultimately show ?thesis by simp
qed

text \<open>The wait before a redial and the time after which a dial counts as stuck are
  defined for every attempt number, however large: the table of the timeouts in force is never
  indexed out of range and no wait exceeds an hour.\<close>

theorem backoff_total:
  assumes "length (redial_backoff_secs t) = 7" "length (dial_stuck_secs t) = 6"
    and "sanitised t = Some t'"
  shows "\<exists>w d. redial_backoff t' attempt = Some w \<and> w \<le> 3600
    \<and> dial_stuck t' attempt = Some d \<and> 1 \<le> d \<and> d \<le> 3600
    \<and> (6 \<le> attempt \<longrightarrow> w = redial_backoff_secs t' ! 6 \<and> d = dial_stuck_secs t' ! 5)"
proof -
  obtain ok: "timeouts_ok t'" and l: "length (redial_backoff_secs t') = 7" "length (dial_stuck_secs t') = 6"
    using sanitised_ok [of t] assms by auto
  have "min attempt 6 < length (redial_backoff_secs t')" "min attempt 5 < length (dial_stuck_secs t')"
    using l by simp_all
  then show ?thesis
    using ok l by (auto simp: redial_backoff_def dial_stuck_def index_array_def timeouts_ok_def
        list_all_length min_def)
qed

theorem backoff_total_witness:
  "\<exists>w d. redial_backoff timeouts_default 9 = Some w \<and> w \<le> 3600 \<and> dial_stuck timeouts_default 9 = Some d"
  using backoff_total [of timeouts_default timeouts_default 9] sanitised_fix [OF timeouts_default_ok]
  by (simp add: timeouts_default_def)

end
