(* ===== verification/Chunking.thy ===== *)
theory Chunking
  imports P2P_Prelude
begin

text \<open>
  \<open>client-core/src/rtc/chunking.rs\<close>: messages are cut into length-prefixed frames for a data
  channel and put together again on the other side. Lengths are \<open>usize\<close> values of vectors in
  memory and are natural numbers; the cast of a chunk size to \<open>u16\<close> in the frame header
  truncates, as in the code.
\<close>

section \<open>Operations\<close>

definition DEFAULT_MAX_CHUNK_PAYLOAD :: nat where
  "DEFAULT_MAX_CHUNK_PAYLOAD = 10240"

function frame_loop :: "nat \<Rightarrow> bytes \<Rightarrow> nat \<Rightarrow> bytes list" where
  "frame_loop max_chunk_payload data offset =
     (let max_len = max max_chunk_payload 1; full_len = length data
      in if offset < full_len
         then let chunk_size = min max_len (full_len - offset);
                  chunk = take chunk_size (drop offset data)
              in (u16_to_be_bytes (word_of_nat chunk_size) @ chunk)
                 # frame_loop max_chunk_payload data (offset + chunk_size)
         else [])"
  by pat_completeness auto
termination
  by (relation "measure (\<lambda>(m, data, offset). length data - offset)") auto

declare frame_loop.simps [simp del]

definition frame_chunks :: "bytes \<Rightarrow> nat \<Rightarrow> bytes list" where
  "frame_chunks data max_chunk_payload =
     frame_loop max_chunk_payload data 0
     @ (if length data mod max max_chunk_payload 1 = 0 then [[0, 0]] else [])"

definition is_terminator :: "bytes \<Rightarrow> bool" where
  "is_terminator frame \<longleftrightarrow> length frame = 2 \<and> frame ! 0 = 0 \<and> frame ! 1 = 0"

datatype chunk_outcome =
    Incomplete
  | Complete bytes
  | Ignored
  | TooSmall nat
  | LengthMismatch nat nat \<comment> \<open>declared, available\<close>

record chunk_assembler =
  buf :: bytes

definition assembler_new :: chunk_assembler where
  "assembler_new = \<lparr>buf = []\<rparr>"

definition buffered_len :: "chunk_assembler \<Rightarrow> nat" where
  "buffered_len a = length (buf a)"

definition push :: "chunk_assembler \<Rightarrow> bytes \<Rightarrow> nat \<Rightarrow> chunk_outcome \<times> chunk_assembler" where
  "push a data max_chunk_payload =
     (if data = [] then (Ignored, a)
      else if length data < 2 then (TooSmall (length data), a)
      else let chunk_len = unat (u16_from_be_bytes (data ! 0) (data ! 1))
      in if chunk_len = 0
         then (if buf a = [] then (Ignored, a) else (Complete (buf a), a\<lparr>buf := []\<rparr>))
         else if 2 + chunk_len > length data
         then (LengthMismatch chunk_len (length data - 2), a\<lparr>buf := []\<rparr>)
         else let a' = a\<lparr>buf := buf a @ take chunk_len (drop 2 data)\<rparr>;
                  max_c = (if max_chunk_payload = 0 then DEFAULT_MAX_CHUNK_PAYLOAD
                           else max_chunk_payload)
              in if chunk_len < max_c then (Complete (buf a'), a'\<lparr>buf := []\<rparr>)
                 else (Incomplete, a'))"

text \<open>The receive callback: frames arrive one by one, each with the chunk size in force then,
  and completed messages are handed on.\<close>

primrec assemble :: "(nat \<times> bytes) list \<Rightarrow> chunk_assembler \<Rightarrow> bytes list \<times> chunk_assembler" where
  "assemble [] a = ([], a)"
| "assemble (f # fs) a =
     (case push a (snd f) (fst f) of
        (Complete m, a') \<Rightarrow> (let (ms, a'') = assemble fs a' in (m # ms, a''))
      | (_, a') \<Rightarrow> assemble fs a')"

section \<open>The framing interface\<close>

text \<open>
  What a sender and a receiver of framed messages rely on: an idle receiver that is fed the
  frames of one message delivers its body and is idle again.
\<close>

locale message_framing =
  fixes frames :: "'m \<Rightarrow> 'f list"
    and body :: "'m \<Rightarrow> 'b"
    and deliver :: "'f list \<Rightarrow> 's \<Rightarrow> 'b list \<times> 's"
    and idle :: 's
    and sendable :: "'m \<Rightarrow> bool"
  assumes deliver_Nil: "deliver [] s = ([], s)"
    and deliver_append:
      "deliver (xs @ ys) s =
        (fst (deliver xs s) @ fst (deliver ys (snd (deliver xs s))), snd (deliver ys (snd (deliver xs s))))"
    and deliver_frames: "sendable m \<Longrightarrow> deliver (frames m) idle = ([body m], idle)"
begin

lemma deliver_stream:
  "list_all sendable ms \<Longrightarrow> deliver (concat (map frames ms)) idle = (map body ms, idle)"
  by (induction ms) (simp_all add: deliver_Nil deliver_append deliver_frames)

lemma deliver_no_reordering:
  assumes "list_all sendable ms" "concat (map frames ms) = xs @ ys"
  shows "\<exists>rest. map body ms = fst (deliver xs idle) @ rest"
  using deliver_stream [OF assms(1)] by (simp add: assms(2) deliver_append) metis

lemma frames_injective:
  assumes "sendable m" "sendable n" "frames m = frames n"
  shows "body m = body n"
  using deliver_frames [OF assms(1)] deliver_frames [OF assms(2)] by (simp add: assms(3))

end

section \<open>Facts\<close>

lemma frame_loop_step:
  assumes "offset < length data" "1 \<le> m"
  shows "frame_loop m data offset =
    (u16_to_be_bytes (word_of_nat (min m (length data - offset))) @ take m (drop offset data))
    # frame_loop m data (offset + min m (length data - offset))"
proof -
  have "max m 1 = m" using assms(2) by simp
  moreover have "take (min m (length data - offset)) (drop offset data) = take m (drop offset data)"
    by (metis length_drop min.commute take_all_iff take_take nat_le_linear min_def)
  ultimately show ?thesis
    using assms by (subst frame_loop.simps) (simp add: Let_def)
qed

lemma frame_loop_end: "length data \<le> offset \<Longrightarrow> frame_loop m data offset = []"
  by (subst frame_loop.simps) simp

lemma u16_header:
  "u16_from_be_bytes ((u16_to_be_bytes w @ c) ! 0) ((u16_to_be_bytes w @ c) ! Suc 0) = w"
  using u16_be_roundtrip [of w] by (simp add: u16_to_be_bytes_def)

lemma drop_header [simp]: "drop 2 (u16_to_be_bytes w @ c) = c"
  by (simp add: drop_append)

lemma u16_to_be_bytes_nonempty [simp]: "u16_to_be_bytes w \<noteq> []"
  by (simp add: u16_to_be_bytes_def)

text \<open>One well-formed frame.\<close>

lemma push_frame:
  assumes "length c = n" "1 \<le> n" "n \<le> 65535" "1 \<le> m"
  shows "push a (u16_to_be_bytes (word_of_nat n) @ c) m =
    (if n < m then (Complete (buf a @ c), a\<lparr>buf := []\<rparr>) else (Incomplete, a\<lparr>buf := buf a @ c\<rparr>))"
proof -
  have "unat (word_of_nat n :: u16) = n" using assms by (simp add: unat_of_nat_u16)
  with assms show ?thesis
    by (simp add: push_def Let_def u16_header)
qed

lemma push_terminator:
  "push a [0, 0] m = (if buf a = [] then (Ignored, a) else (Complete (buf a), a\<lparr>buf := []\<rparr>))"
  by (simp add: push_def Let_def u16_from_be_bytes_def)

lemma assemble_append:
  "assemble (xs @ ys) a =
    (fst (assemble xs a) @ fst (assemble ys (snd (assemble xs a))), snd (assemble ys (snd (assemble xs a))))"
proof (induction xs arbitrary: a)
  case Nil
  then show ?case by simp
next
  case (Cons f fs)
  obtain o1 a' where p: "push a (snd f) (fst f) = (o1, a')" by (cases "push a (snd f) (fst f)")
  then show ?case using Cons.IH [of a'] by (cases o1) (simp_all add: case_prod_unfold Let_def)
qed

definition end_frames :: "nat \<Rightarrow> bytes \<Rightarrow> bytes list" where
  "end_frames m data = (if length data mod m = 0 then [[0, 0]] else [])"

lemma assemble_loop:
  assumes "1 \<le> m" "m \<le> 65535" "data \<noteq> []" "m dvd off" "off \<le> length data"
  shows "assemble (map (Pair m) (frame_loop m data off @ end_frames m data)) \<lparr>buf = take off data\<rparr>
    = ([data], \<lparr>buf = []\<rparr>)"
  using assms(4,5)
proof (induction "length data - off" arbitrary: off rule: less_induct)
  case less
  let ?r = "length data - off"
  consider (atend) "off = length data" | (last) "0 < ?r" "?r < m" | (full) "0 < ?r" "m \<le> ?r"
    using less.prems(2) by linarith
  then show ?case
  proof cases
    case atend
    with less.prems(1) have "length data mod m = 0" by auto
    with atend assms(3) show ?thesis by (simp add: frame_loop_end end_frames_def push_terminator)
  next
    case last
    obtain k where "off = m * k" using less.prems(1) by blast
    with last have "length data = ?r + k * m" by simp
    then have "length data mod m = ?r" using last(2) by (metis mod_less mod_mult_self1)
    then have "end_frames m data = []" using last by (simp add: end_frames_def)
    moreover have "frame_loop m data off = [u16_to_be_bytes (word_of_nat ?r) @ drop off data]"
      using last assms(1) by (simp add: frame_loop_step frame_loop_end del: of_nat_diff)
    moreover have "push \<lparr>buf = take off data\<rparr> (u16_to_be_bytes (word_of_nat ?r) @ drop off data) m
        = (Complete data, \<lparr>buf = []\<rparr>)"
      using last assms(1,2) push_frame [of "drop off data" ?r m "\<lparr>buf = take off data\<rparr>"] by simp
    ultimately show ?thesis by (simp del: of_nat_diff)
  next
    case full
    then have f: "frame_loop m data off =
        (u16_to_be_bytes (word_of_nat m) @ take m (drop off data)) # frame_loop m data (off + m)"
      using assms(1) by (simp add: frame_loop_step min_absorb1)
    have "take off data @ take m (drop off data) = take (off + m) data" by (simp add: take_add)
    moreover have "assemble (map (Pair m) (frame_loop m data (off + m) @ end_frames m data))
        \<lparr>buf = take (off + m) data\<rparr> = ([data], \<lparr>buf = []\<rparr>)"
      using less.prems full assms(1) by (intro less.hyps) simp_all
    ultimately show ?thesis using full assms(1,2) by (simp add: f push_frame)
  qed
qed

lemma frame_chunks_alt: "1 \<le> m \<Longrightarrow> frame_chunks data m = frame_loop m data 0 @ end_frames m data"
proof -
  assume "1 \<le> m"
  then have "max m 1 = m" by simp
  then show ?thesis by (simp add: frame_chunks_def end_frames_def)
qed

definition sendable_chunked :: "nat \<times> bytes \<Rightarrow> bool" where
  "sendable_chunked p \<longleftrightarrow> 1 \<le> fst p \<and> fst p \<le> 65535 \<and> snd p \<noteq> []"

lemma sendable_list:
  "list_all sendable_chunked msgs \<longleftrightarrow>
     list_all (\<lambda>p. 1 \<le> fst p \<and> fst p \<le> 65535 \<and> snd p \<noteq> []) msgs"
  by (simp add: sendable_chunked_def list_all_iff)

interpretation chunks: message_framing
  "\<lambda>p. map (Pair (fst p)) (frame_chunks (snd p) (fst p))" snd assemble assembler_new sendable_chunked
proof unfold_locales
  fix p :: "nat \<times> bytes"
  assume "sendable_chunked p"
  then show "assemble (map (Pair (fst p)) (frame_chunks (snd p) (fst p))) assembler_new
      = ([snd p], assembler_new)"
    using assemble_loop [of "fst p" "snd p" 0]
    by (simp add: sendable_chunked_def frame_chunks_alt assembler_new_def)
qed (simp, rule assemble_append)

lemma frame_loop_count:
  assumes "1 \<le> m" "off \<le> length data"
  shows "length (frame_loop m data off) = (length data - off + m - 1) div m"
  using assms(2)
proof (induction "length data - off" arbitrary: off rule: less_induct)
  case less
  let ?r = "length data - off"
  show ?case
  proof (cases "?r = 0")
    case True
    with assms(1) show ?thesis by (simp add: frame_loop_end)
  next
    case False
    then have step: "length (frame_loop m data off) = Suc ((?r - min m ?r + m - 1) div m)"
      using less.hyps [of "off + min m ?r"] assms(1) less.prems
      by (simp add: frame_loop_step diff_diff_eq)
    have "?r + m - 1 = ?r - 1 + m" using False by simp
    then have e: "(?r + m - 1) div m = Suc ((?r - 1) div m)"
      using assms(1) div_add_self2 [of m "?r - 1"] by (simp only:)
    show ?thesis
    proof (cases "?r < m")
      case True
      with False assms(1) show ?thesis by (simp only: step e) simp
    next
      case nl: False
      then have "?r - min m ?r + m - 1 = ?r - 1" using False assms(1) by simp
      then show ?thesis by (simp only: step e)
    qed
  qed
qed

lemma frame_loop_sizes:
  "1 \<le> m \<Longrightarrow> f \<in> set (frame_loop m data off) \<Longrightarrow> length f \<le> 2 + m"
proof (induction "length data - off" arbitrary: off rule: less_induct)
  case less
  then have "off < length data" by (metis frame_loop_end empty_iff list.set(1) not_less)
  then consider "f = u16_to_be_bytes (word_of_nat (min m (length data - off))) @ take m (drop off data)"
    | "f \<in> set (frame_loop m data (off + min m (length data - off)))"
    using less.prems frame_loop_step [of off data m] by auto
  then show ?case
    using \<open>off < length data\<close> less.prems(1) less.hyps [of "off + min m (length data - off)"]
    by cases auto
qed

section \<open>Properties\<close>

text \<open>C3: any sequence of non-empty messages, each framed with a chunk size the receiver
  also uses and that fits the sixteen-bit header, is delivered exactly, in order, and leaves
  the assembler empty.\<close>

theorem chunked_stream_roundtrip:
  assumes "list_all (\<lambda>(m, data). 1 \<le> m \<and> m \<le> 65535 \<and> data \<noteq> []) msgs"
  shows "assemble (concat (map (\<lambda>(m, data). map (Pair m) (frame_chunks data m)) msgs)) assembler_new
    = (map snd msgs, assembler_new)"
  using chunks.deliver_stream [of msgs] assms
  by (simp add: sendable_list case_prod_unfold)

theorem chunked_stream_roundtrip_witness:
  "assemble (concat (map (\<lambda>(m, data). map (Pair m) (frame_chunks data m)) [(2, [1, 2, 3, 4]), (3, [9])]))
     assembler_new = ([[1, 2, 3, 4], [9]], assembler_new)"
  using chunked_stream_roundtrip [of "[(2, [1, 2, 3, 4]), (3, [9])]"] by simp

text \<open>What has been delivered at any moment is a prefix of what was sent.\<close>

theorem chunked_prefix_delivery:
  assumes "list_all (\<lambda>(m, data). 1 \<le> m \<and> m \<le> 65535 \<and> data \<noteq> []) msgs"
    and "concat (map (\<lambda>(m, data). map (Pair m) (frame_chunks data m)) msgs) = arrived @ pending"
  shows "\<exists>rest. map snd msgs = fst (assemble arrived assembler_new) @ rest"
  using chunks.deliver_no_reordering [of msgs arrived pending] assms
  by (simp add: sendable_list case_prod_unfold)

theorem chunked_prefix_delivery_witness:
  "\<exists>rest. [[1, 2, 3 :: u8]] = fst (assemble [(2, [0, 2, 1, 2])] assembler_new) @ rest"
proof -
  have "concat (map (\<lambda>(m, data). map (Pair m) (frame_chunks data m)) [(2, [1, 2, 3 :: u8])])
      = [(2, [0, 2, 1, 2])] @ [(2, [0, 1, 3])]"
    by code_simp
  from chunked_prefix_delivery [OF _ this] show ?thesis by simp
qed

text \<open>A message of n bytes is cut into n div m + 1 frames of at most m + 2 bytes,
  the terminator included.\<close>

theorem frame_chunks_count_and_size:
  assumes "1 \<le> m"
  shows "length (frame_chunks data m) = length data div m + 1
    \<and> list_all (\<lambda>f. length f \<le> m + 2) (frame_chunks data m)"
proof -
  let ?n = "length data"
  have "length (frame_loop m data 0) = (?n + m - 1) div m"
    using frame_loop_count [OF assms, of 0 data] by simp
  also have "\<dots> = (if ?n mod m = 0 then ?n div m else ?n div m + 1)"
  proof -
    define q r where "q = ?n div m" and "r = ?n mod m"
    have n: "?n = q * m + r" and r: "r < m" using assms by (simp_all add: q_def r_def)
    define s where "s = r + m - 1"
    have "?n + m - 1 = q * m + s" using n assms by (simp add: s_def)
    then have "(?n + m - 1) div m = q + s div m" using assms by simp
    moreover have "s div m = (if r = 0 then 0 else 1)"
      using r assms by (auto simp: s_def div_nat_eqI)
    ultimately show ?thesis by (simp add: q_def [symmetric] r_def [symmetric])
  qed
  finally show ?thesis
    using assms frame_loop_sizes [OF assms]
    by (auto simp: frame_chunks_alt end_frames_def list_all_iff add.commute)
qed

theorem frame_chunks_count_and_size_witness:
  "length (frame_chunks (replicate 200 (7 :: u8)) 100) = 3"
  using frame_chunks_count_and_size [of 100 "replicate 200 7"] by simp

text \<open>The header holds sixteen bits, so a chunk size above 65535 loses data: a message
  of 65536 bytes is sent as a frame that declares length zero, and nothing is delivered.\<close>

theorem oversized_chunk_is_lost:
  assumes "65536 \<le> m" "length data = 65536"
  shows "assemble (map (Pair m) (frame_chunks data m)) assembler_new = ([], assembler_new)"
proof -
  have h: "u16_to_be_bytes 65536 = [0, 0]"
    by code_simp
  have "frame_loop m data 0 = [[0, 0] @ data]"
    using assms by (simp add: frame_loop_step frame_loop_end min_absorb2 h)
  moreover have "push assembler_new ([0, 0] @ data) m = (Ignored, assembler_new)"
    by (simp add: push_def Let_def u16_from_be_bytes_def assembler_new_def)
  moreover have "push assembler_new [0, 0] m = (Ignored, assembler_new)"
    by (simp add: push_terminator assembler_new_def)
  ultimately show ?thesis using assms by (simp add: frame_chunks_alt end_frames_def)
qed

theorem oversized_chunk_is_lost_witness:
  "assemble (map (Pair 65536) (frame_chunks (replicate 65536 (1 :: u8)) 65536)) assembler_new
     = ([], assembler_new)"
  by (rule oversized_chunk_is_lost) (simp_all only: length_replicate order_refl)

text \<open>Two messages whose frames interleave are merged: after the first full frame of a
  long message, a short one completes it, so senders have to write a message's frames
  without interruption.\<close>

theorem interleaved_writers_corrupt:
  assumes "m < length a" "m \<le> 65535" "b \<noteq> []" "length b < m"
  shows "fst (assemble [(m, hd (frame_chunks a m)), (m, hd (frame_chunks b m))] assembler_new)
    = [take m a @ b]"
proof -
  from assms have m: "1 \<le> m" "a \<noteq> []" by (cases b; auto)+
  have "hd (frame_chunks a m) = u16_to_be_bytes (word_of_nat m) @ take m a"
    using assms m by (simp add: frame_chunks_alt frame_loop_step min_absorb1)
  moreover have "hd (frame_chunks b m) = u16_to_be_bytes (word_of_nat (length b)) @ b"
    using assms m by (simp add: frame_chunks_alt frame_loop_step min_absorb2)
  moreover have "1 \<le> length b" using assms(3) by (cases b) simp_all
  ultimately show ?thesis using assms m by (simp add: push_frame assembler_new_def)
qed

theorem interleaved_writers_corrupt_witness:
  "fst (assemble [(2, hd (frame_chunks [1, 2, 3] 2)), (2, hd (frame_chunks [9] 2))] assembler_new)
    = [[1, 2, 9]]"
  using interleaved_writers_corrupt [of 2 "[1, 2, 3]" "[9]"] by simp

text \<open>The two sides read a chunk size of zero differently: the sender takes it as one,
  the receiver as the default, so a message comes out cut into single bytes.\<close>

theorem zero_chunk_size_splits:
  "fst (assemble (map (Pair 0) (frame_chunks [x, y] 0)) assembler_new) = [[x], [y]]"
proof -
  have "frame_chunks [x, y] 0 = [[0, 1, x], [0, 1, y], [0, 0]]"
    by (simp add: frame_chunks_def frame_loop.simps u16_to_be_bytes_def Let_def)
  then show ?thesis
    by (simp add: push_def Let_def u16_from_be_bytes_def assembler_new_def
        DEFAULT_MAX_CHUNK_PAYLOAD_def)
qed

end
