(* ===== verification/Local_Mesh.thy ===== *)
theory Local_Mesh
  imports P2p_Messages P2p_Registry Api_Crypto
begin

text \<open>
  \<open>p2p-node/src/local_mesh.rs\<close>: signalling tunnels between nodes of one local network. The
  static cells of the module and the tables it reads are one record, \<open>mesh_state\<close>; a TCP stream
  is the bytes still to come from the peer, the bytes written so far and how many more packet
  writes succeed. The Noise handshake (crate \<open>snow\<close>), JSON (\<open>serde_json\<close>) and the operating
  system's sockets are parameters; the clock and fresh connection ids are arguments. The sending
  half of a tunnel's channel is identified by its connection id, as both are made together, and
  what is sent on it is recorded in order; waiting for a full channel is not modelled.
\<close>

section \<open>Packets\<close>

datatype io_error = UnexpectedEof | InvalidData string

definition MAX_PACKET :: nat where
  "MAX_PACKET = 10 * 1024 * 1024"

text \<open>What is read from a stream that ends after the given bytes, with the bytes left over.\<close>

definition read_packet :: "bytes \<Rightarrow> io_error + (bytes \<times> bytes)" where
  "read_packet input =
     (case input of
        b0 # b1 # b2 # b3 # rest \<Rightarrow>
          (let len = unat (u32_from_be_bytes b0 b1 b2 b3)
           in if len > MAX_PACKET then Inl (InvalidData ''Packet too large'')
              else if length rest < len then Inl UnexpectedEof
              else Inr (take len rest, drop len rest))
      | _ \<Rightarrow> Inl UnexpectedEof)"

definition write_packet :: "bytes \<Rightarrow> bytes" where
  "write_packet data = u32_to_be_bytes (word_of_nat (length data)) @ data"

section \<open>Parameters\<close>

record ('n, 't) mesh_prims =
  crypto :: crypto_prims
  noise_responder :: "bytes \<Rightarrow> 'n result"
  noise_initiator :: "bytes \<Rightarrow> 'n result"
  noise_read :: "'n \<Rightarrow> bytes \<Rightarrow> 'n result" \<comment> \<open>the payload of a handshake message is not used\<close>
  noise_write :: "'n \<Rightarrow> (bytes \<times> 'n) result" \<comment> \<open>with an empty payload\<close>
  noise_transport :: "'n \<Rightarrow> 't result"
  transport_read :: "'t \<Rightarrow> bytes \<Rightarrow> (bytes \<times> 't) result"
  transport_write :: "'t \<Rightarrow> bytes \<Rightarrow> (bytes \<times> 't) result"
  json_to_vec :: "secured_p2p_envelope \<Rightarrow> bytes result"
  json_from_slice :: "bytes \<Rightarrow> secured_p2p_envelope result"

record tcp_stream =
  tcp_in :: bytes
  tcp_out :: bytes
  tcp_writes :: nat

fun io_error_string :: "io_error \<Rightarrow> string" where
  "io_error_string UnexpectedEof = ''early eof''"
| "io_error_string (InvalidData s) = s"

definition stream_read :: "tcp_stream \<Rightarrow> (bytes \<times> tcp_stream) result" where
  "stream_read st =
     (case read_packet (tcp_in st) of
        Inl e \<Rightarrow> Inl (io_error_string e)
      | Inr (pkt, rest) \<Rightarrow> Inr (pkt, st\<lparr>tcp_in := rest\<rparr>))"

definition stream_write :: "tcp_stream \<Rightarrow> bytes \<Rightarrow> tcp_stream result" where
  "stream_write st data =
     (case tcp_writes st of
        0 \<Rightarrow> Inl ''connection reset''
      | Suc n \<Rightarrow> Inr (st\<lparr>tcp_out := tcp_out st @ write_packet data, tcp_writes := n\<rparr>))"

section \<open>State\<close>

record tunnel_session =
  ts_connection_id :: uuid

datatype local_mesh_signal =
    InboundRtcSignal string string string "string option" "u16 option"
      \<comment> \<open>from_node_id, signal_type, sdp_or_candidate, sdp_mid, sdp_mline_index\<close>
  | PeerDiscovered node_info
  | TunnelEstablished string

record mesh_state =
  LOCAL_TCP_PORT :: u16
  server_running :: bool \<comment> \<open>the accept loop has been spawned\<close>
  ACTIVE_TCP_TUNNELS :: "(string, tunnel_session) hmap"
  tunnel_sent :: "(uuid \<times> p2p_message) list" \<comment> \<open>what was sent on each tunnel's channel\<close>
  SIGNAL_TX :: bool \<comment> \<open>whether the cell has been set\<close>
  mesh_signals :: "local_mesh_signal list" \<comment> \<open>what was sent on \<open>SIGNAL_TX\<close>\<close>
  mesh_known :: known_registry
  mesh_store :: memory_peer_store

definition tunnel_send :: "tunnel_session \<Rightarrow> p2p_message \<Rightarrow> mesh_state \<Rightarrow> mesh_state" where
  "tunnel_send ts msg m = m\<lparr>tunnel_sent := tunnel_sent m @ [(ts_connection_id ts, msg)]\<rparr>"

definition signal_send :: "local_mesh_signal \<Rightarrow> mesh_state \<Rightarrow> mesh_state" where
  "signal_send sig m = (if SIGNAL_TX m then m\<lparr>mesh_signals := mesh_signals m @ [sig]\<rparr> else m)"

section \<open>The server\<close>

definition get_noise_private_key :: "crypto_prims \<Rightarrow> string \<Rightarrow> bytes result" where
  "get_noise_private_key C priv_b64 =
     bind_result (b64_decode C priv_b64) (\<lambda>decoded.
       if length decoded \<noteq> 32 then Inl ''Invalid private key size''
       else Inr (sha256 C decoded))"

text \<open>What the operating system answers: creating the socket, binding it to port 8308,
  listening, and the port of the listener's address.\<close>

record os_socket =
  os_new :: "unit result"
  os_bind :: "unit result"
  os_listen :: "unit result"
  os_port :: "u16 result"

definition start_tcp_signaling_server ::
  "crypto_prims \<Rightarrow> os_socket \<Rightarrow> string \<Rightarrow> mesh_state \<Rightarrow> u16 result \<times> mesh_state" where
  "start_tcp_signaling_server C os private_key_b64 m =
     (if LOCAL_TCP_PORT m > 0 then (Inr (LOCAL_TCP_PORT m), m)
      else case os_new os of Inl e \<Rightarrow> (Inl e, m) | Inr _ \<Rightarrow>
      (case os_bind os of Inl e \<Rightarrow> (Inl (''failed to bind to port 8308: '' @ e), m) | Inr _ \<Rightarrow>
      (case os_listen os of Inl e \<Rightarrow> (Inl (''failed to listen on port 8308: '' @ e), m) | Inr _ \<Rightarrow>
      (case os_port os of Inl e \<Rightarrow> (Inl e, m) | Inr port \<Rightarrow>
       (let m = m\<lparr>LOCAL_TCP_PORT := port\<rparr>
        in case get_noise_private_key C private_key_b64 of
             Inl e \<Rightarrow> (Inl e, m)
           | Inr priv_key_noise \<Rightarrow> (Inr port, m\<lparr>server_running := True\<rparr>))))))"

section \<open>Setting tunnels up\<close>

definition ctx_err :: "string \<Rightarrow> 'a result \<Rightarrow> 'a result" where
  "ctx_err prefix r = map_err (\<lambda>e. prefix @ e) r"

definition responder_noise ::
  "('n, 't) mesh_prims \<Rightarrow> bytes \<Rightarrow> tcp_stream \<Rightarrow> ('t \<times> tcp_stream) result" where
  "responder_noise N priv_key_noise st =
     bind_result (noise_responder N priv_key_noise) (\<lambda>noise.
     bind_result (ctx_err ''failed reading Msg 1: '' (stream_read st)) (\<lambda>(pkt1, st).
     bind_result (ctx_err ''failed reading Msg 1 payload: '' (noise_read N noise pkt1)) (\<lambda>noise.
     bind_result (ctx_err ''failed writing Msg 2: '' (noise_write N noise)) (\<lambda>(msg2, noise).
     bind_result (ctx_err ''failed sending Msg 2: '' (stream_write st msg2)) (\<lambda>st.
     bind_result (ctx_err ''failed reading Msg 3: '' (stream_read st)) (\<lambda>(pkt3, st).
     bind_result (ctx_err ''failed reading Msg 3 payload: '' (noise_read N noise pkt3)) (\<lambda>noise.
     bind_result (noise_transport N noise) (\<lambda>session. Inr (session, st)))))))))"

definition receive_handshake ::
  "('n, 't) mesh_prims \<Rightarrow> 't \<Rightarrow> tcp_stream \<Rightarrow> (secured_p2p_envelope \<times> 't \<times> tcp_stream) result" where
  "receive_handshake N session st =
     bind_result (ctx_err ''failed reading encrypted handshake: '' (stream_read st)) (\<lambda>(pkt, st).
     bind_result (ctx_err ''failed reading transport handshake payload: '' (transport_read N session pkt))
       (\<lambda>(hs, session).
     bind_result (ctx_err ''failed parsing handshake envelope: '' (json_from_slice N hs)) (\<lambda>envelope.
       Inr (envelope, session, st))))"

definition send_envelope ::
  "('n, 't) mesh_prims \<Rightarrow> 't \<Rightarrow> tcp_stream \<Rightarrow> p2p_message \<Rightarrow> ('t \<times> tcp_stream) result" where
  "send_envelope N session st msg =
     bind_result (json_to_vec N \<lparr>sec_mac = None, sec_message = msg\<rparr>) (\<lambda>response_bytes.
     bind_result (transport_write N session response_bytes) (\<lambda>(enc, session).
     bind_result (stream_write st enc) (\<lambda>st. Inr (session, st))))"

text \<open>A running tunnel: what its task owns.\<close>

record 't tunnel_task =
  tt_stream :: tcp_stream
  tt_transport :: 't
  tt_remote :: string
  tt_my_id :: string
  tt_connection_id :: uuid
  tt_partial :: bytes \<comment> \<open>what the pending \<open>read_packet\<close> has already taken off the stream\<close>
  tt_open :: bool

definition register_tunnel ::
  "string \<Rightarrow> uuid \<Rightarrow> mesh_state \<Rightarrow> mesh_state" where
  "register_tunnel node_id connection_id m =
     signal_send (TunnelEstablished node_id)
       (m\<lparr>ACTIVE_TCP_TUNNELS :=
            hm_insert node_id \<lparr>ts_connection_id = connection_id\<rparr> (ACTIVE_TCP_TUNNELS m)\<rparr>)"

definition spawn_task ::
  "tcp_stream \<Rightarrow> 't \<Rightarrow> string \<Rightarrow> string \<Rightarrow> uuid \<Rightarrow> 't tunnel_task" where
  "spawn_task st session remote my_id connection_id =
     \<lparr>tt_stream = st, tt_transport = session, tt_remote = remote, tt_my_id = my_id,
      tt_connection_id = connection_id, tt_partial = [], tt_open = True\<rparr>"

text \<open>The pattern both sides match: a handshake that names its sender.\<close>

fun handshake_claim :: "p2p_message \<Rightarrow> (u64 \<times> string \<times> string) option" where
  "handshake_claim (Handshake _ timestamp_ms signature _ _ _ (Some from_id)) =
     Some (timestamp_ms, signature, from_id)"
| "handshake_claim _ = None"

definition check_initiator ::
  "('n, 't) mesh_prims \<Rightarrow> string \<Rightarrow> string \<Rightarrow> u64 \<Rightarrow> string \<Rightarrow> mesh_state \<Rightarrow> unit result" where
  "check_initiator N my_id initiator_id timestamp_ms signature m =
     bind_result (ok_or (''No known public key for initiator '' @ initiator_id)
         (get_known_public_key (mesh_known m) initiator_id)) (\<lambda>pub_key.
       ctx_err ''handshake signature verification failed: ''
         (verify_p2p_handshake (crypto N) signature pub_key initiator_id my_id timestamp_ms))"

definition handle_incoming_tcp_tunnel ::
  "('n, 't) mesh_prims \<Rightarrow> string \<Rightarrow> u64 \<Rightarrow> uuid \<Rightarrow> tcp_stream \<Rightarrow> string \<Rightarrow> bytes \<Rightarrow> string \<Rightarrow> mesh_state
     \<Rightarrow> ('t tunnel_task \<times> mesh_state) result" where
  "handle_incoming_tcp_tunnel N app_version ts connection_id st my_id priv_key_noise private_key_b64 m =
     bind_result (responder_noise N priv_key_noise st) (\<lambda>(session, st).
     bind_result (receive_handshake N session st) (\<lambda>(envelope, session, st).
       case handshake_claim (sec_message envelope) of
         Some (timestamp_ms, signature, initiator_id) \<Rightarrow>
           bind_result (check_initiator N my_id initiator_id timestamp_ms signature m) (\<lambda>_.
           bind_result (sign_p2p_handshake (crypto N) private_key_b64 my_id initiator_id ts)
             (\<lambda>my_signature.
           bind_result (send_envelope N session st
               (Handshake app_version ts my_signature None (Some 10240)
                  (Some (LOCAL_TCP_PORT m)) (Some my_id))) (\<lambda>(session, st).
             Inr (spawn_task st session initiator_id my_id connection_id,
                  register_tunnel initiator_id connection_id m))))
       | None \<Rightarrow> Inl ''Invalid Handshake message''))"

definition initiator_noise ::
  "('n, 't) mesh_prims \<Rightarrow> bytes \<Rightarrow> tcp_stream \<Rightarrow> ('t \<times> tcp_stream) result" where
  "initiator_noise N priv_key_noise st =
     bind_result (noise_initiator N priv_key_noise) (\<lambda>noise.
     bind_result (ctx_err ''Msg 1 write error: '' (noise_write N noise)) (\<lambda>(msg1, noise).
     bind_result (ctx_err ''Msg 1 send error: '' (stream_write st msg1)) (\<lambda>st.
     bind_result (ctx_err ''Msg 2 read error: '' (stream_read st)) (\<lambda>(pkt2, st).
     bind_result (ctx_err ''Msg 2 payload error: '' (noise_read N noise pkt2)) (\<lambda>noise.
     bind_result (ctx_err ''Msg 3 write error: '' (noise_write N noise)) (\<lambda>(msg3, noise).
     bind_result (ctx_err ''Msg 3 send error: '' (stream_write st msg3)) (\<lambda>st.
     bind_result (noise_transport N noise) (\<lambda>session. Inr (session, st)))))))))"

definition receive_response ::
  "('n, 't) mesh_prims \<Rightarrow> 't \<Rightarrow> tcp_stream \<Rightarrow> (secured_p2p_envelope \<times> 't \<times> tcp_stream) result" where
  "receive_response N session st =
     bind_result (ctx_err ''failed reading responder handshake: '' (stream_read st)) (\<lambda>(pkt, st).
     bind_result (ctx_err ''failed decrypting responder handshake: '' (transport_read N session pkt))
       (\<lambda>(hs, session).
     bind_result (ctx_err ''failed parsing responder handshake: '' (json_from_slice N hs)) (\<lambda>envelope.
       Inr (envelope, session, st))))"

definition check_responder ::
  "('n, 't) mesh_prims \<Rightarrow> string \<Rightarrow> string \<Rightarrow> string \<Rightarrow> u64 \<Rightarrow> string \<Rightarrow> mesh_state \<Rightarrow> unit result" where
  "check_responder N my_id target_node_id resp_id timestamp_ms signature m =
     (if resp_id \<noteq> target_node_id
      then Inl (''Responder node ID mismatch: expected '' @ target_node_id @ '', got '' @ resp_id)
      else bind_result (ok_or (''No known public key for responder '' @ resp_id)
             (get_known_public_key (mesh_known m) resp_id)) (\<lambda>pub_key.
           ctx_err ''responder handshake signature verification failed: ''
             (verify_p2p_handshake (crypto N) signature pub_key resp_id my_id timestamp_ms)))"

definition request_topology :: "string \<Rightarrow> mesh_state \<Rightarrow> mesh_state" where
  "request_topology target_node_id m =
     (case map_of (ACTIVE_TCP_TUNNELS m) target_node_id of
        Some ts \<Rightarrow> tunnel_send ts RequestTopology m
      | None \<Rightarrow> m)"

text \<open>The result of connecting the TCP stream is an argument.\<close>

definition connect_to_peer_signaling ::
  "('n, 't) mesh_prims \<Rightarrow> string \<Rightarrow> u64 \<Rightarrow> uuid \<Rightarrow> tcp_stream result \<Rightarrow> string \<Rightarrow> string \<Rightarrow> string \<Rightarrow> mesh_state
     \<Rightarrow> ('t tunnel_task \<times> mesh_state) result" where
  "connect_to_peer_signaling N app_version ts connection_id connected target_node_id my_id private_key_b64 m =
     bind_result connected (\<lambda>st.
     bind_result (get_noise_private_key (crypto N) private_key_b64) (\<lambda>priv_key_noise.
     bind_result (initiator_noise N priv_key_noise st) (\<lambda>(session, st).
     bind_result (sign_p2p_handshake (crypto N) private_key_b64 my_id target_node_id ts) (\<lambda>signature.
     bind_result (send_envelope N session st
         (Handshake app_version ts signature None (Some 10240)
            (if LOCAL_TCP_PORT m > 0 then Some (LOCAL_TCP_PORT m) else None) (Some my_id)))
       (\<lambda>(session, st).
     bind_result (receive_response N session st) (\<lambda>(response_env, session, st).
       case handshake_claim (sec_message response_env) of
         Some (timestamp_ms, signature, resp_id) \<Rightarrow>
           bind_result (check_responder N my_id target_node_id resp_id timestamp_ms signature m) (\<lambda>_.
             Inr (spawn_task st session target_node_id my_id connection_id,
                  request_topology target_node_id (register_tunnel target_node_id connection_id m)))
       | None \<Rightarrow> Inl ''Invalid Handshake response''))))))"

section \<open>Messages on a tunnel\<close>

definition tunnel_rtc_signal ::
  "string \<Rightarrow> string \<Rightarrow> string \<Rightarrow> string option \<Rightarrow> u16 option \<Rightarrow> string \<Rightarrow> string \<Rightarrow> mesh_state \<Rightarrow> mesh_state" where
  "tunnel_rtc_signal target_node_id signal_type sdp_or_candidate sdp_mid sdp_mline_index
      remote_node_id my_id m =
     (if target_node_id = my_id
      then signal_send (InboundRtcSignal remote_node_id signal_type sdp_or_candidate sdp_mid sdp_mline_index) m
      else case map_of (ACTIVE_TCP_TUNNELS m) target_node_id of
             Some ts \<Rightarrow> tunnel_send ts
                (RtcSignal target_node_id signal_type sdp_or_candidate sdp_mid sdp_mline_index) m
           | None \<Rightarrow> m)"

definition topology_entry :: "mesh_state \<Rightarrow> string \<Rightarrow> node_topology_info option" where
  "topology_entry m peer_id =
     (case get_known_public_key (mesh_known m) peer_id of
        None \<Rightarrow> None
      | Some pub_key \<Rightarrow>
          Some \<lparr>nti_id = peer_id, nti_name = peer_id, nti_public_key = pub_key,
                nti_last_known_addresses =
                  (case map_of (store_load (mesh_store m)) peer_id of
                     None \<Rightarrow> [] | Some p \<Rightarrow> pc_last_known_addresses p)\<rparr>)"

definition topology_entries :: "mesh_state \<Rightarrow> node_topology_info list" where
  "topology_entries m = List.map_filter (topology_entry m) (map fst (ACTIVE_TCP_TUNNELS m))"

definition tunnel_request_topology :: "string \<Rightarrow> mesh_state \<Rightarrow> mesh_state" where
  "tunnel_request_topology remote_node_id m =
     (case map_of (ACTIVE_TCP_TUNNELS m) remote_node_id of
        Some ts \<Rightarrow> tunnel_send ts (ResponseTopology (topology_entries m)) m
      | None \<Rightarrow> m)"

definition topology_node_info :: "node_topology_info \<Rightarrow> node_info" where
  "topology_node_info peer =
     \<lparr>ni_id = nti_id peer, ni_name = nti_name peer, ni_os = ''unknown'', ni_version = ''0.1.0'',
      ni_app_type = ''desktop'', ni_build_type = ''debug'', ni_public_key = nti_public_key peer,
      ni_resources = [], ni_is_online = False, ni_last_used = 0, ni_is_temporary = False\<rparr>"

definition add_address :: "string \<Rightarrow> string list \<Rightarrow> string list" where
  "add_address addr as = (if addr \<in> set as then as else as @ [addr])"

definition learn_topology_peer :: "string \<Rightarrow> node_topology_info \<Rightarrow> mesh_state \<Rightarrow> mesh_state" where
  "learn_topology_peer my_id peer m =
     (if nti_id peer = my_id then m
      else let m = (if get_known_public_key (mesh_known m) (nti_id peer) = None
                    then m\<lparr>mesh_known := update_known_public_keys [topology_node_info peer] (mesh_known m),
                           mesh_store := store_update
                             (hm_upsert (nti_id peer) peer_config_default
                                (\<lambda>e. e\<lparr>pc_public_key := nti_public_key peer, pc_name := nti_name peer\<rparr>))
                             (mesh_store m)\<rparr>
                    else m)
           in if nti_last_known_addresses peer \<noteq> []
              then m\<lparr>mesh_store := store_update
                       (hm_upsert (nti_id peer) peer_config_default
                          (\<lambda>e. e\<lparr>pc_last_known_addresses :=
                                  fold add_address (nti_last_known_addresses peer) (pc_last_known_addresses e)\<rparr>))
                       (mesh_store m)\<rparr>
              else m)"

fun handle_tunnel_message :: "p2p_message \<Rightarrow> string \<Rightarrow> string \<Rightarrow> mesh_state \<Rightarrow> mesh_state" where
  "handle_tunnel_message (RtcSignal target st sdp mid idx) remote_node_id my_id m =
     tunnel_rtc_signal target st sdp mid idx remote_node_id my_id m"
| "handle_tunnel_message RequestTopology remote_node_id my_id m =
     tunnel_request_topology remote_node_id m"
| "handle_tunnel_message (ResponseTopology peers) remote_node_id my_id m =
     fold (learn_topology_peer my_id) peers m"
| "handle_tunnel_message _ remote_node_id my_id m = m"

section \<open>The tunnel task\<close>

text \<open>
  What wakes \<open>run_tunnel_loop\<close>: a message to send, or the end of its channel; a byte from the
  peer; the end of the stream. \<open>select!\<close> drops the future of the branch that did not fire, and
  with it what a pending \<open>read_packet\<close> had already taken off the stream.
\<close>

datatype (plugins only: size) tunnel_event = Outbound "p2p_message option" | Arrives u8 | StreamEnds

definition tunnel_close :: "'t tunnel_task \<Rightarrow> mesh_state \<Rightarrow> 't tunnel_task \<times> mesh_state" where
  "tunnel_close task m =
     (task\<lparr>tt_open := False\<rparr>,
      case map_of (ACTIVE_TCP_TUNNELS m) (tt_remote task) of
        Some current_session \<Rightarrow>
          (if ts_connection_id current_session = tt_connection_id task
           then m\<lparr>ACTIVE_TCP_TUNNELS := hm_remove (tt_remote task) (ACTIVE_TCP_TUNNELS m)\<rparr>
           else m)
      | None \<Rightarrow> m)"

definition tunnel_outbound ::
  "('n, 't) mesh_prims \<Rightarrow> p2p_message \<Rightarrow> 't tunnel_task \<Rightarrow> mesh_state \<Rightarrow> 't tunnel_task \<times> mesh_state" where
  "tunnel_outbound N msg task m =
     (let task = task\<lparr>tt_partial := []\<rparr>
      in case json_to_vec N \<lparr>sec_mac = None, sec_message = msg\<rparr> of
           Inl _ \<Rightarrow> (task, m)
         | Inr bytes \<Rightarrow> (case transport_write N (tt_transport task) bytes of
             Inl _ \<Rightarrow> (task, m)
           | Inr (enc, session) \<Rightarrow>
              (let task = task\<lparr>tt_transport := session\<rparr>
               in case stream_write (tt_stream task) enc of
                    Inl _ \<Rightarrow> tunnel_close task m
                  | Inr st \<Rightarrow> (task\<lparr>tt_stream := st\<rparr>, m))))"

definition tunnel_packet ::
  "('n, 't) mesh_prims \<Rightarrow> bytes \<Rightarrow> 't tunnel_task \<Rightarrow> mesh_state \<Rightarrow> 't tunnel_task \<times> mesh_state" where
  "tunnel_packet N pkt task m =
     (case transport_read N (tt_transport task) pkt of
        Inl _ \<Rightarrow> (task, m)
      | Inr (dec, session) \<Rightarrow>
          (let task = task\<lparr>tt_transport := session\<rparr>
           in case json_from_slice N dec of
                Inl _ \<Rightarrow> (task, m)
              | Inr envelope \<Rightarrow>
                  (task, handle_tunnel_message (sec_message envelope) (tt_remote task) (tt_my_id task) m)))"

fun run_tunnel_step ::
  "('n, 't) mesh_prims \<Rightarrow> tunnel_event \<Rightarrow> 't tunnel_task \<times> mesh_state \<Rightarrow> 't tunnel_task \<times> mesh_state" where
  "run_tunnel_step N ev (task, m) =
     (if \<not> tt_open task then (task, m)
      else case ev of
        Outbound None \<Rightarrow> tunnel_close task m
      | Outbound (Some msg) \<Rightarrow> tunnel_outbound N msg task m
      | Arrives b \<Rightarrow>
          (case read_packet (tt_partial task @ [b]) of
             Inr (pkt, _) \<Rightarrow> tunnel_packet N pkt (task\<lparr>tt_partial := []\<rparr>) m
           | Inl UnexpectedEof \<Rightarrow> (task\<lparr>tt_partial := tt_partial task @ [b]\<rparr>, m)
           | Inl (InvalidData _) \<Rightarrow> tunnel_close task m)
      | StreamEnds \<Rightarrow> tunnel_close task m)"

section \<open>Facts on packets\<close>

lemma write_packet_bytes:
  "\<exists>b0 b1 b2 b3. write_packet d = b0 # b1 # b2 # b3 # d
     \<and> u32_from_be_bytes b0 b1 b2 b3 = word_of_nat (length d)"
proof -
  obtain b0 b1 b2 b3 where "u32_to_be_bytes (word_of_nat (length d)) = [b0, b1, b2, b3]"
    by (simp add: u32_to_be_bytes_def)
  with u32_be_roundtrip [OF this] show ?thesis by (auto simp: write_packet_def)
qed

lemma read_written:
  "length d < 4294967296 \<Longrightarrow> read_packet (write_packet d @ rest) =
     (if length d > MAX_PACKET then Inl (InvalidData ''Packet too large'') else Inr (d, rest))"
  using write_packet_bytes [of d] by (auto simp: read_packet_def unat_of_nat_u32 Let_def)

lemma read_packet_prefix:
  assumes "read_packet (p @ q) = Inr (pkt, [])" "q \<noteq> []"
  shows "read_packet p = Inl UnexpectedEof"
proof (cases "4 \<le> length p")
  case True
  then obtain b0 b1 b2 b3 r where "p = b0 # b1 # b2 # b3 # r"
    by (auto simp: Suc_le_length_iff numeral_eq_Suc)
  moreover obtain x q' where "q = x # q'" using assms(2) by (cases q) simp_all
  ultimately show ?thesis
    using assms(1) by (auto simp: read_packet_def Let_def split: if_splits)
next
  case False
  then show ?thesis
    by (auto simp: read_packet_def split: list.splits)
qed

interpretation pkt: packet_codec write_packet read_packet "\<lambda>d. length d \<le> MAX_PACKET"
proof
  fix p rest :: bytes
  assume "length p \<le> MAX_PACKET"
  moreover from this have "length p < 4294967296" by (simp add: MAX_PACKET_def)
  ultimately show "read_packet (write_packet p @ rest) = Inr (p, rest)"
    by (simp add: read_written)
qed

text \<open>The loop of reads, as the tunnel task makes it.\<close>

primrec read_packets :: "nat \<Rightarrow> bytes \<Rightarrow> io_error + (bytes list \<times> bytes)" where
  "read_packets 0 bs = Inr ([], bs)"
| "read_packets (Suc n) bs =
     bind_result (read_packet bs) (\<lambda>(p, bs'). bind_result (read_packets n bs') (\<lambda>(ps, r). Inr (p # ps, r)))"

lemma read_packets_read_n: "read_packets n bs = pkt.read_n n bs"
  by (induction n arbitrary: bs) (auto simp: bind_result_def split: sum.splits)

section \<open>Facts on tunnels\<close>

lemma check_initiator_ok_iff:
  "check_initiator N my i t s m = Inr () \<longleftrightarrow>
     (\<exists>key. get_known_public_key (mesh_known m) i = Some key
        \<and> verify_p2p_handshake (crypto N) s key i my t = Inr ())"
  by (auto simp: check_initiator_def ctx_err_def)

lemma check_responder_ok_iff:
  "check_responder N my target i t s m = Inr () \<longleftrightarrow>
     i = target \<and> (\<exists>key. get_known_public_key (mesh_known m) i = Some key
        \<and> verify_p2p_handshake (crypto N) s key i my t = Inr ())"
  by (auto simp: check_responder_def ctx_err_def)

lemma mesh_send_frames [simp]:
  "mesh_known (tunnel_send ts msg m) = mesh_known m"
  "mesh_store (tunnel_send ts msg m) = mesh_store m"
  "ACTIVE_TCP_TUNNELS (tunnel_send ts msg m) = ACTIVE_TCP_TUNNELS m"
  "mesh_signals (tunnel_send ts msg m) = mesh_signals m"
  "mesh_known (signal_send sig m) = mesh_known m"
  "mesh_store (signal_send sig m) = mesh_store m"
  "ACTIVE_TCP_TUNNELS (signal_send sig m) = ACTIVE_TCP_TUNNELS m"
  "tunnel_sent (signal_send sig m) = tunnel_sent m"
  by (simp_all add: tunnel_send_def signal_send_def)

lemma learn_peer_key:
  "get_known_public_key (mesh_known (learn_topology_peer my p m)) i =
     (if i = nti_id p \<and> i \<noteq> my \<and> get_known_public_key (mesh_known m) i = None
      then Some (nti_public_key p) else get_known_public_key (mesh_known m) i)"
  by (auto simp: learn_topology_peer_def Let_def topology_node_info_def get_known_public_key_def
      update_known_public_keys_def)

lemma learn_peer_tunnels [simp]:
  "ACTIVE_TCP_TUNNELS (learn_topology_peer my p m) = ACTIVE_TCP_TUNNELS m"
  by (simp add: learn_topology_peer_def Let_def)

lemma fold_learn_tunnels [simp]:
  "ACTIVE_TCP_TUNNELS (fold (learn_topology_peer my) ps m) = ACTIVE_TCP_TUNNELS m"
  by (induction ps arbitrary: m) simp_all

lemma fold_learn_keys:
  "get_known_public_key (mesh_known (fold (learn_topology_peer my) ps m)) i =
     (case get_known_public_key (mesh_known m) i of
        Some k \<Rightarrow> Some k
      | None \<Rightarrow> if i = my then None else map_option nti_public_key (find (\<lambda>p. nti_id p = i) ps))"
  by (induction ps arbitrary: m) (auto simp: learn_peer_key split: option.splits)

lemma tunnel_message_keeps_tunnels [simp]:
  "ACTIVE_TCP_TUNNELS (handle_tunnel_message msg remote my m) = ACTIVE_TCP_TUNNELS m"
  by (cases msg) (simp_all add: tunnel_rtc_signal_def tunnel_request_topology_def split: option.split)

lemma tunnel_message_keeps_key:
  "get_known_public_key (mesh_known m) i = Some k \<Longrightarrow>
   get_known_public_key (mesh_known (handle_tunnel_message msg remote my m)) i = Some k"
  by (cases msg)
    (simp_all add: fold_learn_keys tunnel_rtc_signal_def tunnel_request_topology_def split: option.split)

lemma tunnel_close_known [simp]: "mesh_known (snd (tunnel_close task m)) = mesh_known m"
  by (simp add: tunnel_close_def split: option.split)

lemma tunnel_close_closed [simp]: "\<not> tt_open (fst (tunnel_close task m))"
  by (simp add: tunnel_close_def)

lemma tunnel_outbound_known [simp]: "mesh_known (snd (tunnel_outbound N msg task m)) = mesh_known m"
  by (simp add: tunnel_outbound_def Let_def split: sum.split prod.split)

lemma tunnel_packet_keeps_key:
  "get_known_public_key (mesh_known m) i = Some k \<Longrightarrow>
   get_known_public_key (mesh_known (snd (tunnel_packet N pkt task m))) i = Some k"
  by (simp add: tunnel_packet_def Let_def tunnel_message_keeps_key split: sum.split prod.split)

lemma tunnel_step_keeps_key:
  assumes "get_known_public_key (mesh_known (snd s)) i = Some k"
  shows "get_known_public_key (mesh_known (snd (run_tunnel_step N ev s))) i = Some k"
  using assms
  by (cases s) (auto simp: tunnel_packet_keeps_key
      split: tunnel_event.splits option.splits sum.splits io_error.splits)

interpretation tun: stepped_invariant "run_tunnel_step N"
  "\<lambda>s. get_known_public_key (mesh_known (snd s)) i = Some k"
  by unfold_locales (rule tunnel_step_keeps_key)

lemma handle_incoming_ok:
  assumes "handle_incoming_tcp_tunnel N ver ts conn st my pk priv m = Inr (task, m')"
  obtains i t sig where "check_initiator N my i t sig m = Inr ()"
    "m' = register_tunnel i conn m" "tt_remote task = i" "tt_connection_id task = conn"
  using assms
  by (auto simp: handle_incoming_tcp_tunnel_def spawn_task_def split: option.splits)

lemma connect_ok:
  assumes "connect_to_peer_signaling N ver ts conn c target my priv m = Inr (task, m')"
  obtains i t sig where "check_responder N my target i t sig m = Inr ()"
    "m' = request_topology target (register_tunnel target conn m)"
    "tt_remote task = target" "tt_connection_id task = conn"
  using assms
  by (auto simp: connect_to_peer_signaling_def spawn_task_def split: option.splits)

lemma register_tunnel_tunnels [simp]:
  "map_of (ACTIVE_TCP_TUNNELS (register_tunnel i conn m)) =
     (map_of (ACTIVE_TCP_TUNNELS m))(i \<mapsto> \<lparr>ts_connection_id = conn\<rparr>)"
  "mesh_known (register_tunnel i conn m) = mesh_known m"
  by (simp_all add: register_tunnel_def)

lemma request_topology_frame [simp]:
  "ACTIVE_TCP_TUNNELS (request_topology i m) = ACTIVE_TCP_TUNNELS m"
  "mesh_known (request_topology i m) = mesh_known m"
  by (simp_all add: request_topology_def split: option.split)

lemma arrivals_buffered:
  assumes "tt_open task" "tt_partial task = []" "read_packet (p @ q) = Inr (pkt, [])" "q \<noteq> []"
  shows "fold (run_tunnel_step N) (map Arrives p) (task, m) = (task\<lparr>tt_partial := p\<rparr>, m)"
  using assms(3,4)
proof (induction p arbitrary: q rule: rev_induct)
  case Nil
  with assms(2) show ?case by simp
next
  case (snoc b p)
  then have "fold (run_tunnel_step N) (map Arrives p) (task, m) = (task\<lparr>tt_partial := p\<rparr>, m)"
    using snoc.IH [of "b # q"] by simp
  moreover have "read_packet (p @ [b]) = Inl UnexpectedEof"
    using read_packet_prefix [of "p @ [b]" q pkt] snoc.prems by simp
  ultimately show ?case using assms(1) by simp
qed

lemma arrivals_complete:
  assumes "tt_open task" "tt_partial task = []" "length d \<le> MAX_PACKET"
  shows "fold (run_tunnel_step N) (map Arrives (write_packet d)) (task, m) = tunnel_packet N d task m"
proof -
  obtain p b where pb: "write_packet d = p @ [b]"
    using write_packet_bytes [of d] by (metis append_butlast_last_id list.distinct(1))
  have r: "read_packet (p @ [b]) = Inr (d, [])"
    using pkt.dec_enc [OF assms(3), of "[]"] by (simp add: pb)
  have "task\<lparr>tt_partial := []\<rparr> = task" using assms(2) by simp
  then show ?thesis
    using arrivals_buffered [OF assms(1,2) r, of N m] assms(1) r by (simp add: pb)
qed

lemma topology_entry_id:
  "topology_entry m i = Some e \<Longrightarrow> nti_id e = i \<and> get_known_public_key (mesh_known m) i = Some (nti_public_key e)"
  by (auto simp: topology_entry_def split: option.splits)

lemma topology_entry_iff:
  "(\<exists>e. topology_entry m j = Some e \<and> nti_id e = i) \<longleftrightarrow> j = i \<and> get_known_public_key (mesh_known m) j \<noteq> None"
  by (auto simp: topology_entry_def split: option.splits)

lemma in_topology_entries:
  "e \<in> set (topology_entries m) \<longleftrightarrow> (\<exists>x\<in>set (ACTIVE_TCP_TUNNELS m). topology_entry m (fst x) = Some e)"
  by (force simp: topology_entries_def List.map_filter_def)

lemma topology_entries_distinct:
  "distinct is \<Longrightarrow> distinct (map nti_id (List.map_filter (topology_entry m) is))"
proof (induction "is")
  case Nil
  then show ?case by (simp add: List.map_filter_def)
next
  case (Cons i "is")
  have "nti_id ` set (List.map_filter (topology_entry m) is) \<subseteq> set is"
    using topology_entry_id by (force simp: List.map_filter_def)
  with Cons topology_entry_id [of m i] show ?case
    by (cases "topology_entry m i") (auto simp: List.map_filter_def)
qed

section \<open>A concrete run\<close>

text \<open>A concrete run for the witnesses: a transport that carries everything as it is, a peer
  with a known key, and a stream with three empty packets.\<close>

definition demo_key :: string where
  "demo_key = replicate 32 (CHR ''k'')"

definition demo_sig :: string where
  "demo_sig = replicate 64 (CHR ''s'')"

definition demo_mesh_prims :: "p2p_message \<Rightarrow> (unit, unit) mesh_prims" where
  "demo_mesh_prims msg =
     \<lparr>crypto = demo_crypto\<lparr>ed_verify := \<lambda>_ _ _. Inr ()\<rparr>,
      noise_responder = (\<lambda>_. Inr ()), noise_initiator = (\<lambda>_. Inr ()),
      noise_read = (\<lambda>_ _. Inr ()), noise_write = (\<lambda>_. Inr ([], ())),
      noise_transport = (\<lambda>_. Inr ()), transport_read = (\<lambda>_ b. Inr (b, ())),
      transport_write = (\<lambda>_ b. Inr (b, ())),
      json_to_vec = (\<lambda>_. Inr []), json_from_slice = (\<lambda>_. Inr \<lparr>sec_mac = None, sec_message = msg\<rparr>)\<rparr>"

definition demo_mesh :: mesh_state where
  "demo_mesh =
     \<lparr>LOCAL_TCP_PORT = 0, server_running = False, ACTIVE_TCP_TUNNELS = [], tunnel_sent = [],
      SIGNAL_TX = False, mesh_signals = [],
      mesh_known = insert_known_public_key ''peer'' demo_key known_registry_new,
      mesh_store = memory_peer_store_default\<rparr>"

definition demo_stream :: tcp_stream where
  "demo_stream = \<lparr>tcp_in = [0, 0, 0, 0, 0, 0, 0, 0, 0, 0, 0, 0], tcp_out = [],
     tcp_writes = Suc (Suc (Suc 0))\<rparr>"

definition demo_handshake :: p2p_message where
  "demo_handshake = Handshake [] 5 demo_sig None None None (Some ''peer'')"

lemmas demo_mesh_defs =
  demo_mesh_prims_def demo_mesh_def demo_stream_def demo_handshake_def demo_key_def demo_sig_def
  demo_crypto_def as_bytes_def stream_read_def stream_write_def read_packet_def u32_from_be_bytes_def
  ctx_err_def check_initiator_def check_responder_def responder_noise_def initiator_noise_def
  receive_handshake_def receive_response_def send_envelope_def sign_p2p_handshake_def
  verify_p2p_handshake_def get_noise_private_key_def MAX_PACKET_def
  get_known_public_key_def insert_known_public_key_def known_registry_new_def get_or_init_def Let_def

lemma demo_incoming:
  "is_ok (handle_incoming_tcp_tunnel (demo_mesh_prims demo_handshake) [] 7 1 demo_stream ''me'' [] demo_key demo_mesh)"
  by (simp add: handle_incoming_tcp_tunnel_def demo_mesh_defs)

lemma demo_outgoing:
  "is_ok (connect_to_peer_signaling (demo_mesh_prims demo_handshake) [] 7 1 (Inr demo_stream) ''peer'' ''me'' demo_key demo_mesh)"
  by (simp add: connect_to_peer_signaling_def demo_mesh_defs)

section \<open>Properties\<close>

text \<open>Packets of at most ten mebibytes written one after the other are read back one by
  one, exactly, whatever follows them on the stream.\<close>

theorem tunnel_packets_roundtrip:
  assumes "list_all (\<lambda>d. length d \<le> MAX_PACKET) ds"
  shows "read_packets (length ds) (concat (map write_packet ds) @ rest) = Inr (ds, rest)"
  by (simp add: read_packets_read_n pkt.read_n_stream assms)

theorem tunnel_packets_roundtrip_witness:
  "read_packets 2 (write_packet [1, 2] @ write_packet [] @ [7]) = Inr ([[1, 2], []], [7])"
  using tunnel_packets_roundtrip [of "[[1, 2], []]" "[7]"] by (simp add: MAX_PACKET_def numeral_2_eq_2)

text \<open>The writer does not know the reader's limit: a longer packet is written, and the
  reader that meets it gives the stream up.\<close>

theorem oversize_packet_rejected:
  assumes "MAX_PACKET < length d" "length d < 4294967296"
  shows "read_packet (write_packet d @ rest) = Inl (InvalidData ''Packet too large'')"
  using assms by (simp add: read_written)

theorem oversize_packet_rejected_witness:
  "read_packet (write_packet (replicate 10485761 0) @ []) = Inl (InvalidData ''Packet too large'')"
  by (rule oversize_packet_rejected) (simp_all add: MAX_PACKET_def)





text \<open>C13: keys are pinned on first use: whatever arrives on a tunnel, in whatever order, a
  node's known public key never changes, and our own id is never given one; a topology
  message teaches exactly the keys of unknown nodes, the first entry for a node winning.\<close>

theorem tunnel_never_replaces_key:
  "(case get_known_public_key (mesh_known m) i of
      Some k \<Rightarrow> get_known_public_key (mesh_known (snd (fold (run_tunnel_step N) evs (task, m)))) i = Some k
    | None \<Rightarrow> True)
   \<and> get_known_public_key (mesh_known (handle_tunnel_message (ResponseTopology peers) remote my m)) i =
      (case get_known_public_key (mesh_known m) i of
         Some k \<Rightarrow> Some k
       | None \<Rightarrow> if i = my then None else map_option nti_public_key (find (\<lambda>p. nti_id p = i) peers))"
  using tun.run_inv [of "(task, m)" i _ N evs] by (simp add: fold_learn_keys split: option.split)

text \<open>A tunnel task that ends removes its own registration and no other: if the peer has
  reconnected meanwhile, the newer session stays.\<close>

theorem tunnel_close_removes_own_session:
  "map_of (ACTIVE_TCP_TUNNELS (snd (tunnel_close task m))) i =
     (if i = tt_remote task
         \<and> map_option ts_connection_id (map_of (ACTIVE_TCP_TUNNELS m) i) = Some (tt_connection_id task)
      then None else map_of (ACTIVE_TCP_TUNNELS m) i)"
  by (auto simp: tunnel_close_def split: option.split)

text \<open>A signal for this node is handed over once, in the name of the tunnel's peer, and
  one for another node is forwarded unchanged on that node's tunnel, or dropped when there is
  none; it is never both handed over and forwarded.\<close>

theorem rtc_signal_routed:
  assumes "SIGNAL_TX m"
  shows "let m' = handle_tunnel_message (RtcSignal target st sdp mid idx) remote my m
    in mesh_signals m' =
         (if target = my then mesh_signals m @ [InboundRtcSignal remote st sdp mid idx] else mesh_signals m)
     \<and> tunnel_sent m' =
         (case map_of (ACTIVE_TCP_TUNNELS m) target of
            Some ts \<Rightarrow> if target = my then tunnel_sent m
                       else tunnel_sent m @ [(ts_connection_id ts, RtcSignal target st sdp mid idx)]
          | None \<Rightarrow> tunnel_sent m)"
  using assms
  by (simp add: tunnel_rtc_signal_def signal_send_def tunnel_send_def Let_def split: option.split)

theorem rtc_signal_routed_witness:
  "mesh_signals (handle_tunnel_message (RtcSignal ''me'' ''offer'' ''sdp'' None None) ''peer'' ''me''
      (demo_mesh\<lparr>SIGNAL_TX := True\<rparr>)) = [InboundRtcSignal ''peer'' ''offer'' ''sdp'' None None]"
  using rtc_signal_routed [of "demo_mesh\<lparr>SIGNAL_TX := True\<rparr>" "''me''" "''offer''" "''sdp''" None None
      "''peer''" "''me''"]
  by (simp add: Let_def demo_mesh_def)

text \<open>A relayed signal loses its author. When a node forwards a signal to its target,
  the target hands it over in the name of the relay, whoever sent it: nothing the receiver
  keeps depends on the originator.\<close>

theorem relayed_signal_names_relay:
  assumes "target \<noteq> relay" "map_of (ACTIVE_TCP_TUNNELS m_relay) target = Some ts" "SIGNAL_TX m_target"
  shows "\<exists>fwd. tunnel_sent (handle_tunnel_message (RtcSignal target st sdp mid idx) originator relay m_relay)
           = tunnel_sent m_relay @ [(ts_connection_id ts, fwd)]
    \<and> mesh_signals (handle_tunnel_message fwd relay target m_target)
        = mesh_signals m_target @ [InboundRtcSignal relay st sdp mid idx]"
  using assms by (simp add: tunnel_rtc_signal_def tunnel_send_def signal_send_def)

theorem relayed_signal_names_relay_witness:
  "\<exists>fwd. tunnel_sent (handle_tunnel_message (RtcSignal ''c'' ''offer'' ''sdp'' None None) ''a'' ''b''
           (demo_mesh\<lparr>ACTIVE_TCP_TUNNELS := [(''c'', \<lparr>ts_connection_id = 4\<rparr>)]\<rparr>)) = [(4, fwd)]
    \<and> mesh_signals (handle_tunnel_message fwd ''b'' ''c'' (demo_mesh\<lparr>SIGNAL_TX := True\<rparr>))
        = [InboundRtcSignal ''b'' ''offer'' ''sdp'' None None]"
  using relayed_signal_names_relay [of "''c''" "''b''"
      "demo_mesh\<lparr>ACTIVE_TCP_TUNNELS := [(''c'', \<lparr>ts_connection_id = 4\<rparr>)]\<rparr>" "\<lparr>ts_connection_id = 4\<rparr>"
      "demo_mesh\<lparr>SIGNAL_TX := True\<rparr>" "''offer''" "''sdp''" None None "''a''"]
  by (simp add: demo_mesh_def)

text \<open>A topology request is answered on the asking node's tunnel, with one entry for
  every node that has a tunnel and a known key and for no other.\<close>

theorem topology_answer_exact:
  assumes "hm_wf (ACTIVE_TCP_TUNNELS m)"
  shows "tunnel_sent (handle_tunnel_message RequestTopology remote my m) =
      (case map_of (ACTIVE_TCP_TUNNELS m) remote of
         None \<Rightarrow> tunnel_sent m
       | Some ts \<Rightarrow> tunnel_sent m @ [(ts_connection_id ts, ResponseTopology (topology_entries m))])
    \<and> nti_id ` set (topology_entries m) =
        {i \<in> dom (map_of (ACTIVE_TCP_TUNNELS m)). get_known_public_key (mesh_known m) i \<noteq> None}
    \<and> distinct (map nti_id (topology_entries m))
    \<and> (\<forall>e\<in>set (topology_entries m).
          get_known_public_key (mesh_known m) (nti_id e) = Some (nti_public_key e))"
proof -
  have "distinct (map nti_id (topology_entries m))"
    using topology_entries_distinct assms by (simp add: topology_entries_def hm_wf_def)
  moreover have "nti_id ` set (topology_entries m) =
      {i \<in> fst ` set (ACTIVE_TCP_TUNNELS m). get_known_public_key (mesh_known m) i \<noteq> None}"
  proof (rule set_eqI)
    fix i
    have "i \<in> nti_id ` set (topology_entries m) \<longleftrightarrow>
        (\<exists>x\<in>set (ACTIVE_TCP_TUNNELS m). \<exists>e. topology_entry m (fst x) = Some e \<and> nti_id e = i)"
      unfolding image_iff Bex_def in_topology_entries by blast
    then show "i \<in> nti_id ` set (topology_entries m) \<longleftrightarrow>
        i \<in> {i \<in> fst ` set (ACTIVE_TCP_TUNNELS m). get_known_public_key (mesh_known m) i \<noteq> None}"
      unfolding topology_entry_iff by force
  qed
  ultimately show ?thesis
    using topology_entry_id
    by (auto simp: tunnel_request_topology_def tunnel_send_def dom_map_of_conv_image_fst
        in_topology_entries split: option.split)
qed

theorem topology_answer_exact_witness:
  "nti_id ` set (topology_entries (demo_mesh\<lparr>ACTIVE_TCP_TUNNELS := [(''peer'', \<lparr>ts_connection_id = 4\<rparr>)]\<rparr>))
     = {''peer''}"
  using topology_answer_exact [of "demo_mesh\<lparr>ACTIVE_TCP_TUNNELS := [(''peer'', \<lparr>ts_connection_id = 4\<rparr>)]\<rparr>"]
  by (auto simp: hm_wf_def demo_mesh_def)

text \<open>A packet that arrives undisturbed is handled once it is complete; but a message
  sent while it is still arriving makes the task forget the bytes already read, so the rest
  of the packet is taken for the start of another one.\<close>

theorem outbound_cancels_partial_read:
  assumes "tt_open task" "tt_partial task = []" "length d \<le> MAX_PACKET"
    and "write_packet d = p @ q" "q \<noteq> []"
  shows "fold (run_tunnel_step N) (map Arrives (p @ q)) (task, m) = tunnel_packet N d task m
    \<and> fold (run_tunnel_step N) (map Arrives p) (task, m) = (task\<lparr>tt_partial := p\<rparr>, m)
    \<and> fold (run_tunnel_step N) (map Arrives p @ Outbound (Some msg) # es) (task, m)
        = fold (run_tunnel_step N) es (tunnel_outbound N msg task m)
    \<and> tt_partial (fst (tunnel_outbound N msg task m)) = []"
proof -
  have r: "read_packet (p @ q) = Inr (d, [])"
    using pkt.dec_enc [OF assms(3), of "[]"] by (simp add: assms(4))
  have b: "fold (run_tunnel_step N) (map Arrives p) (task, m) = (task\<lparr>tt_partial := p\<rparr>, m)"
    by (rule arrivals_buffered [OF assms(1,2) r assms(5)])
  have "tunnel_outbound N msg (task\<lparr>tt_partial := p\<rparr>) m = tunnel_outbound N msg task m"
    by (simp add: tunnel_outbound_def)
  moreover have "tt_partial (fst (tunnel_outbound N msg task m)) = []"
    by (simp add: tunnel_outbound_def tunnel_close_def Let_def split: sum.split prod.split)
  ultimately show ?thesis
    using arrivals_complete [OF assms(1-3), of N m] b assms(1,4) by simp
qed

theorem outbound_cancels_partial_read_witness:
  "tt_partial (fst (fold (run_tunnel_step (demo_mesh_prims Goodbye)) (map Arrives [0, 0] @ [Outbound (Some Goodbye)])
     (spawn_task demo_stream () ''peer'' ''me'' 1, demo_mesh))) = []"
proof -
  have w: "write_packet [5] = [0, 0] @ [0, 1, 5]"
    by (simp add: write_packet_def u32_to_be_bytes_def)
  have t: "tt_open (spawn_task demo_stream () ''peer'' ''me'' 1)"
    "tt_partial (spawn_task demo_stream () ''peer'' ''me'' 1) = []" "length [5 :: u8] \<le> MAX_PACKET"
    by (simp_all add: spawn_task_def MAX_PACKET_def)
  note cancel = outbound_cancels_partial_read [OF t w, of "demo_mesh_prims Goodbye" demo_mesh Goodbye "[]"]
  from cancel show ?thesis by (simp only: fold_simps(1) list.simps(3) not_False_eq_True)
qed

text \<open>The server's port is published before its key is known to be usable. After a
  first start that fails on the key, a second start reports success and the port although
  no server accepts connections.\<close>

theorem failed_start_reports_success_later:
  assumes "LOCAL_TCP_PORT m = 0" "\<not> server_running m"
    and "os_new os = Inr ()" "os_bind os = Inr ()" "os_listen os = Inr ()" "os_port os = Inr port" "port > 0"
    and "get_noise_private_key C key = Inl e"
  shows "\<exists>m'. start_tcp_signaling_server C os key m = (Inl e, m') \<and> \<not> server_running m'
    \<and> start_tcp_signaling_server C os' key' m' = (Inr port, m')"
  using assms by (simp add: start_tcp_signaling_server_def)

theorem failed_start_reports_success_later_witness:
  "\<exists>m'. start_tcp_signaling_server demo_crypto \<lparr>os_new = Inr (), os_bind = Inr (), os_listen = Inr (), os_port = Inr 8308\<rparr>
          ''short'' demo_mesh = (Inl ''Invalid private key size'', m') \<and> \<not> server_running m'
    \<and> start_tcp_signaling_server demo_crypto \<lparr>os_new = Inr (), os_bind = Inr (), os_listen = Inr (), os_port = Inr 8308\<rparr>
          demo_key m' = (Inr 8308, m')"
proof -
  have k: "get_noise_private_key demo_crypto ''short'' = Inl ''Invalid private key size''"
    by (simp add: get_noise_private_key_def demo_crypto_def as_bytes_def)
  show ?thesis
    by (rule failed_start_reports_success_later [OF _ _ _ _ _ _ _ k]) (simp_all add: demo_mesh_def)
qed

end
