(* ===== verification/Mdns_Discovery.thy ===== *)
theory Mdns_Discovery
  imports Local_Mesh
begin

text \<open>
  \<open>p2p-node/src/mdns_discovery.rs\<close>: what a node advertises on the local network and what it
  does with the advertisements of others. The mDNS daemon (crate \<open>mdns_sd\<close>) is the table of
  registered services and the set of browsed types; whether it accepts a request is an argument.
  A resolved service is its properties and addresses. Dialling a discovered peer is recorded as
  a request, since the task it spawns runs on its own: see
  \<open>Local_Mesh.connect_to_peer_signaling\<close>.
\<close>

section \<open>Advertising\<close>

definition service_type :: string where
  "service_type = ''_nodeinnet._tcp.local.''"

definition mdns_message :: "string \<Rightarrow> u16 \<Rightarrow> string" where
  "mdns_message node_id port = node_id @ '':'' @ show_nat (unat port)"

record service_info =
  sv_instance_name :: string
  sv_host :: string
  sv_port :: u16
  sv_properties :: "(string, string) hmap"
  sv_addresses :: "string list"

record mdns_daemon =
  md_registered :: "(string, service_info) hmap"
  md_browsing :: bool

definition start_mdns_advertiser ::
  "crypto_prims \<Rightarrow> (service_info \<Rightarrow> unit result) \<Rightarrow> string \<Rightarrow> string \<Rightarrow> string \<Rightarrow> u16 \<Rightarrow> string \<Rightarrow> string
     \<Rightarrow> mdns_daemon \<Rightarrow> mdns_daemon result" where
  "start_mdns_advertiser C accepts node_id public_key private_key_b64 port device_name device_os d =
     bind_result (sign_message C private_key_b64 (as_bytes (mdns_message node_id port))) (\<lambda>signature.
       let properties =
             hm_insert ''os'' device_os
              (hm_insert ''name'' device_name
               (hm_insert ''public_key'' public_key
                (hm_insert ''signature'' signature
                 (hm_insert ''port'' (show_nat (unat port))
                  (hm_insert ''node_id'' node_id [])))));
           info = \<lparr>sv_instance_name = node_id @ ''.'' @ service_type, sv_host = node_id @ ''.local.'',
                   sv_port = port, sv_properties = properties, sv_addresses = []\<rparr>
       in bind_result (accepts info) (\<lambda>_.
            Inr (d\<lparr>md_registered := hm_insert (sv_instance_name info) info (md_registered d)\<rparr>)))"

definition stop_mdns_advertiser :: "unit result \<Rightarrow> string \<Rightarrow> mdns_daemon \<Rightarrow> mdns_daemon result" where
  "stop_mdns_advertiser unregistered node_id d =
     bind_result unregistered (\<lambda>_.
       Inr (d\<lparr>md_registered := hm_remove (node_id @ ''.'' @ service_type) (md_registered d)\<rparr>))"

definition stop_mdns_scanner :: "unit result \<Rightarrow> mdns_daemon \<Rightarrow> mdns_daemon result" where
  "stop_mdns_scanner stopped d = bind_result stopped (\<lambda>_. Inr (d\<lparr>md_browsing := False\<rparr>))"

section \<open>Scanning\<close>

record scan_state =
  sc_mesh :: mesh_state
  sc_dialled :: "(string \<times> string) list" \<comment> \<open>address and peer of each connection attempt\<close>

definition discovered_node :: "string \<Rightarrow> string \<Rightarrow> string option \<Rightarrow> string option \<Rightarrow> node_info" where
  "discovered_node peer_id pub_key name_prop os_prop =
     \<lparr>ni_id = peer_id,
      ni_name = (case name_prop of Some s \<Rightarrow> s | None \<Rightarrow> peer_id),
      ni_os = (case os_prop of Some s \<Rightarrow> s | None \<Rightarrow> ''unknown''),
      ni_version = ''0.1.0'', ni_app_type = ''desktop'', ni_build_type = ''debug'',
      ni_public_key = pub_key, ni_resources = [], ni_is_online = True, ni_last_used = 0,
      ni_is_temporary = False\<rparr>"

definition record_discovery :: "node_info \<Rightarrow> mesh_state \<Rightarrow> mesh_state" where
  "record_discovery n m =
     signal_send (PeerDiscovered n)
       (m\<lparr>mesh_known := update_known_public_keys [n] (mesh_known m),
          mesh_store := store_update
            (hm_upsert (ni_id n) peer_config_default
               (\<lambda>e. e\<lparr>pc_public_key := ni_public_key n, pc_name := ni_name n, pc_os := ni_os n\<rparr>))
            (mesh_store m)\<rparr>)"

definition discovered_address :: "string \<Rightarrow> u16 \<Rightarrow> string \<Rightarrow> scan_state \<Rightarrow> scan_state" where
  "discovered_address peer_id port ip s =
     (let addr = ip @ '':'' @ show_nat (unat port);
          m = (sc_mesh s)\<lparr>mesh_store := store_update
                 (hm_upsert peer_id peer_config_default
                    (\<lambda>e. e\<lparr>pc_last_known_addresses := add_address addr (pc_last_known_addresses e)\<rparr>))
                 (mesh_store (sc_mesh s))\<rparr>
      in s\<lparr>sc_mesh := m,
           sc_dialled := (if hm_contains (ACTIVE_TCP_TUNNELS m) peer_id then sc_dialled s
                          else sc_dialled s @ [(addr, peer_id)])\<rparr>)"

text \<open>One \<open>ServiceResolved\<close> event.\<close>

definition service_resolved :: "crypto_prims \<Rightarrow> string \<Rightarrow> service_info \<Rightarrow> scan_state \<Rightarrow> scan_state" where
  "service_resolved C my_id info s =
     (let prop = map_of (sv_properties info)
      in case (prop ''node_id'', prop ''port'', prop ''signature'', prop ''public_key'') of
           (Some peer_id, Some port_str, Some sig, Some pub_key) \<Rightarrow>
             (if peer_id = my_id then s
              else case parse_u16 port_str of
                None \<Rightarrow> s
              | Some port \<Rightarrow>
                  (if is_ok (verify_message C sig pub_key (as_bytes (mdns_message peer_id port)))
                   then fold (discovered_address peer_id port) (sv_addresses info)
                          (s\<lparr>sc_mesh := record_discovery
                               (discovered_node peer_id pub_key (prop ''name'') (prop ''os'')) (sc_mesh s)\<rparr>)
                   else s))
         | _ \<Rightarrow> s)"

datatype service_event = ServiceResolved service_info | OtherEvent

fun scan_event :: "crypto_prims \<Rightarrow> string \<Rightarrow> service_event \<Rightarrow> scan_state \<Rightarrow> scan_state" where
  "scan_event C my_id (ServiceResolved info) s = service_resolved C my_id info s"
| "scan_event C my_id OtherEvent s = s"

text \<open>The scanner task runs \<open>scan_event\<close> on each event in turn once browsing is accepted.\<close>

definition start_mdns_scanner :: "unit result \<Rightarrow> mdns_daemon \<Rightarrow> mdns_daemon result" where
  "start_mdns_scanner browsing d = bind_result browsing (\<lambda>_. Inr (d\<lparr>md_browsing := True\<rparr>))"

section \<open>Facts\<close>

lemma add_address_spec:
  "set (add_address a as) = insert a (set as)" "distinct as \<Longrightarrow> distinct (add_address a as)"
  by (auto simp: add_address_def)

lemma discovered_address_known [simp]:
  "mesh_known (sc_mesh (discovered_address p port ip s)) = mesh_known (sc_mesh s)"
  "ACTIVE_TCP_TUNNELS (sc_mesh (discovered_address p port ip s)) = ACTIVE_TCP_TUNNELS (sc_mesh s)"
  by (simp_all add: discovered_address_def Let_def)

lemma fold_discovered_address [simp]:
  "mesh_known (sc_mesh (fold (discovered_address p port) ips s)) = mesh_known (sc_mesh s)"
  "ACTIVE_TCP_TUNNELS (sc_mesh (fold (discovered_address p port) ips s)) = ACTIVE_TCP_TUNNELS (sc_mesh s)"
  by (induction ips arbitrary: s) simp_all

lemma record_discovery_known:
  "get_known_public_key (mesh_known (record_discovery n m)) i =
     (if i = ni_id n then Some (ni_public_key n) else get_known_public_key (mesh_known m) i)"
  by (simp add: record_discovery_def get_known_public_key_def update_known_public_keys_def)

lemma record_discovery_tunnels [simp]:
  "ACTIVE_TCP_TUNNELS (record_discovery n m) = ACTIVE_TCP_TUNNELS m"
  by (simp add: record_discovery_def)

lemma fold_dialled:
  "sc_dialled (fold (discovered_address p port) ips s) =
     (if p \<in> dom (map_of (ACTIVE_TCP_TUNNELS (sc_mesh s))) then sc_dialled s
      else sc_dialled s @ map (\<lambda>ip. (ip @ '':'' @ show_nat (unat port), p)) ips)"
  by (induction ips arbitrary: s) (simp_all add: discovered_address_def Let_def)

definition advertisement ::
  "service_info \<Rightarrow> (string \<times> u16 \<times> string \<times> string) option" where
  "advertisement info =
     (let prop = map_of (sv_properties info)
      in case (prop ''node_id'', prop ''port'', prop ''signature'', prop ''public_key'') of
           (Some peer_id, Some port_str, Some sig, Some pub_key) \<Rightarrow>
             map_option (\<lambda>port. (peer_id, port, sig, pub_key)) (parse_u16 port_str)
         | _ \<Rightarrow> None)"

lemma service_resolved_alt:
  "service_resolved C my info s =
     (case advertisement info of
        None \<Rightarrow> s
      | Some (p, port, sig, pub) \<Rightarrow>
          if p = my \<or> \<not> is_ok (verify_message C sig pub (as_bytes (mdns_message p port))) then s
          else fold (discovered_address p port) (sv_addresses info)
                 (s\<lparr>sc_mesh := record_discovery
                    (discovered_node p pub (map_of (sv_properties info) ''name'') (map_of (sv_properties info) ''os''))
                    (sc_mesh s)\<rparr>))"
  by (simp add: service_resolved_def advertisement_def Let_def split: option.split prod.split)

lemma service_resolved_keys:
  "get_known_public_key (mesh_known (sc_mesh (service_resolved C my info s))) i =
     (case advertisement info of
        Some (p, port, sig, pub) \<Rightarrow>
          if i = p \<and> p \<noteq> my \<and> is_ok (verify_message C sig pub (as_bytes (mdns_message p port)))
          then Some pub else get_known_public_key (mesh_known (sc_mesh s)) i
      | None \<Rightarrow> get_known_public_key (mesh_known (sc_mesh s)) i)"
  by (auto simp: service_resolved_alt record_discovery_known discovered_node_def
      split: option.split prod.split)

lemma signed_service_ok:
  assumes "b64_law C" "ed25519_law C" "length seed = 32" "generate_ed25519_keypair C seed = (priv, pub)"
  obtains sig where "sign_message C priv (as_bytes (mdns_message node_id port)) = Inr sig"
    "is_ok (verify_message C sig pub (as_bytes (mdns_message node_id port)))"
proof -
  obtain sig where sig: "sign_message C priv (as_bytes (mdns_message node_id port)) = Inr sig"
    using sign_message_total [OF assms(1,3,4)] by blast
  with sign_verify_message [OF assms(1-4) sig] assms(2,3) show thesis
    by (intro that) (auto simp: ed25519_law_def is_ok_iff)
qed

lemma advertised_service:
  assumes "b64_law C" "ed25519_law C" "length seed = 32" "generate_ed25519_keypair C seed = (priv, pub)"
    and "start_mdns_advertiser C accepts node_id pub priv port name os d = Inr d'"
  obtains info sig where "map_of (md_registered d') (node_id @ ''.'' @ service_type) = Some info"
    "advertisement (info\<lparr>sv_addresses := ips\<rparr>) = Some (node_id, port, sig, pub)"
    "is_ok (verify_message C sig pub (as_bytes (mdns_message node_id port)))"
    "map_of (sv_properties info) ''name'' = Some name" "map_of (sv_properties info) ''os'' = Some os"
proof -
  obtain sig where sig: "sign_message C priv (as_bytes (mdns_message node_id port)) = Inr sig"
    "is_ok (verify_message C sig pub (as_bytes (mdns_message node_id port)))"
    using signed_service_ok [OF assms(1-4)] by blast
  with assms(5) obtain info where info: "map_of (md_registered d') (node_id @ ''.'' @ service_type) = Some info"
    "map_of (sv_properties info) ''node_id'' = Some node_id" "map_of (sv_properties info) ''port'' = Some (show_nat (unat port))"
    "map_of (sv_properties info) ''signature'' = Some sig" "map_of (sv_properties info) ''public_key'' = Some pub"
    "map_of (sv_properties info) ''name'' = Some name" "map_of (sv_properties info) ''os'' = Some os"
    by (auto simp: start_mdns_advertiser_def Let_def bind_result_def split: sum.splits)
  then have "advertisement (info\<lparr>sv_addresses := ips\<rparr>) = Some (node_id, port, sig, pub)"
    by (simp add: advertisement_def parse_show_u16)
  with info sig(2) show thesis by (intro that) simp_all
qed

section \<open>Properties\<close>

text \<open>What a node advertises, another one accepts: from an accepted advertisement signed
  with a generated key pair, a scanner learns the advertiser's key and dials it at every
  address it is seen at, unless it has a tunnel already.\<close>

theorem advertisement_accepted:
  assumes "b64_law C" "ed25519_law C" "length seed = 32" "generate_ed25519_keypair C seed = (priv, pub)"
    and "accepts = (\<lambda>_. Inr ())" "node_id \<noteq> my_id"
    and "start_mdns_advertiser C accepts node_id pub priv port name os d = Inr d'"
    and "map_of (md_registered d') (node_id @ ''.'' @ service_type) = Some info"
  shows "let s' = service_resolved C my_id (info\<lparr>sv_addresses := ips\<rparr>) s
    in get_known_public_key (mesh_known (sc_mesh s')) node_id = Some pub
     \<and> sc_dialled s' =
         (if node_id \<in> dom (map_of (ACTIVE_TCP_TUNNELS (sc_mesh s))) then sc_dialled s
          else sc_dialled s @ map (\<lambda>ip. (ip @ '':'' @ show_nat (unat port), node_id)) ips)"
proof -
  obtain sig where "advertisement (info\<lparr>sv_addresses := ips\<rparr>) = Some (node_id, port, sig, pub)"
    "is_ok (verify_message C sig pub (as_bytes (mdns_message node_id port)))"
    using advertised_service [OF assms(1-4,7)] assms(8) by (metis option.inject)
  with assms(6) show ?thesis
    by (simp add: service_resolved_alt record_discovery_known discovered_node_def fold_dialled Let_def)
qed

theorem advertisement_accepted_witness:
  "\<exists>d' info. start_mdns_advertiser demo_crypto (\<lambda>_. Inr ()) ''n'' (bytes_string (replicate 32 7))
        (bytes_string (replicate 32 7)) 8308 ''name'' ''os'' \<lparr>md_registered = [], md_browsing = False\<rparr> = Inr d'
     \<and> map_of (md_registered d') (''n'' @ ''.'' @ service_type) = Some info
     \<and> sc_dialled (service_resolved demo_crypto ''me'' (info\<lparr>sv_addresses := [''ip'']\<rparr>)
          \<lparr>sc_mesh = demo_mesh, sc_dialled = []\<rparr>) = [(''ip:8308'', ''n'')]"
proof -
  let ?k = "bytes_string (replicate 32 7)" and ?d = "\<lparr>md_registered = [], md_browsing = False\<rparr>"
  have kp: "generate_ed25519_keypair demo_crypto (replicate 32 7) = (?k, ?k)"
    by (simp add: generate_ed25519_keypair_def demo_crypto_def pad_to_same)
  obtain sig where "sign_message demo_crypto ?k (as_bytes (mdns_message ''n'' 8308)) = Inr sig"
    using sign_message_total [OF demo_crypto_laws(1) _ kp] by fastforce
  then obtain d' info where
    d: "start_mdns_advertiser demo_crypto (\<lambda>_. Inr ()) ''n'' ?k ?k 8308 ''name'' ''os'' ?d = Inr d'"
      "map_of (md_registered d') (''n'' @ ''.'' @ service_type) = Some info"
    by (simp add: start_mdns_advertiser_def Let_def)
  have n: "show_nat (unat (8308 :: u16)) = ''8308''"
    by (simp add: show_nat.simps digit_char_def char_of_def bit_Suc_0_iff)
  have len: "length (replicate 32 (7 :: u8)) = 32" and ne: "''n'' \<noteq> ''me''" by simp_all
  note accepted = advertisement_accepted [OF demo_crypto_laws(1,3) len kp refl ne d, unfolded Let_def,
      THEN conjunct2, unfolded n, of "[''ip'']" "\<lparr>sc_mesh = demo_mesh, sc_dialled = []\<rparr>"]
  have "''n'' \<notin> dom (map_of (ACTIVE_TCP_TUNNELS demo_mesh))" by (simp add: demo_mesh_def)
  with accepted have "sc_dialled (service_resolved demo_crypto ''me'' (info\<lparr>sv_addresses := [''ip'']\<rparr>)
          \<lparr>sc_mesh = demo_mesh, sc_dialled = []\<rparr>) = [(''ip:8308'', ''n'')]"
    by simp
  with d show ?thesis by blast
qed

text \<open>C35: an advertisement is checked against the key it carries itself. Anyone with a key
  pair of their own can therefore replace the known key of any node but the scanner's own,
  and the handshakes that node signs are then checked against the attacker's key.\<close>

theorem advertisement_replaces_known_key:
  assumes "b64_law C" "ed25519_law C" "length seed = 32" "generate_ed25519_keypair C seed = (priv, pub)"
    and "victim \<noteq> my_id" "get_known_public_key (mesh_known (sc_mesh s)) victim = Some old"
  shows "\<exists>info. get_known_public_key (mesh_known (sc_mesh (service_resolved C my_id info s))) victim = Some pub"
proof -
  obtain sig where ok: "is_ok (verify_message C sig pub (as_bytes (mdns_message victim 1)))"
    using signed_service_ok [OF assms(1-4)] by blast
  define info where "info = \<lparr>sv_instance_name = [], sv_host = [], sv_port = 1,
    sv_properties = [(''node_id'', victim), (''port'', show_nat (unat (1 :: u16))), (''signature'', sig),
      (''public_key'', pub)], sv_addresses = []\<rparr>"
  have "advertisement info = Some (victim, 1, sig, pub)"
    using parse_show_u16 [of 1] by (simp add: advertisement_def info_def)
  with ok assms(5) show ?thesis
    by (intro exI [of _ info]) (simp add: service_resolved_keys)
qed

theorem advertisement_replaces_known_key_witness:
  "\<exists>info. get_known_public_key (mesh_known (sc_mesh (service_resolved demo_crypto ''me'' info
      \<lparr>sc_mesh = demo_mesh, sc_dialled = []\<rparr>))) ''peer'' = Some (bytes_string (replicate 32 7))"
proof -
  have kp: "generate_ed25519_keypair demo_crypto (replicate 32 7)
      = (bytes_string (replicate 32 7), bytes_string (replicate 32 7))"
    by (simp add: generate_ed25519_keypair_def demo_crypto_def pad_to_same)
  show ?thesis
    by (rule advertisement_replaces_known_key [OF demo_crypto_laws(1,3) _ kp, of "''peer''" "''me''" _ demo_key])
      (simp_all add: demo_mesh_def)
qed

text \<open>Apart from the key of the node it names, an advertisement changes no known key;
  one that is malformed, unsigned, wrongly signed or our own changes nothing at all.\<close>

theorem advertisement_touches_only_its_node:
  "(case advertisement info of
      None \<Rightarrow> service_resolved C my_id info s = s
    | Some (p, port, sig, pub) \<Rightarrow>
        (if p = my_id \<or> \<not> is_ok (verify_message C sig pub (as_bytes (mdns_message p port)))
         then service_resolved C my_id info s = s
         else i = p \<or> get_known_public_key (mesh_known (sc_mesh (service_resolved C my_id info s))) i
                   = get_known_public_key (mesh_known (sc_mesh s)) i))"
  by (simp add: service_resolved_alt record_discovery_known discovered_node_def
      split: option.split prod.split)

end
