(* ===== verification/Node_Context.thy ===== *)
theory Node_Context
  imports P2p_Messages P2p_Registry Api_Crypto
begin

text \<open>
  \<open>p2p-node/src/lib.rs\<close>: the context of one peer connection and the operations that send a
  message, shut the connection down and process a message of the peer. The context's shared
  fields are the fields of a record; a channel's sending half is a number, and what was sent on
  \<open>outgoing_tx\<close> and \<open>local_event_tx\<close> is kept in order. Logging is not modelled. BSON and the random
  source are parameters (the bytes of the n-th token drawn), and the installed
  \<open>MessageHandler\<close> is a function on contexts.

  \<open>session_keys\<close> is behind a mutex that is not re-entrant, so a function that locks it while its
  caller holds it never returns: \<open>send_msg\<close> takes whether the caller does and is then \<open>None\<close>.
\<close>

section \<open>State\<close>

datatype local_p2p_event =
    TransferProgress uuid string u64 u64
  | TransferComplete uuid string bool
  | RemoteDesktopFrame string bytes usize usize usize
  | RemoteDesktopStopped string

type_synonym active_download = "string \<times> u64 \<times> u32 option"
type_synonym active_terminal = "nat \<times> nat \<times> uuid"

record node_context =
  outgoing_tx :: "outbound_p2p_payload list"
  local_event_tx :: "local_p2p_event list"
  my_info :: node_info
  peer_id :: string
  is_authenticated :: bool
  remote_resources :: "(resource_type, string) hmap"
  active_uploads :: "(uuid, string) hmap"
  active_downloads :: "(uuid, active_download) hmap"
  active_terminals :: "(string, active_terminal) hmap"
  active_socks_streams :: "(uuid, nat) hmap"
  active_ftp_uploads :: "(uuid, string) hmap"
  session_keys :: "(string, string) hmap"
  rx_binary_buffers :: "(string, bytes) hmap"
  peer_max_chunk_size :: usize
  discovered_ips :: "string list"
  peer_store :: memory_peer_store
  tokens_drawn :: nat \<comment> \<open>how far the random source has been read\<close>

record node_prims =
  np_crypto :: crypto_prims
  np_bson :: "p2p_message \<Rightarrow> bytes result" \<comment> \<open>\<open>to_bson_vec\<close>\<close>
  np_random :: "nat \<Rightarrow> bytes"

type_synonym message_handler = "p2p_message \<Rightarrow> node_context \<Rightarrow> node_context"

definition context_new :: "node_info \<Rightarrow> string \<Rightarrow> memory_peer_store \<Rightarrow> node_context" where
  "context_new me peer store =
     \<lparr>outgoing_tx = [], local_event_tx = [], my_info = me, peer_id = peer, is_authenticated = False,
      remote_resources = [], active_uploads = [], active_downloads = [], active_terminals = [],
      active_socks_streams = [], active_ftp_uploads = [], session_keys = [], rx_binary_buffers = [],
      peer_max_chunk_size = 10240, discovered_ips = [], peer_store = store, tokens_drawn = 0\<rparr>"

text \<open>A \<open>OnceLock\<close> keeps the first value it is given.\<close>

definition once_set :: "'a \<Rightarrow> 'a option \<Rightarrow> 'a option \<times> bool" where
  "once_set v cell = (case cell of None \<Rightarrow> (Some v, True) | Some w \<Rightarrow> (Some w, False))"

definition install_message_handler ::
  "message_handler \<Rightarrow> message_handler option \<Rightarrow> message_handler option \<times> bool" where
  "install_message_handler h cell = once_set h cell"

definition set_app_version :: "string \<Rightarrow> string option \<Rightarrow> string option" where
  "set_app_version version cell = fst (once_set version cell)"

definition app_version :: "string option \<Rightarrow> string" where
  "app_version cell = (case cell of Some v \<Rightarrow> v | None \<Rightarrow> ''0.0.0'')"

section \<open>Sending\<close>

definition message_mac :: "node_prims \<Rightarrow> (string, string) hmap \<Rightarrow> p2p_message \<Rightarrow> string option" where
  "message_mac P keys msg =
     (case resource_id msg of
        None \<Rightarrow> None
      | Some rid \<Rightarrow> (case map_of keys rid of
           None \<Rightarrow> None
         | Some key_hex \<Rightarrow> (case np_bson P msg of
              Inl _ \<Rightarrow> None
            | Inr bson_bytes \<Rightarrow> Some (compute_hmac_sha256 (np_crypto P) bson_bytes key_hex))))"

definition send_msg :: "node_prims \<Rightarrow> bool \<Rightarrow> p2p_message \<Rightarrow> node_context \<Rightarrow> node_context option" where
  "send_msg P keys_locked msg ctx =
     (if resource_id msg \<noteq> None \<and> keys_locked then None
      else Some (ctx\<lparr>outgoing_tx := outgoing_tx ctx
             @ [OutMessage \<lparr>sec_mac = message_mac P (session_keys ctx) msg, sec_message = msg\<rparr>]\<rparr>))"

definition send_binary :: "bytes \<Rightarrow> node_context \<Rightarrow> node_context" where
  "send_binary data ctx = ctx\<lparr>outgoing_tx := outgoing_tx ctx @ [OutBinary data]\<rparr>"

definition shutdown :: "node_context \<Rightarrow> node_context" where
  "shutdown ctx = ctx\<lparr>active_terminals := [], active_socks_streams := [], session_keys := []\<rparr>"

section \<open>Processing\<close>

definition rbac_ok :: "p2p_message \<Rightarrow> node_context \<Rightarrow> bool" where
  "rbac_ok msg ctx =
     (if is_response msg then True
      else case resource_id msg of
        None \<Rightarrow> True
      | Some rid \<Rightarrow>
          (case find (\<lambda>r. res_id r = rid) (ni_resources (my_info ctx)) of
             None \<Rightarrow> False
           | Some resource \<Rightarrow>
               (let allowed_types = allowed_resource_types msg
                in \<not> (allowed_types \<noteq> [] \<and> res_type resource \<notin> set allowed_types))))"

text \<open>The loop that gives every announced resource a fresh token and forgets its
  configuration.\<close>

primrec issue_tokens ::
  "node_prims \<Rightarrow> shared_resource list \<Rightarrow> node_context \<Rightarrow> shared_resource list \<times> node_context" where
  "issue_tokens P [] ctx = ([], ctx)"
| "issue_tokens P (res # rs) ctx =
     (let token = generate_session_token (np_crypto P) (np_random P (tokens_drawn ctx));
          ctx = ctx\<lparr>tokens_drawn := tokens_drawn ctx + 1,
                    session_keys := hm_insert (res_id res) token (session_keys ctx)\<rparr>;
          (rs', ctx) = issue_tokens P rs ctx
      in (res\<lparr>res_session_token := Some token, res_config := None\<rparr> # rs', ctx))"

definition process_handshake ::
  "node_prims \<Rightarrow> resource_type list option \<Rightarrow> node_context \<Rightarrow> node_context option" where
  "process_handshake P requested_resources ctx =
     (let my_resources =
            (case requested_resources of
               None \<Rightarrow> ni_resources (my_info ctx)
             | Some req_types \<Rightarrow> filter (\<lambda>r. res_type r \<in> set req_types) (ni_resources (my_info ctx)));
          (my_resources, ctx) = issue_tokens P my_resources ctx
      in send_msg P True (HandshakeResponse my_resources) ctx)"

definition process_remote_desktop ::
  "node_prims \<Rightarrow> string \<Rightarrow> node_context \<Rightarrow> node_context option" where
  "process_remote_desktop P rid ctx =
     (if list_ex (\<lambda>r. res_id r = rid \<and> res_is_active r \<and> res_type r = RemoteDesktop)
           (ni_resources (my_info ctx))
      then send_msg P False (RemoteDesktopResponse rid True None None None) ctx
      else send_msg P False
             (RemoteDesktopResponse rid False
                (Some ''Remote desktop service is inactive or unavailable'') None None) ctx)"

fun process_message ::
  "node_prims \<Rightarrow> message_handler option \<Rightarrow> p2p_message \<Rightarrow> node_context \<Rightarrow> node_context option" where
  "process_message P handler msg ctx =
     (if \<not> rbac_ok msg ctx then Some ctx
      else case msg of
        Handshake _ _ _ requested_resources _ _ _ \<Rightarrow> process_handshake P requested_resources ctx
      | RemoteDesktopRequest rid _ _ _ _ \<Rightarrow> process_remote_desktop P rid ctx
      | other \<Rightarrow> (case handler of Some h \<Rightarrow> Some (h other ctx) | None \<Rightarrow> Some ctx))"

section \<open>Facts\<close>

lemma process_message_rejected: "\<not> rbac_ok msg ctx \<Longrightarrow> process_message P h msg ctx = Some ctx"
  by simp

lemma issue_tokens_frame:
  "my_info (snd (issue_tokens P rs ctx)) = my_info ctx"
  "outgoing_tx (snd (issue_tokens P rs ctx)) = outgoing_tx ctx"
  "is_authenticated (snd (issue_tokens P rs ctx)) = is_authenticated ctx"
  "tokens_drawn (snd (issue_tokens P rs ctx)) = tokens_drawn ctx + length rs"
  by (induction rs arbitrary: ctx) (simp_all add: Let_def case_prod_unfold)

definition token_at :: "node_prims \<Rightarrow> nat \<Rightarrow> string" where
  "token_at P n = generate_session_token (np_crypto P) (np_random P n)"

lemma issue_tokens_resources:
  "fst (issue_tokens P rs ctx) =
     map2 (\<lambda>r n. r\<lparr>res_session_token := Some (token_at P n), res_config := None\<rparr>)
       rs [tokens_drawn ctx ..< tokens_drawn ctx + length rs]"
  by (induction rs arbitrary: ctx)
    (simp_all add: Let_def case_prod_unfold token_at_def upt_conv_Cons del: upt_Suc)

lemma issue_tokens_other_keys:
  "i \<notin> res_id ` set rs \<Longrightarrow> map_of (session_keys (snd (issue_tokens P rs ctx))) i = map_of (session_keys ctx) i"
  by (induction rs arbitrary: ctx) (simp_all add: Let_def case_prod_unfold)

lemma issue_tokens_keys:
  "distinct (map res_id rs) \<Longrightarrow> k < length rs \<Longrightarrow>
   map_of (session_keys (snd (issue_tokens P rs ctx))) (res_id (rs ! k)) = Some (token_at P (tokens_drawn ctx + k))"
proof (induction rs arbitrary: ctx k)
  case Nil
  then show ?case by simp
next
  case (Cons r rs)
  show ?case
  proof (cases k)
    case 0
    with Cons.prems show ?thesis
      by (simp add: Let_def case_prod_unfold issue_tokens_other_keys token_at_def)
  next
    case (Suc j)
    with Cons.prems show ?thesis by (simp add: Let_def case_prod_unfold Cons.IH)
  qed
qed

lemma find_resource_iff:
  "(\<exists>r. find (\<lambda>r. res_id r = rid) rs = Some r) \<longleftrightarrow> rid \<in> res_id ` set rs"
  by (induction rs) auto

lemma rbac_ok_addressed:
  "\<not> is_response msg \<Longrightarrow> resource_id msg = Some rid \<Longrightarrow>
   rbac_ok msg ctx \<longleftrightarrow>
     (\<exists>r. find (\<lambda>r. res_id r = rid) (ni_resources (my_info ctx)) = Some r
          \<and> res_type r \<in> set (allowed_resource_types msg))"
  using allowed_types_empty_iff [of msg] by (auto simp: rbac_ok_def Let_def split: option.splits)

text \<open>The messages \<open>process_message\<close> answers itself.\<close>

fun handled_here :: "p2p_message \<Rightarrow> bool" where
  "handled_here (Handshake _ _ _ _ _ _ _) = True"
| "handled_here (RemoteDesktopRequest _ _ _ _ _) = True"
| "handled_here _ = False"

lemma process_message_delegates:
  "rbac_ok msg ctx \<Longrightarrow> \<not> handled_here msg \<Longrightarrow>
   process_message P (Some h) msg ctx = Some (h msg ctx)"
  by (cases msg) simp_all

lemma process_handshake_total:
  "\<exists>ctx'. process_handshake P req ctx = Some ctx'"
  by (simp add: process_handshake_def Let_def case_prod_unfold send_msg_def)

lemma process_remote_desktop_total:
  "\<exists>ctx'. process_remote_desktop P rid ctx = Some ctx'"
  by (simp add: process_remote_desktop_def send_msg_def)

lemma process_message_total: "\<exists>ctx'. process_message P handler msg ctx = Some ctx'"
  using process_handshake_total process_remote_desktop_total
  by (cases "rbac_ok msg ctx"; cases handler; cases msg) simp_all

definition requested :: "resource_type list option \<Rightarrow> node_context \<Rightarrow> shared_resource list" where
  "requested req ctx =
     (case req of None \<Rightarrow> ni_resources (my_info ctx)
      | Some ts \<Rightarrow> filter (\<lambda>r. res_type r \<in> set ts) (ni_resources (my_info ctx)))"

lemma process_handshake_alt:
  "process_handshake P req ctx =
     (let (rs, ctx') = issue_tokens P (requested req ctx) ctx
      in Some (ctx'\<lparr>outgoing_tx := outgoing_tx ctx'
           @ [OutMessage \<lparr>sec_mac = None, sec_message = HandshakeResponse rs\<rparr>]\<rparr>))"
  by (simp add: process_handshake_def requested_def send_msg_def message_mac_def Let_def case_prod_unfold)

section \<open>A concrete context\<close>

definition demo_resource :: "string \<Rightarrow> resource_type \<Rightarrow> shared_resource" where
  "demo_resource i t = \<lparr>res_id = i, res_name = [], res_type = t, res_config = Some ''secret'',
     res_is_active = True, res_session_token = None\<rparr>"

definition demo_node :: "string \<Rightarrow> shared_resource list \<Rightarrow> node_info" where
  "demo_node i rs = \<lparr>ni_id = i, ni_name = [], ni_os = [], ni_version = [], ni_app_type = [],
     ni_build_type = [], ni_public_key = [], ni_resources = rs, ni_is_online = True,
     ni_last_used = 0, ni_is_temporary = False\<rparr>"

definition demo_ctx :: node_context where
  "demo_ctx = context_new (demo_node ''me'' [demo_resource ''fs'' Filesystem, demo_resource ''desktop'' RemoteDesktop])
     ''peer'' memory_peer_store_default"

definition demo_prims :: node_prims where
  "demo_prims = \<lparr>np_crypto = demo_crypto, np_bson = (\<lambda>_. Inr [1, 2]), np_random = (\<lambda>n. [word_of_nat n])\<rparr>"

lemmas demo_ctx_defs = demo_ctx_def demo_node_def demo_resource_def context_new_def

section \<open>Properties\<close>

text \<open>C2: requests reach a resource only if it is shared and of a type the message is meant
  for. A request for an unshared resource, or for one of another type, changes nothing and
  is not handed to the application; a permitted one that is not answered here is handed to
  it exactly as received.\<close>

theorem requests_are_access_checked:
  assumes "\<not> is_response msg" "resource_id msg = Some rid"
  shows "if (\<exists>r. find (\<lambda>r. res_id r = rid) (ni_resources (my_info ctx)) = Some r
                \<and> res_type r \<in> set (allowed_resource_types msg))
    then handled_here msg \<or> process_message P (Some h) msg ctx = Some (h msg ctx)
    else process_message P (Some h) msg ctx = Some ctx"
  using rbac_ok_addressed [OF assms, of ctx] process_message_delegates process_message_rejected
  by metis

theorem requests_are_access_checked_witness:
  "process_message demo_prims (Some (\<lambda>_ c. shutdown c)) (StartTerminal ''fs'') demo_ctx = Some demo_ctx"
proof -
  from requests_are_access_checked [of "StartTerminal ''fs''" "''fs''" demo_ctx demo_prims "\<lambda>_ c. shutdown c"]
  show ?thesis by (simp add: demo_ctx_defs del: process_message.simps)
qed

text \<open>Messages the table counts as responses are handed to the application unchecked,
  among them the data and the closing of a proxied connection, which a peer may send for a
  resource that is not shared at all.\<close>

theorem responses_are_not_checked:
  "process_message P (Some h) (SocksData rid stream dat) ctx = Some (h (SocksData rid stream dat) ctx)
   \<and> process_message P (Some h) (SocksClose rid stream) ctx = Some (h (SocksClose rid stream) ctx)"
  by (simp add: rbac_ok_def)

text \<open>Processing a message always comes to an end: answering a handshake while the
  session keys are locked cannot deadlock, because the answer is not addressed to a resource
  and so needs no key.\<close>

theorem process_message_never_deadlocks:
  "\<exists>ctx'. process_message P handler msg ctx = Some ctx'"
  by (rule process_message_total)

text \<open>C11: a handshake is answered with exactly the resources asked for, each with a token of
  its own and without its configuration, and the token sent for a resource is the one its
  messages are checked against from then on; the keys of other resources stay.\<close>

theorem handshake_issues_tokens:
  assumes "process_message P handler (Handshake ver ts sig req mc port from_id) ctx = Some ctx'"
    and "distinct (map res_id (ni_resources (my_info ctx)))"
  shows "\<exists>rs. outgoing_tx ctx' = outgoing_tx ctx @ [OutMessage \<lparr>sec_mac = None, sec_message = HandshakeResponse rs\<rparr>]
    \<and> map res_id rs = map res_id (requested req ctx)
    \<and> list_all (\<lambda>r. res_config r = None \<and> res_session_token r = map_of (session_keys ctx') (res_id r)
                   \<and> res_session_token r \<noteq> None) rs
    \<and> (\<forall>i. i \<notin> res_id ` set (requested req ctx) \<longrightarrow> map_of (session_keys ctx') i = map_of (session_keys ctx) i)
    \<and> is_authenticated ctx' = is_authenticated ctx"
proof -
  let ?q = "requested req ctx"
  let ?out = "issue_tokens P ?q ctx"
  have ctx': "ctx' = (snd ?out)\<lparr>outgoing_tx := outgoing_tx ctx
      @ [OutMessage \<lparr>sec_mac = None, sec_message = HandshakeResponse (fst ?out)\<rparr>]\<rparr>"
    using assms(1) by (simp add: rbac_ok_def process_handshake_alt case_prod_unfold Let_def issue_tokens_frame)
  have d: "distinct (map res_id ?q)"
    using assms(2) by (auto simp: requested_def distinct_map_filter split: option.split)
  have "res_config (fst ?out ! k) = None
      \<and> res_session_token (fst ?out ! k) = Some (token_at P (tokens_drawn ctx + k))
      \<and> map_of (session_keys (snd ?out)) (res_id (fst ?out ! k)) = Some (token_at P (tokens_drawn ctx + k))"
    if "k < length ?q" for k
    using that issue_tokens_keys [OF d that, of P ctx] by (simp add: issue_tokens_resources)
  moreover have "map res_id (fst ?out) = map res_id ?q" "length (fst ?out) = length ?q"
    by (auto simp: issue_tokens_resources intro: nth_equalityI)
  ultimately show ?thesis
    by (simp add: ctx' issue_tokens_frame issue_tokens_other_keys list_all_length)
qed

theorem handshake_issues_tokens_witness:
  "\<exists>ctx' rs. process_message demo_prims None (Handshake [] 0 [] (Some [Filesystem]) None None None) demo_ctx = Some ctx'
    \<and> outgoing_tx ctx' = [OutMessage \<lparr>sec_mac = None, sec_message = HandshakeResponse rs\<rparr>]
    \<and> map res_id rs = [''fs''] \<and> list_all (\<lambda>r. res_config r = None) rs"
proof -
  let ?hs = "Handshake [] 0 [] (Some [Filesystem]) None None None"
  obtain ctx' where c: "process_message demo_prims None ?hs demo_ctx = Some ctx'"
    using process_handshake_total [of demo_prims "Some [Filesystem]" demo_ctx]
    by (auto simp: rbac_ok_def)
  have "distinct (map res_id (ni_resources (my_info demo_ctx)))" by (simp add: demo_ctx_defs)
  from handshake_issues_tokens [OF c this] obtain rs where
    "outgoing_tx ctx' = outgoing_tx demo_ctx @ [OutMessage \<lparr>sec_mac = None, sec_message = HandshakeResponse rs\<rparr>]"
    "map res_id rs = map res_id (requested (Some [Filesystem]) demo_ctx)" "list_all (\<lambda>r. res_config r = None) rs"
    by (auto simp: list_all_iff)
  with c show ?thesis by (auto simp: demo_ctx_defs requested_def)
qed

text \<open>A remote-desktop request is granted exactly when a resource with that id is an
  active remote desktop; the answer is authenticated with the resource's session key when
  one is known, and sent without a MAC otherwise.\<close>

theorem remote_desktop_granted_iff_active:
  assumes "rbac_ok (RemoteDesktopRequest rid start orig rate force) ctx"
  shows "process_message P handler (RemoteDesktopRequest rid start orig rate force) ctx =
    (let granted = (\<exists>r\<in>set (ni_resources (my_info ctx)). res_id r = rid \<and> res_is_active r \<and> res_type r = RemoteDesktop);
         msg = RemoteDesktopResponse rid granted
                 (if granted then None else Some ''Remote desktop service is inactive or unavailable'') None None
     in Some (ctx\<lparr>outgoing_tx := outgoing_tx ctx
          @ [OutMessage \<lparr>sec_mac = message_mac P (session_keys ctx) msg, sec_message = msg\<rparr>]\<rparr>))"
  using assms
  by (cases "\<exists>r\<in>set (ni_resources (my_info ctx)). res_id r = rid \<and> res_is_active r \<and> res_type r = RemoteDesktop")
    (simp_all only: process_message.simps p2p_message.case process_remote_desktop_def send_msg_def Let_def
      list_ex_iff if_True if_False simp_thms)

theorem remote_desktop_granted_iff_active_witness:
  "process_message demo_prims None (RemoteDesktopRequest ''desktop'' True False None False) demo_ctx =
     Some (demo_ctx\<lparr>outgoing_tx := [OutMessage \<lparr>sec_mac = None,
        sec_message = RemoteDesktopResponse ''desktop'' True None None None\<rparr>]\<rparr>)"
proof -
  have "rbac_ok (RemoteDesktopRequest ''desktop'' True False None False) demo_ctx"
    by (simp add: rbac_ok_def demo_ctx_defs)
  from remote_desktop_granted_iff_active [OF this, of demo_prims None] show ?thesis
    by (simp add: demo_ctx_defs message_mac_def Let_def)
qed

end
