(* ===== verification/Client_Types.thy ===== *)
theory Client_Types
  imports P2p_Messages Node_Context
begin

text \<open>
  \<open>client-core/src/lib.rs\<close>: the commands of the network task, the states it reports, why a
  peer connection fails and how that is worded, and the callbacks of the application
  (\<open>AppEventHandler\<close>) as the events the application sees. \<open>on_log\<close> is not an event: logging is
  not modelled. A \<open>PathBuf\<close> is a string.
\<close>

datatype (plugins only: size) net_cmd =
    Connect string node_info "turn_credentials option"
  | Disconnect
  | ApplyTurnCredentials "turn_credentials option"
  | DisconnectPeer string
  | DisconnectPeerSession string uuid
  | Send ws_message
  | SendP2p string
  | SendP2pMessage p2p_message
  | SendToPeer string p2p_message
  | BroadcastP2pMessage resource_type p2p_message
      \<comment> \<open>target_resource_type, msg_template\<close>
  | HandleInboundSignal inbound_rtc_signal
  | RegisterUpload string uuid string
      \<comment> \<open>peer_id, transfer_id, local_file_path\<close>
  | Call string
  | AutoConnect string
  | PeerConnected string "shared_resource list"
  | ReloadResources "shared_resource list"
  | UpdateName string
  | ProcessNodesList "node_info list"
  | MergeNodesList "node_info list"
  | SetLocalDiscovery bool

datatype ws_state = WsDisconnected | WsConnecting | WsConnected | LocalMesh | LocalMeshError

datatype p2p_peer_state =
    PeerDisconnected | ConnectingTransport | Authenticating | PeerIsConnected | PeerIsFailed

datatype p2p_failure =
    Transport string
  | ClockSkew u64
  | BadSignature string
  | UnknownKey
  | MissingHmac string
  | BadHmac string
  | NoSessionKey string
  | Unauthenticated
  | OfferFailed string
  | ClientInitFailed string

text \<open>The dash of the messages in UTF-8, between spaces.\<close>

definition dash :: string where
  "dash = '' '' @ map char_of [226 :: nat, 128, 148] @ '' ''"

fun failure_text :: "p2p_failure \<Rightarrow> string" where
  "failure_text (Transport s) =
     ''WebRTC transport failed ('' @ s @ '')'' @ dash @ ''ICE could not connect; check the firewall and TURN''"
| "failure_text (ClockSkew ahead_ms) =
     ''handshake rejected: local clock is '' @ show_nat (unat ahead_ms)
       @ '' ms past the peer'' @ [char_of (39 :: nat)] @ ''s'' @ dash @ ''sync system time''"
| "failure_text (BadSignature e) = ''handshake signature rejected: '' @ e"
| "failure_text UnknownKey =
     ''no trusted public key for this peer after 5 s'' @ dash @ ''is it registered on the account?''"
| "failure_text (MissingHmac resource) =
     ''command for `'' @ resource @ ''` carried no HMAC'' @ dash @ ''blocked''"
| "failure_text (BadHmac resource) = ''invalid HMAC for `'' @ resource @ ''`'' @ dash @ ''blocked''"
| "failure_text (NoSessionKey resource) = ''no session key for `'' @ resource @ ''`'' @ dash @ ''blocked''"
| "failure_text Unauthenticated = ''peer sent commands before authenticating'' @ dash @ ''blocked''"
| "failure_text (OfferFailed e) = ''could not create the WebRTC offer: '' @ e"
| "failure_text (ClientInitFailed e) = ''could not start the WebRTC client: '' @ e"

datatype (plugins only: size) app_event =
    OnConnected
  | OnDisconnected
  | OnUpdateNodes "node_info list"
  | OnDownloadComplete string
  | OnWsStateChanged ws_state
  | OnPeerStateChanged string p2p_peer_state
  | OnPeerFailed string p2p_failure
  | OnP2pMessage p2p_message
  | OnP2pConnecting string
  | OnP2pConnected string
  | OnP2pDisconnected string
  | OnP2pPingUpdated string u64
  | OnPeerConnectionTypeChanged string string
  | OnLocalP2pEvent local_p2p_event

text \<open>The measured skew and the blocked resource can be read back from the message.\<close>

lemma clock_skew_text_inj: "failure_text (ClockSkew a) = failure_text (ClockSkew b) \<longleftrightarrow> a = b"
proof
  let ?t = "'' ms past the peer'' @ [char_of (39 :: nat)] @ ''s'' @ dash @ ''sync system time''"
  assume "failure_text (ClockSkew a) = failure_text (ClockSkew b)"
  then have "show_nat (unat a) @ ?t = show_nat (unat b) @ ?t" by simp
  then have "show_nat (unat a) = show_nat (unat b)" by (simp only: append_same_eq)
  then show "a = b" by (simp add: word_unat_eq_iff)
qed simp

lemma blocked_resource_text_inj:
  "failure_text (BadHmac r) = failure_text (BadHmac r') \<longleftrightarrow> r = r'"
  "failure_text (MissingHmac r) = failure_text (MissingHmac r') \<longleftrightarrow> r = r'"
  "failure_text (NoSessionKey r) = failure_text (NoSessionKey r') \<longleftrightarrow> r = r'"
  by simp_all

end
