(* ===== verification/Rtc_Session.thy ===== *)
theory Rtc_Session
  imports Client_Types Chunking Rate_Limits
begin

text \<open>
  \<open>client-core/src/rtc/mod.rs\<close> (receiving side) and \<open>rtc/core.rs\<close>: what happens to one message
  that arrived on a data channel. The state of a connection is one record: the node context,
  the data channel (frames sent, whether it is open and how many more frames it takes), the
  process-wide tables the code touches, and, in order, the callbacks made, the commands sent to
  the network task, the desktop input applied and the tasks spawned. BSON is a parameter.
  What other tasks do while the code sleeps in a polling loop is an argument: the value seen at
  each poll. The video capture and encoding task is not modelled; starting one registers it.

  Functions that process a message are \<open>None\<close> when they never return (a deadlock on the session
  keys, see \<open>Node_Context\<close>).
\<close>

section \<open>State\<close>

type_synonym stream_key = "uuid \<times> string"

datatype rtc_task =
    ConnectionTypePoller
  | Renegotiate string
  | AnswerSdpOffer string string
  | ApplySdpAnswer string string

record rtc_state =
  rtc_ctx :: node_context
  rtc_target :: string
  rtc_connection_id :: uuid
  rtc_last_pong :: u64
  rtc_dc_open :: bool
  rtc_dc_room :: nat
  rtc_dc_sent :: "bytes list"
  rtc_events :: "app_event list"
  rtc_net :: "net_cmd list"
  rtc_known :: known_registry
  rtc_streams :: "(stream_key, nat) hmap"
  rtc_original_sizes :: "(stream_key, bool) hmap"
  rtc_bitrates :: "(stream_key, u32) hmap"
  rtc_stopped :: "stream_key list"
  rtc_inputs :: "desktop_input_event list"
  rtc_tasks :: "rtc_task list"

record rtc_prims =
  rp_node :: node_prims
  rp_to_bson :: "secured_p2p_envelope \<Rightarrow> bytes result"
  rp_from_bson :: "bytes \<Rightarrow> secured_p2p_envelope result"

record rtc_env =
  re_now :: u64
  re_auth_polls :: "nat \<Rightarrow> bool" \<comment> \<open>\<open>is_authenticated\<close> at the i-th poll\<close>
  re_key_polls :: "nat \<Rightarrow> known_registry" \<comment> \<open>the known keys at the i-th poll\<close>
  re_handler :: "message_handler option"
  re_rdesk :: bool \<comment> \<open>the feature \<open>feature-rdesk\<close>\<close>
  re_provider :: bool \<comment> \<open>a desktop provider is installed\<close>
  re_screen :: "(usize \<times> usize) option" \<comment> \<open>its primary screen\<close>
  re_add_track :: "nat option" \<comment> \<open>the sender \<open>add_track\<close> returns, or its failure\<close>

definition emit :: "app_event \<Rightarrow> rtc_state \<Rightarrow> rtc_state" where
  "emit e s = s\<lparr>rtc_events := rtc_events s @ [e]\<rparr>"

definition net_send :: "net_cmd \<Rightarrow> rtc_state \<Rightarrow> rtc_state" where
  "net_send c s = s\<lparr>rtc_net := rtc_net s @ [c]\<rparr>"

definition spawn :: "rtc_task \<Rightarrow> rtc_state \<Rightarrow> rtc_state" where
  "spawn t s = s\<lparr>rtc_tasks := rtc_tasks s @ [t]\<rparr>"

definition with_ctx :: "(node_context \<Rightarrow> node_context) \<Rightarrow> rtc_state \<Rightarrow> rtc_state" where
  "with_ctx f s = s\<lparr>rtc_ctx := f (rtc_ctx s)\<rparr>"

definition dc_close :: "rtc_state \<Rightarrow> rtc_state" where
  "dc_close s = s\<lparr>rtc_dc_open := False\<rparr>"

section \<open>Sending on the data channel\<close>

text \<open>The write lock is held for the whole message; waiting for the channel's buffer to drain
  is not modelled.\<close>

primrec send_frames :: "bytes list \<Rightarrow> rtc_state \<Rightarrow> unit result \<times> rtc_state" where
  "send_frames [] s = (Inr (), s)"
| "send_frames (frame # fs) s =
     (if rtc_dc_open s \<and> rtc_dc_room s > 0
      then send_frames fs (s\<lparr>rtc_dc_sent := rtc_dc_sent s @ [frame], rtc_dc_room := rtc_dc_room s - 1\<rparr>)
      else (Inl ''data channel closed'', s))"

definition send_chunked_binary :: "bytes \<Rightarrow> nat \<Rightarrow> rtc_state \<Rightarrow> unit result \<times> rtc_state" where
  "send_chunked_binary data max_chunk_payload s = send_frames (frame_chunks data max_chunk_payload) s"

text \<open>\<open>to_bson_vec\<close> of an envelope without a MAC, sent with the default chunk size; errors are
  ignored.\<close>

definition send_plain :: "rtc_prims \<Rightarrow> p2p_message \<Rightarrow> rtc_state \<Rightarrow> rtc_state" where
  "send_plain P msg s =
     (case rp_to_bson P \<lparr>sec_mac = None, sec_message = msg\<rparr> of
        Inr bson_bytes \<Rightarrow> snd (send_chunked_binary bson_bytes 10240 s)
      | Inl _ \<Rightarrow> s)"

section \<open>Messages handled before any check\<close>

definition save_remote_resource :: "shared_resource \<Rightarrow> node_context \<Rightarrow> node_context" where
  "save_remote_resource res ctx =
     ctx\<lparr>remote_resources := hm_insert (res_type res) (res_id res) (remote_resources ctx),
         session_keys := (case res_session_token res of
            Some token \<Rightarrow> hm_insert (res_id res) token (session_keys ctx)
          | None \<Rightarrow> session_keys ctx)\<rparr>"

text \<open>Unlike \<open>Node_Context.issue_tokens\<close> this loop keeps the configuration.\<close>

primrec symmetric_tokens ::
  "node_prims \<Rightarrow> shared_resource list \<Rightarrow> node_context \<Rightarrow> shared_resource list \<times> node_context" where
  "symmetric_tokens P [] ctx = ([], ctx)"
| "symmetric_tokens P (res # rs) ctx =
     (let token = generate_session_token (np_crypto P) (np_random P (tokens_drawn ctx));
          ctx = ctx\<lparr>tokens_drawn := tokens_drawn ctx + 1,
                    session_keys := hm_insert (res_id res) token (session_keys ctx)\<rparr>;
          (rs', ctx) = symmetric_tokens P rs ctx
      in (res\<lparr>res_session_token := Some token\<rparr> # rs', ctx))"

definition symmetric_response :: "rtc_prims \<Rightarrow> rtc_state \<Rightarrow> rtc_state" where
  "symmetric_response P s =
     (let s = spawn ConnectionTypePoller s;
          (my_resources, ctx) =
             symmetric_tokens (rp_node P) (ni_resources (my_info (rtc_ctx s))) (rtc_ctx s)
      in send_plain P (HandshakeResponse my_resources) (s\<lparr>rtc_ctx := ctx\<rparr>))"

definition accept_handshake_response ::
  "rtc_prims \<Rightarrow> shared_resource list \<Rightarrow> rtc_state \<Rightarrow> rtc_state" where
  "accept_handshake_response P resources s =
     (let s = with_ctx (fold save_remote_resource resources) s;
          was_authenticated = is_authenticated (rtc_ctx s);
          s = with_ctx (is_authenticated_update (\<lambda>_. True)) s;
          s = emit (OnPeerStateChanged (rtc_target s) PeerIsConnected) s;
          s = net_send (PeerConnected (rtc_target s) resources) s
      in if \<not> was_authenticated then symmetric_response P s else s)"

definition sync_node :: "node_info \<Rightarrow> peer_table \<Rightarrow> peer_table" where
  "sync_node n = hm_upsert (ni_id n) peer_config_default
     (\<lambda>e. e\<lparr>pc_public_key := ni_public_key n, pc_name := ni_name n, pc_os := ni_os n\<rparr>)"

definition sync_addresses :: "string \<times> string list \<Rightarrow> peer_table \<Rightarrow> peer_table" where
  "sync_addresses a = hm_upsert (fst a) peer_config_default
     (\<lambda>e. e\<lparr>pc_last_known_addresses := snd a\<rparr>)"

definition accept_peers_sync ::
  "node_info list \<Rightarrow> (string, string list) hmap \<Rightarrow> rtc_state \<Rightarrow> rtc_state" where
  "accept_peers_sync nodes addresses s =
     (let s = s\<lparr>rtc_known := update_known_public_keys nodes (rtc_known s)\<rparr>;
          s = with_ctx (\<lambda>ctx. ctx\<lparr>peer_store :=
                store_update (\<lambda>m. fold sync_addresses addresses (fold sync_node nodes m)) (peer_store ctx)\<rparr>) s
      in net_send (MergeNodesList nodes) s)"

section \<open>The two gates\<close>

datatype gate = Pass | Drop | Blocked p2p_failure

definition mac_gate :: "rtc_prims \<Rightarrow> secured_p2p_envelope \<Rightarrow> node_context \<Rightarrow> gate" where
  "mac_gate P envelope ctx =
     (case resource_id (sec_message envelope) of
        None \<Rightarrow> Pass
      | Some rid \<Rightarrow>
          (case map_of (session_keys ctx) rid of
             None \<Rightarrow> Blocked (NoSessionKey rid)
           | Some token \<Rightarrow>
               (case sec_mac envelope of
                  None \<Rightarrow> Blocked (MissingHmac rid)
                | Some received_mac \<Rightarrow>
                    (case np_bson (rp_node P) (sec_message envelope) of
                       Inl _ \<Rightarrow> Drop
                     | Inr bson_bytes \<Rightarrow>
                         (if verify_hmac_sha256 (np_crypto (rp_node P)) bson_bytes token received_mac
                          then Pass else Blocked (BadHmac rid))))))"

fun is_handshake :: "p2p_message \<Rightarrow> bool" where
  "is_handshake (Handshake _ _ _ _ _ _ _) = True"
| "is_handshake _ = False"

text \<open>Up to 25 polls, 200 ms apart.\<close>

definition auth_gate :: "rtc_env \<Rightarrow> p2p_message \<Rightarrow> node_context \<Rightarrow> gate" where
  "auth_gate E msg ctx =
     (if \<not> is_authenticated ctx \<and> \<not> is_handshake msg
      then (if list_ex (re_auth_polls E) [0..<25] then Pass else Blocked Unauthenticated)
      else Pass)"

definition block :: "p2p_failure \<Rightarrow> rtc_state \<Rightarrow> rtc_state" where
  "block failure s =
     emit (OnPeerStateChanged (rtc_target s) PeerIsFailed) (emit (OnPeerFailed (rtc_target s) failure) s)"

section \<open>Remote desktop\<close>

definition is_active_desktop :: "string \<Rightarrow> node_context \<Rightarrow> bool" where
  "is_active_desktop rid ctx =
     list_ex (\<lambda>r. res_id r = rid \<and> res_is_active r \<and> res_type r = RemoteDesktop)
       (ni_resources (my_info ctx))"

definition send_unsigned :: "p2p_message \<Rightarrow> rtc_state \<Rightarrow> rtc_state" where
  "send_unsigned msg s = with_ctx (\<lambda>ctx. ctx\<lparr>outgoing_tx := outgoing_tx ctx @ [OutUnsigned msg]\<rparr>) s"

definition rdesk_register :: "nat \<Rightarrow> string \<Rightarrow> bool \<Rightarrow> u32 \<Rightarrow> rtc_state \<Rightarrow> rtc_state" where
  "rdesk_register rtp_sender rid original_size target_bitrate s =
     (let key = (rtc_connection_id s, rid)
      in spawn (Renegotiate rid)
           (s\<lparr>rtc_streams := hm_insert key rtp_sender (rtc_streams s),
              rtc_original_sizes := hm_insert key original_size (rtc_original_sizes s),
              rtc_bitrates := hm_insert key target_bitrate (rtc_bitrates s)\<rparr>))"

definition rdesk_start :: "rtc_env \<Rightarrow> string \<Rightarrow> bool \<Rightarrow> u32 \<Rightarrow> rtc_state \<Rightarrow> rtc_state" where
  "rdesk_start E rid original_size target_bitrate s =
     (let key = (rtc_connection_id s, rid)
      in if hm_contains (rtc_streams s) key
         then s\<lparr>rtc_original_sizes := hm_adjust key (\<lambda>_. original_size) (rtc_original_sizes s),
                rtc_bitrates := hm_adjust key (\<lambda>_. target_bitrate) (rtc_bitrates s)\<rparr>
         else case re_add_track E of
                None \<Rightarrow> s
              | Some rtp_sender \<Rightarrow> rdesk_register rtp_sender rid original_size target_bitrate s)"

definition rdesk_stop :: "string \<Rightarrow> rtc_state \<Rightarrow> rtc_state" where
  "rdesk_stop rid s =
     (let key = (rtc_connection_id s, rid);
          s = (case map_of (rtc_streams s) key of
                 Some _ \<Rightarrow> s\<lparr>rtc_streams := hm_remove key (rtc_streams s),
                             rtc_stopped := rtc_stopped s @ [key],
                             rtc_original_sizes := hm_remove key (rtc_original_sizes s),
                             rtc_bitrates := hm_remove key (rtc_bitrates s)\<rparr>
               | None \<Rightarrow> s)
      in spawn (Renegotiate rid) s)"

definition rdesk_denied :: "string \<Rightarrow> rtc_state \<Rightarrow> rtc_state" where
  "rdesk_denied rid s =
     send_unsigned (RemoteDesktopResponse rid False
       (Some ''Remote desktop service is inactive or unavailable'') None None) s"

definition rdesk_request ::
  "rtc_env \<Rightarrow> string \<Rightarrow> bool \<Rightarrow> bool \<Rightarrow> u32 option \<Rightarrow> rtc_state \<Rightarrow> rtc_state" where
  "rdesk_request E rid start original_size bitrate_bps s =
     (if is_active_desktop rid (rtc_ctx s)
      then let target_bitrate = (case bitrate_bps of Some b \<Rightarrow> b | None \<Rightarrow> 800000);
               size = (if start \<and> re_provider E then re_screen E else None);
               s = send_unsigned (RemoteDesktopResponse rid True None
                     (map_option fst size) (map_option snd size)) s
           in if start then rdesk_start E rid original_size target_bitrate s else rdesk_stop rid s
      else rdesk_denied rid s)"

text \<open>The messages the receiving function consumes itself when it is built with the remote
  desktop; \<open>None\<close> for every other message.\<close>

fun rdesk_message :: "rtc_env \<Rightarrow> p2p_message \<Rightarrow> rtc_state \<Rightarrow> rtc_state option" where
  "rdesk_message E (RemoteDesktopRequest rid start original_size bitrate_bps _) s =
     Some (rdesk_request E rid start original_size bitrate_bps s)"
| "rdesk_message E (RemoteDesktopSdpOffer rid sdp) s = Some (spawn (AnswerSdpOffer rid sdp) s)"
| "rdesk_message E (RemoteDesktopSdpAnswer rid sdp) s = Some (spawn (ApplySdpAnswer rid sdp) s)"
| "rdesk_message E (RemoteDesktopInput _ event) s =
     Some (if re_provider E then s\<lparr>rtc_inputs := rtc_inputs s @ [event]\<rparr> else s)"
| "rdesk_message E _ s = None"

section \<open>Core messages\<close>

definition run_process :: "rtc_prims \<Rightarrow> rtc_env \<Rightarrow> p2p_message \<Rightarrow> rtc_state \<Rightarrow> rtc_state option" where
  "run_process P E msg s =
     map_option (\<lambda>ctx. s\<lparr>rtc_ctx := ctx\<rparr>) (process_message (rp_node P) (re_handler E) msg (rtc_ctx s))"

text \<open>Up to ten polls, half a second apart.\<close>

definition poll_known_key :: "rtc_env \<Rightarrow> string \<Rightarrow> string option" where
  "poll_known_key E node_id =
     (case find (\<lambda>i. get_known_public_key (re_key_polls E i) node_id \<noteq> None) [0..<10] of
        Some i \<Rightarrow> get_known_public_key (re_key_polls E i) node_id
      | None \<Rightarrow> None)"

definition too_old :: "u64 \<Rightarrow> u64 \<Rightarrow> bool" where
  "too_old now timestamp_ms \<longleftrightarrow> now > timestamp_ms \<and> now - timestamp_ms > 60000"

definition reject_handshake :: "p2p_failure \<Rightarrow> rtc_state \<Rightarrow> rtc_state" where
  "reject_handshake failure s = dc_close (block failure s)"

definition cache_addresses :: "u16 option \<Rightarrow> rtc_state \<Rightarrow> rtc_state" where
  "cache_addresses local_tcp_port s =
     (case local_tcp_port of
        None \<Rightarrow> s
      | Some port \<Rightarrow>
          (let ips = discovered_ips (rtc_ctx s)
           in if ips = [] then s
              else with_ctx (\<lambda>ctx. ctx\<lparr>peer_store := store_update
                     (hm_upsert (rtc_target s) peer_config_default
                        (\<lambda>e. e\<lparr>pc_last_known_addresses :=
                               map (\<lambda>ip. ip @ '':'' @ show_nat (unat port)) ips\<rparr>))
                     (peer_store ctx)\<rparr>) s))"

definition handshake_verified ::
  "rtc_prims \<Rightarrow> rtc_env \<Rightarrow> u64 \<Rightarrow> string \<Rightarrow> rtc_state \<Rightarrow> p2p_failure + unit" where
  "handshake_verified P E timestamp_ms signature s =
     (if too_old (re_now E) timestamp_ms then Inl (ClockSkew (re_now E - timestamp_ms))
      else case poll_known_key E (rtc_target s) of
             None \<Rightarrow> Inl UnknownKey
           | Some pub_key \<Rightarrow>
               (case verify_p2p_handshake (np_crypto (rp_node P)) signature pub_key (rtc_target s)
                       (ni_id (my_info (rtc_ctx s))) timestamp_ms of
                  Inl e \<Rightarrow> Inl (BadSignature e)
                | Inr _ \<Rightarrow> Inr ()))"

definition core_handshake ::
  "rtc_prims \<Rightarrow> rtc_env \<Rightarrow> string \<Rightarrow> u64 \<Rightarrow> string \<Rightarrow> resource_type list option \<Rightarrow> usize option
     \<Rightarrow> u16 option \<Rightarrow> string option \<Rightarrow> rtc_state \<Rightarrow> rtc_state option" where
  "core_handshake P E node_version timestamp_ms signature requested_resources max_chunk_size
      local_tcp_port from_node_id s =
     (case handshake_verified P E timestamp_ms signature s of
        Inl failure \<Rightarrow> Some (reject_handshake failure s)
      | Inr _ \<Rightarrow>
          (let s = with_ctx (is_authenticated_update (\<lambda>_. True)) s;
               s = emit (OnP2pConnected (rtc_target s)) s;
               s = spawn ConnectionTypePoller s;
               s = cache_addresses local_tcp_port s;
               s = (case max_chunk_size of
                      Some c_size \<Rightarrow> with_ctx (peer_max_chunk_size_update (\<lambda>_. c_size)) s
                    | None \<Rightarrow> s)
           in run_process P E (Handshake node_version timestamp_ms signature requested_resources
                max_chunk_size local_tcp_port from_node_id) s))"

text \<open>The round trip is computed with a subtraction that wraps.\<close>

definition core_pong :: "rtc_env \<Rightarrow> u64 \<Rightarrow> rtc_state \<Rightarrow> rtc_state" where
  "core_pong E ts s =
     emit (OnP2pPingUpdated (rtc_target s) (re_now E - ts)) (s\<lparr>rtc_last_pong := re_now E\<rparr>)"

fun handle_core_message :: "rtc_prims \<Rightarrow> rtc_env \<Rightarrow> p2p_message \<Rightarrow> rtc_state \<Rightarrow> rtc_state option" where
  "handle_core_message P E (Handshake ver ts sig req mc port from_id) s =
     core_handshake P E ver ts sig req mc port from_id s"
| "handle_core_message P E Goodbye s = Some (dc_close (with_ctx shutdown s))"
| "handle_core_message P E (Ping ts) s = Some (send_plain P (Pong ts) s)"
| "handle_core_message P E (Pong ts) s = Some (core_pong E ts s)"
| "handle_core_message P E _ s = Some s"

section \<open>One incoming message\<close>

definition dispatch :: "rtc_prims \<Rightarrow> rtc_env \<Rightarrow> p2p_message \<Rightarrow> rtc_state \<Rightarrow> rtc_state option" where
  "dispatch P E msg s =
     (let s = emit (OnP2pMessage msg) s
      in Option.bind (run_process P E msg s) (handle_core_message P E msg))"

definition checked_message ::
  "rtc_prims \<Rightarrow> rtc_env \<Rightarrow> secured_p2p_envelope \<Rightarrow> rtc_state \<Rightarrow> rtc_state option" where
  "checked_message P E envelope s =
     (case mac_gate P envelope (rtc_ctx s) of
        Drop \<Rightarrow> Some s
      | Blocked failure \<Rightarrow> Some (block failure s)
      | Pass \<Rightarrow>
          (case auth_gate E (sec_message envelope) (rtc_ctx s) of
             Blocked failure \<Rightarrow> Some (block failure s)
           | _ \<Rightarrow>
               (case (if re_rdesk E then rdesk_message E (sec_message envelope) s else None) of
                  Some s' \<Rightarrow> Some s'
                | None \<Rightarrow> dispatch P E (sec_message envelope) s)))"

fun incoming_envelope ::
  "rtc_prims \<Rightarrow> rtc_env \<Rightarrow> secured_p2p_envelope \<Rightarrow> rtc_state \<Rightarrow> rtc_state option" where
  "incoming_envelope P E envelope s =
     (case sec_message envelope of
        HandshakeResponse resources \<Rightarrow> Some (accept_handshake_response P resources s)
      | PeersSync nodes addresses \<Rightarrow> Some (accept_peers_sync nodes addresses s)
      | Pong timestamp_ms \<Rightarrow> Some (s\<lparr>rtc_last_pong := timestamp_ms\<rparr>)
      | _ \<Rightarrow> checked_message P E envelope s)"

definition handle_incoming_p2p_message ::
  "rtc_prims \<Rightarrow> rtc_env \<Rightarrow> bytes \<Rightarrow> rtc_state \<Rightarrow> rtc_state option" where
  "handle_incoming_p2p_message P E msg_data s =
     (case rp_from_bson P msg_data of
        Inr envelope \<Rightarrow> incoming_envelope P E envelope s
      | Inl _ \<Rightarrow> Some s)"

section \<open>Facts\<close>

lemma emit_frame [simp]:
  "rtc_ctx (emit e s) = rtc_ctx s" "rtc_target (emit e s) = rtc_target s"
  "rtc_known (emit e s) = rtc_known s" "rtc_dc_sent (emit e s) = rtc_dc_sent s"
  "rtc_net (emit e s) = rtc_net s" "rtc_inputs (emit e s) = rtc_inputs s"
  by (simp_all add: emit_def)

lemma net_send_frame [simp]:
  "rtc_ctx (net_send c s) = rtc_ctx s" "rtc_target (net_send c s) = rtc_target s"
  "rtc_known (net_send c s) = rtc_known s"
  by (simp_all add: net_send_def)

lemma spawn_frame [simp]:
  "rtc_ctx (spawn t s) = rtc_ctx s" "rtc_target (spawn t s) = rtc_target s"
  "rtc_known (spawn t s) = rtc_known s"
  by (simp_all add: spawn_def)

lemma with_ctx_frame [simp]:
  "rtc_ctx (with_ctx f s) = f (rtc_ctx s)" "rtc_target (with_ctx f s) = rtc_target s"
  "rtc_known (with_ctx f s) = rtc_known s" "rtc_events (with_ctx f s) = rtc_events s"
  by (simp_all add: with_ctx_def)

lemma dc_close_frame [simp]: "rtc_ctx (dc_close s) = rtc_ctx s" "\<not> rtc_dc_open (dc_close s)"
  by (simp_all add: dc_close_def)

lemma block_frame [simp]:
  "rtc_ctx (block f s) = rtc_ctx s" "rtc_known (block f s) = rtc_known s"
  "rtc_dc_sent (block f s) = rtc_dc_sent s" "rtc_inputs (block f s) = rtc_inputs s"
  "rtc_net (block f s) = rtc_net s"
  by (simp_all add: block_def)

lemma send_frames_ctx [simp]:
  "rtc_ctx (snd (send_frames fs s)) = rtc_ctx s" "rtc_known (snd (send_frames fs s)) = rtc_known s"
  "rtc_target (snd (send_frames fs s)) = rtc_target s"
  by (induction fs arbitrary: s) simp_all

lemma send_plain_ctx [simp]:
  "rtc_ctx (send_plain P msg s) = rtc_ctx s" "rtc_known (send_plain P msg s) = rtc_known s"
  by (simp_all add: send_plain_def send_chunked_binary_def split: sum.split)

lemma cache_addresses_auth [simp]:
  "is_authenticated (rtc_ctx (cache_addresses port s)) = is_authenticated (rtc_ctx s)"
  "my_info (rtc_ctx (cache_addresses port s)) = my_info (rtc_ctx s)"
  by (simp_all add: cache_addresses_def Let_def split: option.split)

lemma shutdown_auth [simp]: "is_authenticated (shutdown ctx) = is_authenticated ctx"
  by (simp add: shutdown_def)

text \<open>An addressed message is none of the three handled before the gates.\<close>

lemma incoming_addressed:
  "resource_id (sec_message env) = Some rid \<Longrightarrow> incoming_envelope P E env s = checked_message P E env s"
  by (cases "sec_message env") simp_all

lemma mac_gate_pass_iff:
  assumes "resource_id (sec_message env) = Some rid"
  shows "mac_gate P env ctx = Pass \<longleftrightarrow>
    (\<exists>token mac bson. map_of (session_keys ctx) rid = Some token \<and> sec_mac env = Some mac
       \<and> np_bson (rp_node P) (sec_message env) = Inr bson
       \<and> verify_hmac_sha256 (np_crypto (rp_node P)) bson token mac)"
  using assms by (auto simp: mac_gate_def split: option.splits sum.splits)

lemma auth_gate_cases: "auth_gate E msg ctx = Pass \<or> auth_gate E msg ctx = Blocked Unauthenticated"
  by (simp add: auth_gate_def)

lemma auth_gate_pass_iff:
  "auth_gate E msg ctx = Pass \<longleftrightarrow>
     is_authenticated ctx \<or> is_handshake msg \<or> (\<exists>i<25. re_auth_polls E i)"
  by (auto simp: auth_gate_def list_ex_iff)

lemma checked_message_blocked:
  assumes "checked_message P E env s = Some s'"
  shows "(mac_gate P env (rtc_ctx s) = Pass \<and> auth_gate E (sec_message env) (rtc_ctx s) = Pass)
    \<or> s' = s \<or> (\<exists>f. s' = block f s)"
  using assms auth_gate_cases [of E "sec_message env" "rtc_ctx s"]
  by (auto simp: checked_message_def split: gate.splits)

lemma run_process_total: "\<exists>s'. run_process P E msg s = Some s'"
  using process_message_total [of "rp_node P" "re_handler E" msg "rtc_ctx s"]
  by (auto simp: run_process_def simp del: process_message.simps)

lemma handle_core_total: "\<exists>s'. handle_core_message P E msg s = Some s'"
  using run_process_total
  by (cases msg) (simp_all add: core_handshake_def Let_def split: sum.split)

lemma incoming_total: "\<exists>s'. incoming_envelope P E env s = Some s'"
proof -
  have "\<exists>s'. dispatch P E msg s = Some s'" for msg
  proof -
    obtain s1 where "run_process P E msg (emit (OnP2pMessage msg) s) = Some s1"
      using run_process_total by blast
    moreover obtain s2 where "handle_core_message P E msg s1 = Some s2"
      using handle_core_total by blast
    ultimately show ?thesis by (simp add: dispatch_def)
  qed
  then have "\<exists>s'. checked_message P E env s = Some s'"
    by (auto simp: checked_message_def split: gate.split option.split)
  then show ?thesis by (cases "sec_message env") simp_all
qed

subsection \<open>Who becomes authenticated\<close>

text \<open>What the application's handler may not do: it does not touch the flag.\<close>

definition handler_keeps_auth :: "message_handler option \<Rightarrow> bool" where
  "handler_keeps_auth h \<longleftrightarrow>
     (case h of None \<Rightarrow> True | Some f \<Rightarrow> (\<forall>m c. is_authenticated (f m c) = is_authenticated c))"

lemma send_msg_auth: "send_msg P l msg ctx = Some ctx' \<Longrightarrow> is_authenticated ctx' = is_authenticated ctx"
  by (auto simp: send_msg_def split: if_splits)

lemma process_handshake_auth:
  "process_handshake P req ctx = Some ctx' \<Longrightarrow> is_authenticated ctx' = is_authenticated ctx"
  by (auto simp: process_handshake_def Let_def case_prod_unfold issue_tokens_frame dest: send_msg_auth)

lemma process_message_auth:
  assumes "process_message P h msg ctx = Some ctx'" "handler_keeps_auth h"
  shows "is_authenticated ctx' = is_authenticated ctx"
proof (cases "rbac_ok msg ctx")
  case False
  with assms(1) show ?thesis by simp
next
  case True
  then consider (hs) "is_handshake msg" | (rd) "handled_here msg" "\<not> is_handshake msg" | (other) "\<not> handled_here msg"
    by blast
  then show ?thesis
  proof cases
    case hs
    with True assms(1) show ?thesis by (cases msg) (simp_all add: process_handshake_auth)
  next
    case rd
    with True assms(1) show ?thesis
      by (cases msg) (simp_all add: process_remote_desktop_def send_msg_auth split: if_splits)
  next
    case other
    with True assms show ?thesis
      by (cases h; cases msg) (auto simp: handler_keeps_auth_def)
  qed
qed

lemma run_process_auth:
  assumes "run_process P E msg s = Some s'" "handler_keeps_auth (re_handler E)"
  shows "is_authenticated (rtc_ctx s') = is_authenticated (rtc_ctx s)"
  using assms process_message_auth by (fastforce simp: run_process_def simp del: process_message.simps)

lemma core_handshake_auth:
  assumes "core_handshake P E ver ts sig req mc port from_id s = Some s'" "handler_keeps_auth (re_handler E)"
  shows "is_authenticated (rtc_ctx s') \<longleftrightarrow>
    is_authenticated (rtc_ctx s) \<or> handshake_verified P E ts sig s = Inr ()"
  using assms
  by (auto simp: core_handshake_def Let_def reject_handshake_def split: sum.splits option.splits
      dest!: run_process_auth)

lemma handle_core_auth:
  assumes "handle_core_message P E msg s = Some s'" "\<not> is_handshake msg"
  shows "is_authenticated (rtc_ctx s') = is_authenticated (rtc_ctx s)"
  using assms by (cases msg) (auto simp: core_pong_def)

lemma rdesk_message_ctx:
  "rdesk_message E msg s = Some s' \<Longrightarrow> is_authenticated (rtc_ctx s') = is_authenticated (rtc_ctx s)"
  by (cases msg) (auto simp: rdesk_request_def rdesk_start_def rdesk_register_def
      rdesk_stop_def rdesk_denied_def send_unsigned_def Let_def
      split: if_splits option.splits)

lemma process_handshake_info:
  "process_handshake P req ctx = Some ctx' \<Longrightarrow> my_info ctx' = my_info ctx"
  by (auto simp: process_handshake_def Let_def case_prod_unfold issue_tokens_frame send_msg_def)

lemma run_process_handshake:
  assumes "run_process P E (Handshake ver ts sig req mc port from_id) s = Some s'"
  shows "\<exists>ctx'. process_handshake (rp_node P) req (rtc_ctx s) = Some ctx' \<and> s' = s\<lparr>rtc_ctx := ctx'\<rparr>"
  using assms by (auto simp: run_process_def rbac_ok_def)

lemma handshake_verified_cong:
  "rtc_target s1 = rtc_target s2 \<Longrightarrow> my_info (rtc_ctx s1) = my_info (rtc_ctx s2) \<Longrightarrow>
   handshake_verified P E ts sig s1 = handshake_verified P E ts sig s2"
  by (simp add: handshake_verified_def split: option.split)

lemma handshake_verified_iff:
  "handshake_verified P E ts sig s = Inr () \<longleftrightarrow>
     \<not> too_old (re_now E) ts \<and> (\<exists>key. poll_known_key E (rtc_target s) = Some key
        \<and> verify_p2p_handshake (np_crypto (rp_node P)) sig key (rtc_target s)
             (ni_id (my_info (rtc_ctx s))) ts = Inr ())"
  by (auto simp: handshake_verified_def split: option.split sum.split)

lemma dispatch_auth:
  assumes "dispatch P E msg s = Some s'" "handler_keeps_auth (re_handler E)" "\<not> is_handshake msg"
  shows "is_authenticated (rtc_ctx s') = is_authenticated (rtc_ctx s)"
proof -
  from assms(1) obtain s1 where "run_process P E msg (emit (OnP2pMessage msg) s) = Some s1"
    "handle_core_message P E msg s1 = Some s'"
    by (auto simp: dispatch_def bind_eq_Some_conv)
  with run_process_auth handle_core_auth assms(2,3) show ?thesis by fastforce
qed

lemma dispatch_handshake_auth:
  assumes "dispatch P E (Handshake ver ts sig req mc port from_id) s = Some s'"
    and "handler_keeps_auth (re_handler E)"
  shows "is_authenticated (rtc_ctx s') \<longleftrightarrow>
    is_authenticated (rtc_ctx s) \<or> handshake_verified P E ts sig s = Inr ()"
proof -
  let ?hs = "Handshake ver ts sig req mc port from_id"
  from assms(1) obtain s1 where s1: "run_process P E ?hs (emit (OnP2pMessage ?hs) s) = Some s1"
    "core_handshake P E ver ts sig req mc port from_id s1 = Some s'"
    by (auto simp: dispatch_def bind_eq_Some_conv)
  have "rtc_target s1 = rtc_target s" "my_info (rtc_ctx s1) = my_info (rtc_ctx s)"
    "is_authenticated (rtc_ctx s1) = is_authenticated (rtc_ctx s)"
    using run_process_handshake [OF s1(1)] run_process_auth [OF s1(1) assms(2)]
    by (auto dest: process_handshake_info)
  then show ?thesis
    using core_handshake_auth [OF s1(2) assms(2)] handshake_verified_cong [of s1 s P E ts sig] by simp
qed

lemma checked_message_auth:
  assumes "checked_message P E env s = Some s'" "handler_keeps_auth (re_handler E)"
    and "is_authenticated (rtc_ctx s') \<noteq> is_authenticated (rtc_ctx s)"
  shows "dispatch P E (sec_message env) s = Some s' \<and> is_handshake (sec_message env)"
proof -
  have d: "dispatch P E (sec_message env) s = Some s'"
    using assms(1,3) rdesk_message_ctx [of E "sec_message env" s s']
    by (auto simp: checked_message_def split: gate.splits option.splits if_splits)
  with dispatch_auth [OF d assms(2)] assms(3) show ?thesis by blast
qed

subsection \<open>The symmetric response\<close>

lemma symmetric_tokens_keys:
  "distinct (map res_id rs) \<Longrightarrow>
   list_all (\<lambda>r. res_session_token r = map_of (session_keys (snd (symmetric_tokens P rs ctx))) (res_id r)
               \<and> res_session_token r \<noteq> None) (fst (symmetric_tokens P rs ctx))"
proof (induction rs arbitrary: ctx)
  case Nil
  then show ?case by simp
next
  case (Cons r rs)
  have other: "i \<notin> res_id ` set rs \<Longrightarrow>
      map_of (session_keys (snd (symmetric_tokens P rs ctx))) i = map_of (session_keys ctx) i" for i ctx
    by (induction rs arbitrary: ctx) (simp_all add: Let_def case_prod_unfold)
  from Cons show ?case by (simp add: Let_def case_prod_unfold other)
qed

lemma symmetric_tokens_resources:
  "map res_id (fst (symmetric_tokens P rs ctx)) = map res_id rs"
  "map res_config (fst (symmetric_tokens P rs ctx)) = map res_config rs"
  "is_authenticated (snd (symmetric_tokens P rs ctx)) = is_authenticated ctx"
  by (induction rs arbitrary: ctx) (simp_all add: Let_def case_prod_unfold)

lemma save_remote_fold [simp]:
  "my_info (fold save_remote_resource rs ctx) = my_info ctx"
  "is_authenticated (fold save_remote_resource rs ctx) = is_authenticated ctx"
  by (induction rs arbitrary: ctx) (simp_all add: save_remote_resource_def)

lemma accept_handshake_response_auth:
  "is_authenticated (rtc_ctx (accept_handshake_response P rs s))"
  by (simp add: accept_handshake_response_def symmetric_response_def Let_def case_prod_unfold
      symmetric_tokens_resources)

lemma mac_gate_own_mac:
  assumes "hex_law (np_crypto (rp_node P))" "resource_id msg = Some rid"
    and "map_of (session_keys ctx) rid = Some key" "np_bson (rp_node P) msg = Inr bson"
  shows "mac_gate P \<lparr>sec_mac = Some (compute_hmac_sha256 (np_crypto (rp_node P)) bson key), sec_message = msg\<rparr> ctx = Pass"
  using assms
  by (simp add: mac_gate_def verify_hmac_sha256_def compute_hmac_sha256_def hex_law_def)

section \<open>A concrete connection\<close>

definition demo_rtc_prims :: rtc_prims where
  "demo_rtc_prims = \<lparr>rp_node = demo_prims, rp_to_bson = (\<lambda>_. Inr [1]), rp_from_bson = (\<lambda>_. Inl [])\<rparr>"

definition demo_env :: rtc_env where
  "demo_env = \<lparr>re_now = 100000, re_auth_polls = (\<lambda>_. False), re_key_polls = (\<lambda>_. known_registry_new),
     re_handler = None, re_rdesk = True, re_provider = True, re_screen = None, re_add_track = None\<rparr>"

definition demo_rtc :: rtc_state where
  "demo_rtc = \<lparr>rtc_ctx = demo_ctx, rtc_target = ''peer'', rtc_connection_id = 1, rtc_last_pong = 0,
     rtc_dc_open = True, rtc_dc_room = 100, rtc_dc_sent = [], rtc_events = [], rtc_net = [],
     rtc_known = known_registry_new, rtc_streams = [], rtc_original_sizes = [], rtc_bitrates = [],
     rtc_stopped = [], rtc_inputs = [], rtc_tasks = []\<rparr>"

section \<open>Properties\<close>

text \<open>C1: a message for a resource has no effect unless it carries a MAC that verifies under
  the session key of that resource and the connection is authenticated: otherwise the state
  is left as it was, but for the report of the failure.\<close>

theorem addressed_message_needs_key_and_auth:
  assumes "resource_id (sec_message env) = Some rid" "incoming_envelope P E env s = Some s'"
  shows "((\<exists>token mac bson. map_of (session_keys (rtc_ctx s)) rid = Some token \<and> sec_mac env = Some mac
            \<and> np_bson (rp_node P) (sec_message env) = Inr bson
            \<and> verify_hmac_sha256 (np_crypto (rp_node P)) bson token mac)
         \<and> (is_authenticated (rtc_ctx s) \<or> (\<exists>i<25. re_auth_polls E i)))
    \<or> s' = s \<or> (\<exists>f. s' = block f s)"
proof -
  have "\<not> is_handshake (sec_message env)" using assms(1) by (cases "sec_message env") simp_all
  then show ?thesis
    using checked_message_blocked [of P E env s s'] assms mac_gate_pass_iff [OF assms(1)]
      auth_gate_pass_iff [of E "sec_message env" "rtc_ctx s"] incoming_addressed [OF assms(1)]
    by metis
qed

theorem addressed_message_needs_key_and_auth_witness:
  "\<exists>s'. incoming_envelope demo_rtc_prims demo_env \<lparr>sec_mac = None, sec_message = StartTerminal ''fs''\<rparr> demo_rtc
      = Some s' \<and> (s' = demo_rtc \<or> (\<exists>f. s' = block f demo_rtc))"
proof -
  obtain s' where s: "incoming_envelope demo_rtc_prims demo_env
      \<lparr>sec_mac = None, sec_message = StartTerminal ''fs''\<rparr> demo_rtc = Some s'"
    using incoming_total by blast
  with addressed_message_needs_key_and_auth [OF _ s, of "''fs''"] show ?thesis by auto
qed

text \<open>What one side signs, the other side accepts: the MAC \<open>send_msg\<close> attaches passes the
  check of a receiver that holds the same session key.\<close>

theorem sent_mac_is_accepted:
  assumes "hex_law (np_crypto (rp_node P))" "message_mac (rp_node P) keys msg = Some mac"
    and "resource_id msg = Some rid" "map_of (session_keys ctx) rid = map_of keys rid"
  shows "mac_gate P \<lparr>sec_mac = Some mac, sec_message = msg\<rparr> ctx = Pass"
  using assms mac_gate_own_mac [OF assms(1,3)]
  by (auto simp: message_mac_def split: option.splits sum.splits)

theorem sent_mac_is_accepted_witness:
  "\<exists>mac. message_mac demo_prims [(''fs'', ''ab'')] (StartTerminal ''fs'') = Some mac
     \<and> mac_gate demo_rtc_prims \<lparr>sec_mac = Some mac, sec_message = StartTerminal ''fs''\<rparr>
         (demo_ctx\<lparr>session_keys := [(''fs'', ''ab'')]\<rparr>) = Pass"
proof -
  have p: "rp_node demo_rtc_prims = demo_prims" "np_crypto demo_prims = demo_crypto"
    by (simp_all add: demo_rtc_prims_def demo_prims_def)
  obtain mac where m: "message_mac demo_prims [(''fs'', ''ab'')] (StartTerminal ''fs'') = Some mac"
    by (simp add: message_mac_def demo_prims_def)
  have "mac_gate demo_rtc_prims \<lparr>sec_mac = Some mac, sec_message = StartTerminal ''fs''\<rparr>
         (demo_ctx\<lparr>session_keys := [(''fs'', ''ab'')]\<rparr>) = Pass"
    by (rule sent_mac_is_accepted [of _ "[(''fs'', ''ab'')]" _ _ "''fs''"])
      (simp_all add: p m demo_crypto_laws)
  with m show ?thesis by blast
qed


text \<open>C10: there are exactly two ways in. A connection becomes authenticated only by a
  handshake whose time is fresh and whose signature verifies under the peer's known key, or by
  a handshake response.\<close>

theorem authentication_has_two_doors:
  assumes "incoming_envelope P E env s = Some s'" "handler_keeps_auth (re_handler E)"
    and "\<not> is_authenticated (rtc_ctx s)" "is_authenticated (rtc_ctx s')"
  shows "(\<exists>rs. sec_message env = HandshakeResponse rs)
    \<or> (\<exists>ver ts sig req mc port from_id key.
          sec_message env = Handshake ver ts sig req mc port from_id
          \<and> \<not> too_old (re_now E) ts \<and> poll_known_key E (rtc_target s) = Some key
          \<and> verify_p2p_handshake (np_crypto (rp_node P)) sig key (rtc_target s)
               (ni_id (my_info (rtc_ctx s))) ts = Inr ())"
proof (cases "\<exists>rs. sec_message env = HandshakeResponse rs")
  case False
  have "checked_message P E env s = Some s'"
    using assms(1,3,4) False
    by (cases "sec_message env") (auto simp: accept_peers_sync_def Let_def)
  then have d: "dispatch P E (sec_message env) s = Some s'" "is_handshake (sec_message env)"
    using checked_message_auth assms(2-4) by blast+
  then obtain ver ts sig req mc port from_id where
    m: "sec_message env = Handshake ver ts sig req mc port from_id"
    by (cases "sec_message env") simp_all
  with d(1) assms(2-4) have "handshake_verified P E ts sig s = Inr ()"
    using dispatch_handshake_auth by metis
  with m show ?thesis by (auto simp: handshake_verified_iff)
qed simp

theorem authentication_has_two_doors_witness:
  "\<exists>s'. incoming_envelope demo_rtc_prims demo_env \<lparr>sec_mac = None, sec_message = HandshakeResponse []\<rparr> demo_rtc
      = Some s' \<and> is_authenticated (rtc_ctx s') \<and> (\<exists>rs. HandshakeResponse [] = HandshakeResponse rs)"
proof -
  let ?e = "\<lparr>sec_mac = None, sec_message = HandshakeResponse []\<rparr>"
  obtain s' where s: "incoming_envelope demo_rtc_prims demo_env ?e demo_rtc = Some s'"
    using incoming_total by blast
  then have a: "is_authenticated (rtc_ctx s')" by (auto simp: accept_handshake_response_auth)
  have "handler_keeps_auth (re_handler demo_env)" "\<not> is_authenticated (rtc_ctx demo_rtc)"
    by (simp_all add: handler_keeps_auth_def demo_env_def demo_rtc_def demo_ctx_defs)
  from authentication_has_two_doors [OF s this a] s a show ?thesis by simp
qed

text \<open>C31: the second door is not guarded. A handshake response is accepted from anyone,
  before any check: it alone makes the connection authenticated, and the peer is sent fresh
  tokens for every resource of this node, with which its requests then pass both gates.\<close>

theorem handshake_response_needs_no_proof:
  assumes "\<not> is_authenticated (rtc_ctx s)" "distinct (map res_id (ni_resources (my_info (rtc_ctx s))))"
    and "hex_law (np_crypto (rp_node P))"
  shows "\<exists>s1 rs'. incoming_envelope P E \<lparr>sec_mac = mac, sec_message = HandshakeResponse rs\<rparr> s
        = Some (send_plain P (HandshakeResponse rs') s1)
    \<and> is_authenticated (rtc_ctx s1)
    \<and> map res_id rs' = map res_id (ni_resources (my_info (rtc_ctx s)))
    \<and> map res_config rs' = map res_config (ni_resources (my_info (rtc_ctx s)))
    \<and> list_all (\<lambda>r. \<forall>msg bson. resource_id msg = Some (res_id r) \<and> np_bson (rp_node P) msg = Inr bson \<longrightarrow>
         mac_gate P \<lparr>sec_mac = Some (compute_hmac_sha256 (np_crypto (rp_node P)) bson (the (res_session_token r))),
                      sec_message = msg\<rparr> (rtc_ctx s1) = Pass
         \<and> auth_gate E msg (rtc_ctx s1) = Pass) rs'"
proof -
  let ?my = "ni_resources (my_info (rtc_ctx s))"
  define s0 where "s0 = spawn ConnectionTypePoller (net_send (PeerConnected (rtc_target s) rs)
    (emit (OnPeerStateChanged (rtc_target s) PeerIsConnected)
      (with_ctx (is_authenticated_update (\<lambda>_. True)) (with_ctx (fold save_remote_resource rs) s))))"
  define out where "out = symmetric_tokens (rp_node P) ?my (rtc_ctx s0)"
  define s1 where "s1 = s0\<lparr>rtc_ctx := snd out\<rparr>"
  have "incoming_envelope P E \<lparr>sec_mac = mac, sec_message = HandshakeResponse rs\<rparr> s
      = Some (send_plain P (HandshakeResponse (fst out)) s1)"
    using assms(1)
    by (simp add: accept_handshake_response_def symmetric_response_def Let_def case_prod_unfold
        s1_def out_def s0_def)
  moreover have auth: "is_authenticated (rtc_ctx s1)"
    by (simp add: s1_def out_def s0_def symmetric_tokens_resources)
  moreover have "map res_id (fst out) = map res_id ?my" "map res_config (fst out) = map res_config ?my"
    by (simp_all add: out_def symmetric_tokens_resources)
  moreover have "mac_gate P \<lparr>sec_mac = Some (compute_hmac_sha256 (np_crypto (rp_node P)) bson
        (the (res_session_token r))), sec_message = msg\<rparr> (rtc_ctx s1) = Pass"
    if r: "r \<in> set (fst out)" and i: "resource_id msg = Some (res_id r)"
      and b: "np_bson (rp_node P) msg = Inr bson" for r msg bson
  proof -
    obtain key where "res_session_token r = Some key" "map_of (session_keys (snd out)) (res_id r) = Some key"
      using symmetric_tokens_keys [OF assms(2), of "rp_node P" "rtc_ctx s0"] r
      by (force simp: out_def list_all_iff)
    with mac_gate_own_mac [OF assms(3) i _ b, of "rtc_ctx s1" key] show ?thesis
      by (simp add: s1_def)
  qed
  ultimately show ?thesis
    by (intro exI [of _ s1] exI [of _ "fst out"]) (simp add: list_all_iff auth_gate_pass_iff)
qed

theorem handshake_response_needs_no_proof_witness:
  "\<exists>s1 rs'. incoming_envelope demo_rtc_prims demo_env \<lparr>sec_mac = None, sec_message = HandshakeResponse []\<rparr> demo_rtc
        = Some (send_plain demo_rtc_prims (HandshakeResponse rs') s1)
    \<and> is_authenticated (rtc_ctx s1) \<and> map res_id rs' = [''fs'', ''desktop'']
    \<and> map res_config rs' = [Some ''secret'', Some ''secret'']"
proof -
  have "\<not> is_authenticated (rtc_ctx demo_rtc)" "hex_law (np_crypto (rp_node demo_rtc_prims))"
    "distinct (map res_id (ni_resources (my_info (rtc_ctx demo_rtc))))"
    by (simp_all add: demo_rtc_def demo_ctx_defs demo_rtc_prims_def demo_prims_def demo_crypto_laws)
  from handshake_response_needs_no_proof [OF this(1,3,2), of demo_env None "[]"] show ?thesis
    by (force simp: demo_rtc_def demo_ctx_defs)
qed

text \<open>C32: a list of nodes is taken from anyone as well: before any check, the keys it carries
  replace the known ones, those of other peers included, in the key table and in the peer
  store.\<close>

theorem peers_sync_needs_no_proof:
  "incoming_envelope P E \<lparr>sec_mac = mac, sec_message = PeersSync nodes addresses\<rparr> s
     = Some (accept_peers_sync nodes addresses s)
   \<and> get_known_public_key (rtc_known (accept_peers_sync nodes addresses s)) i =
      (case find (\<lambda>n. ni_id n = i) (rev nodes) of
         Some n \<Rightarrow> Some (ni_public_key n) | None \<Rightarrow> get_known_public_key (rtc_known s) i)"
  by (simp add: accept_peers_sync_def Let_def get_known_public_key_update)

text \<open>C33: a handshake is answered before its signature is looked at. Whatever the signature,
  and even when the connection is then refused, the tokens of the requested resources have
  been put on the way to the peer.\<close>

theorem handshake_answered_before_verified:
  assumes "handshake_verified P E ts sig s = Inl failure"
  shows "\<exists>s' rs. incoming_envelope P E \<lparr>sec_mac = mac, sec_message = Handshake ver ts sig req mc port from_id\<rparr> s = Some s'
    \<and> \<not> rtc_dc_open s'
    \<and> outgoing_tx (rtc_ctx s') = outgoing_tx (rtc_ctx s) @ [OutMessage \<lparr>sec_mac = None, sec_message = HandshakeResponse rs\<rparr>]
    \<and> map res_id rs = map res_id (requested req (rtc_ctx s))
    \<and> list_all (\<lambda>r. res_session_token r \<noteq> None) rs"
proof -
  let ?hs = "Handshake ver ts sig req mc port from_id"
  let ?out = "issue_tokens (rp_node P) (requested req (rtc_ctx s)) (rtc_ctx s)"
  let ?ctx = "(snd ?out)\<lparr>outgoing_tx := outgoing_tx (rtc_ctx s)
      @ [OutMessage \<lparr>sec_mac = None, sec_message = HandshakeResponse (fst ?out)\<rparr>]\<rparr>"
  let ?s1 = "(emit (OnP2pMessage ?hs) s)\<lparr>rtc_ctx := ?ctx\<rparr>"
  have "run_process P E ?hs (emit (OnP2pMessage ?hs) s) = Some ?s1"
    by (simp add: run_process_def rbac_ok_def process_handshake_alt Let_def case_prod_unfold issue_tokens_frame)
  moreover have "handshake_verified P E ts sig ?s1 = Inl failure"
    using assms handshake_verified_cong [of ?s1 s P E ts sig] by (simp add: issue_tokens_frame)
  ultimately have "incoming_envelope P E \<lparr>sec_mac = mac, sec_message = ?hs\<rparr> s = Some (reject_handshake failure ?s1)"
    by (simp add: checked_message_def mac_gate_def auth_gate_def dispatch_def core_handshake_def)
  moreover have "map res_id (fst ?out) = map res_id (requested req (rtc_ctx s))"
    "list_all (\<lambda>r. res_session_token r \<noteq> None) (fst ?out)"
    by (auto simp: issue_tokens_resources list_all_length intro: nth_equalityI)
  ultimately show ?thesis by (simp add: reject_handshake_def)
qed

theorem handshake_answered_before_verified_witness:
  "\<exists>s' rs. incoming_envelope demo_rtc_prims demo_env
       \<lparr>sec_mac = None, sec_message = Handshake [] 100000 ''forged'' None None None None\<rparr> demo_rtc = Some s'
    \<and> \<not> rtc_dc_open s' \<and> outgoing_tx (rtc_ctx s') = [OutMessage \<lparr>sec_mac = None, sec_message = HandshakeResponse rs\<rparr>]
    \<and> map res_id rs = [''fs'', ''desktop'']"
proof -
  have "poll_known_key demo_env ''peer'' = None"
    by (simp add: poll_known_key_def demo_env_def get_known_public_key_def known_registry_new_def
        split: option.split)
  then have "handshake_verified demo_rtc_prims demo_env 100000 ''forged'' demo_rtc = Inl UnknownKey"
    by (simp add: handshake_verified_def too_old_def demo_env_def demo_rtc_def)
  from handshake_answered_before_verified [OF this, of None "[]" None None None None] show ?thesis
    by (auto simp: demo_rtc_def demo_ctx_defs requested_def)
qed

text \<open>C34: desktop input is applied for the key of any resource: the type of the resource is
  not looked at, so a peer that was given a token for files alone can move the mouse.\<close>

theorem desktop_input_ignores_resource_type:
  assumes "mac_gate P \<lparr>sec_mac = mac, sec_message = RemoteDesktopInput rid ev\<rparr> (rtc_ctx s) = Pass"
    and "is_authenticated (rtc_ctx s)" "re_rdesk E" "re_provider E"
  shows "incoming_envelope P E \<lparr>sec_mac = mac, sec_message = RemoteDesktopInput rid ev\<rparr> s
    = Some (s\<lparr>rtc_inputs := rtc_inputs s @ [ev]\<rparr>)"
  using assms by (simp add: checked_message_def auth_gate_def)

theorem desktop_input_ignores_resource_type_witness:
  "\<exists>mac. incoming_envelope demo_rtc_prims demo_env \<lparr>sec_mac = Some mac, sec_message = RemoteDesktopInput ''fs'' (MouseUp 1)\<rparr>
      (demo_rtc\<lparr>rtc_ctx := demo_ctx\<lparr>is_authenticated := True, session_keys := [(''fs'', ''ab'')]\<rparr>\<rparr>)
    = Some (demo_rtc\<lparr>rtc_ctx := demo_ctx\<lparr>is_authenticated := True, session_keys := [(''fs'', ''ab'')]\<rparr>,
                     rtc_inputs := [MouseUp 1]\<rparr>)
    \<and> \<not> is_active_desktop ''fs'' demo_ctx"
proof -
  let ?s = "demo_rtc\<lparr>rtc_ctx := demo_ctx\<lparr>is_authenticated := True, session_keys := [(''fs'', ''ab'')]\<rparr>\<rparr>"
  let ?mac = "compute_hmac_sha256 (np_crypto (rp_node demo_rtc_prims)) [1, 2] ''ab''"
  have "mac_gate demo_rtc_prims \<lparr>sec_mac = Some ?mac, sec_message = RemoteDesktopInput ''fs'' (MouseUp 1)\<rparr> (rtc_ctx ?s) = Pass"
    by (rule mac_gate_own_mac [of _ _ "''fs''"])
      (simp_all add: demo_rtc_prims_def demo_prims_def demo_crypto_laws)
  from desktop_input_ignores_resource_type [OF this, of demo_env] show ?thesis
    by (auto simp: demo_env_def demo_rtc_def is_active_desktop_def demo_ctx_defs)
qed

end
