(* ===== verification/Rtc_Client.thy ===== *)
theory Rtc_Client
  imports Rtc_Session Local_Mesh
begin

text \<open>
  \<open>client-core/src/rtc/mod.rs\<close>, the rest of \<open>WebRtcClient\<close>: its creation, the task that writes outbound
  payloads, the task that reassembles inbound ones, the callbacks of a data channel that opens
  or closes, the ping task, the callback of the connection state with the recovery it starts,
  the tasks of a remote-desktop renegotiation, the connection type, and the cleanup of a dropped
  client. The WebRTC stack is a parameter: what it reports or returns is an argument. What other
  tasks do during a polling loop is given by the value seen at each poll. The pacing of bulk
  data only delays a write; it is added in \<open>Paced_Sending\<close>.
\<close>

section \<open>State\<close>

record webrtc_client =
  wc_state :: rtc_state
  wc_has_channel :: bool \<comment> \<open>\<open>data_channel\<close> has been stored\<close>
  wc_pending :: "secured_p2p_envelope list" \<comment> \<open>\<open>pending_messages\<close>\<close>
  wc_private_key :: string
  wc_assembler :: chunk_assembler \<comment> \<open>of the receiving task\<close>
  wc_ping_task :: bool

definition on_state :: "(rtc_state \<Rightarrow> rtc_state) \<Rightarrow> webrtc_client \<Rightarrow> webrtc_client" where
  "on_state f c = c\<lparr>wc_state := f (wc_state c)\<rparr>"

record ice_server =
  ice_urls :: "string list"
  ice_username :: string
  ice_credential :: string

definition ice_servers :: "turn_credentials option \<Rightarrow> ice_server list" where
  "ice_servers turn_credentials =
     (case turn_credentials of
        Some turn \<Rightarrow> [\<lparr>ice_urls = turn_uris turn, ice_username = turn_username turn,
                        ice_credential = turn_credential turn\<rparr>]
      | None \<Rightarrow> [\<lparr>ice_urls = [''stun:stun.l.google.com:19302''], ice_username = [], ice_credential = []\<rparr>])"

section \<open>Creating a client\<close>

text \<open>\<open>WebRtcClient::new\<close>. The process-wide tables and what has been reported so far are taken
  from \<open>g\<close>; the stack made a peer connection or failed to, \<open>connection_id\<close> is the fresh
  identifier and \<open>now\<close> the time.\<close>

definition client_new ::
  "unit result \<Rightarrow> uuid \<Rightarrow> u64 \<Rightarrow> node_info \<Rightarrow> string \<Rightarrow> string \<Rightarrow> memory_peer_store \<Rightarrow> rtc_state
     \<Rightarrow> webrtc_client result" where
  "client_new peer_connection connection_id now me target_node_id private_key store g =
     bind_result peer_connection (\<lambda>_. Inr
       \<lparr>wc_state = g\<lparr>rtc_ctx := context_new me target_node_id store, rtc_target := target_node_id,
          rtc_connection_id := connection_id, rtc_last_pong := now, rtc_dc_open := False,
          rtc_dc_room := 0, rtc_dc_sent := []\<rparr>,
        wc_has_channel = False, wc_pending = [], wc_private_key = private_key,
        wc_assembler = assembler_new, wc_ping_task = False\<rparr>)"

text \<open>A data channel, one the peer opened (\<open>on_data_channel\<close>) or one of our own, is stored before
  it is open, and a receiving task with an empty assembler is started for it.\<close>

definition store_channel :: "webrtc_client \<Rightarrow> webrtc_client" where
  "store_channel c =
     (on_state (\<lambda>s. s\<lparr>rtc_dc_open := False, rtc_dc_room := 0, rtc_dc_sent := []\<rparr>) c)
       \<lparr>wc_has_channel := True, wc_assembler := assembler_new\<rparr>"

text \<open>What the stack returns at each of its calls is an argument. The channel made for an offer
  has its own moment of the last answer; it stays stored when a later call fails.\<close>

definition create_offer ::
  "unit result \<Rightarrow> string result \<Rightarrow> unit result \<Rightarrow> u64 \<Rightarrow> webrtc_client \<Rightarrow> string result \<times> webrtc_client" where
  "create_offer data_channel offer set_local now c =
     (case data_channel of
        Inl e \<Rightarrow> (Inl e, c)
      | Inr _ \<Rightarrow>
          (bind_result offer (\<lambda>sdp. bind_result set_local (\<lambda>_. Inr sdp)),
           on_state (\<lambda>s. s\<lparr>rtc_last_pong := now\<rparr>) (store_channel c)))"

definition accept_offer_and_answer ::
  "(string \<Rightarrow> unit result) \<Rightarrow> string result \<Rightarrow> unit result \<Rightarrow> string \<Rightarrow> string result" where
  "accept_offer_and_answer set_remote answer set_local offer_sdp =
     bind_result (set_remote offer_sdp)
       (\<lambda>_. bind_result answer (\<lambda>sdp. bind_result set_local (\<lambda>_. Inr sdp)))"

definition apply_answer :: "(string \<Rightarrow> unit result) \<Rightarrow> string \<Rightarrow> unit result" where
  "apply_answer set_remote answer_sdp = set_remote answer_sdp"

section \<open>The outbound task\<close>

text \<open>Up to a hundred polls, 50 ms apart, of whether the connection is authenticated and
  which session keys there are.\<close>

definition await_key :: "(nat \<Rightarrow> bool \<times> (string, string) hmap) \<Rightarrow> string \<Rightarrow> string option" where
  "await_key polls rid =
     (case find (\<lambda>i. fst (polls i) \<and> map_of (snd (polls i)) rid \<noteq> None) [0..<100] of
        Some i \<Rightarrow> map_of (snd (polls i)) rid
      | None \<Rightarrow> None)"

fun outbound_sign ::
  "node_prims \<Rightarrow> (nat \<Rightarrow> bool \<times> (string, string) hmap) \<Rightarrow> outbound_p2p_payload \<Rightarrow> outbound_p2p_payload option" where
  "outbound_sign P polls (OutUnsigned msg) =
     (case resource_id msg of
        None \<Rightarrow> Some (OutMessage \<lparr>sec_mac = None, sec_message = msg\<rparr>)
      | Some rid \<Rightarrow>
          (case await_key polls rid of
             None \<Rightarrow> None
           | Some k \<Rightarrow>
               Some (OutMessage
                 \<lparr>sec_mac = (case np_bson P msg of
                     Inr bson_bytes \<Rightarrow> Some (compute_hmac_sha256 (np_crypto P) bson_bytes k)
                   | Inl _ \<Rightarrow> None),
                  sec_message = msg\<rparr>)))"
| "outbound_sign P polls payload = Some payload"

fun outbound_write :: "rtc_prims \<Rightarrow> outbound_p2p_payload \<Rightarrow> webrtc_client \<Rightarrow> webrtc_client" where
  "outbound_write P (OutMessage msg) c =
     (if wc_has_channel c \<and> rtc_dc_open (wc_state c)
      then case rp_to_bson P msg of
             Inr bson_bytes \<Rightarrow>
               on_state (\<lambda>s. snd (send_chunked_binary bson_bytes (unat (peer_max_chunk_size (rtc_ctx s))) s)) c
           | Inl _ \<Rightarrow> c
      else c\<lparr>wc_pending := wc_pending c @ [msg]\<rparr>)"
| "outbound_write P (OutBinary b) c =
     (if wc_has_channel c \<and> rtc_dc_open (wc_state c)
      then on_state (\<lambda>s. let max_c = unat (peer_max_chunk_size (rtc_ctx s));
                            max_c = (if max_c = 0 then 10240 else max_c)
                        in snd (send_chunked_binary b max_c s)) c
      else c)"
| "outbound_write P (OutUnsigned _) c = c" \<comment> \<open>unreachable\<close>

definition outbound_payload ::
  "rtc_prims \<Rightarrow> (nat \<Rightarrow> bool \<times> (string, string) hmap) \<Rightarrow> outbound_p2p_payload \<Rightarrow> webrtc_client \<Rightarrow> webrtc_client" where
  "outbound_payload P polls payload c =
     (case outbound_sign (rp_node P) polls payload of
        None \<Rightarrow> c
      | Some payload' \<Rightarrow> outbound_write P payload' c)"

definition send_p2p_message :: "p2p_message \<Rightarrow> webrtc_client \<Rightarrow> unit result \<times> webrtc_client" where
  "send_p2p_message msg c = (Inr (), on_state (send_unsigned msg) c)"

section \<open>The receiving task\<close>

definition channel_message ::
  "rtc_prims \<Rightarrow> rtc_env \<Rightarrow> bytes \<Rightarrow> webrtc_client \<Rightarrow> webrtc_client option" where
  "channel_message P E data c =
     (case push (wc_assembler c) data (unat (peer_max_chunk_size (rtc_ctx (wc_state c)))) of
        (Complete full_data, a) \<Rightarrow>
          map_option (\<lambda>s. c\<lparr>wc_assembler := a, wc_state := s\<rparr>)
            (handle_incoming_p2p_message P E full_data (wc_state c))
      | (_, a) \<Rightarrow> Some (c\<lparr>wc_assembler := a\<rparr>))"

primrec channel_messages ::
  "rtc_prims \<Rightarrow> rtc_env \<Rightarrow> bytes list \<Rightarrow> webrtc_client \<Rightarrow> webrtc_client option" where
  "channel_messages P E [] c = Some c"
| "channel_messages P E (d # ds) c = Option.bind (channel_message P E d c) (channel_messages P E ds)"

section \<open>A channel that opens or closes\<close>

definition my_handshake ::
  "crypto_prims \<Rightarrow> string \<Rightarrow> node_info \<Rightarrow> string \<Rightarrow> u64 \<Rightarrow> u16 \<Rightarrow> p2p_message" where
  "my_handshake C private_key me target ts local_port =
     (let signature = (case sign_p2p_handshake C private_key (ni_id me) target ts of
                         Inr sig \<Rightarrow> sig | Inl _ \<Rightarrow> ''INVALID_SIG'')
      in Handshake (ni_version me) ts signature None (Some 10240)
           (if local_port > 0 then Some local_port else None) (Some (ni_id me)))"

definition send_envelope_default :: "rtc_prims \<Rightarrow> secured_p2p_envelope \<Rightarrow> rtc_state \<Rightarrow> rtc_state" where
  "send_envelope_default P msg s =
     (case rp_to_bson P msg of
        Inr bson_bytes \<Rightarrow> snd (send_chunked_binary bson_bytes 10240 s)
      | Inl _ \<Rightarrow> s)"

definition channel_opened :: "rtc_prims \<Rightarrow> u64 \<Rightarrow> u16 \<Rightarrow> webrtc_client \<Rightarrow> webrtc_client" where
  "channel_opened P ts local_port c =
     (let s = emit (OnPeerStateChanged (rtc_target (wc_state c)) Authenticating) (wc_state c);
          s = send_plain P (my_handshake (np_crypto (rp_node P)) (wc_private_key c)
                (my_info (rtc_ctx s)) (rtc_target s) ts local_port) s;
          s = fold (send_envelope_default P) (wc_pending c) s
      in c\<lparr>wc_state := s, wc_pending := [], wc_ping_task := True\<rparr>)"

definition channel_closed :: "webrtc_client \<Rightarrow> webrtc_client" where
  "channel_closed c =
     on_state (\<lambda>s. with_ctx shutdown
        (net_send (DisconnectPeerSession (rtc_target s) (rtc_connection_id s)) s)) c"

section \<open>The ping task\<close>

text \<open>One tick. The elapsed time is computed with a subtraction that wraps, as in a release
  build; with overflow checks it panics, which ends the task.\<close>

definition ping_tick :: "rtc_prims \<Rightarrow> limits_state \<Rightarrow> bool \<Rightarrow> u64 \<Rightarrow> webrtc_client \<Rightarrow> webrtc_client" where
  "ping_tick P L overflow_checks ts c =
     (if \<not> wc_ping_task c then c
      else if \<not> rtc_dc_open (wc_state c) then c\<lparr>wc_ping_task := False\<rparr>
      else if overflow_checks \<and> ts < rtc_last_pong (wc_state c) then c\<lparr>wc_ping_task := False\<rparr>
      else if ts - rtc_last_pong (wc_state c) > pong_timeout_ms (get_timeouts L)
      then (on_state dc_close c)\<lparr>wc_ping_task := False\<rparr>
      else on_state (send_plain P (Ping ts)) c)"

section \<open>The connection state\<close>

datatype pc_state = PcUnspecified | PcNew | PcConnecting | PcConnected | PcDisconnected | PcFailed | PcClosed

fun peer_state_of :: "pc_state \<Rightarrow> p2p_peer_state" where
  "peer_state_of PcConnecting = ConnectingTransport"
| "peer_state_of PcConnected = ConnectingTransport"
| "peer_state_of PcDisconnected = PeerDisconnected"
| "peer_state_of PcFailed = PeerIsFailed"
| "peer_state_of PcClosed = PeerDisconnected"
| "peer_state_of _ = PeerDisconnected"

definition tear_down :: "rtc_state \<Rightarrow> rtc_state" where
  "tear_down s =
     with_ctx shutdown (net_send (DisconnectPeerSession (rtc_target s) (rtc_connection_id s)) s)"

text \<open>The second component tells whether the recovery task has been started.\<close>

definition connection_state_changed :: "pc_state \<Rightarrow> rtc_state \<Rightarrow> rtc_state \<times> bool" where
  "connection_state_changed st s =
     (if st = PcNew then (s, False)
      else let s = (if peer_state_of st = PeerIsFailed
                    then emit (OnPeerFailed (rtc_target s) (Transport ''Failed'')) s else s);
               s = emit (OnPeerStateChanged (rtc_target s) (peer_state_of st)) s;
               s = (if st = PcFailed \<or> st = PcClosed then tear_down s else s)
           in (s, st = PcDisconnected))"

definition am_offerer :: "string \<Rightarrow> string \<Rightarrow> bool" where
  "am_offerer my_id target \<longleftrightarrow> my_id < target"

text \<open>The recovery task: the state after the grace period, the SDP of the restart offer if one
  could be made, and the state at the end of the restart window are arguments.\<close>

definition ice_recovery :: "pc_state \<Rightarrow> string option \<Rightarrow> pc_state \<Rightarrow> rtc_state \<Rightarrow> rtc_state" where
  "ice_recovery after_grace restart_sdp after_window s =
     (if after_grace \<noteq> PcDisconnected then s
      else let s = (if am_offerer (ni_id (my_info (rtc_ctx s))) (rtc_target s)
                    then case restart_sdp of
                           Some sdp \<Rightarrow> net_send (Send (WsRtcSignal
                              \<lparr>env_to_node_id = rtc_target s, env_signal = Offer sdp True\<rparr>)) s
                         | None \<Rightarrow> s
                    else s)
           in if after_window = PcDisconnected \<or> after_window = PcFailed then tear_down s else s)"

text \<open>\<open>on_ice_candidate\<close>: the candidate as JSON fields, if there is one and it can be written.\<close>

definition local_candidate :: "(string \<times> string option \<times> u16 option) option \<Rightarrow> rtc_state \<Rightarrow> rtc_state" where
  "local_candidate c s =
     (case c of
        Some (candidate, sdp_mid, sdp_mline_index) \<Rightarrow>
          net_send (Send (WsRtcSignal \<lparr>env_to_node_id = rtc_target s,
             env_signal = IceCandidate candidate sdp_mid sdp_mline_index\<rparr>)) s
      | None \<Rightarrow> s)"

section \<open>Renegotiation for the remote desktop\<close>

text \<open>Polls 50 ms apart of whether the signalling state is stable and whether the deadline has
  passed; \<open>None\<close> when the given number of polls does not decide.\<close>

primrec wait_until_signaling_stable :: "nat \<Rightarrow> (nat \<Rightarrow> bool \<times> bool) \<Rightarrow> nat \<Rightarrow> bool option" where
  "wait_until_signaling_stable 0 polls i = None"
| "wait_until_signaling_stable (Suc fuel) polls i =
     (if fst (polls i) then Some True
      else if snd (polls i) then Some False
      else wait_until_signaling_stable fuel polls (Suc i))"

text \<open>The offer the stack made and set as its local description, if it did.\<close>

definition run_renegotiation :: "(string \<Rightarrow> string) \<Rightarrow> string \<Rightarrow> string option \<Rightarrow> rtc_state \<Rightarrow> rtc_state" where
  "run_renegotiation b64 rid local_sdp s =
     (case local_sdp of
        Some sdp \<Rightarrow> send_unsigned (RemoteDesktopSdpOffer rid (b64 sdp)) s
      | None \<Rightarrow> s)"

text \<open>The decoded offer, whether the stack took it, and the answer it made.\<close>

definition answer_sdp_offer ::
  "(string \<Rightarrow> string) \<Rightarrow> (string \<Rightarrow> string option) \<Rightarrow> (string \<Rightarrow> string option) \<Rightarrow> string \<Rightarrow> string \<Rightarrow> rtc_state \<Rightarrow> rtc_state" where
  "answer_sdp_offer b64 decode answer_to rid sdp s =
     (case decode sdp of
        None \<Rightarrow> s
      | Some sdp_str \<Rightarrow> (case answer_to sdp_str of
           None \<Rightarrow> s
         | Some answer \<Rightarrow> send_unsigned (RemoteDesktopSdpAnswer rid (b64 answer)) s))"

section \<open>Remote candidates\<close>

function split_whitespace_from :: "string \<Rightarrow> string \<Rightarrow> string list" where
  "split_whitespace_from cur s =
     (case strip_one white_space s of
        Some t \<Rightarrow> (if cur = [] then [] else [cur]) @ split_whitespace_from [] t
      | None \<Rightarrow> (case s of
          [] \<Rightarrow> (if cur = [] then [] else [cur])
        | c # cs \<Rightarrow> split_whitespace_from (cur @ [c]) cs))"
  by pat_completeness auto
termination
  by (relation "measure (\<lambda>(cur, s). length s)") (simp_all add: strip_one_shorter)

declare split_whitespace_from.simps [simp del]

definition strip_prefix :: "string \<Rightarrow> string \<Rightarrow> string option" where
  "strip_prefix p s = (if take (length p) s = p then Some (drop (length p) s) else None)"

text \<open>\<open>is_ip\<close> is whether the text parses as an IP address; the candidate is then handed to the
  WebRTC stack.\<close>

definition remember_candidate :: "(string \<Rightarrow> bool) \<Rightarrow> string \<Rightarrow> node_context \<Rightarrow> node_context" where
  "remember_candidate is_ip candidate ctx =
     (let stripped = (case strip_prefix ''candidate:'' candidate of Some t \<Rightarrow> t | None \<Rightarrow> candidate);
          parts = split_whitespace_from [] stripped
      in if length parts \<ge> 6 \<and> is_ip (parts ! 4) \<and> parts ! 4 \<notin> set (discovered_ips ctx)
         then ctx\<lparr>discovered_ips := discovered_ips ctx @ [parts ! 4]\<rparr> else ctx)"

definition add_ice_candidate ::
  "(string \<Rightarrow> bool) \<Rightarrow> (string \<times> string option \<times> u16 option \<Rightarrow> unit result)
     \<Rightarrow> string \<Rightarrow> string option \<Rightarrow> u16 option \<Rightarrow> webrtc_client \<Rightarrow> unit result \<times> webrtc_client" where
  "add_ice_candidate is_ip add_to_pc candidate sdp_mid sdp_mline_index c =
     (add_to_pc (candidate, sdp_mid, sdp_mline_index),
      on_state (with_ctx (remember_candidate is_ip candidate)) c)"

definition get_remote_resource_id :: "resource_type \<Rightarrow> webrtc_client \<Rightarrow> string option" where
  "get_remote_resource_id t c = map_of (remote_resources (rtc_ctx (wc_state c))) t"

section \<open>The connection type\<close>

record candidate_pair =
  cp_succeeded :: bool
  cp_nominated :: bool
  cp_local :: string
  cp_remote :: string

datatype stats_report =
    CandidatePair candidate_pair
  | LocalCandidate string \<comment> \<open>candidate_type\<close>
  | RemoteCandidate string
  | OtherReport

fun find_active_pair :: "stats_report list \<Rightarrow> candidate_pair option \<Rightarrow> candidate_pair option" where
  "find_active_pair [] active_pair = active_pair"
| "find_active_pair (CandidatePair p # rs) active_pair =
     (if cp_succeeded p
      then (if cp_nominated p then Some p else find_active_pair rs (Some p))
      else find_active_pair rs active_pair)"
| "find_active_pair (_ # rs) active_pair = find_active_pair rs active_pair"

definition get_connection_type_from_pc :: "(string, stats_report) hmap \<Rightarrow> string" where
  "get_connection_type_from_pc reports =
     (case find_active_pair (map snd reports) None of
        None \<Rightarrow> ''checking''
      | Some pair \<Rightarrow>
          (case (map_of reports (cp_local pair), map_of reports (cp_remote pair)) of
             (Some (LocalCandidate l), Some (RemoteCandidate r)) \<Rightarrow>
               (if l = ''Relay'' \<or> r = ''Relay'' then ''Relay'' else ''P2P'')
           | _ \<Rightarrow> ''checking''))"

definition get_connection_type :: "(string, stats_report) hmap \<Rightarrow> (string, tunnel_session) hmap \<Rightarrow> string \<Rightarrow> string" where
  "get_connection_type reports tunnels target =
     (let conn_type = get_connection_type_from_pc reports
      in if conn_type = ''P2P'' \<and> hm_contains tunnels target then ''Local Mesh'' else conn_type)"

text \<open>One tick of the poller: its state is the last type reported, \<open>None\<close> once it has ended.\<close>

definition poller_tick ::
  "pc_state \<Rightarrow> (string, stats_report) hmap \<Rightarrow> (string, tunnel_session) hmap \<Rightarrow> string option \<times> rtc_state
     \<Rightarrow> string option \<times> rtc_state" where
  "poller_tick st reports tunnels p =
     (case fst p of
        None \<Rightarrow> p
      | Some last_type \<Rightarrow>
          (if st = PcClosed \<or> st = PcFailed then (None, snd p)
           else let conn_type = get_connection_type reports tunnels (rtc_target (snd p))
                in if conn_type \<noteq> ''checking'' \<and> conn_type \<noteq> last_type
                   then (Some conn_type,
                         emit (OnPeerConnectionTypeChanged (rtc_target (snd p)) conn_type) (snd p))
                   else p))"

section \<open>Dropping a client\<close>

definition drop_stream :: "stream_key \<Rightarrow> rtc_state \<Rightarrow> rtc_state" where
  "drop_stream key s =
     s\<lparr>rtc_original_sizes := hm_remove key (rtc_original_sizes s),
       rtc_bitrates := hm_remove key (rtc_bitrates s),
       rtc_stopped := (if hm_contains (rtc_streams s) key then rtc_stopped s @ [key] else rtc_stopped s),
       rtc_streams := hm_remove key (rtc_streams s)\<rparr>"

definition drop_client :: "uuid \<Rightarrow> rtc_state \<Rightarrow> rtc_state" where
  "drop_client conn_id s =
     fold drop_stream (filter (\<lambda>k. fst k = conn_id) (map fst (rtc_streams s))) s"

section \<open>Facts\<close>

lemma on_state_simps [simp]:
  "wc_state (on_state f c) = f (wc_state c)" "wc_pending (on_state f c) = wc_pending c"
  "wc_has_channel (on_state f c) = wc_has_channel c" "wc_assembler (on_state f c) = wc_assembler c"
  "wc_ping_task (on_state f c) = wc_ping_task c"
  by (simp_all add: on_state_def)

lemma await_key_SomeD:
  "await_key polls rid = Some k \<Longrightarrow> \<exists>i<100. fst (polls i) \<and> map_of (snd (polls i)) rid = Some k"
  by (auto simp: await_key_def find_Some_iff split: option.splits)

lemma send_frames_room:
  assumes "rtc_dc_open s" "length fs \<le> rtc_dc_room s"
  shows "fst (send_frames fs s) = Inr ()
    \<and> rtc_dc_sent (snd (send_frames fs s)) = rtc_dc_sent s @ fs
    \<and> rtc_dc_open (snd (send_frames fs s))
    \<and> rtc_dc_room (snd (send_frames fs s)) = rtc_dc_room s - length fs"
  using assms by (induction fs arbitrary: s) auto

definition default_frames :: "rtc_prims \<Rightarrow> secured_p2p_envelope \<Rightarrow> bytes list" where
  "default_frames P env = (case rp_to_bson P env of Inr b \<Rightarrow> frame_chunks b 10240 | Inl _ \<Rightarrow> [])"

lemma send_default_room:
  assumes "rtc_dc_open s" "length (default_frames P env) \<le> rtc_dc_room s"
  shows "rtc_dc_sent (send_envelope_default P env s) = rtc_dc_sent s @ default_frames P env
    \<and> rtc_dc_open (send_envelope_default P env s)
    \<and> rtc_dc_room (send_envelope_default P env s) = rtc_dc_room s - length (default_frames P env)"
  using assms send_frames_room [OF assms(1)]
  by (simp add: send_envelope_default_def default_frames_def send_chunked_binary_def split: sum.splits)

lemma send_plain_default: "send_plain P msg s = send_envelope_default P \<lparr>sec_mac = None, sec_message = msg\<rparr> s"
  by (simp add: send_plain_def send_envelope_default_def)

lemma send_all_default:
  assumes "rtc_dc_open s" "length (concat (map (default_frames P) envs)) \<le> rtc_dc_room s"
  shows "rtc_dc_sent (fold (send_envelope_default P) envs s) =
    rtc_dc_sent s @ concat (map (default_frames P) envs)"
  using assms
proof (induction envs arbitrary: s)
  case Nil
  then show ?case by simp
next
  case (Cons e es)
  from Cons.prems have "length (default_frames P e) \<le> rtc_dc_room s" by simp
  with send_default_room [OF Cons.prems(1)] Cons.prems(2)
  show ?case by (simp add: Cons.IH)
qed

lemma outbound_closed:
  assumes "\<not> rtc_dc_open (wc_state c)"
  shows "fold (outbound_write P) (map OutMessage envs) c = c\<lparr>wc_pending := wc_pending c @ envs\<rparr>"
  using assms by (induction envs arbitrary: c) simp_all

lemma prefix_of_frames_incomplete:
  assumes "1 \<le> m" "m \<le> 65535" "data \<noteq> []" "m dvd off" "off \<le> length data"
  shows "\<exists>fs f b. frame_loop m data off @ end_frames m data = fs @ [f]
    \<and> assemble (map (Pair m) fs) \<lparr>buf = take off data\<rparr> = ([], \<lparr>buf = b\<rparr>)
    \<and> push \<lparr>buf = b\<rparr> f m = (Complete data, \<lparr>buf = []\<rparr>)"
  using assms(4,5)
proof (induction "length data - off" arbitrary: off rule: less_induct)
  case less
  have asm: "assemble (map (Pair m) (frame_loop m data off @ end_frames m data)) \<lparr>buf = take off data\<rparr>
      = ([data], \<lparr>buf = []\<rparr>)"
    by (rule assemble_loop [OF assms(1-3) less.prems])
  show ?case
  proof (cases "m \<le> length data - off")
    case True
    then have f: "frame_loop m data off =
        (u16_to_be_bytes (word_of_nat m) @ take m (drop off data)) # frame_loop m data (off + m)"
      using assms(1) by (simp add: frame_loop_step min_absorb1)
    have "push \<lparr>buf = take off data\<rparr> (u16_to_be_bytes (word_of_nat m) @ take m (drop off data)) m
        = (Incomplete, \<lparr>buf = take (off + m) data\<rparr>)"
      using True assms(1,2) by (simp add: push_frame take_add)
    moreover obtain fs g b where "frame_loop m data (off + m) @ end_frames m data = fs @ [g]"
      "assemble (map (Pair m) fs) \<lparr>buf = take (off + m) data\<rparr> = ([], \<lparr>buf = b\<rparr>)"
      "push \<lparr>buf = b\<rparr> g m = (Complete data, \<lparr>buf = []\<rparr>)"
      using less.hyps [of "off + m"] True assms(1) less.prems by fastforce
    ultimately show ?thesis
      by (intro exI [of _ "(u16_to_be_bytes (word_of_nat m) @ take m (drop off data)) # fs"]
          exI [of _ g] exI [of _ b]) (simp add: f)
  next
    case False
    have "\<not> m dvd length data" if "off \<noteq> length data"
      using dvd_diff_nat [of m "length data" off] less.prems False that nat_dvd_not_less [of "length data - off" m]
      by linarith
    then have "\<exists>f. frame_loop m data off @ end_frames m data = [f]"
      using False assms(1) less.prems
      by (cases "off = length data")
        (auto simp: frame_loop_end frame_loop_step end_frames_def mod_eq_0_iff_dvd)
    with asm show ?thesis
      by (fastforce split: prod.splits chunk_outcome.splits)
  qed
qed

lemma channel_messages_append:
  "channel_messages P E (xs @ ys) c = Option.bind (channel_messages P E xs c) (channel_messages P E ys)"
  by (induction xs arbitrary: c) (auto split: Option.bind_split)

lemma channel_messages_incomplete:
  assumes "assemble (map (Pair m) fs) (wc_assembler c) = ([], a)"
    and "m = unat (peer_max_chunk_size (rtc_ctx (wc_state c)))"
  shows "channel_messages P E fs c = Some (c\<lparr>wc_assembler := a\<rparr>)"
  using assms
proof (induction fs arbitrary: c)
  case Nil
  then show ?case by simp
next
  case (Cons f fs)
  obtain out a1 where p: "push (wc_assembler c) f m = (out, a1)" by (cases "push (wc_assembler c) f m")
  with Cons.prems(1) have n: "\<forall>d. out \<noteq> Complete d" and r: "assemble (map (Pair m) fs) a1 = ([], a)"
    by (auto simp: Let_def split: chunk_outcome.splits prod.splits)
  have "channel_message P E f c = Some (c\<lparr>wc_assembler := a1\<rparr>)"
    using p n by (simp add: channel_message_def Cons.prems(2) [symmetric] split: chunk_outcome.splits)
  with Cons.IH [of "c\<lparr>wc_assembler := a1\<rparr>"] r Cons.prems(2) show ?case by simp
qed

lemma drop_stream_frame:
  "map_of (rtc_streams (drop_stream k s)) = (map_of (rtc_streams s))(k := None)"
  "map_of (rtc_original_sizes (drop_stream k s)) = (map_of (rtc_original_sizes s))(k := None)"
  "map_of (rtc_bitrates (drop_stream k s)) = (map_of (rtc_bitrates s))(k := None)"
  by (simp_all add: drop_stream_def)

lemma drop_streams:
  "map_of (rtc_streams (fold drop_stream ks s)) i = (if i \<in> set ks then None else map_of (rtc_streams s) i)"
  "map_of (rtc_original_sizes (fold drop_stream ks s)) i =
     (if i \<in> set ks then None else map_of (rtc_original_sizes s) i)"
  "map_of (rtc_bitrates (fold drop_stream ks s)) i = (if i \<in> set ks then None else map_of (rtc_bitrates s) i)"
  by (induction ks arbitrary: s) (auto simp: drop_stream_frame)

lemma find_active_pair_nominated:
  "\<exists>p. CandidatePair p \<in> set rs \<and> cp_succeeded p \<and> cp_nominated p \<Longrightarrow>
   \<exists>p. find_active_pair rs a = Some p \<and> CandidatePair p \<in> set rs \<and> cp_succeeded p \<and> cp_nominated p"
  by (induction rs a rule: find_active_pair.induct) auto

lemma find_active_pair_SomeD:
  "find_active_pair rs a = Some p \<Longrightarrow> a = Some p \<or> CandidatePair p \<in> set rs \<and> cp_succeeded p"
  by (induction rs a rule: find_active_pair.induct) (auto split: if_splits)

lemma framed_message_once:
  assumes "m = unat (peer_max_chunk_size (rtc_ctx (wc_state c)))" "1 \<le> m" "m \<le> 65535"
    and "data \<noteq> []" "wc_assembler c = assembler_new"
  shows "channel_messages P E (frame_chunks data m) c
    = map_option (\<lambda>s. c\<lparr>wc_state := s\<rparr>) (handle_incoming_p2p_message P E data (wc_state c))"
proof -
  obtain fs f b where fs: "frame_chunks data m = fs @ [f]"
    and i: "assemble (map (Pair m) fs) (wc_assembler c) = ([], \<lparr>buf = b\<rparr>)"
    and l: "push \<lparr>buf = b\<rparr> f m = (Complete data, \<lparr>buf = []\<rparr>)"
    using prefix_of_frames_incomplete [OF assms(2-4), of 0] assms(2,5)
    by (auto simp: frame_chunks_alt assembler_new_def)
  have "c\<lparr>wc_assembler := \<lparr>buf = []\<rparr>\<rparr> = c" using assms(5) by (simp add: assembler_new_def)
  then have "c\<lparr>wc_assembler := \<lparr>buf = []\<rparr>, wc_state := s\<rparr> = c\<lparr>wc_state := s\<rparr>" for s by metis
  then show ?thesis
    using l by (cases "handle_incoming_p2p_message P E data (wc_state c)")
      (simp_all add: fs channel_messages_append channel_messages_incomplete [OF i assms(1)]
        channel_message_def assms(1) [symmetric])
qed

section \<open>A concrete client\<close>

definition demo_client :: webrtc_client where
  "demo_client = \<lparr>wc_state = demo_rtc, wc_has_channel = True, wc_pending = [], wc_private_key = [],
     wc_assembler = assembler_new, wc_ping_task = True\<rparr>"

section \<open>Properties\<close>

text \<open>A message sent over a data channel is handled on the other side exactly once and
  with exactly the bytes that were written, however it is cut, when both sides use the chunk
  size the receiver expects; the receiver is then ready for the next one.\<close>

theorem framed_message_handled_once:
  assumes "m = unat (peer_max_chunk_size (rtc_ctx (wc_state c)))" "1 \<le> m" "m \<le> 65535"
    and "data \<noteq> []" "wc_assembler c = assembler_new"
  shows "channel_messages P E (frame_chunks data m) c
    = map_option (\<lambda>s. c\<lparr>wc_state := s\<rparr>) (handle_incoming_p2p_message P E data (wc_state c))"
  by (rule framed_message_once [OF assms])

theorem framed_message_handled_once_witness:
  "channel_messages demo_rtc_prims demo_env (frame_chunks [7] 10240) demo_client = Some demo_client"
proof -
  have m: "10240 = unat (peer_max_chunk_size (rtc_ctx (wc_state demo_client)))"
    by (simp add: demo_client_def demo_rtc_def demo_ctx_defs)
  show ?thesis
    using framed_message_handled_once [OF m, of "[7]" demo_rtc_prims demo_env]
    by (simp add: demo_client_def demo_rtc_prims_def handle_incoming_p2p_message_def)
qed

text \<open>C27: a request queued without a signature leaves only with one: it is written with the
  MAC of a session key that the connection held, once it was authenticated, for the resource
  the request names, or it is dropped.\<close>

theorem outbound_requests_are_signed:
  assumes "resource_id msg = Some rid" "np_bson P msg = Inr bson"
  shows "outbound_sign P polls (OutUnsigned msg) = None
    \<or> (\<exists>i<100. \<exists>k. fst (polls i) \<and> map_of (snd (polls i)) rid = Some k
        \<and> outbound_sign P polls (OutUnsigned msg)
            = Some (OutMessage \<lparr>sec_mac = Some (compute_hmac_sha256 (np_crypto P) bson k), sec_message = msg\<rparr>))"
  using assms await_key_SomeD [of polls rid] by (cases "await_key polls rid") auto

theorem outbound_requests_are_signed_witness:
  "\<exists>k. map_of [(''fs'', ''ab'')] ''fs'' = Some k
     \<and> outbound_sign demo_prims (\<lambda>_. (True, [(''fs'', ''ab'')])) (OutUnsigned (StartTerminal ''fs''))
       = Some (OutMessage \<lparr>sec_mac = Some (compute_hmac_sha256 (np_crypto demo_prims) [1, 2] k),
                            sec_message = StartTerminal ''fs''\<rparr>)"
proof -
  have b: "np_bson demo_prims (StartTerminal ''fs'') = Inr [1, 2]" by (simp add: demo_prims_def)
  have "await_key (\<lambda>_. (True, [(''fs'', ''ab'')])) ''fs'' \<noteq> None"
    by (simp add: await_key_def upt_rec)
  then have "outbound_sign demo_prims (\<lambda>_. (True, [(''fs'', ''ab'')])) (OutUnsigned (StartTerminal ''fs'')) \<noteq> None"
    by (auto split: option.split)
  with outbound_requests_are_signed [OF _ b, of "''fs''" "\<lambda>_. (True, [(''fs'', ''ab'')])"]
  show ?thesis by fastforce
qed

text \<open>Messages queued while the channel is closed are kept, and when it opens they are
  written after the handshake, in the order they were queued, and the queue is empty.\<close>

theorem pending_messages_flushed_in_order:
  assumes "\<not> rtc_dc_open (wc_state c)" "wc_pending c = []" "rtc_dc_sent (wc_state c) = []"
    and "c1 = fold (outbound_write P) (map OutMessage envs) c"
    and "c2 = on_state (\<lambda>s. s\<lparr>rtc_dc_open := True, rtc_dc_room := n\<rparr>) c1"
    and "hs = \<lparr>sec_mac = None, sec_message = my_handshake (np_crypto (rp_node P)) (wc_private_key c)
                 (my_info (rtc_ctx (wc_state c))) (rtc_target (wc_state c)) ts port\<rparr>"
    and "length (concat (map (default_frames P) (hs # envs))) \<le> n"
  shows "rtc_dc_sent (wc_state (channel_opened P ts port c2)) = concat (map (default_frames P) (hs # envs))
    \<and> wc_pending (channel_opened P ts port c2) = []"
proof -
  let ?s = "emit (OnPeerStateChanged (rtc_target (wc_state c)) Authenticating)
    ((wc_state c)\<lparr>rtc_dc_open := True, rtc_dc_room := n\<rparr>)"
  have c1: "c1 = c\<lparr>wc_pending := envs\<rparr>" using outbound_closed [OF assms(1)] assms(2,4) by simp
  have "rtc_dc_open ?s" "rtc_dc_room ?s = n" "rtc_dc_sent ?s = []" using assms(3) by (simp_all add: emit_def)
  with send_all_default [of ?s P "hs # envs"] assms(7)
  have "rtc_dc_sent (fold (send_envelope_default P) (hs # envs) ?s) = concat (map (default_frames P) (hs # envs))"
    by simp
  then show ?thesis
    by (simp add: channel_opened_def Let_def assms(5) c1 send_plain_default assms(6) on_state_def)
qed

theorem pending_messages_flushed_in_order_witness:
  "wc_pending (channel_opened demo_rtc_prims 5 0
     (on_state (\<lambda>s. s\<lparr>rtc_dc_open := True, rtc_dc_room := 9\<rparr>)
       (fold (outbound_write demo_rtc_prims) (map OutMessage [\<lparr>sec_mac = None, sec_message = Goodbye\<rparr>])
         (on_state (\<lambda>s. s\<lparr>rtc_dc_open := False\<rparr>) demo_client)))) = []"
proof -
  have "length (frame_chunks [1] 10240) = 1"
    by (simp add: frame_chunks_def frame_loop.simps Let_def)
  then have "length (default_frames demo_rtc_prims env) = 1" for env
    by (simp add: default_frames_def demo_rtc_prims_def)
  with pending_messages_flushed_in_order [of "on_state (\<lambda>s. s\<lparr>rtc_dc_open := False\<rparr>) demo_client" _ demo_rtc_prims
      "[\<lparr>sec_mac = None, sec_message = Goodbye\<rparr>]" _ 9 _ 5 0, OF _ _ _ refl refl refl]
  show ?thesis by (simp add: demo_client_def demo_rtc_def)
qed

text \<open>The moment of the last answer is whatever the peer says it is: a peer that answers
  with a time in the future makes the next tick close the connection, or, in a build with
  overflow checks, ends the ping task for good with the channel left open.\<close>

theorem future_pong_breaks_ping:
  assumes "wc_ping_task c" "rtc_dc_open (wc_state c)" "limits_ok L"
    and "rtc_last_pong (wc_state c) = ts + d" "0 < d" "d \<le> 1000000000" "ts \<le> ts + d"
  shows "\<not> wc_ping_task (ping_tick P L checks ts c)
    \<and> rtc_dc_open (wc_state (ping_tick P L checks ts c)) = checks"
proof -
  have lt: "ts < ts + d" using assms(5,7) by (metis add_0_right add_left_cancel less_le not_less_iff_gr_or_eq)
  have "pong_timeout_ms (get_timeouts L) \<le> 86400000" using assms(3) by (simp add: limits_ok_def timeouts_ok_def)
  moreover have "86400000 < - d"
  proof (rule ccontr)
    assume "\<not> 86400000 < - d"
    then have "unat (- d) \<le> 86400000" by (simp add: word_le_nat_alt not_less)
    moreover have "unat d \<le> 1000000000" using assms(6) by (simp add: word_le_nat_alt)
    ultimately have "unat (- d + d) = unat (- d) + unat d" using unat_add_lem [of "- d" d] by simp
    with assms(5) show False by (simp add: word_less_nat_alt)
  qed
  ultimately have "pong_timeout_ms (get_timeouts L) < ts - (ts + d)" by simp
  with lt assms(1,2,4) show ?thesis by (simp add: ping_tick_def)
qed

theorem future_pong_breaks_ping_witness:
  "\<not> wc_ping_task (ping_tick demo_rtc_prims limits_init True 1000
      (on_state (\<lambda>s. s\<lparr>rtc_last_pong := 1000 + 5\<rparr>) demo_client))"
proof -
  have "limits_ok limits_init"
    by (simp add: limits_ok_def limits_init_def get_timeouts_def timeouts_default_ok)
  from future_pong_breaks_ping [of "on_state (\<lambda>s. s\<lparr>rtc_last_pong := 1000 + 5\<rparr>) demo_client" _ 1000 5, OF _ _ this]
  show ?thesis by (simp add: demo_client_def demo_rtc_def)
qed

text \<open>Of two nodes exactly one restarts the connection, so two restart offers never
  cross.\<close>

theorem exactly_one_offerer:
  "a \<noteq> b \<Longrightarrow> am_offerer a b \<longleftrightarrow> \<not> am_offerer b a"
  by (auto simp: am_offerer_def)

theorem exactly_one_offerer_witness: "am_offerer ''node_a'' ''node_b'' \<longleftrightarrow> \<not> am_offerer ''node_b'' ''node_a''"
  by (rule exactly_one_offerer) simp

text \<open>Dropping a client stops the streams of its own connection, all of them, and
  leaves those of other connections alone.\<close>

theorem dropped_client_stops_its_streams:
  "map_of (rtc_streams (drop_client conn s)) k =
     (if fst k = conn then None else map_of (rtc_streams s) k)
   \<and> (fst k \<noteq> conn \<longrightarrow> map_of (rtc_original_sizes (drop_client conn s)) k = map_of (rtc_original_sizes s) k
        \<and> map_of (rtc_bitrates (drop_client conn s)) k = map_of (rtc_bitrates s) k)"
  by (auto simp: drop_client_def drop_streams map_of_eq_None_iff image_iff)

theorem dropped_client_stops_its_streams_witness:
  "map_of (rtc_bitrates (drop_client 1 (demo_rtc\<lparr>rtc_bitrates := [((2, ''d''), 5)]\<rparr>))) (2, ''d'') = Some 5"
  using dropped_client_stops_its_streams [of 1 "demo_rtc\<lparr>rtc_bitrates := [((2, ''d''), 5)]\<rparr>" "(2, ''d'')"]
  by simp

text \<open>The reported connection type follows the nominated candidate pair whenever one has
  succeeded, in whatever order the statistics list their entries.\<close>

theorem connection_type_of_nominated_pair:
  assumes "CandidatePair p \<in> snd ` set reports" "cp_succeeded p" "cp_nominated p"
    and "\<forall>q. CandidatePair q \<in> snd ` set reports \<and> cp_succeeded q \<and> cp_nominated q \<longrightarrow> q = p"
    and "map_of reports (cp_local p) = Some (LocalCandidate l)" "map_of reports (cp_remote p) = Some (RemoteCandidate r)"
  shows "get_connection_type_from_pc reports = (if l = ''Relay'' \<or> r = ''Relay'' then ''Relay'' else ''P2P'')"
proof -
  have "\<exists>q. CandidatePair q \<in> set (map snd reports) \<and> cp_succeeded q \<and> cp_nominated q"
    using assms(1-3) by (simp only: set_map) blast
  from find_active_pair_nominated [OF this, of None] obtain q where
    q: "find_active_pair (map snd reports) None = Some q" "CandidatePair q \<in> snd ` set reports"
      "cp_succeeded q" "cp_nominated q"
    by (simp only: set_map) blast
  with assms(4) have "find_active_pair (map snd reports) None = Some p" by blast
  then show ?thesis by (simp add: get_connection_type_from_pc_def assms(5,6))
qed

theorem connection_type_of_nominated_pair_witness:
  "get_connection_type_from_pc
     [(''a'', LocalCandidate ''Host''), (''b'', RemoteCandidate ''Relay''),
      (''p'', CandidatePair \<lparr>cp_succeeded = True, cp_nominated = True, cp_local = ''a'', cp_remote = ''b''\<rparr>)] = ''Relay''"
  by (subst connection_type_of_nominated_pair
      [of "\<lparr>cp_succeeded = True, cp_nominated = True, cp_local = ''a'', cp_remote = ''b''\<rparr>" _ "''Host''" "''Relay''"])
    simp_all

end
