(* ===== verification/Rtc_Lifecycle.thy ===== *)
theory Rtc_Lifecycle
  imports Rtc_Client
begin

text \<open>
  The life of one \<open>WebRtcClient\<close> as a state machine: every callback and every task of
  \<open>client-core/src/rtc/mod.rs\<close> is a step, and the runs are their interleavings. A client has one
  data channel, and its flag \<open>is_authenticated\<close> is only ever set by the task that handles the
  messages of that channel; when this task itself waits for the flag, the flag keeps the value
  it had.

  What is shown: a connection that is not authenticated is inert, stays authenticated once it
  is, and is for the same node under the same identifier all its life.
\<close>

section \<open>Steps\<close>

inductive client_step :: "rtc_prims \<Rightarrow> webrtc_client \<Rightarrow> webrtc_client \<Rightarrow> bool" for P where
  Received:
    "channel_message P E data c = Some c' \<Longrightarrow> handler_keeps_auth (re_handler E) \<Longrightarrow>
     re_auth_polls E = (\<lambda>_. is_authenticated (rtc_ctx (wc_state c))) \<Longrightarrow> client_step P c c'"
| Written: "client_step P c (outbound_payload P polls payload c)"
| Queued: "client_step P c (snd (send_p2p_message msg c))"
| Offered: "client_step P c (snd (create_offer channel offer set_local now c))"
| Accepted: "client_step P c (store_channel c)"
| Opened:
    "wc_has_channel c \<Longrightarrow>
     client_step P c (channel_opened P ts port (on_state (\<lambda>s. s\<lparr>rtc_dc_open := True, rtc_dc_room := n\<rparr>) c))"
| Closed: "client_step P c (channel_closed (on_state dc_close c))"
| Ticked: "client_step P c (ping_tick P L overflow_checks ts c)"
| Changed: "client_step P c (on_state (\<lambda>s. fst (connection_state_changed st s)) c)"
| Recovered: "client_step P c (on_state (ice_recovery after_grace restart_sdp after_window) c)"
| Gathered: "client_step P c (on_state (local_candidate candidate) c)"
| Added: "client_step P c (snd (add_ice_candidate is_ip add_to_pc candidate sdp_mid index c))"
| Renegotiated: "client_step P c (on_state (run_renegotiation b64 rid local_sdp) c)"
| Answered: "client_step P c (on_state (answer_sdp_offer b64 decode answer_to rid sdp) c)"
| Polled: "client_step P c (on_state (\<lambda>s. snd (poller_tick st reports tunnels (last_type, s))) c)"

section \<open>The invariant\<close>

fun quiet :: "app_event \<Rightarrow> bool" where
  "quiet (OnP2pMessage msg) = is_handshake msg"
| "quiet _ = True"

text \<open>No input has been applied, the application has been told of no message but handshakes, and
  no desktop stream of this connection runs.\<close>

definition silent :: "rtc_state \<Rightarrow> bool" where
  "silent s \<longleftrightarrow> rtc_inputs s = [] \<and> list_all quiet (rtc_events s)
     \<and> list_all (\<lambda>k. fst k \<noteq> rtc_connection_id s) (map fst (rtc_streams s))"

definition inert :: "rtc_state \<Rightarrow> bool" where
  "inert s \<longleftrightarrow> is_authenticated (rtc_ctx s) \<or> silent s"

lemma silent_simps [simp]:
  "silent (emit e s) \<longleftrightarrow> silent s \<and> quiet e" "silent (net_send cmd s) \<longleftrightarrow> silent s"
  "silent (spawn t s) \<longleftrightarrow> silent s" "silent (with_ctx f s) \<longleftrightarrow> silent s"
  "silent (dc_close s) \<longleftrightarrow> silent s" "silent (s\<lparr>rtc_ctx := ctx\<rparr>) \<longleftrightarrow> silent s"
  "silent (s\<lparr>rtc_last_pong := ts\<rparr>) \<longleftrightarrow> silent s" "silent (s\<lparr>rtc_known := k\<rparr>) \<longleftrightarrow> silent s"
  "silent (s\<lparr>rtc_dc_open := b\<rparr>) \<longleftrightarrow> silent s" "silent (s\<lparr>rtc_dc_room := n\<rparr>) \<longleftrightarrow> silent s"
  "silent (s\<lparr>rtc_dc_sent := fs\<rparr>) \<longleftrightarrow> silent s"
  by (auto simp: silent_def emit_def net_send_def spawn_def with_ctx_def dc_close_def)

lemma silent_send_frames [simp]: "silent (snd (send_frames fs s)) \<longleftrightarrow> silent s"
  by (induction fs arbitrary: s) simp_all

lemma silent_send [simp]:
  "silent (snd (send_chunked_binary data n s)) \<longleftrightarrow> silent s"
  "silent (send_plain P msg s) \<longleftrightarrow> silent s"
  "silent (send_envelope_default P env s) \<longleftrightarrow> silent s"
  "silent (send_unsigned msg s) \<longleftrightarrow> silent s"
  by (simp_all add: send_plain_def send_envelope_default_def send_chunked_binary_def send_unsigned_def
      split: sum.split)

lemma silent_send_all [simp]: "silent (fold (send_envelope_default P) envs s) \<longleftrightarrow> silent s"
  by (induction envs arbitrary: s) simp_all

lemma silent_refused [simp]: "silent (block failure s) \<longleftrightarrow> silent s" "silent (reject_handshake failure s) \<longleftrightarrow> silent s"
  by (simp_all add: block_def reject_handshake_def)

lemma silent_cache [simp]: "silent (cache_addresses port s) \<longleftrightarrow> silent s"
  by (simp add: cache_addresses_def Let_def split: option.split)

subsection \<open>Received messages\<close>

lemma silent_run_process: "run_process P E msg s = Some s' \<Longrightarrow> silent s' \<longleftrightarrow> silent s"
  by (auto simp: run_process_def)

lemma silent_handle_core: "handle_core_message P E msg s = Some s' \<Longrightarrow> silent s' \<longleftrightarrow> silent s"
  by (cases msg) (auto simp: core_handshake_def core_pong_def Let_def split: sum.splits option.splits
      dest!: silent_run_process)

lemma silent_dispatch: "dispatch P E msg s = Some s' \<Longrightarrow> is_handshake msg \<Longrightarrow> silent s' \<longleftrightarrow> silent s"
  by (auto simp: dispatch_def bind_eq_Some_conv dest!: silent_handle_core silent_run_process)

text \<open>A connection that is neither authenticated nor seen to become so lets only handshakes
  through.\<close>

lemma silent_checked_message:
  assumes "checked_message P E env s = Some s'" "\<not> is_authenticated (rtc_ctx s)"
    and "re_auth_polls E = (\<lambda>_. False)"
  shows "silent s' \<longleftrightarrow> silent s"
proof (cases "is_handshake (sec_message env)")
  case True
  then have "(if re_rdesk E then rdesk_message E (sec_message env) s else None) = None"
    by (cases "sec_message env") simp_all
  with assms(1) have "s' = s \<or> (\<exists>f. s' = block f s) \<or> dispatch P E (sec_message env) s = Some s'"
    by (auto simp: checked_message_def simp del: if_split split: gate.splits)
  with silent_dispatch True show ?thesis by fastforce
next
  case False
  with assms have "auth_gate E (sec_message env) (rtc_ctx s) = Blocked Unauthenticated"
    by (simp add: auth_gate_def list_ex_iff)
  with assms(1) show ?thesis by (auto simp: checked_message_def split: gate.splits)
qed

lemma auth_kept_by_message:
  assumes "incoming_envelope P E env s = Some s'" "handler_keeps_auth (re_handler E)"
    and "is_authenticated (rtc_ctx s)"
  shows "is_authenticated (rtc_ctx s')"
proof -
  have "is_authenticated (rtc_ctx s')" if c: "checked_message P E env s = Some s'"
  proof (rule ccontr)
    assume n: "\<not> is_authenticated (rtc_ctx s')"
    with checked_message_auth [OF c assms(2)] assms(3)
    have "dispatch P E (sec_message env) s = Some s'" "is_handshake (sec_message env)" by auto
    with dispatch_handshake_auth [of P E _ _ _ _ _ _ _ s s'] assms(2,3) n show False
      by (cases "sec_message env") auto
  qed
  with assms(1,3) show ?thesis
    by (cases "sec_message env") (auto simp: accept_handshake_response_auth accept_peers_sync_def Let_def)
qed

lemma inert_message:
  assumes "handle_incoming_p2p_message P E data s = Some s'" "handler_keeps_auth (re_handler E)"
    and "re_auth_polls E = (\<lambda>_. is_authenticated (rtc_ctx s))" "inert s"
  shows "inert s'"
proof (cases "is_authenticated (rtc_ctx s)")
  case True
  with assms(1,2) auth_kept_by_message show ?thesis
    by (auto simp: handle_incoming_p2p_message_def inert_def simp del: incoming_envelope.simps split: sum.splits)
next
  case False
  have "inert s'" if "incoming_envelope P E env s = Some s'" for env
    using that False assms(3,4) silent_checked_message [of P E env s s']
    by (cases "sec_message env")
      (auto simp: inert_def accept_handshake_response_auth accept_peers_sync_def Let_def)
  with assms(1,4) show ?thesis
    by (auto simp: handle_incoming_p2p_message_def simp del: incoming_envelope.simps split: sum.splits)
qed

subsection \<open>The other steps\<close>

text \<open>They leave the flag alone and tell the application of no message.\<close>

lemma tear_down_frame [simp]:
  "silent (tear_down s) \<longleftrightarrow> silent s" "is_authenticated (rtc_ctx (tear_down s)) = is_authenticated (rtc_ctx s)"
  by (simp_all add: tear_down_def)

definition keeps_silence :: "(rtc_state \<Rightarrow> rtc_state) \<Rightarrow> bool" where
  "keeps_silence f \<longleftrightarrow> (\<forall>s. silent (f s) = silent s
     \<and> is_authenticated (rtc_ctx (f s)) = is_authenticated (rtc_ctx s))"

lemma inert_keeps_silence: "keeps_silence f \<Longrightarrow> inert (f s) \<longleftrightarrow> inert s"
  by (simp add: keeps_silence_def inert_def)

lemma connection_steps_silent:
  "keeps_silence (\<lambda>s. fst (connection_state_changed st s))"
  "keeps_silence (ice_recovery after_grace restart_sdp after_window)"
  "keeps_silence (local_candidate candidate)"
  "keeps_silence (run_renegotiation b64 rid local_sdp)"
  "keeps_silence (answer_sdp_offer b64 decode answer_to rid sdp)"
  "keeps_silence (\<lambda>s. snd (poller_tick pst reports tunnels (last_type, s)))"
  by (simp_all add: keeps_silence_def connection_state_changed_def ice_recovery_def local_candidate_def
      run_renegotiation_def answer_sdp_offer_def send_unsigned_def poller_tick_def Let_def split: option.split)

lemmas connection_steps_inert = connection_steps_silent [THEN inert_keeps_silence]

lemma send_all_auth [simp]:
  "is_authenticated (rtc_ctx (fold (send_envelope_default P) envs s)) = is_authenticated (rtc_ctx s)"
  by (induction envs arbitrary: s)
    (simp_all add: send_envelope_default_def send_chunked_binary_def split: sum.split)

lemma outbound_payload_frame:
  "silent (wc_state (outbound_payload P polls payload c)) \<longleftrightarrow> silent (wc_state c)"
  "is_authenticated (rtc_ctx (wc_state (outbound_payload P polls payload c)))
     = is_authenticated (rtc_ctx (wc_state c))"
proof -
  have "silent (wc_state (outbound_write P p c)) = silent (wc_state c)
      \<and> is_authenticated (rtc_ctx (wc_state (outbound_write P p c))) = is_authenticated (rtc_ctx (wc_state c))" for p
    by (cases p) (simp_all add: Let_def send_chunked_binary_def split: sum.split)
  then show "silent (wc_state (outbound_payload P polls payload c)) \<longleftrightarrow> silent (wc_state c)"
    "is_authenticated (rtc_ctx (wc_state (outbound_payload P polls payload c)))
       = is_authenticated (rtc_ctx (wc_state c))"
    by (simp_all add: outbound_payload_def split: option.split)
qed

lemma channel_steps_frame:
  "silent (wc_state (channel_opened P ts port c)) \<longleftrightarrow> silent (wc_state c)"
  "is_authenticated (rtc_ctx (wc_state (channel_opened P ts port c))) = is_authenticated (rtc_ctx (wc_state c))"
  "silent (wc_state (channel_closed c)) \<longleftrightarrow> silent (wc_state c)"
  "is_authenticated (rtc_ctx (wc_state (channel_closed c))) = is_authenticated (rtc_ctx (wc_state c))"
  "silent (wc_state (ping_tick P L checks ts c)) \<longleftrightarrow> silent (wc_state c)"
  "is_authenticated (rtc_ctx (wc_state (ping_tick P L checks ts c))) = is_authenticated (rtc_ctx (wc_state c))"
  by (simp_all add: channel_opened_def channel_closed_def ping_tick_def Let_def)

lemma setup_steps_frame:
  "silent (wc_state (store_channel c)) \<longleftrightarrow> silent (wc_state c)"
  "is_authenticated (rtc_ctx (wc_state (store_channel c))) = is_authenticated (rtc_ctx (wc_state c))"
  "silent (wc_state (snd (create_offer ch offer loc now c))) \<longleftrightarrow> silent (wc_state c)"
  "is_authenticated (rtc_ctx (wc_state (snd (create_offer ch offer loc now c)))) = is_authenticated (rtc_ctx (wc_state c))"
  "silent (wc_state (snd (send_p2p_message msg c))) \<longleftrightarrow> silent (wc_state c)"
  "is_authenticated (rtc_ctx (wc_state (snd (send_p2p_message msg c)))) = is_authenticated (rtc_ctx (wc_state c))"
  "silent (wc_state (snd (add_ice_candidate is_ip add cand mid i c))) \<longleftrightarrow> silent (wc_state c)"
  "is_authenticated (rtc_ctx (wc_state (snd (add_ice_candidate is_ip add cand mid i c))))
     = is_authenticated (rtc_ctx (wc_state c))"
  by (simp_all add: store_channel_def create_offer_def send_p2p_message_def send_unsigned_def
      add_ice_candidate_def remember_candidate_def Let_def split: sum.split)

lemmas frame_facts = outbound_payload_frame channel_steps_frame setup_steps_frame

lemma channel_message_inert:
  assumes "channel_message P E data c = Some c'" "handler_keeps_auth (re_handler E)"
    and "re_auth_polls E = (\<lambda>_. is_authenticated (rtc_ctx (wc_state c)))" "inert (wc_state c)"
  shows "inert (wc_state c')"
  using assms inert_message [of P E _ "wc_state c"]
  by (auto simp: channel_message_def split: prod.splits chunk_outcome.splits)

lemma client_step_inert: "client_step P c c' \<Longrightarrow> inert (wc_state c) \<Longrightarrow> inert (wc_state c')"
proof (induction rule: client_step.induct)
  case (Received E data c c')
  then show ?case by (rule channel_message_inert)
qed (simp_all add: connection_steps_inert, simp_all add: inert_def frame_facts)

interpretation life: transition_invariant "client_step P" "\<lambda>c. inert (wc_state c)"
  by unfold_locales (rule client_step_inert)

lemma client_step_keeps_auth:
  "client_step P c c' \<Longrightarrow> is_authenticated (rtc_ctx (wc_state c)) \<Longrightarrow> is_authenticated (rtc_ctx (wc_state c'))"
proof (induction rule: client_step.induct)
  case (Received E data c c')
  then show ?case
    by (auto simp: channel_message_def handle_incoming_p2p_message_def simp del: incoming_envelope.simps
        split: prod.splits chunk_outcome.splits sum.splits dest: auth_kept_by_message)
qed (insert connection_steps_silent, simp_all add: frame_facts keeps_silence_def)

interpretation auth: transition_invariant "client_step P" "\<lambda>c. is_authenticated (rtc_ctx (wc_state c))"
  by unfold_locales (rule client_step_keeps_auth)

subsection \<open>The identity of a client\<close>

text \<open>No step changes the node a client is for or the identifier of its connection.\<close>

definition session_of :: "rtc_state \<Rightarrow> string \<times> uuid" where
  "session_of s = (rtc_target s, rtc_connection_id s)"

lemma session_of_simps [simp]:
  "session_of (emit e s) = session_of s" "session_of (net_send cmd s) = session_of s"
  "session_of (spawn t s) = session_of s" "session_of (with_ctx f s) = session_of s"
  "session_of (dc_close s) = session_of s" "session_of (s\<lparr>rtc_ctx := ctx\<rparr>) = session_of s"
  "session_of (s\<lparr>rtc_last_pong := ts\<rparr>) = session_of s" "session_of (s\<lparr>rtc_known := k\<rparr>) = session_of s"
  "session_of (s\<lparr>rtc_dc_open := b\<rparr>) = session_of s" "session_of (s\<lparr>rtc_dc_room := n\<rparr>) = session_of s"
  "session_of (s\<lparr>rtc_dc_sent := fs\<rparr>) = session_of s"
  by (simp_all add: session_of_def emit_def net_send_def spawn_def with_ctx_def dc_close_def)

lemma session_of_send_frames [simp]: "session_of (snd (send_frames fs s)) = session_of s"
  by (induction fs arbitrary: s) simp_all

lemma session_of_send [simp]:
  "session_of (snd (send_chunked_binary data n s)) = session_of s"
  "session_of (send_plain P msg s) = session_of s"
  "session_of (send_envelope_default P env s) = session_of s"
  "session_of (send_unsigned msg s) = session_of s"
  by (simp_all add: send_plain_def send_envelope_default_def send_chunked_binary_def send_unsigned_def
      split: sum.split)

lemma session_of_send_all [simp]: "session_of (fold (send_envelope_default P) envs s) = session_of s"
  by (induction envs arbitrary: s) simp_all

lemma session_of_refused [simp]:
  "session_of (block failure s) = session_of s" "session_of (reject_handshake failure s) = session_of s"
  "session_of (cache_addresses port s) = session_of s" "session_of (tear_down s) = session_of s"
  by (simp_all add: block_def reject_handshake_def cache_addresses_def tear_down_def Let_def split: option.split)

lemma session_of_run_process: "run_process P E msg s = Some s' \<Longrightarrow> session_of s' = session_of s"
  by (auto simp: run_process_def)

lemma session_of_handle_core: "handle_core_message P E msg s = Some s' \<Longrightarrow> session_of s' = session_of s"
  by (cases msg) (auto simp: core_handshake_def core_pong_def Let_def split: sum.splits option.splits
      dest!: session_of_run_process)

lemma session_of_rdesk: "rdesk_message E msg s = Some s' \<Longrightarrow> session_of s' = session_of s"
  by (cases msg) (auto simp: rdesk_request_def rdesk_start_def rdesk_register_def rdesk_stop_def rdesk_denied_def
      Let_def session_of_def send_unsigned_def spawn_def with_ctx_def split: if_splits option.splits)

lemma session_of_checked: "checked_message P E env s = Some s' \<Longrightarrow> session_of s' = session_of s"
  by (auto simp: checked_message_def dispatch_def bind_eq_Some_conv split: gate.splits option.splits if_splits
      dest!: session_of_rdesk session_of_run_process session_of_handle_core)

lemma session_of_message: "handle_incoming_p2p_message P E data s = Some s' \<Longrightarrow> session_of s' = session_of s"
proof -
  have "session_of s' = session_of s" if "incoming_envelope P E env s = Some s'" for env
    using that
    by (cases "sec_message env") (auto simp: accept_handshake_response_def symmetric_response_def
        accept_peers_sync_def Let_def case_prod_unfold dest: session_of_checked)
  then show "handle_incoming_p2p_message P E data s = Some s' \<Longrightarrow> session_of s' = session_of s"
    by (auto simp: handle_incoming_p2p_message_def simp del: incoming_envelope.simps split: sum.splits)
qed

lemma client_step_session: "client_step P c c' \<Longrightarrow> session_of (wc_state c') = session_of (wc_state c)"
proof (induction rule: client_step.induct)
  case (Received E data c c')
  then show ?case
    by (auto simp: channel_message_def session_of_message split: prod.splits chunk_outcome.splits)
next
  case (Written c polls payload)
  have "session_of (wc_state (outbound_write P p c)) = session_of (wc_state c)" for p
    by (cases p) (simp_all add: Let_def split: sum.split)
  then show ?case by (simp add: outbound_payload_def split: option.split)
qed (simp_all add: send_p2p_message_def create_offer_def store_channel_def channel_opened_def channel_closed_def
    ping_tick_def connection_state_changed_def ice_recovery_def local_candidate_def add_ice_candidate_def
    run_renegotiation_def answer_sdp_offer_def poller_tick_def Let_def split: option.split sum.split)

section \<open>A handshake on its way\<close>

lemma dispatch_verified_handshake:
  assumes "handshake_verified P E ts sig s = Inr ()"
  shows "\<exists>s'. dispatch P E (Handshake ver ts sig req mc port from_id) s = Some s'
    \<and> is_authenticated (rtc_ctx s') \<and> OnP2pConnected (rtc_target s) \<in> set (rtc_events s')"
proof -
  let ?hs = "Handshake ver ts sig req mc port from_id"
  obtain s1 where s1: "run_process P E ?hs (emit (OnP2pMessage ?hs) s) = Some s1"
    using run_process_total by blast
  then obtain ctx1 where c1: "process_handshake (rp_node P) req (rtc_ctx s) = Some ctx1"
    "s1 = (emit (OnP2pMessage ?hs) s)\<lparr>rtc_ctx := ctx1\<rparr>"
    using run_process_handshake by fastforce
  then have v: "handshake_verified P E ts sig s1 = Inr ()"
    using assms handshake_verified_cong [of s1 s P E ts sig] by (simp add: process_handshake_info)
  define s2 where "s2 = cache_addresses port (spawn ConnectionTypePoller (emit (OnP2pConnected (rtc_target s1))
    (with_ctx (is_authenticated_update (\<lambda>_. True)) s1)))"
  define s3 where "s3 = (case mc of Some n \<Rightarrow> with_ctx (peer_max_chunk_size_update (\<lambda>_. n)) s2 | None \<Rightarrow> s2)"
  have core: "core_handshake P E ver ts sig req mc port from_id s1 = run_process P E ?hs s3"
    by (simp add: core_handshake_def v Let_def s3_def s2_def split: option.split)
  obtain s' where s': "run_process P E ?hs s3 = Some s'" using run_process_total by blast
  obtain ctx' where "process_handshake (rp_node P) req (rtc_ctx s3) = Some ctx'" "s' = s3\<lparr>rtc_ctx := ctx'\<rparr>"
    using run_process_handshake [OF s'] by blast
  moreover have "is_authenticated (rtc_ctx s3)" by (simp add: s3_def s2_def split: option.split)
  moreover have "OnP2pConnected (rtc_target s) \<in> set (rtc_events s3)"
    by (simp add: s3_def s2_def c1(2) cache_addresses_def emit_def spawn_def with_ctx_def Let_def split: option.split)
  ultimately have "is_authenticated (rtc_ctx s')" "OnP2pConnected (rtc_target s) \<in> set (rtc_events s')"
    by (simp_all add: process_handshake_auth)
  with s1 s' core show ?thesis by (simp add: dispatch_def)
qed

lemma own_handshake_verifies:
  assumes "b64_law C" "ed25519_law C" "length seed = 32" "generate_ed25519_keypair C seed = (priv, pub)"
  shows "\<exists>sig. sign_p2p_handshake C priv a b t = Inr sig \<and> verify_p2p_handshake C sig pub a b t = Inr ()"
proof -
  let ?m = "as_bytes (handshake_payload a b t)"
  from assms obtain sig where s: "sign_message C priv ?m = Inr sig" using sign_message_total by blast
  have "is_ok (ed_verify C (ed_public C seed) ?m (ed_sign C seed ?m))"
    using assms(2,3) by (auto simp: ed25519_law_def is_ok_iff)
  then show ?thesis
    using s sign_verify_message [OF assms s, of ?m]
    by (auto simp: sign_p2p_handshake_as_message verify_p2p_handshake_as_message is_ok_iff)
qed

lemma opened_frames:
  assumes "rtc_dc_open (wc_state a)" "rtc_dc_sent (wc_state a) = []" "wc_pending a = []"
    and "rp_to_bson P \<lparr>sec_mac = None, sec_message = my_handshake (np_crypto (rp_node P)) (wc_private_key a)
           (my_info (rtc_ctx (wc_state a))) (rtc_target (wc_state a)) ts port\<rparr> = Inr bson"
    and "length (frame_chunks bson 10240) \<le> rtc_dc_room (wc_state a)"
  shows "rtc_dc_sent (wc_state (channel_opened P ts port a)) = frame_chunks bson 10240"
  using assms send_frames_room [of "emit (OnPeerStateChanged (rtc_target (wc_state a)) Authenticating) (wc_state a)"
      "frame_chunks bson 10240"]
  by (simp add: channel_opened_def Let_def send_plain_def send_chunked_binary_def emit_def)

lemma opened_channel_accepted:
  assumes "C = np_crypto (rp_node P)" "b64_law C" "ed25519_law C" "length seed = 32"
    and "generate_ed25519_keypair C seed = (wc_private_key a, pub)"
    and "rtc_dc_open (wc_state a)" "rtc_dc_sent (wc_state a) = []" "wc_pending a = []"
    and "env = \<lparr>sec_mac = None, sec_message = my_handshake C (wc_private_key a)
                 (my_info (rtc_ctx (wc_state a))) (rtc_target (wc_state a)) ts port\<rparr>"
    and "rp_to_bson P env = Inr bson" "bson \<noteq> []" "rp_from_bson P bson = Inr env"
    and "length (frame_chunks bson 10240) \<le> rtc_dc_room (wc_state a)"
    and "rtc_target (wc_state b) = ni_id (my_info (rtc_ctx (wc_state a)))"
    and "rtc_target (wc_state a) = ni_id (my_info (rtc_ctx (wc_state b)))"
    and "peer_max_chunk_size (rtc_ctx (wc_state b)) = 10240" "wc_assembler b = assembler_new"
    and "\<not> too_old (re_now E) ts" "poll_known_key E (rtc_target (wc_state b)) = Some pub"
  shows "\<exists>b'. channel_messages P E (rtc_dc_sent (wc_state (channel_opened P ts port a))) b = Some b'
    \<and> is_authenticated (rtc_ctx (wc_state b'))
    \<and> OnP2pConnected (rtc_target (wc_state b)) \<in> set (rtc_events (wc_state b'))"
proof -
  let ?a = "ni_id (my_info (rtc_ctx (wc_state a)))" and ?b = "ni_id (my_info (rtc_ctx (wc_state b)))"
  obtain sig where sig: "sign_p2p_handshake C (wc_private_key a) ?a ?b ts = Inr sig"
    "verify_p2p_handshake C sig pub ?a ?b ts = Inr ()"
    using own_handshake_verifies [OF assms(2-5)] by blast
  obtain ver req mc port' fid where m: "sec_message env = Handshake ver ts sig req mc port' fid"
    using sig(1) by (simp add: assms(9,15) my_handshake_def)
  have "handshake_verified P E ts sig (wc_state b) = Inr ()"
    using sig(2) assms(1,14,18,19) by (simp add: handshake_verified_iff)
  from dispatch_verified_handshake [OF this] m obtain s' where
    s': "dispatch P E (sec_message env) (wc_state b) = Some s'" "is_authenticated (rtc_ctx s')"
      "OnP2pConnected (rtc_target (wc_state b)) \<in> set (rtc_events s')" by fastforce
  have "handle_incoming_p2p_message P E bson (wc_state b) = Some s'"
    using s'(1) m by (simp add: handle_incoming_p2p_message_def assms(12) checked_message_def mac_gate_def auth_gate_def)
  moreover have "rtc_dc_sent (wc_state (channel_opened P ts port a)) = frame_chunks bson 10240"
    using opened_frames [OF assms(6-8) _ assms(13)] assms(1,9,10) by simp
  moreover have "10240 = unat (peer_max_chunk_size (rtc_ctx (wc_state b)))" using assms(16) by simp
  from framed_message_once [OF this _ _ assms(11,17), of P E]
  have "channel_messages P E (frame_chunks bson 10240) b
      = map_option (\<lambda>s. b\<lparr>wc_state := s\<rparr>) (handle_incoming_p2p_message P E bson (wc_state b))" by simp
  ultimately show ?thesis using s'(2,3) by simp
qed

section \<open>Two concrete clients\<close>

definition demo_pair_key :: string where
  "demo_pair_key = bytes_string (replicate 32 7)"

definition demo_dialer :: webrtc_client where
  "demo_dialer = demo_client\<lparr>wc_private_key := demo_pair_key\<rparr>"

definition demo_answerer :: webrtc_client where
  "demo_answerer = on_state (\<lambda>s. s\<lparr>rtc_ctx := context_new (demo_node ''peer'' []) ''me'' memory_peer_store_default,
     rtc_target := ''me''\<rparr>) demo_client"

definition demo_knowing_env :: rtc_env where
  "demo_knowing_env = demo_env\<lparr>re_key_polls := (\<lambda>_. insert_known_public_key ''me'' demo_pair_key known_registry_new)\<rparr>"

definition demo_wire :: rtc_prims where
  "demo_wire = \<lparr>rp_node = demo_prims, rp_to_bson = (\<lambda>_. Inr [1]),
     rp_from_bson = (\<lambda>_. Inr \<lparr>sec_mac = None, sec_message =
       my_handshake demo_crypto demo_pair_key (my_info demo_ctx) ''peer'' 100000 0\<rparr>)\<rparr>"

lemma demo_keypair: "generate_ed25519_keypair demo_crypto (replicate 32 7) = (demo_pair_key, demo_pair_key)"
  by (simp add: generate_ed25519_keypair_def demo_crypto_def demo_pair_key_def pad_to_same)

section \<open>Properties\<close>



text \<open>Authentication is never lost while the client lives.\<close>

theorem authentication_is_permanent:
  assumes "(client_step P)\<^sup>*\<^sup>* c c'" "is_authenticated (rtc_ctx (wc_state c))"
  shows "is_authenticated (rtc_ctx (wc_state c'))"
  using auth.reachable_inv [OF assms] .

theorem authentication_is_permanent_witness:
  "\<exists>c. is_authenticated (rtc_ctx (wc_state c)) \<and> is_authenticated (rtc_ctx (wc_state (store_channel c)))"
proof -
  let ?c = "on_state (with_ctx (is_authenticated_update (\<lambda>_. True))) demo_client"
  have "(client_step demo_rtc_prims)\<^sup>*\<^sup>* ?c (store_channel ?c)" by (blast intro: client_step.Accepted)
  from authentication_is_permanent [OF this] show ?thesis by (intro exI [of _ ?c]) simp
qed

text \<open>Two honest nodes find each other. What a node writes when its channel opens, cut into
  frames, sent, reassembled, decoded and checked on the other side, makes the other side accept
  it: when the receiver knows the public key of the sender's key pair, each names the other as
  its target, and the handshake is not older than a minute.\<close>

theorem opened_channel_authenticates:
  assumes "C = np_crypto (rp_node P)" "b64_law C" "ed25519_law C" "length seed = 32"
    and "generate_ed25519_keypair C seed = (wc_private_key a, pub)"
    and "rtc_dc_open (wc_state a)" "rtc_dc_sent (wc_state a) = []" "wc_pending a = []"
    and "env = \<lparr>sec_mac = None, sec_message = my_handshake C (wc_private_key a)
                 (my_info (rtc_ctx (wc_state a))) (rtc_target (wc_state a)) ts port\<rparr>"
    and "rp_to_bson P env = Inr bson" "bson \<noteq> []" "rp_from_bson P bson = Inr env"
    and "length (frame_chunks bson 10240) \<le> rtc_dc_room (wc_state a)"
    and "rtc_target (wc_state b) = ni_id (my_info (rtc_ctx (wc_state a)))"
    and "rtc_target (wc_state a) = ni_id (my_info (rtc_ctx (wc_state b)))"
    and "peer_max_chunk_size (rtc_ctx (wc_state b)) = 10240" "wc_assembler b = assembler_new"
    and "\<not> too_old (re_now E) ts" "poll_known_key E (rtc_target (wc_state b)) = Some pub"
  shows "\<exists>b'. channel_messages P E (rtc_dc_sent (wc_state (channel_opened P ts port a))) b = Some b'
    \<and> is_authenticated (rtc_ctx (wc_state b'))
    \<and> OnP2pConnected (rtc_target (wc_state b)) \<in> set (rtc_events (wc_state b'))"
  by (rule opened_channel_accepted [OF assms])

theorem opened_channel_authenticates_witness:
  "\<exists>b'. channel_messages demo_wire demo_knowing_env
        (rtc_dc_sent (wc_state (channel_opened demo_wire 100000 0 demo_dialer))) demo_answerer = Some b'
    \<and> is_authenticated (rtc_ctx (wc_state b')) \<and> OnP2pConnected ''me'' \<in> set (rtc_events (wc_state b'))"
proof -
  have f: "length (frame_chunks [1] 10240) = 1" by (simp add: frame_chunks_def frame_loop.simps Let_def)
  have k: "poll_known_key demo_knowing_env ''me'' = Some demo_pair_key"
    by (simp add: poll_known_key_def demo_knowing_env_def insert_known_public_key_def get_known_public_key_def
        upt_rec)
  have n: "re_now demo_knowing_env = 100000" by (simp add: demo_knowing_env_def demo_env_def)
  have "\<exists>b'. channel_messages demo_wire demo_knowing_env
        (rtc_dc_sent (wc_state (channel_opened demo_wire 100000 0 demo_dialer))) demo_answerer = Some b'
    \<and> is_authenticated (rtc_ctx (wc_state b'))
    \<and> OnP2pConnected (rtc_target (wc_state demo_answerer)) \<in> set (rtc_events (wc_state b'))"
    by (rule opened_channel_authenticates [of demo_crypto _ "replicate 32 7" _ demo_pair_key _ _ _ "[1]",
          OF _ demo_crypto_laws(1,3) _ _ _ _ _ refl])
      (simp_all add: n k f demo_keypair demo_dialer_def demo_answerer_def demo_client_def demo_rtc_def
        demo_wire_def demo_prims_def too_old_def demo_ctx_def context_new_def demo_node_def)
  then show ?thesis by (simp add: demo_answerer_def)
qed

end
