(* ===== verification/Network_Types.thy ===== *)
theory Network_Types
  imports Rtc_Client Mdns_Discovery
begin

text \<open>
  \<open>client-core/src/network/types.rs\<close>, the state of \<open>network/manager.rs\<close> and the two free functions of
  \<open>network/mod.rs\<close>. The network task owns one record, \<open>network_manager\<close>; next to the fields of the
  struct it holds what the code reaches through shared handles: the static tables of the local
  mesh (with the known keys and the peer store), the application's callbacks made so far, the
  channel of commands the task receives from, what was sent on each channel to the server, and
  the tasks spawned. Times are milliseconds on the monotonic clock.

  The command channel is bounded and the network task is its only receiver. When the task itself
  sends on it while it is full, it waits for itself: such a send is \<open>None\<close>, as the handler then
  never returns.
\<close>

section \<open>State\<close>

datatype network_mode = WebSocketConnecting | WebSocketConnected | LocalMeshFallback

record peer_backoff =
  attempt_count :: nat
  last_attempt :: nat
  is_connected :: bool

text \<open>A client with what the WebRTC stack reports of it: the connection state and the remote
  description set last.\<close>

record peer_entry =
  pe_client :: webrtc_client
  pe_pc :: pc_state
  pe_remote :: "string option"
  pe_created_at :: nat

datatype (plugins only: size) net_task =
    RouteSignal rtc_signal_envelope "nat option" \<comment> \<open>with the server channel captured\<close>
  | CloseConnection uuid
  | CloseAndReport uuid string \<comment> \<open>then \<open>on_p2p_disconnected\<close>\<close>
  | DialTunnel string string \<comment> \<open>address, peer\<close>
  | SendLater nat net_cmd \<comment> \<open>after a delay\<close>
  | QueueMessage uuid p2p_message \<comment> \<open>on the outgoing channel of that connection\<close>
  | StartDiscovery
  | ReconnectCached string

record network_manager =
  nm_mode :: network_mode
  nm_my_info :: node_info
  nm_private_key :: string
  nm_ws_tx :: "nat option" \<comment> \<open>the server channel in use\<close>
  nm_ws_tasks :: nat \<comment> \<open>how many tasks serve it\<close>
  nm_active_peers :: "(string, peer_entry) hmap"
  nm_backoff_states :: "(string, peer_backoff) hmap"
  nm_focused_peer :: "string option"
  nm_last_known_nodes :: "(string, node_info) hmap"
  nm_turn_credentials :: "turn_credentials option"
  nm_ws_url :: "string option"
  nm_discovery_enabled :: bool
  nm_discovery_started :: bool
  nm_mesh :: mesh_state
  nm_events :: "app_event list"
  nm_queue :: "net_cmd list"
  nm_capacity :: nat
  nm_ws_channels :: nat \<comment> \<open>how many server channels have been made\<close>
  nm_ws_sent :: "(nat \<times> ws_message) list"
  nm_tasks :: "net_task list"

definition manager_new :: "node_info \<Rightarrow> string \<Rightarrow> nat \<Rightarrow> mesh_state \<Rightarrow> network_manager" where
  "manager_new me private_key capacity mesh =
     \<lparr>nm_mode = WebSocketConnecting, nm_my_info = me, nm_private_key = private_key, nm_ws_tx = None,
      nm_ws_tasks = 0, nm_active_peers = [], nm_backoff_states = [], nm_focused_peer = None,
      nm_last_known_nodes = [], nm_turn_credentials = None, nm_ws_url = None,
      nm_discovery_enabled = False, nm_discovery_started = False, nm_mesh = mesh, nm_events = [],
      nm_queue = [], nm_capacity = capacity, nm_ws_channels = 0, nm_ws_sent = [], nm_tasks = []\<rparr>"

text \<open>What the outside answers while one command is handled: the clocks, the limits, whether the
  server accepts a connection in time, and what the WebRTC stack returns.\<close>

record net_env =
  ne_now :: nat
  ne_clock :: u64
  ne_limits :: limits_state
  ne_ws_connects :: bool
  ne_pc :: "unit result"
  ne_conn_id :: uuid
  ne_process :: rtc_state \<comment> \<open>the process-wide tables of the sessions\<close>
  ne_channel :: "unit result"
  ne_offer :: "string result"
  ne_answer :: "string result"
  ne_set_local :: "unit result"
  ne_set_remote :: "string \<Rightarrow> unit result"
  ne_is_ip :: "string \<Rightarrow> bool"
  ne_add_candidate :: "string \<times> string option \<times> u16 option \<Rightarrow> unit result"
  ne_json :: "shared_resource list \<Rightarrow> string option"
  ne_try_lock :: bool \<comment> \<open>whether the table of tunnels is not locked\<close>

definition report :: "app_event \<Rightarrow> network_manager \<Rightarrow> network_manager" where
  "report e s = s\<lparr>nm_events := nm_events s @ [e]\<rparr>"

definition start_task :: "net_task \<Rightarrow> network_manager \<Rightarrow> network_manager" where
  "start_task t s = s\<lparr>nm_tasks := nm_tasks s @ [t]\<rparr>"

definition bg_send :: "net_cmd \<Rightarrow> network_manager \<Rightarrow> network_manager option" where
  "bg_send c s =
     (if length (nm_queue s) < nm_capacity s then Some (s\<lparr>nm_queue := nm_queue s @ [c]\<rparr>) else None)"

definition ws_send :: "nat \<Rightarrow> ws_message \<Rightarrow> network_manager \<Rightarrow> network_manager" where
  "ws_send ch msg s = s\<lparr>nm_ws_sent := nm_ws_sent s @ [(ch, msg)]\<rparr>"

definition has_tunnel :: "string \<Rightarrow> network_manager \<Rightarrow> bool" where
  "has_tunnel node_id s = hm_contains (ACTIVE_TCP_TUNNELS (nm_mesh s)) node_id"

definition report_nodes :: "network_manager \<Rightarrow> network_manager" where
  "report_nodes s = report (OnUpdateNodes (map snd (nm_last_known_nodes s))) s"

section \<open>Cooldowns and slots\<close>

text \<open>The timeouts hold an array of seven waits, so there always is one.\<close>

definition get_cooldown_duration :: "limits_state \<Rightarrow> nat \<Rightarrow> nat" where
  "get_cooldown_duration L n =
     (case redial_backoff (get_timeouts L) n of Some secs \<Rightarrow> 1000 * unat secs | None \<Rightarrow> 0)"

definition occupies_slot :: "peer_entry \<Rightarrow> bool" where
  "occupies_slot p \<longleftrightarrow> pe_pc p = PcConnected \<or> pe_pc p = PcNew \<or> pe_pc p = PcConnecting"

definition slots_taken :: "(string, peer_entry) hmap \<Rightarrow> nat" where
  "slots_taken active = length (filter occupies_slot (map snd active))"

definition peer_slot_available :: "limits_state \<Rightarrow> (string, peer_entry) hmap \<Rightarrow> string \<Rightarrow> bool" where
  "peer_slot_available L active node_id =
     (let max = unat (max_peers L)
      in if max = 0 \<or> hm_contains active node_id then True else slots_taken active < max)"

section \<open>Routing a signal\<close>

definition tunnel_signal :: "rtc_signal_envelope \<Rightarrow> p2p_message" where
  "tunnel_signal envelope =
     (case env_signal envelope of
        Offer sdp _ \<Rightarrow> RtcSignal (env_to_node_id envelope) ''offer'' sdp None None
      | Answer sdp \<Rightarrow> RtcSignal (env_to_node_id envelope) ''answer'' sdp None None
      | IceCandidate candidate sdp_mid sdp_mline_index \<Rightarrow>
          RtcSignal (env_to_node_id envelope) ''candidate'' candidate sdp_mid sdp_mline_index)"

text \<open>Up to the given number of attempts, 200 ms apart, on the tunnels there are at each.\<close>

primrec find_tunnel ::
  "nat \<Rightarrow> (nat \<Rightarrow> (string, tunnel_session) hmap) \<Rightarrow> bool \<Rightarrow> string \<Rightarrow> nat \<Rightarrow> tunnel_session option" where
  "find_tunnel 0 tunnels has_ws to i = None"
| "find_tunnel (Suc n) tunnels has_ws to i =
     (case map_of (tunnels i) to of
        Some session \<Rightarrow> Some session
      | None \<Rightarrow> (if has_ws then None else find_tunnel n tunnels has_ws to (Suc i)))"

definition route_rtc_signal ::
  "(tunnel_session \<Rightarrow> bool) \<Rightarrow> (nat \<Rightarrow> (string, tunnel_session) hmap) \<Rightarrow> rtc_signal_envelope
     \<Rightarrow> nat option \<Rightarrow> network_manager \<Rightarrow> network_manager" where
  "route_rtc_signal accepts tunnels envelope current_ws_tx s =
     (let over_ws = (case current_ws_tx of
                       Some ch \<Rightarrow> ws_send ch (WsRtcSignal envelope) s
                     | None \<Rightarrow> s)
      in case find_tunnel 10 tunnels (current_ws_tx \<noteq> None) (env_to_node_id envelope) 0 of
           Some session \<Rightarrow>
             (if accepts session
              then s\<lparr>nm_mesh := tunnel_send session (tunnel_signal envelope) (nm_mesh s)\<rparr>
              else over_ws)
         | None \<Rightarrow> over_ws)"

section \<open>Reconnecting to cached peers\<close>

definition dial_addresses :: "string \<Rightarrow> string list \<Rightarrow> network_manager \<Rightarrow> network_manager" where
  "dial_addresses node_id addrs s = fold (\<lambda>addr. start_task (DialTunnel addr node_id)) addrs s"

definition trigger_cached_peer_reconnections :: "string \<Rightarrow> network_manager \<Rightarrow> network_manager" where
  "trigger_cached_peer_reconnections my_id s =
     fold (\<lambda>(node_id, peer) s.
        if node_id = my_id \<or> has_tunnel node_id s then s
        else dial_addresses node_id (pc_last_known_addresses peer) s)
      (store_load (mesh_store (nm_mesh s))) s"

section \<open>Facts\<close>

lemma slots_taken_remove: "slots_taken (hm_remove k m) \<le> slots_taken m"
proof -
  have "filter occupies_slot (map snd (filter P m)) = map snd (filter (\<lambda>kv. occupies_slot (snd kv) \<and> P kv) m)" for P
    by (induction m) simp_all
  moreover have "length (filter (\<lambda>kv. occupies_slot (snd kv) \<and> P kv) m) \<le> length (filter (\<lambda>kv. occupies_slot (snd kv)) m)" for P
    by (induction m) auto
  moreover have "slots_taken m = length (filter (\<lambda>kv. occupies_slot (snd kv)) m)"
    by (induction m) (simp_all add: slots_taken_def)
  ultimately show ?thesis by (simp add: hm_remove_def AList.delete_eq slots_taken_def)
qed

end
