(* ===== verification/Network_Peers.thy ===== *)
theory Network_Peers
  imports Network_Types
begin

text \<open>
  \<open>client-core/src/network/peer_orchestrator.rs\<close>: the periodic tick, the commands about peers
  (connecting, losing, calling and answering them, merging lists of nodes) and the signals of the
  local mesh. Every handler is a function of the manager; \<open>None\<close> is a handler that never returns
  because it waits for room in the command channel it alone empties.
\<close>

section \<open>The backoff of a peer\<close>

definition backoff_new :: "nat \<Rightarrow> bool \<Rightarrow> peer_backoff" where
  "backoff_new now connected = \<lparr>attempt_count = 0, last_attempt = now, is_connected = connected\<rparr>"

definition with_backoff ::
  "nat \<Rightarrow> bool \<Rightarrow> string \<Rightarrow> (peer_backoff \<Rightarrow> peer_backoff) \<Rightarrow> network_manager \<Rightarrow> network_manager" where
  "with_backoff now connected node_id f s =
     s\<lparr>nm_backoff_states := hm_upsert node_id (backoff_new now connected) f (nm_backoff_states s)\<rparr>"

text \<open>A peer that was connected starts over; one that was not keeps its count.\<close>

definition lost :: "nat \<Rightarrow> peer_backoff \<Rightarrow> peer_backoff" where
  "lost now b =
     (if is_connected b then \<lparr>attempt_count = 1, last_attempt = now, is_connected = False\<rparr>
      else b\<lparr>last_attempt := now\<rparr>)"

definition reset_backoff :: "string \<Rightarrow> network_manager \<Rightarrow> network_manager" where
  "reset_backoff node_id s =
     s\<lparr>nm_backoff_states := hm_adjust node_id (\<lambda>b. b\<lparr>attempt_count := 0, is_connected := False\<rparr>)
         (nm_backoff_states s)\<rparr>"

definition unfocus :: "string \<Rightarrow> network_manager \<Rightarrow> network_manager" where
  "unfocus node_id s = (if nm_focused_peer s = Some node_id then s\<lparr>nm_focused_peer := None\<rparr> else s)"

text \<open>Removing a client from the table and spawning what closes it.\<close>

definition conn_of :: "peer_entry \<Rightarrow> uuid" where
  "conn_of p = rtc_connection_id (wc_state (pe_client p))"

definition remove_peer :: "(uuid \<Rightarrow> net_task) \<Rightarrow> string \<Rightarrow> network_manager \<Rightarrow> network_manager" where
  "remove_peer close node_id s =
     (case map_of (nm_active_peers s) node_id of
        None \<Rightarrow> s
      | Some peer \<Rightarrow>
          start_task (close (conn_of peer)) (s\<lparr>nm_active_peers := hm_remove node_id (nm_active_peers s)\<rparr>))"

section \<open>The tick\<close>

definition tick_target :: "bool \<Rightarrow> network_manager \<Rightarrow> node_info \<Rightarrow> bool" where
  "tick_target needs_online s node \<longleftrightarrow>
     ni_app_type node \<noteq> ''web''
     \<and> (ni_id node > ni_id (nm_my_info s) \<or> nm_focused_peer s = Some (ni_id node))
     \<and> (needs_online \<longrightarrow> ni_is_online node) \<and> \<not> hm_contains (nm_active_peers s) (ni_id node)"

definition should_retry :: "net_env \<Rightarrow> network_manager \<Rightarrow> string \<Rightarrow> bool" where
  "should_retry E s node_id =
     (case map_of (nm_backoff_states s) node_id of
        Some b \<Rightarrow> get_cooldown_duration (ne_limits E) (attempt_count b) \<le> ne_now E - last_attempt b
      | None \<Rightarrow> True)"

primrec auto_connect_all :: "net_env \<Rightarrow> string list \<Rightarrow> network_manager \<Rightarrow> network_manager option" where
  "auto_connect_all E [] s = Some s"
| "auto_connect_all E (node_id # ids) s =
     (if should_retry E s node_id
      then Option.bind (bg_send (AutoConnect node_id) s) (auto_connect_all E ids)
      else auto_connect_all E ids s)"

definition handle_tick :: "net_env \<Rightarrow> network_manager \<Rightarrow> network_manager option" where
  "handle_tick E s =
     (case nm_mode s of
        WebSocketConnected \<Rightarrow>
          auto_connect_all E (map ni_id (filter (tick_target True s) (map snd (nm_last_known_nodes s)))) s
      | LocalMeshFallback \<Rightarrow>
          auto_connect_all E (map ni_id (filter (tick_target False s) (map snd (nm_last_known_nodes s)))) s
      | WebSocketConnecting \<Rightarrow> Some s)"

section \<open>Losing and gaining a peer\<close>

definition disconnect_peer :: "net_env \<Rightarrow> string \<Rightarrow> network_manager \<Rightarrow> network_manager" where
  "disconnect_peer E node_id s =
     with_backoff (ne_now E) False node_id (lost (ne_now E))
       (unfocus node_id (remove_peer (\<lambda>c. CloseAndReport c node_id) node_id s))"

definition disconnect_peer_session :: "net_env \<Rightarrow> string \<Rightarrow> uuid \<Rightarrow> network_manager \<Rightarrow> network_manager" where
  "disconnect_peer_session E node_id conn_id s =
     (let should_remove = (case map_of (nm_active_peers s) node_id of
                             Some peer \<Rightarrow> conn_of peer = conn_id | None \<Rightarrow> False)
      in if should_remove then disconnect_peer E node_id s else s)"

definition unknown_node :: "string \<Rightarrow> string \<Rightarrow> string \<Rightarrow> string \<Rightarrow> shared_resource list \<Rightarrow> node_info" where
  "unknown_node node_id name os pub_key resources =
     \<lparr>ni_id = node_id, ni_name = name, ni_os = os, ni_version = ''0.1.0'', ni_app_type = ''desktop'',
      ni_build_type = ''debug'', ni_public_key = pub_key, ni_resources = resources, ni_is_online = True,
      ni_last_used = 0, ni_is_temporary = False\<rparr>"

definition connected_node :: "string \<Rightarrow> shared_resource list \<Rightarrow> network_manager \<Rightarrow> network_manager" where
  "connected_node node_id resources s =
     (case map_of (nm_last_known_nodes s) node_id of
        Some node \<Rightarrow> s\<lparr>nm_last_known_nodes :=
          hm_insert node_id (node\<lparr>ni_resources := resources, ni_is_online := True\<rparr>) (nm_last_known_nodes s)\<rparr>
      | None \<Rightarrow>
          (let pub_key = (case get_known_public_key (mesh_known (nm_mesh s)) node_id of
                            Some k \<Rightarrow> k | None \<Rightarrow> [])
           in s\<lparr>nm_last_known_nodes := hm_insert node_id
                  (unknown_node node_id node_id ''unknown'' pub_key resources) (nm_last_known_nodes s)\<rparr>))"

definition peers_sync :: "network_manager \<Rightarrow> p2p_message" where
  "peers_sync s =
     PeersSync (map snd (nm_last_known_nodes s))
       (map (\<lambda>(i, peer). (i, pc_last_known_addresses peer)) (store_load (mesh_store (nm_mesh s))))"

definition peer_connected :: "net_env \<Rightarrow> string \<Rightarrow> shared_resource list \<Rightarrow> network_manager \<Rightarrow> network_manager" where
  "peer_connected E node_id resources s =
     (let s = with_backoff (ne_now E) True node_id (\<lambda>b. b\<lparr>is_connected := True, attempt_count := 0\<rparr>) s;
          s = report_nodes (connected_node node_id resources s)
      in case map_of (nm_active_peers s) node_id of
           Some peer \<Rightarrow> start_task (QueueMessage (conn_of peer) (peers_sync s)) s
         | None \<Rightarrow> s)"

section \<open>Signals of a peer\<close>

definition route_task :: "string \<Rightarrow> rtc_signal \<Rightarrow> network_manager \<Rightarrow> network_manager" where
  "route_task node_id signal s =
     start_task (RouteSignal \<lparr>env_to_node_id = node_id, env_signal = signal\<rparr> (nm_ws_tx s)) s"

definition set_entry :: "string \<Rightarrow> peer_entry \<Rightarrow> network_manager \<Rightarrow> network_manager" where
  "set_entry node_id p s = s\<lparr>nm_active_peers := hm_insert node_id p (nm_active_peers s)\<rparr>"

text \<open>A description the stack took is its remote description from then on.\<close>

definition set_remote :: "net_env \<Rightarrow> string \<Rightarrow> peer_entry \<Rightarrow> peer_entry" where
  "set_remote E sdp p = (if is_ok (ne_set_remote E sdp) then p\<lparr>pe_remote := Some sdp\<rparr> else p)"

definition answer_offer :: "net_env \<Rightarrow> string \<Rightarrow> string result" where
  "answer_offer E sdp = accept_offer_and_answer (ne_set_remote E) (ne_answer E) (ne_set_local E) sdp"

definition new_client :: "net_env \<Rightarrow> string \<Rightarrow> network_manager \<Rightarrow> peer_entry result" where
  "new_client E node_id s =
     bind_result (client_new (ne_pc E) (ne_conn_id E) (ne_clock E) (nm_my_info s) node_id (nm_private_key s)
       (mesh_store (nm_mesh s)) (ne_process E))
       (\<lambda>c. Inr \<lparr>pe_client = c, pe_pc = PcNew, pe_remote = None, pe_created_at = ne_now E\<rparr>)"

definition restart_offer :: "net_env \<Rightarrow> string \<Rightarrow> string \<Rightarrow> peer_entry \<Rightarrow> network_manager \<Rightarrow> network_manager" where
  "restart_offer E from sdp existing s =
     (let s = set_entry from (set_remote E sdp existing) s
      in case answer_offer E sdp of
           Inr answer_sdp \<Rightarrow> route_task from (Answer answer_sdp) s
         | Inl _ \<Rightarrow> s)"

definition fresh_offer :: "net_env \<Rightarrow> string \<Rightarrow> string \<Rightarrow> network_manager \<Rightarrow> network_manager" where
  "fresh_offer E from sdp s =
     (let is_duplicate = (case map_of (nm_active_peers s) from of
                            Some existing \<Rightarrow> pe_remote existing = Some sdp | None \<Rightarrow> False)
      in if is_duplicate then s
         else if \<not> peer_slot_available (ne_limits E) (nm_active_peers s) from then s
         else
           let s = report (OnP2pConnecting from) s;
               s = report (OnPeerStateChanged from ConnectingTransport) s;
               s = remove_peer CloseConnection from s
           in case new_client E from s of
                Inl _ \<Rightarrow> s
              | Inr rtc_client \<Rightarrow>
                  (case answer_offer E sdp of
                     Inl _ \<Rightarrow> s
                   | Inr answer_sdp \<Rightarrow>
                       set_entry from (set_remote E sdp rtc_client) (route_task from (Answer answer_sdp) s)))"

definition inbound_offer :: "net_env \<Rightarrow> string \<Rightarrow> string \<Rightarrow> bool \<Rightarrow> network_manager \<Rightarrow> network_manager" where
  "inbound_offer E from sdp ice_restart s =
     (case (if ice_restart then map_of (nm_active_peers s) from else None) of
        Some existing \<Rightarrow> restart_offer E from sdp existing s
      | None \<Rightarrow> fresh_offer E from sdp s)"

definition inbound_answer :: "net_env \<Rightarrow> string \<Rightarrow> string \<Rightarrow> network_manager \<Rightarrow> network_manager" where
  "inbound_answer E from sdp s =
     (case map_of (nm_active_peers s) from of
        Some p \<Rightarrow> set_entry from (if is_ok (apply_answer (ne_set_remote E) sdp) then p\<lparr>pe_remote := Some sdp\<rparr> else p) s
      | None \<Rightarrow> s)"

definition inbound_candidate ::
  "net_env \<Rightarrow> string \<Rightarrow> string \<Rightarrow> string option \<Rightarrow> u16 option \<Rightarrow> network_manager \<Rightarrow> network_manager" where
  "inbound_candidate E from candidate sdp_mid sdp_mline_index s =
     (case map_of (nm_active_peers s) from of
        Some p \<Rightarrow> set_entry from (p\<lparr>pe_client := snd (add_ice_candidate (ne_is_ip E) (ne_add_candidate E)
                    candidate sdp_mid sdp_mline_index (pe_client p))\<rparr>) s
      | None \<Rightarrow> s)"

definition handle_inbound_signal :: "net_env \<Rightarrow> inbound_rtc_signal \<Rightarrow> network_manager \<Rightarrow> network_manager" where
  "handle_inbound_signal E inbound s =
     (case inb_signal inbound of
        Offer sdp ice_restart \<Rightarrow> inbound_offer E (inb_from_node_id inbound) sdp ice_restart s
      | Answer sdp \<Rightarrow> inbound_answer E (inb_from_node_id inbound) sdp s
      | IceCandidate candidate mid index \<Rightarrow>
          inbound_candidate E (inb_from_node_id inbound) candidate mid index s)"

section \<open>Dialling\<close>

definition is_dead :: "pc_state \<Rightarrow> bool" where
  "is_dead st \<longleftrightarrow> st = PcDisconnected \<or> st = PcFailed \<or> st = PcClosed"

definition is_stuck :: "nat \<Rightarrow> nat \<Rightarrow> peer_entry \<Rightarrow> bool" where
  "is_stuck now timeout_secs p \<longleftrightarrow>
     (pe_pc p = PcNew \<or> pe_pc p = PcConnecting) \<and> (now - pe_created_at p) div 1000 > timeout_secs"

text \<open>The timeouts hold an array of six waits for a stuck dial, so there always is one.\<close>

definition stuck_timeout :: "limits_state \<Rightarrow> nat \<Rightarrow> nat" where
  "stuck_timeout L n = (case dial_stuck (get_timeouts L) n of Some secs \<Rightarrow> unat secs | None \<Rightarrow> 0)"

definition announce_dial :: "string \<Rightarrow> network_manager \<Rightarrow> network_manager" where
  "announce_dial node_id s =
     report (OnPeerStateChanged node_id ConnectingTransport) (report (OnP2pConnecting node_id) s)"

text \<open>Without a server and without a tunnel the cached addresses are dialled instead.\<close>

definition must_wait_for_tunnel :: "string \<Rightarrow> network_manager \<Rightarrow> bool" where
  "must_wait_for_tunnel node_id s \<longleftrightarrow> nm_ws_tx s = None \<and> \<not> has_tunnel node_id s"

definition dial_cached :: "string \<Rightarrow> network_manager \<Rightarrow> network_manager" where
  "dial_cached node_id s =
     (case map_of (store_load (mesh_store (nm_mesh s))) node_id of
        Some peer \<Rightarrow> dial_addresses node_id (pc_last_known_addresses peer) s
      | None \<Rightarrow> s)"

definition dial :: "net_env \<Rightarrow> string \<Rightarrow> network_manager \<Rightarrow> p2p_failure + network_manager" where
  "dial E node_id s =
     (case new_client E node_id s of
        Inl e \<Rightarrow> Inl (ClientInitFailed e)
      | Inr p \<Rightarrow>
          (case create_offer (ne_channel E) (ne_offer E) (ne_set_local E) (ne_clock E) (pe_client p) of
             (Inl e, _) \<Rightarrow> Inl (OfferFailed e)
           | (Inr sdp, c) \<Rightarrow>
               Inr (set_entry node_id (p\<lparr>pe_client := c\<rparr>) (route_task node_id (Offer sdp False) s))))"

definition the_backoff :: "nat \<Rightarrow> string \<Rightarrow> network_manager \<Rightarrow> peer_backoff" where
  "the_backoff now node_id s =
     (case map_of (nm_backoff_states s) node_id of Some b \<Rightarrow> b | None \<Rightarrow> backoff_new now False)"

definition cooling_down :: "net_env \<Rightarrow> peer_backoff \<Rightarrow> bool" where
  "cooling_down E b \<longleftrightarrow> attempt_count b > 0
     \<and> ne_now E - last_attempt b < get_cooldown_duration (ne_limits E) (attempt_count b)"

definition auto_connect :: "net_env \<Rightarrow> string \<Rightarrow> network_manager \<Rightarrow> network_manager option" where
  "auto_connect E node_id s =
     (let now = ne_now E; b = the_backoff now node_id s; s = with_backoff now False node_id id s
      in case map_of (nm_active_peers s) node_id of
           Some peer \<Rightarrow>
             (if is_stuck now (stuck_timeout (ne_limits E) (attempt_count b)) peer \<or> is_dead (pe_pc peer)
              then bg_send (DisconnectPeer node_id) s else Some s)
         | None \<Rightarrow>
             if \<not> peer_slot_available (ne_limits E) (nm_active_peers s) node_id
             then Some (with_backoff now False node_id
                    (\<lambda>b. b\<lparr>attempt_count := max (attempt_count b) 1, last_attempt := now\<rparr>) s)
             else
               let b = (if is_connected b then lost now b else b);
                   s = with_backoff now False node_id (\<lambda>_. b) s
               in if cooling_down E b then Some s
                  else if must_wait_for_tunnel node_id s then Some (dial_cached node_id s)
                  else
                    let s = announce_dial node_id s;
                        s = with_backoff now False node_id
                              (\<lambda>b. \<lparr>attempt_count = attempt_count b + 1, last_attempt = now, is_connected = False\<rparr>) s
                    in case dial E node_id s of
                         Inr s' \<Rightarrow> Some s'
                       | Inl failure \<Rightarrow> Some (report (OnPeerStateChanged node_id PeerDisconnected)
                                               (report (OnPeerFailed node_id failure) s)))"

definition call :: "net_env \<Rightarrow> string \<Rightarrow> network_manager \<Rightarrow> network_manager" where
  "call E node_id s =
     (let now = ne_now E;
          busy = (case map_of (nm_active_peers s) node_id of
                    Some peer \<Rightarrow> \<not> (is_stuck now 5 peer \<or> is_dead (pe_pc peer)) | None \<Rightarrow> False)
      in if busy then s
         else
           let s = remove_peer CloseConnection node_id s
           in if \<not> peer_slot_available (ne_limits E) (nm_active_peers s) node_id then s
              else
                let s = s\<lparr>nm_focused_peer := Some node_id\<rparr>;
                    s = with_backoff now False node_id
                          (\<lambda>_. \<lparr>attempt_count = 1, last_attempt = now, is_connected = False\<rparr>) s
                in if must_wait_for_tunnel node_id s then dial_cached node_id s
                   else
                     let s = announce_dial node_id s
                     in case dial E node_id s of Inr s' \<Rightarrow> s' | Inl _ \<Rightarrow> s)"

section \<open>Merging a list of nodes\<close>

definition merge_info :: "node_info \<Rightarrow> node_info \<Rightarrow> node_info" where
  "merge_info node old_info =
     (let o1 = (if ni_is_online node then old_info\<lparr>ni_is_online := True\<rparr> else old_info);
          o2 = (if ni_resources node \<noteq> [] then o1\<lparr>ni_resources := ni_resources node\<rparr> else o1);
          o3 = (if ni_os o2 = ''unknown'' \<and> ni_os node \<noteq> ''unknown'' then o2\<lparr>ni_os := ni_os node\<rparr> else o2)
      in if ni_name o3 = ni_id o3 \<and> ni_name node \<noteq> ni_id node then o3\<lparr>ni_name := ni_name node\<rparr> else o3)"

definition merge_node :: "node_info \<Rightarrow> network_manager \<Rightarrow> network_manager" where
  "merge_node node s =
     (if ni_id node = ni_id (nm_my_info s) then s
      else case map_of (nm_last_known_nodes s) (ni_id node) of
        Some old_info \<Rightarrow>
          (let s = (if ni_is_online node \<and> \<not> ni_is_online old_info then reset_backoff (ni_id node) s else s)
           in s\<lparr>nm_last_known_nodes := hm_insert (ni_id node) (merge_info node old_info) (nm_last_known_nodes s)\<rparr>)
      | None \<Rightarrow>
          (let s = (if ni_is_online node then reset_backoff (ni_id node) s else s)
           in s\<lparr>nm_last_known_nodes := hm_insert (ni_id node) node (nm_last_known_nodes s)\<rparr>))"

definition merge_nodes_list :: "node_info list \<Rightarrow> network_manager \<Rightarrow> network_manager" where
  "merge_nodes_list nodes s = report_nodes (fold merge_node nodes s)"

fun handle_peer_cmd :: "net_env \<Rightarrow> net_cmd \<Rightarrow> network_manager \<Rightarrow> network_manager option" where
  "handle_peer_cmd E (DisconnectPeer node_id) s = Some (disconnect_peer E node_id s)"
| "handle_peer_cmd E (DisconnectPeerSession node_id conn_id) s = Some (disconnect_peer_session E node_id conn_id s)"
| "handle_peer_cmd E (PeerConnected node_id resources) s = Some (peer_connected E node_id resources s)"
| "handle_peer_cmd E (HandleInboundSignal inbound) s = Some (handle_inbound_signal E inbound s)"
| "handle_peer_cmd E (AutoConnect node_id) s = auto_connect E node_id s"
| "handle_peer_cmd E (Call node_id) s = Some (call E node_id s)"
| "handle_peer_cmd E (MergeNodesList nodes) s = Some (merge_nodes_list nodes s)"
| "handle_peer_cmd E _ s = Some s"

section \<open>Signals of the local mesh\<close>

definition signal_of :: "string \<Rightarrow> string \<Rightarrow> string option \<Rightarrow> u16 option \<Rightarrow> rtc_signal option" where
  "signal_of signal_type sdp_or_candidate sdp_mid sdp_mline_index =
     (if signal_type = ''offer'' then Some (Offer sdp_or_candidate False)
      else if signal_type = ''answer'' then Some (Answer sdp_or_candidate)
      else if signal_type = ''candidate'' then Some (IceCandidate sdp_or_candidate sdp_mid sdp_mline_index)
      else None)"

definition report_local_mesh :: "network_manager \<Rightarrow> network_manager" where
  "report_local_mesh s = (if nm_ws_tx s = None then report (OnWsStateChanged LocalMesh) s else s)"

definition peer_discovered :: "node_info \<Rightarrow> network_manager \<Rightarrow> network_manager" where
  "peer_discovered node s =
     (let already_connected = (case map_of (nm_last_known_nodes s) (ni_id node) of
                                 Some existing \<Rightarrow> ni_is_online existing | None \<Rightarrow> False);
          s = report_nodes (s\<lparr>nm_last_known_nodes := hm_insert (ni_id node) node (nm_last_known_nodes s)\<rparr>);
          s = report_local_mesh s
      in if \<not> already_connected \<and> ni_app_type node \<noteq> ''web'' \<and> ni_id node > ni_id (nm_my_info s)
         then start_task (SendLater 0 (AutoConnect (ni_id node))) s else s)"

definition tunnel_node :: "string \<Rightarrow> network_manager \<Rightarrow> network_manager" where
  "tunnel_node node_id s =
     (case map_of (nm_last_known_nodes s) node_id of
        Some node \<Rightarrow> s\<lparr>nm_last_known_nodes := hm_insert node_id (node\<lparr>ni_is_online := True\<rparr>) (nm_last_known_nodes s)\<rparr>
      | None \<Rightarrow>
          (case get_known_public_key (mesh_known (nm_mesh s)) node_id of
             None \<Rightarrow> s
           | Some pub_key \<Rightarrow>
               (let (name, os) = (case map_of (store_load (mesh_store (nm_mesh s))) node_id of
                                    Some peer \<Rightarrow> (pc_name peer, pc_os peer) | None \<Rightarrow> (node_id, ''unknown''))
                in s\<lparr>nm_last_known_nodes := hm_insert node_id
                       (unknown_node node_id name os pub_key []) (nm_last_known_nodes s)\<rparr>)))"

definition tunnel_established :: "string \<Rightarrow> network_manager \<Rightarrow> network_manager" where
  "tunnel_established node_id s =
     (let s = report_local_mesh s;
          connected = (case map_of (nm_active_peers s) node_id of
                         Some old_client \<Rightarrow> pe_pc old_client = PcConnected | None \<Rightarrow> False);
          s = (if connected then s else remove_peer CloseConnection node_id s);
          s = report_nodes (tunnel_node node_id s)
      in if node_id > ni_id (nm_my_info s) \<or> nm_focused_peer s = Some node_id
         then start_task (SendLater 0 (AutoConnect node_id)) s else s)"

fun handle_peer_signal :: "local_mesh_signal \<Rightarrow> network_manager \<Rightarrow> network_manager option" where
  "handle_peer_signal (InboundRtcSignal from signal_type sdp_or_candidate sdp_mid sdp_mline_index) s =
     (if \<not> nm_discovery_enabled s then Some s
      else case signal_of signal_type sdp_or_candidate sdp_mid sdp_mline_index of
             None \<Rightarrow> Some s
           | Some rtc_sig \<Rightarrow>
               bg_send (HandleInboundSignal \<lparr>inb_from_node_id = from, inb_signal = rtc_sig\<rparr>) s)"
| "handle_peer_signal (PeerDiscovered node) s =
     Some (if nm_discovery_enabled s then peer_discovered node s else s)"
| "handle_peer_signal (TunnelEstablished node_id) s =
     Some (if nm_discovery_enabled s then tunnel_established node_id s else s)"

end
