(* ===== verification/Network_Manager.thy ===== *)
theory Network_Manager
  imports Network_Peers
begin

text \<open>
  \<open>client-core/src/network/ws_client.rs\<close>, \<open>network/p2p_transfer.rs\<close> and the rest of
  \<open>network/manager.rs\<close> and \<open>network/mod.rs\<close>: the commands about the server connection and its lists
  of nodes, the commands that send to peers, the dispatch of commands, the start of the task and
  its loop. The sockets of the server connection are parameters; a task that was spawned is run
  by \<open>run_net_task\<close>, at any later time.
\<close>

section \<open>The server connection\<close>

definition transition_to_local_mesh_fallback :: "network_manager \<Rightarrow> network_manager" where
  "transition_to_local_mesh_fallback s =
     (let s = s\<lparr>nm_ws_tx := None, nm_focused_peer := None, nm_ws_tasks := 0\<rparr>;
          s = report OnDisconnected (report (OnWsStateChanged WsDisconnected) s);
          s = s\<lparr>nm_mode := LocalMeshFallback\<rparr>
      in start_task (ReconnectCached (ni_id (nm_my_info s))) s)"

definition ws_connect ::
  "net_env \<Rightarrow> string \<Rightarrow> node_info \<Rightarrow> turn_credentials option \<Rightarrow> network_manager \<Rightarrow> network_manager" where
  "ws_connect E url new_my_info turn s =
     (let s = s\<lparr>nm_my_info := new_my_info, nm_turn_credentials := turn, nm_ws_url := Some url, nm_ws_tasks := 0\<rparr>;
          s = report (OnWsStateChanged WsConnecting) s;
          s = s\<lparr>nm_mode := WebSocketConnecting, nm_ws_tx := None\<rparr>
      in if ne_ws_connects E
         then let s = report OnConnected (report (OnWsStateChanged WsConnected) s);
                  ch = nm_ws_channels s;
                  s = s\<lparr>nm_ws_channels := ch + 1\<rparr>;
                  s = ws_send ch (UpdateNodeInfo (announced (nm_my_info s))) s;
                  s = ws_send ch ListNodes s
              in s\<lparr>nm_ws_tx := Some ch, nm_mode := WebSocketConnected, nm_ws_tasks := 2\<rparr>
         else transition_to_local_mesh_fallback s)"

text \<open>The task that reads from the server: what it sends for a message, and when the stream ends.
  A message that is not text or not valid JSON is \<open>None\<close>.\<close>

definition ws_read :: "ws_message option \<Rightarrow> net_cmd option" where
  "ws_read msg =
     (case msg of
        Some (WsInboundRtcSignal inbound) \<Rightarrow> Some (HandleInboundSignal inbound)
      | Some (NodesList nodes) \<Rightarrow> Some (ProcessNodesList nodes)
      | _ \<Rightarrow> None)"

definition ws_read_task :: "ws_message option list \<Rightarrow> net_cmd list" where
  "ws_read_task msgs = List.map_filter ws_read msgs @ [Disconnect]"

primrec send_disconnects :: "string list \<Rightarrow> network_manager \<Rightarrow> network_manager option" where
  "send_disconnects [] s = Some s"
| "send_disconnects (i # ids) s = Option.bind (bg_send (DisconnectPeer i) s) (send_disconnects ids)"

definition apply_turn_credentials :: "turn_credentials option \<Rightarrow> network_manager \<Rightarrow> network_manager option" where
  "apply_turn_credentials turn s =
     send_disconnects (map fst (nm_active_peers s)) (s\<lparr>nm_turn_credentials := turn\<rparr>)"

definition reload_resources :: "shared_resource list \<Rightarrow> network_manager \<Rightarrow> network_manager" where
  "reload_resources resources s =
     (let s = s\<lparr>nm_my_info := (nm_my_info s)\<lparr>ni_resources := resources\<rparr>\<rparr>;
          s = (case nm_ws_tx s of
                 Some ch \<Rightarrow> ws_send ch (UpdateNodeInfo (announced (nm_my_info s))) s | None \<Rightarrow> s);
          s = fold (\<lambda>p. start_task (CloseConnection (conn_of p))) (map snd (nm_active_peers s)) s
      in s\<lparr>nm_active_peers := [], nm_focused_peer := None\<rparr>)"

definition update_name :: "string \<Rightarrow> network_manager \<Rightarrow> network_manager option" where
  "update_name name s =
     (let s = s\<lparr>nm_my_info := (nm_my_info s)\<lparr>ni_name := name\<rparr>\<rparr>
      in case nm_ws_url s of
           Some url \<Rightarrow> bg_send (Connect url (nm_my_info s) (nm_turn_credentials s)) s
         | None \<Rightarrow> Some s)"

section \<open>A list of nodes from the server\<close>

definition store_node :: "node_info \<Rightarrow> peer_table \<Rightarrow> peer_table" where
  "store_node n m = (if ni_is_temporary n then m else sync_node n m)"

definition store_nodes :: "node_info list \<Rightarrow> peer_table \<Rightarrow> peer_table" where
  "store_nodes nodes m =
     (let server_ids = map ni_id (filter (\<lambda>n. \<not> ni_is_temporary n) nodes)
      in fold store_node nodes (hm_retain (\<lambda>i _. i \<in> set server_ids) m))"

definition learn_nodes :: "node_info list \<Rightarrow> network_manager \<Rightarrow> network_manager" where
  "learn_nodes nodes s =
     s\<lparr>nm_mesh := (nm_mesh s)\<lparr>mesh_known := update_known_public_keys nodes (mesh_known (nm_mesh s)),
        mesh_store := store_update (store_nodes nodes) (mesh_store (nm_mesh s))\<rparr>\<rparr>"

definition is_dial_target :: "network_manager \<Rightarrow> node_info \<Rightarrow> bool" where
  "is_dial_target s n \<longleftrightarrow>
     ni_app_type n \<noteq> ''web'' \<and> ni_id n > ni_id (nm_my_info s) \<and> ni_is_online n"

definition drop_missing :: "net_env \<Rightarrow> node_info list \<Rightarrow> string \<Rightarrow> network_manager \<Rightarrow> network_manager" where
  "drop_missing E nodes active_id s =
     (if list_ex (\<lambda>n. ni_id n = active_id) nodes then s
      else with_backoff (ne_now E) False active_id (lost (ne_now E))
             (unfocus active_id (remove_peer CloseConnection active_id s)))"

definition resources_changed :: "net_env \<Rightarrow> node_info \<Rightarrow> node_info \<Rightarrow> bool" where
  "resources_changed E old_info node =
     (case (ne_json E (ni_resources old_info), ne_json E (ni_resources node)) of
        (Some old_res, Some new_res) \<Rightarrow> old_res \<noteq> new_res
      | _ \<Rightarrow> False)"

definition renewed_node :: "net_env \<Rightarrow> node_info \<Rightarrow> network_manager \<Rightarrow> network_manager" where
  "renewed_node E node s =
     (case map_of (nm_last_known_nodes s) (ni_id node) of
        None \<Rightarrow> s
      | Some old_info \<Rightarrow>
          (let s = (if \<not> ni_is_online old_info \<and> ni_is_online node then reset_backoff (ni_id node) s else s)
           in if resources_changed E old_info node \<and> hm_contains (nm_active_peers s) (ni_id node)
              then start_task (SendLater 500 (Call (ni_id node)))
                     (unfocus (ni_id node) (remove_peer CloseConnection (ni_id node) s))
              else s))"

primrec position :: "('a \<Rightarrow> bool) \<Rightarrow> 'a list \<Rightarrow> nat option" where
  "position P [] = None"
| "position P (x # xs) = (if P x then Some 0 else map_option Suc (position P xs))"

definition dial_delay :: "node_info list \<Rightarrow> node_info \<Rightarrow> nat" where
  "dial_delay target_nodes node =
     300 * (case position (\<lambda>n. ni_id n = ni_id node) target_nodes of Some i \<Rightarrow> i | None \<Rightarrow> 0)"

definition listed_node :: "net_env \<Rightarrow> node_info list \<Rightarrow> node_info \<Rightarrow> network_manager \<Rightarrow> network_manager" where
  "listed_node E target_nodes node s =
     (let s = renewed_node E node s;
          s = (if is_dial_target s node
               then start_task (SendLater (dial_delay target_nodes node) (AutoConnect (ni_id node))) s else s)
      in s\<lparr>nm_last_known_nodes := hm_insert (ni_id node) node (nm_last_known_nodes s)\<rparr>)"

definition keep_node :: "net_env \<Rightarrow> node_info list \<Rightarrow> network_manager \<Rightarrow> string \<Rightarrow> node_info \<Rightarrow> node_info option" where
  "keep_node E nodes s i node =
     (if list_ex (\<lambda>n. ni_id n = i) nodes then Some node
      else if ne_try_lock E \<and> has_tunnel i s then Some (node\<lparr>ni_is_online := True\<rparr>)
      else None)"

definition retain_nodes :: "net_env \<Rightarrow> node_info list \<Rightarrow> network_manager \<Rightarrow> network_manager" where
  "retain_nodes E nodes s =
     s\<lparr>nm_last_known_nodes :=
        List.map_filter (\<lambda>(i, node). map_option (Pair i) (keep_node E nodes s i node)) (nm_last_known_nodes s)\<rparr>"

definition process_nodes_list :: "net_env \<Rightarrow> node_info list \<Rightarrow> network_manager \<Rightarrow> network_manager" where
  "process_nodes_list E nodes s =
     (let s = learn_nodes nodes s;
          target_nodes = sort_key ni_id (filter (is_dial_target s) nodes);
          s = fold (drop_missing E nodes) (map fst (nm_active_peers s)) s;
          s = fold (listed_node E target_nodes) nodes s
      in report_nodes (retain_nodes E nodes s))"

fun handle_ws_cmd :: "net_env \<Rightarrow> net_cmd \<Rightarrow> network_manager \<Rightarrow> network_manager option" where
  "handle_ws_cmd E (Connect url new_my_info turn) s = Some (ws_connect E url new_my_info turn s)"
| "handle_ws_cmd E (ApplyTurnCredentials turn) s = apply_turn_credentials turn s"
| "handle_ws_cmd E Disconnect s = Some (transition_to_local_mesh_fallback s)"
| "handle_ws_cmd E (ProcessNodesList nodes) s = Some (process_nodes_list E nodes s)"
| "handle_ws_cmd E (ReloadResources resources) s = Some (reload_resources resources s)"
| "handle_ws_cmd E (UpdateName name) s = update_name name s"
| "handle_ws_cmd E _ s = Some s"

section \<open>Sending to peers\<close>

definition send_to_peer :: "string \<Rightarrow> p2p_message \<Rightarrow> network_manager \<Rightarrow> network_manager" where
  "send_to_peer node_id msg s =
     s\<lparr>nm_active_peers := hm_adjust node_id
         (\<lambda>p. p\<lparr>pe_client := snd (send_p2p_message msg (pe_client p))\<rparr>) (nm_active_peers s)\<rparr>"

definition send_focused :: "p2p_message \<Rightarrow> network_manager \<Rightarrow> network_manager" where
  "send_focused msg s =
     (case nm_focused_peer s of Some focused \<Rightarrow> send_to_peer focused msg s | None \<Rightarrow> s)"

definition broadcast_to :: "resource_type \<Rightarrow> p2p_message \<Rightarrow> peer_entry \<Rightarrow> peer_entry" where
  "broadcast_to target_resource_type msg_template p =
     (case get_remote_resource_id target_resource_type (pe_client p) of
        Some target_id \<Rightarrow>
          p\<lparr>pe_client := snd (send_p2p_message (set_resource_id msg_template target_id) (pe_client p))\<rparr>
      | None \<Rightarrow> p)"

definition broadcast :: "resource_type \<Rightarrow> p2p_message \<Rightarrow> network_manager \<Rightarrow> network_manager" where
  "broadcast target_resource_type msg_template s =
     s\<lparr>nm_active_peers :=
        map (\<lambda>(i, p). (i, broadcast_to target_resource_type msg_template p)) (nm_active_peers s)\<rparr>"

definition add_upload :: "uuid \<Rightarrow> string \<Rightarrow> peer_entry \<Rightarrow> peer_entry" where
  "add_upload transfer_id path p =
     p\<lparr>pe_client := on_state (with_ctx (\<lambda>ctx. ctx\<lparr>active_uploads :=
         hm_insert transfer_id path (active_uploads ctx)\<rparr>)) (pe_client p)\<rparr>"

definition register_upload :: "string \<Rightarrow> uuid \<Rightarrow> string \<Rightarrow> network_manager \<Rightarrow> network_manager" where
  "register_upload node_id transfer_id path s =
     s\<lparr>nm_active_peers := hm_adjust node_id (add_upload transfer_id path) (nm_active_peers s)\<rparr>"

definition ws_command :: "ws_message \<Rightarrow> network_manager \<Rightarrow> network_manager" where
  "ws_command msg s =
     (case msg of
        WsRtcSignal envelope \<Rightarrow> start_task (RouteSignal envelope (nm_ws_tx s)) s
      | _ \<Rightarrow> (case nm_ws_tx s of Some ch \<Rightarrow> ws_send ch msg s | None \<Rightarrow> s))"

fun handle_p2p_cmd :: "net_cmd \<Rightarrow> network_manager \<Rightarrow> network_manager" where
  "handle_p2p_cmd (Send msg) s = ws_command msg s"
| "handle_p2p_cmd (SendP2p text) s = send_focused (TextMessage text) s"
| "handle_p2p_cmd (SendP2pMessage msg) s = send_focused msg s"
| "handle_p2p_cmd (SendToPeer node_id msg) s = send_to_peer node_id msg s"
| "handle_p2p_cmd (BroadcastP2pMessage target_resource_type msg_template) s =
     broadcast target_resource_type msg_template s"
| "handle_p2p_cmd (RegisterUpload node_id transfer_id path) s = register_upload node_id transfer_id path s"
| "handle_p2p_cmd _ s = s"

section \<open>The dispatch of commands\<close>

definition start_local_discovery :: "network_manager \<Rightarrow> network_manager" where
  "start_local_discovery s =
     (if nm_discovery_started s then s
      else start_task StartDiscovery (s\<lparr>nm_discovery_started := True, nm_discovery_enabled := True\<rparr>))"

definition set_local_discovery :: "bool \<Rightarrow> network_manager \<Rightarrow> network_manager" where
  "set_local_discovery enabled s =
     (let s = s\<lparr>nm_discovery_enabled := enabled\<rparr> in if enabled then start_local_discovery s else s)"

datatype cmd_group = WsGroup | PeerGroup | P2pGroup | DiscoveryGroup bool

fun cmd_group_of :: "net_cmd \<Rightarrow> cmd_group" where
  "cmd_group_of (Connect _ _ _) = WsGroup"
| "cmd_group_of (ApplyTurnCredentials _) = WsGroup"
| "cmd_group_of Disconnect = WsGroup"
| "cmd_group_of (ProcessNodesList _) = WsGroup"
| "cmd_group_of (ReloadResources _) = WsGroup"
| "cmd_group_of (UpdateName _) = WsGroup"
| "cmd_group_of (DisconnectPeer _) = PeerGroup"
| "cmd_group_of (DisconnectPeerSession _ _) = PeerGroup"
| "cmd_group_of (PeerConnected _ _) = PeerGroup"
| "cmd_group_of (HandleInboundSignal _) = PeerGroup"
| "cmd_group_of (AutoConnect _) = PeerGroup"
| "cmd_group_of (Call _) = PeerGroup"
| "cmd_group_of (MergeNodesList _) = PeerGroup"
| "cmd_group_of (Send _) = P2pGroup"
| "cmd_group_of (SendP2p _) = P2pGroup"
| "cmd_group_of (SendP2pMessage _) = P2pGroup"
| "cmd_group_of (SendToPeer _ _) = P2pGroup"
| "cmd_group_of (BroadcastP2pMessage _ _) = P2pGroup"
| "cmd_group_of (RegisterUpload _ _ _) = P2pGroup"
| "cmd_group_of (SetLocalDiscovery enabled) = DiscoveryGroup enabled"

definition handle_net_cmd :: "net_env \<Rightarrow> net_cmd \<Rightarrow> network_manager \<Rightarrow> network_manager option" where
  "handle_net_cmd E cmd s =
     (case cmd_group_of cmd of
        WsGroup \<Rightarrow> handle_ws_cmd E cmd s
      | PeerGroup \<Rightarrow> handle_peer_cmd E cmd s
      | P2pGroup \<Rightarrow> Some (handle_p2p_cmd cmd s)
      | DiscoveryGroup enabled \<Rightarrow> Some (set_local_discovery enabled s))"

section \<open>The task\<close>

definition cached_node :: "string \<times> peer_config \<Rightarrow> node_info" where
  "cached_node c =
     \<lparr>ni_id = fst c, ni_name = pc_name (snd c), ni_os = pc_os (snd c), ni_version = ''0.1.0'',
      ni_app_type = ''desktop'', ni_build_type = ''debug'', ni_public_key = pc_public_key (snd c),
      ni_resources = [], ni_is_online = False, ni_last_used = 0, ni_is_temporary = False\<rparr>"

definition usable_cached :: "string \<Rightarrow> string \<times> peer_config \<Rightarrow> bool" where
  "usable_cached my_id c \<longleftrightarrow>
     fst c \<noteq> my_id \<and> \<not> (pc_os (snd c) = ''web'' \<or> pc_name (snd c) = ''Web Browser Node'')"

definition load_cached :: "network_manager \<Rightarrow> network_manager" where
  "load_cached s =
     (let initial_nodes = map cached_node (filter (usable_cached (ni_id (nm_my_info s)))
            (store_load (mesh_store (nm_mesh s))))
      in if initial_nodes = [] then s
         else report_nodes
           (s\<lparr>nm_mesh := (nm_mesh s)\<lparr>mesh_known := update_known_public_keys initial_nodes (mesh_known (nm_mesh s))\<rparr>,
              nm_last_known_nodes := hm_insert_all ni_id id initial_nodes (nm_last_known_nodes s)\<rparr>))"

text \<open>The cell of the signal channel keeps the first value it is given. The second component
  tells whether this task receives the signals of the local mesh.\<close>

definition run_network_manager ::
  "node_info \<Rightarrow> string \<Rightarrow> nat \<Rightarrow> bool \<Rightarrow> mesh_state \<Rightarrow> network_manager \<times> bool" where
  "run_network_manager me private_key capacity enable_local_discovery mesh =
     (let s = load_cached (manager_new me private_key capacity mesh);
          s = (if enable_local_discovery then start_local_discovery s else s)
      in (s\<lparr>nm_mesh := (nm_mesh s)\<lparr>SIGNAL_TX := True\<rparr>\<rparr>, \<not> SIGNAL_TX mesh))"

text \<open>What the loop selects: a tick, the next command of the channel, or a signal of the local
  mesh.\<close>

datatype (plugins only: size) net_event = Tick | Command net_cmd | MeshSignal local_mesh_signal

fun net_loop :: "net_env \<Rightarrow> net_event \<Rightarrow> network_manager \<Rightarrow> network_manager option" where
  "net_loop E Tick s = handle_tick E s"
| "net_loop E (Command cmd) s = handle_net_cmd E cmd s"
| "net_loop E (MeshSignal signal) s = handle_peer_signal signal s"

text \<open>Receiving the next command takes it off the channel.\<close>

definition net_receive :: "net_env \<Rightarrow> network_manager \<Rightarrow> network_manager option" where
  "net_receive E s =
     (case nm_queue s of
        [] \<Rightarrow> Some s
      | cmd # rest \<Rightarrow> handle_net_cmd E cmd (s\<lparr>nm_queue := rest\<rparr>))"

text \<open>A task the handlers have spawned, run later. A tunnel that is dialled and the start of the
  discovery are modelled in \<open>Local_Mesh\<close> and \<open>Mdns_Discovery\<close>. A task that sends a command waits for
  room.\<close>

definition queue_on :: "uuid \<Rightarrow> p2p_message \<Rightarrow> peer_entry \<Rightarrow> peer_entry" where
  "queue_on conn msg p =
     (if conn_of p = conn then p\<lparr>pe_client := snd (send_p2p_message msg (pe_client p))\<rparr> else p)"

fun run_net_task ::
  "(tunnel_session \<Rightarrow> bool) \<Rightarrow> (nat \<Rightarrow> (string, tunnel_session) hmap) \<Rightarrow> net_task \<Rightarrow> network_manager
     \<Rightarrow> network_manager option" where
  "run_net_task accepts tunnels (RouteSignal envelope ch) s = Some (route_rtc_signal accepts tunnels envelope ch s)"
| "run_net_task accepts tunnels (CloseAndReport _ node_id) s = Some (report (OnP2pDisconnected node_id) s)"
| "run_net_task accepts tunnels (SendLater _ cmd) s = bg_send cmd s"
| "run_net_task accepts tunnels (QueueMessage conn msg) s =
     Some (s\<lparr>nm_active_peers := map (\<lambda>(i, p). (i, queue_on conn msg p)) (nm_active_peers s)\<rparr>)"
| "run_net_task accepts tunnels (ReconnectCached my_id) s =
     Some (trigger_cached_peer_reconnections my_id s)"
| "run_net_task accepts tunnels _ s = Some s"

end
