(* ===== verification/Network_Invariant.thy ===== *)
theory Network_Invariant
  imports Network_Manager Rtc_Lifecycle
begin

text \<open>
  What every handler of the network task keeps: each client in the table of peers is a client for
  the node it is filed under, each known node is filed under its own id, the mode agrees with the
  server channel, and the signals of the local mesh are only listened to once its discovery has
  been started. The runs of the task interleave the handlers with the tasks they spawn and with
  what the WebRTC stack reports.
\<close>

section \<open>The invariant\<close>

definition hm_all :: "('k \<Rightarrow> 'v \<Rightarrow> bool) \<Rightarrow> ('k, 'v) hmap \<Rightarrow> bool" where
  "hm_all P m \<longleftrightarrow> hm_wf m \<and> (\<forall>k v. map_of m k = Some v \<longrightarrow> P k v)"

definition entry_ok :: "string \<Rightarrow> peer_entry \<Rightarrow> bool" where
  "entry_ok i p \<longleftrightarrow> rtc_target (wc_state (pe_client p)) = i"

definition peers_ok :: "network_manager \<Rightarrow> bool" where
  "peers_ok s \<longleftrightarrow> hm_all entry_ok (nm_active_peers s)"

definition nodes_ok :: "network_manager \<Rightarrow> bool" where
  "nodes_ok s \<longleftrightarrow> hm_all (\<lambda>i n. ni_id n = i) (nm_last_known_nodes s)"

definition link_ok :: "network_manager \<Rightarrow> bool" where
  "link_ok s \<longleftrightarrow> (nm_mode s = WebSocketConnected \<longleftrightarrow> nm_ws_tx s \<noteq> None)
     \<and> (\<forall>ch. nm_ws_tx s = Some ch \<longrightarrow> ch < nm_ws_channels s)
     \<and> nm_ws_tasks s = (if nm_ws_tx s = None then 0 else 2)
     \<and> (nm_discovery_enabled s \<longrightarrow> nm_discovery_started s)"

definition manager_ok :: "network_manager \<Rightarrow> bool" where
  "manager_ok s \<longleftrightarrow> peers_ok s \<and> nodes_ok s \<and> link_ok s \<and> hm_wf (nm_backoff_states s)"

lemma hm_all_Nil [simp]: "hm_all P []"
  by (simp add: hm_all_def)

lemma hm_all_insert [intro]: "hm_all P m \<Longrightarrow> P k v \<Longrightarrow> hm_all P (hm_insert k v m)"
  by (simp add: hm_all_def)

lemma hm_all_remove [simp, intro]: "hm_all P m \<Longrightarrow> hm_all P (hm_remove k m)"
  by (simp add: hm_all_def)

lemma hm_all_adjust [intro]: "hm_all P m \<Longrightarrow> (\<And>v. P k v \<Longrightarrow> P k (f v)) \<Longrightarrow> hm_all P (hm_adjust k f m)"
  by (auto simp: hm_all_def)

lemma hm_all_insert_all [intro]:
  assumes "hm_all P m" "\<And>x. x \<in> set xs \<Longrightarrow> P (kf x) (vf x)"
  shows "hm_all P (hm_insert_all kf vf xs m)"
  using assms unfolding hm_insert_all_def by (induction xs arbitrary: m) auto

lemma hm_all_map:
  assumes "hm_all P m" "\<And>k v. P k v \<Longrightarrow> P k (f v)"
  shows "hm_all P (map (\<lambda>(k, v). (k, f v)) m)"
proof -
  have "hm_wf (map (\<lambda>(k, v). (k, f v)) m) = hm_wf m"
    unfolding hm_wf_def by (induction m) (auto simp: image_iff)
  moreover have "map_of (map (\<lambda>(k, v). (k, f v)) m) = map_option f \<circ> map_of m"
    by (simp add: map_of_map)
  ultimately show ?thesis using assms by (auto simp: hm_all_def)
qed

lemma hm_all_map_filter:
  assumes "hm_all P m" "\<And>k v v'. P k v \<Longrightarrow> f k v = Some v' \<Longrightarrow> P k v'"
  shows "hm_all P (List.map_filter (\<lambda>(k, v). map_option (Pair k) (f k v)) m)"
proof -
  let ?g = "\<lambda>(k, v). map_option (Pair k) (f k v)"
  have sub: "fst ` set (List.map_filter ?g m) \<subseteq> fst ` set m" for m
    by (induction m) (auto simp: List.map_filter_simps split: option.splits)
  have "hm_wf (List.map_filter ?g m) \<and> (\<forall>k v. (k, v) \<in> set (List.map_filter ?g m) \<longrightarrow> P k v)"
    if "hm_wf m" "\<forall>k v. (k, v) \<in> set m \<longrightarrow> P k v"
    using that
  proof (induction m)
    case Nil
    then show ?case by (simp add: List.map_filter_simps)
  next
    case (Cons a m)
    moreover have "fst a \<notin> fst ` set (List.map_filter ?g m)" using Cons.prems(1) sub [of m] by (auto simp: hm_wf_def)
    ultimately show ?case
      by (cases a) (auto simp: List.map_filter_simps hm_wf_def split: option.splits intro: assms(2))
  qed
  then show ?thesis using assms(1) by (auto simp: hm_all_def hm_wf_def dest: map_of_SomeD)
qed

subsection \<open>The small steps\<close>

lemma report_simps [simp]:
  "nm_active_peers (report e s) = nm_active_peers s" "nm_last_known_nodes (report e s) = nm_last_known_nodes s"
  "nm_backoff_states (report e s) = nm_backoff_states s" "nm_focused_peer (report e s) = nm_focused_peer s"
  "nm_mesh (report e s) = nm_mesh s" "nm_ws_tx (report e s) = nm_ws_tx s" "nm_my_info (report e s) = nm_my_info s"
  "nm_queue (report e s) = nm_queue s" "nm_tasks (report e s) = nm_tasks s" "nm_mode (report e s) = nm_mode s"
  "nm_events (report e s) = nm_events s @ [e]" "nm_private_key (report e s) = nm_private_key s"
  "nm_discovery_enabled (report e s) = nm_discovery_enabled s" "nm_ws_channels (report e s) = nm_ws_channels s"
  "nm_capacity (report e s) = nm_capacity s" "nm_ws_sent (report e s) = nm_ws_sent s"
  by (simp_all add: report_def)

lemma start_task_simps [simp]:
  "nm_active_peers (start_task t s) = nm_active_peers s" "nm_last_known_nodes (start_task t s) = nm_last_known_nodes s"
  "nm_backoff_states (start_task t s) = nm_backoff_states s" "nm_focused_peer (start_task t s) = nm_focused_peer s"
  "nm_mesh (start_task t s) = nm_mesh s" "nm_ws_tx (start_task t s) = nm_ws_tx s"
  "nm_my_info (start_task t s) = nm_my_info s" "nm_queue (start_task t s) = nm_queue s"
  "nm_tasks (start_task t s) = nm_tasks s @ [t]" "nm_events (start_task t s) = nm_events s"
  "nm_capacity (start_task t s) = nm_capacity s"
  by (simp_all add: start_task_def)

lemma with_backoff_simps [simp]:
  "nm_active_peers (with_backoff now c i f s) = nm_active_peers s"
  "nm_last_known_nodes (with_backoff now c i f s) = nm_last_known_nodes s"
  "nm_focused_peer (with_backoff now c i f s) = nm_focused_peer s" "nm_mesh (with_backoff now c i f s) = nm_mesh s"
  "nm_ws_tx (with_backoff now c i f s) = nm_ws_tx s" "nm_my_info (with_backoff now c i f s) = nm_my_info s"
  "nm_events (with_backoff now c i f s) = nm_events s" "nm_queue (with_backoff now c i f s) = nm_queue s"
  "nm_tasks (with_backoff now c i f s) = nm_tasks s"
  "nm_backoff_states (with_backoff now c i f s) = hm_upsert i (backoff_new now c) f (nm_backoff_states s)"
  by (simp_all add: with_backoff_def)

text \<open>Steps that touch none of the tables the invariant is about.\<close>

lemma manager_ok_frame [simp]:
  "manager_ok (report e s) \<longleftrightarrow> manager_ok s" "manager_ok (start_task t s) \<longleftrightarrow> manager_ok s"
  "manager_ok (ws_send ch msg s) \<longleftrightarrow> manager_ok s" "manager_ok (report_nodes s) \<longleftrightarrow> manager_ok s"
  "manager_ok (s\<lparr>nm_mesh := m\<rparr>) \<longleftrightarrow> manager_ok s" "manager_ok (s\<lparr>nm_focused_peer := f\<rparr>) \<longleftrightarrow> manager_ok s"
  "manager_ok (s\<lparr>nm_my_info := me\<rparr>) \<longleftrightarrow> manager_ok s" "manager_ok (s\<lparr>nm_queue := q\<rparr>) \<longleftrightarrow> manager_ok s"
  "manager_ok (s\<lparr>nm_turn_credentials := turn\<rparr>) \<longleftrightarrow> manager_ok s" "manager_ok (s\<lparr>nm_ws_url := u\<rparr>) \<longleftrightarrow> manager_ok s"
  "manager_ok (unfocus i s) \<longleftrightarrow> manager_ok s" "manager_ok (route_task i sig s) \<longleftrightarrow> manager_ok s"
  "manager_ok (report_local_mesh s) \<longleftrightarrow> manager_ok s" "manager_ok (announce_dial i s) \<longleftrightarrow> manager_ok s"
  by (simp_all add: manager_ok_def peers_ok_def nodes_ok_def link_ok_def report_def start_task_def ws_send_def
      report_nodes_def unfocus_def route_task_def report_local_mesh_def announce_dial_def)

lemma manager_ok_backoff [simp]:
  "manager_ok s \<Longrightarrow> manager_ok (with_backoff now c i f s)" "manager_ok s \<Longrightarrow> manager_ok (reset_backoff i s)"
  by (simp_all add: manager_ok_def peers_ok_def nodes_ok_def link_ok_def with_backoff_def reset_backoff_def)

lemma manager_ok_peers:
  "manager_ok s \<Longrightarrow> hm_all entry_ok m \<Longrightarrow> manager_ok (s\<lparr>nm_active_peers := m\<rparr>)"
  by (simp add: manager_ok_def peers_ok_def nodes_ok_def link_ok_def)

lemma manager_ok_nodes:
  "manager_ok s \<Longrightarrow> hm_all (\<lambda>i n. ni_id n = i) m \<Longrightarrow> manager_ok (s\<lparr>nm_last_known_nodes := m\<rparr>)"
  by (simp add: manager_ok_def peers_ok_def nodes_ok_def link_ok_def)

lemma manager_okD:
  "manager_ok s \<Longrightarrow> hm_all entry_ok (nm_active_peers s)"
  "manager_ok s \<Longrightarrow> hm_all (\<lambda>i n. ni_id n = i) (nm_last_known_nodes s)"
  "manager_ok s \<Longrightarrow> link_ok s"
  by (simp_all add: manager_ok_def peers_ok_def nodes_ok_def)

lemma manager_ok_insert_node:
  "manager_ok s \<Longrightarrow> ni_id n = i \<Longrightarrow> manager_ok (s\<lparr>nm_last_known_nodes := hm_insert i n (nm_last_known_nodes s)\<rparr>)"
  by (blast intro: manager_ok_nodes manager_okD)

lemma manager_ok_node_id: "manager_ok s \<Longrightarrow> map_of (nm_last_known_nodes s) i = Some n \<Longrightarrow> ni_id n = i"
  using manager_okD(2) [of s] by (simp add: hm_all_def)

lemma manager_ok_entry: "manager_ok s \<Longrightarrow> map_of (nm_active_peers s) i = Some p \<Longrightarrow> entry_ok i p"
  using manager_okD(1) [of s] by (simp add: hm_all_def)

lemma manager_ok_set_entry: "manager_ok s \<Longrightarrow> entry_ok i p \<Longrightarrow> manager_ok (set_entry i p s)"
  unfolding set_entry_def by (blast intro: manager_ok_peers manager_okD)

lemma manager_ok_remove_peer [simp]: "manager_ok s \<Longrightarrow> manager_ok (remove_peer t i s)"
  by (auto simp: remove_peer_def intro: manager_ok_peers manager_okD split: option.split)

lemma bg_send_ok: "bg_send c s = Some s' \<Longrightarrow> manager_ok s \<Longrightarrow> manager_ok s'"
  by (auto simp: bg_send_def split: if_splits)

lemma manager_ok_dial_addresses [simp]: "manager_ok (dial_addresses i addrs s) \<longleftrightarrow> manager_ok s"
  unfolding dial_addresses_def by (induction addrs arbitrary: s) simp_all

lemma manager_ok_dial_cached [simp]: "manager_ok (dial_cached i s) \<longleftrightarrow> manager_ok s"
  by (simp add: dial_cached_def split: option.split)

subsection \<open>Clients\<close>

lemma new_client_ok: "new_client E i s = Inr p \<Longrightarrow> entry_ok i p \<and> pe_pc p = PcNew \<and> conn_of p = ne_conn_id E"
  by (auto simp: new_client_def client_new_def entry_ok_def conn_of_def)

lemma set_remote_frame [simp]:
  "entry_ok i (set_remote E sdp p) \<longleftrightarrow> entry_ok i p" "pe_pc (set_remote E sdp p) = pe_pc p"
  "conn_of (set_remote E sdp p) = conn_of p"
  by (simp_all add: set_remote_def entry_ok_def conn_of_def)

lemma create_offer_target [simp]:
  "rtc_target (wc_state (snd (create_offer ch offer loc now c))) = rtc_target (wc_state c)"
  by (simp add: create_offer_def store_channel_def split: sum.split)

lemma entry_ok_client:
  "entry_ok i p \<Longrightarrow> rtc_target (wc_state c) = rtc_target (wc_state (pe_client p)) \<Longrightarrow> entry_ok i (p\<lparr>pe_client := c\<rparr>)"
  by (simp add: entry_ok_def)

lemma client_ops_target [simp]:
  "rtc_target (wc_state (snd (send_p2p_message msg c))) = rtc_target (wc_state c)"
  "rtc_target (wc_state (snd (add_ice_candidate f g cand mid idx c))) = rtc_target (wc_state c)"
  by (simp_all add: send_p2p_message_def send_unsigned_def add_ice_candidate_def)

subsection \<open>The handlers\<close>

lemma tick_ok:
  assumes "handle_tick E s = Some s'" "manager_ok s"
  shows "manager_ok s'"
proof -
  have "auto_connect_all E ids s = Some s' \<Longrightarrow> manager_ok s \<Longrightarrow> manager_ok s'" for ids s
    by (induction ids arbitrary: s) (auto split: if_splits Option.bind_splits dest: bg_send_ok)
  with assms show ?thesis by (auto simp: handle_tick_def split: network_mode.splits)
qed

lemma disconnect_ok: "manager_ok s \<Longrightarrow> manager_ok (disconnect_peer E i s)"
  "manager_ok s \<Longrightarrow> manager_ok (disconnect_peer_session E i conn s)"
  by (simp_all add: disconnect_peer_def disconnect_peer_session_def Let_def)

lemma connected_node_ok: "manager_ok s \<Longrightarrow> manager_ok (connected_node i rs s)"
  by (auto simp: connected_node_def Let_def unknown_node_def intro!: manager_ok_insert_node
      dest: manager_ok_node_id split: option.split)

lemma peer_connected_ok: "manager_ok s \<Longrightarrow> manager_ok (peer_connected E i rs s)"
  by (simp add: peer_connected_def Let_def connected_node_ok split: option.split)

lemma offer_ok: "manager_ok s \<Longrightarrow> manager_ok (inbound_offer E i sdp restart s)"
proof -
  assume s: "manager_ok s"
  have "manager_ok (fresh_offer E i sdp s)"
    using s by (auto simp: fresh_offer_def Let_def intro!: manager_ok_set_entry dest!: new_client_ok split: sum.split)
  moreover have "manager_ok (restart_offer E i sdp p s)" if "map_of (nm_active_peers s) i = Some p" for p
    using s that
    by (auto simp: restart_offer_def Let_def intro!: manager_ok_set_entry dest: manager_ok_entry split: sum.split)
  ultimately show ?thesis by (auto simp: inbound_offer_def split: option.splits if_splits)
qed

lemma inbound_signal_ok: "manager_ok s \<Longrightarrow> manager_ok (handle_inbound_signal E inb s)"
  by (auto simp: handle_inbound_signal_def offer_ok inbound_answer_def inbound_candidate_def entry_ok_def
      intro!: manager_ok_set_entry dest: manager_ok_entry split: rtc_signal.split option.split)

lemma dial_ok: "dial E i s = Inr s' \<Longrightarrow> manager_ok s \<Longrightarrow> manager_ok s'"
proof -
  assume d: "dial E i s = Inr s'" and s: "manager_ok s"
  then obtain p where p: "new_client E i s = Inr p" by (auto simp: dial_def split: sum.splits)
  let ?o = "create_offer (ne_channel E) (ne_offer E) (ne_set_local E) (ne_clock E) (pe_client p)"
  from d p have "s' = set_entry i (p\<lparr>pe_client := snd ?o\<rparr>) (route_task i (Offer (projr (fst ?o)) False) s)"
    by (auto simp: dial_def split: sum.splits prod.splits)
  moreover have "entry_ok i (p\<lparr>pe_client := snd ?o\<rparr>)"
    using new_client_ok [OF p] by (auto intro: entry_ok_client)
  ultimately show ?thesis using s by (simp add: manager_ok_set_entry)
qed

lemma auto_connect_ok: "auto_connect E i s = Some s' \<Longrightarrow> manager_ok s \<Longrightarrow> manager_ok s'"
  by (auto simp: auto_connect_def Let_def split: option.splits if_splits sum.splits dest: bg_send_ok dial_ok)

lemma call_ok: "manager_ok s \<Longrightarrow> manager_ok (call E i s)"
  by (auto simp: call_def Let_def split: sum.split dest: dial_ok)

lemma merge_ok: "manager_ok s \<Longrightarrow> manager_ok (merge_nodes_list nodes s)"
proof -
  have id: "ni_id (merge_info n o') = ni_id o'" for n o' by (simp add: merge_info_def Let_def)
  have one: "manager_ok s \<Longrightarrow> manager_ok (merge_node n s)" for n s
  proof -
    assume s: "manager_ok s"
    have n: "nm_last_known_nodes (reset_backoff (ni_id n) s) = nm_last_known_nodes s" by (simp add: reset_backoff_def)
    from s show ?thesis
      by (auto simp: merge_node_def Let_def id n intro!: manager_ok_nodes hm_all_insert manager_okD(2)
          dest: manager_ok_node_id split: option.split)
  qed
  then have "manager_ok s \<Longrightarrow> manager_ok (fold merge_node nodes s)" for s
    by (induction nodes arbitrary: s) simp_all
  then show "manager_ok s \<Longrightarrow> manager_ok (merge_nodes_list nodes s)" by (simp add: merge_nodes_list_def)
qed

lemma peer_cmd_ok: "handle_peer_cmd E cmd s = Some s' \<Longrightarrow> manager_ok s \<Longrightarrow> manager_ok s'"
  by (cases cmd) (auto simp: disconnect_ok peer_connected_ok inbound_signal_ok call_ok merge_ok auto_connect_ok)

lemma mesh_signal_ok: "handle_peer_signal sig s = Some s' \<Longrightarrow> manager_ok s \<Longrightarrow> manager_ok s'"
proof (cases sig)
  case (TunnelEstablished i)
  have "manager_ok s \<Longrightarrow> manager_ok (tunnel_node i s)" for s
    by (auto simp: tunnel_node_def Let_def unknown_node_def intro!: manager_ok_insert_node
        dest: manager_ok_node_id split: option.split)
  with TunnelEstablished show "handle_peer_signal sig s = Some s' \<Longrightarrow> manager_ok s \<Longrightarrow> manager_ok s'"
    by (auto simp: tunnel_established_def Let_def split: if_splits)
qed (auto simp: peer_discovered_def Let_def intro: manager_ok_insert_node dest: bg_send_ok
    split: if_splits option.splits)

lemma fallback_ok: "manager_ok s \<Longrightarrow> manager_ok (transition_to_local_mesh_fallback s)"
  by (simp add: transition_to_local_mesh_fallback_def Let_def)
    (simp add: manager_ok_def peers_ok_def nodes_ok_def link_ok_def report_def)

lemma ws_connect_ok: "manager_ok s \<Longrightarrow> manager_ok (ws_connect E url me turn s)"
proof -
  assume s: "manager_ok s"
  then have "manager_ok (s\<lparr>nm_my_info := me, nm_turn_credentials := turn, nm_ws_url := u, nm_ws_tasks := 0,
      nm_events := ev, nm_mode := WebSocketConnecting, nm_ws_tx := None\<rparr>)" for u ev
    by (simp add: manager_ok_def peers_ok_def nodes_ok_def link_ok_def)
  with s show ?thesis
    by (simp add: ws_connect_def Let_def report_def fallback_ok)
      (simp add: manager_ok_def peers_ok_def nodes_ok_def link_ok_def ws_send_def)
qed

lemma listed_node_ok: "manager_ok s \<Longrightarrow> manager_ok (listed_node E ts n s)"
proof -
  assume s: "manager_ok s"
  have "manager_ok (renewed_node E n s)"
    using s by (simp add: renewed_node_def Let_def split: option.split)
  then show ?thesis by (simp add: listed_node_def Let_def manager_ok_insert_node)
qed

lemma nodes_list_ok: "manager_ok s \<Longrightarrow> manager_ok (process_nodes_list E nodes s)"
proof -
  assume s: "manager_ok s"
  have l: "manager_ok s \<Longrightarrow> manager_ok (fold (listed_node E ts) ns s)" for ts ns s
    by (induction ns arbitrary: s) (simp_all add: listed_node_ok)
  have d: "manager_ok s \<Longrightarrow> manager_ok (fold (drop_missing E nodes) ids s)" for ids s
    by (induction ids arbitrary: s) (simp_all add: drop_missing_def)
  have k: "manager_ok s \<Longrightarrow> manager_ok (retain_nodes E nodes s)" for s
    unfolding retain_nodes_def
    by (rule manager_ok_nodes, assumption, rule hm_all_map_filter [where f = "keep_node E nodes s", OF manager_okD(2)])
      (auto simp: keep_node_def split: if_splits)
  have "manager_ok (learn_nodes nodes s)" using s by (simp add: learn_nodes_def)
  then show ?thesis by (simp add: process_nodes_list_def Let_def k l d)
qed

lemma reload_ok: "manager_ok s \<Longrightarrow> manager_ok (reload_resources rs s)"
proof -
  have "manager_ok s \<Longrightarrow> manager_ok (fold (\<lambda>p. start_task (CloseConnection (conn_of p))) ps s)" for ps s
    by (induction ps arbitrary: s) simp_all
  then show "manager_ok s \<Longrightarrow> manager_ok (reload_resources rs s)"
    by (simp add: reload_resources_def Let_def manager_ok_peers split: option.split)
qed

lemma ws_cmd_ok: "handle_ws_cmd E cmd s = Some s' \<Longrightarrow> manager_ok s \<Longrightarrow> manager_ok s'"
proof -
  have t: "send_disconnects ids s = Some s' \<Longrightarrow> manager_ok s \<Longrightarrow> manager_ok s'" for ids s
    by (induction ids arbitrary: s) (auto split: Option.bind_splits dest: bg_send_ok)
  show "handle_ws_cmd E cmd s = Some s' \<Longrightarrow> manager_ok s \<Longrightarrow> manager_ok s'"
    by (cases cmd) (auto simp: ws_connect_ok fallback_ok nodes_list_ok reload_ok apply_turn_credentials_def
        update_name_def Let_def split: option.splits dest: bg_send_ok t)
qed

lemma p2p_cmd_ok: "manager_ok s \<Longrightarrow> manager_ok (handle_p2p_cmd cmd s)"
proof -
  assume s: "manager_ok s"
  note peers = manager_okD(1) [OF s]
  have b: "entry_ok i p \<Longrightarrow> entry_ok i (broadcast_to t m p)" for i p t m
    by (simp add: broadcast_to_def entry_ok_def split: option.split)
  have "manager_ok (send_to_peer i msg s)" for i msg
    unfolding send_to_peer_def using s peers by (blast intro: manager_ok_peers hm_all_adjust entry_ok_client client_ops_target)
  moreover have "manager_ok (broadcast t m s)" for t m
    unfolding broadcast_def using s peers b by (blast intro: manager_ok_peers hm_all_map)
  moreover have "manager_ok (register_upload i u path s)" for i u path
    unfolding register_upload_def
    by (rule manager_ok_peers [OF s], rule hm_all_adjust [OF peers]) (simp add: add_upload_def entry_ok_def)
  ultimately show ?thesis using s
    by (cases cmd) (simp_all add: ws_command_def send_focused_def split: ws_message.split option.split)
qed

lemma discovery_ok: "manager_ok s \<Longrightarrow> manager_ok (start_local_discovery s)"
  "manager_ok s \<Longrightarrow> manager_ok (set_local_discovery b s)"
  by (simp_all add: set_local_discovery_def start_local_discovery_def Let_def)
    (simp_all add: manager_ok_def peers_ok_def nodes_ok_def link_ok_def)

lemma net_cmd_ok: "handle_net_cmd E cmd s = Some s' \<Longrightarrow> manager_ok s \<Longrightarrow> manager_ok s'"
  by (auto simp: handle_net_cmd_def discovery_ok p2p_cmd_ok split: cmd_group.splits dest: ws_cmd_ok peer_cmd_ok)

lemma net_loop_ok: "net_loop E ev s = Some s' \<Longrightarrow> manager_ok s \<Longrightarrow> manager_ok s'"
  by (cases ev) (auto dest: tick_ok net_cmd_ok mesh_signal_ok)

section \<open>Runs\<close>

text \<open>A run interleaves the loop of the task, the tasks it has spawned, the reports of the WebRTC
  stack and the steps of the clients, whose commands go into the command channel when there is
  room.\<close>

inductive net_step :: "network_manager \<Rightarrow> network_manager \<Rightarrow> bool" where
  Handled: "net_loop E ev s = Some s' \<Longrightarrow> net_step s s'"
| NextCommand: "net_receive E s = Some s' \<Longrightarrow> net_step s s'"
| TaskRun:
    "t \<in> set (nm_tasks s) \<Longrightarrow> run_net_task accepts tunnels t s = Some s' \<Longrightarrow>
     net_step s (s'\<lparr>nm_tasks := remove1 t (nm_tasks s')\<rparr>)"
| StackReport: "map_of (nm_active_peers s) i = Some p \<Longrightarrow> net_step s (set_entry i (p\<lparr>pe_pc := st\<rparr>) s)"
| ClientStep:
    "map_of (nm_active_peers s) i = Some p \<Longrightarrow> client_step P (pe_client p) c \<Longrightarrow>
     cmds = drop (length (rtc_net (wc_state (pe_client p)))) (rtc_net (wc_state c)) \<Longrightarrow>
     length (nm_queue s) + length cmds \<le> nm_capacity s \<Longrightarrow>
     net_step s ((set_entry i (p\<lparr>pe_client := c\<rparr>) s)\<lparr>nm_queue := nm_queue s @ cmds\<rparr>)"

lemma manager_ok_tasks [simp]: "manager_ok (s\<lparr>nm_tasks := ts\<rparr>) \<longleftrightarrow> manager_ok s"
  by (simp add: manager_ok_def peers_ok_def nodes_ok_def link_ok_def)

lemma reconnect_ok [simp]: "manager_ok (trigger_cached_peer_reconnections my s) \<longleftrightarrow> manager_ok s"
proof -
  have "manager_ok (fold (\<lambda>(i, p) s. if i = my \<or> has_tunnel i s then s
      else dial_addresses i (pc_last_known_addresses p) s) ps s) \<longleftrightarrow> manager_ok s" for ps s
  proof (induction ps arbitrary: s)
    case (Cons a ps)
    then show ?case by (cases a) simp
  qed simp
  then show ?thesis by (simp add: trigger_cached_peer_reconnections_def)
qed

lemma run_net_task_ok:
  assumes "run_net_task accepts tunnels t s = Some s'" "manager_ok s"
  shows "manager_ok s'"
proof (cases t)
  case (QueueMessage conn msg)
  have "entry_ok i p \<Longrightarrow> entry_ok i (queue_on conn msg p)" for i p by (simp add: queue_on_def entry_ok_def)
  with QueueMessage assms show ?thesis
    using manager_ok_peers hm_all_map [OF manager_okD(1)] by auto
qed (use assms in \<open>auto simp: route_rtc_signal_def Let_def split: option.split dest: bg_send_ok\<close>)

lemma net_step_ok: "net_step s s' \<Longrightarrow> manager_ok s \<Longrightarrow> manager_ok s'"
proof (induction rule: net_step.induct)
  case (NextCommand E s s')
  then show ?case by (auto simp: net_receive_def split: list.splits dest: net_cmd_ok)
next
  case (ClientStep s i p P c cmds)
  then have "entry_ok i (p\<lparr>pe_client := c\<rparr>)"
    using client_step_session [of P "pe_client p" c] manager_ok_entry [of s i p]
    by (simp add: session_of_def entry_ok_def)
  with ClientStep show ?case by (simp add: manager_ok_set_entry)
next
  case (StackReport s i p st)
  then show ?case using manager_ok_entry [of s i p] by (simp add: manager_ok_set_entry entry_ok_def)
qed (auto dest: net_loop_ok run_net_task_ok)

interpretation mgr: transition_invariant net_step manager_ok
  by unfold_locales (rule net_step_ok)

lemma run_network_manager_ok: "manager_ok (fst (run_network_manager me key cap b mesh))"
proof -
  have new: "manager_ok (manager_new me key cap mesh)"
    by (simp add: manager_new_def manager_ok_def peers_ok_def nodes_ok_def link_ok_def)
  have "manager_ok s \<Longrightarrow> manager_ok (load_cached s)" for s
  proof -
    assume s: "manager_ok s"
    have "hm_all (\<lambda>i n. ni_id n = i) (hm_insert_all ni_id id ns (nm_last_known_nodes s))" for ns
      by (rule hm_all_insert_all [OF manager_okD(2) [OF s]]) simp
    with s show ?thesis by (simp add: load_cached_def Let_def manager_ok_nodes)
  qed
  with new show ?thesis by (simp add: run_network_manager_def Let_def discovery_ok)
qed

section \<open>A concrete manager\<close>

definition demo_net_env :: net_env where
  "demo_net_env = \<lparr>ne_now = 100000, ne_clock = 100000, ne_limits = set_max_peers 1 limits_init,
     ne_ws_connects = True, ne_pc = Inr (), ne_conn_id = 7, ne_process = demo_rtc, ne_channel = Inr (),
     ne_offer = Inr ''offer'', ne_answer = Inr ''answer'', ne_set_local = Inr (), ne_set_remote = (\<lambda>_. Inr ()),
     ne_is_ip = (\<lambda>_. True), ne_add_candidate = (\<lambda>_. Inr ()), ne_json = (\<lambda>_. None), ne_try_lock = True\<rparr>"

definition demo_entry :: "string \<Rightarrow> uuid \<Rightarrow> pc_state \<Rightarrow> peer_entry" where
  "demo_entry i conn st = \<lparr>pe_client = on_state (\<lambda>s. s\<lparr>rtc_target := i, rtc_connection_id := conn\<rparr>) demo_client,
     pe_pc = st, pe_remote = None, pe_created_at = 0\<rparr>"

definition demo_manager :: network_manager where
  "demo_manager = (manager_new (demo_node ''me'' []) [] 2 demo_mesh)
     \<lparr>nm_active_peers := [(''old'', demo_entry ''old'' 1 PcDisconnected), (''peer'', demo_entry ''peer'' 2 PcConnected)]\<rparr>"

lemma demo_manager_ok: "manager_ok demo_manager"
  by (auto simp: demo_manager_def manager_new_def manager_ok_def peers_ok_def nodes_ok_def link_ok_def hm_all_def
      hm_wf_def entry_ok_def demo_entry_def split: if_splits)

section \<open>Properties\<close>

text \<open>C8: the tables of the network task stay consistent in every run. However ticks, commands,
  signals of the local mesh, spawned tasks, reports of the WebRTC stack and the steps of the
  clients interleave: a client is filed under the node it is for, a known node under its own id,
  no key occurs twice, the task is in connected mode exactly when it has a server channel, which
  then is one it has made and is served by two tasks, and the local mesh is listened to only after
  discovery was started.\<close>

theorem manager_always_consistent:
  assumes "net_step\<^sup>*\<^sup>* (fst (run_network_manager me key capacity discovery mesh)) s"
  shows "(map_of (nm_active_peers s) i = Some p \<longrightarrow> rtc_target (wc_state (pe_client p)) = i)
    \<and> (map_of (nm_last_known_nodes s) j = Some n \<longrightarrow> ni_id n = j)
    \<and> distinct (map fst (nm_active_peers s)) \<and> distinct (map fst (nm_last_known_nodes s))
    \<and> distinct (map fst (nm_backoff_states s))
    \<and> (nm_mode s = WebSocketConnected \<longleftrightarrow> nm_ws_tx s \<noteq> None)
    \<and> (\<forall>ch. nm_ws_tx s = Some ch \<longrightarrow> ch < nm_ws_channels s)
    \<and> nm_ws_tasks s = (if nm_ws_tx s = None then 0 else 2)
    \<and> (nm_discovery_enabled s \<longrightarrow> nm_discovery_started s)"
proof -
  have "manager_ok s" using mgr.reachable_inv [OF assms] run_network_manager_ok by blast
  then show ?thesis
    by (auto simp: manager_ok_def peers_ok_def nodes_ok_def link_ok_def hm_all_def hm_wf_def entry_ok_def)
qed

theorem manager_always_consistent_witness:
  "\<exists>s. net_step\<^sup>*\<^sup>* (fst (run_network_manager (demo_node ''me'' []) [] 2 True demo_mesh)) s
     \<and> nm_ws_tx s = Some 0 \<and> nm_mode s = WebSocketConnected"
proof -
  let ?init = "fst (run_network_manager (demo_node ''me'' []) [] 2 True demo_mesh)"
  let ?s = "ws_connect demo_net_env ''wss://x'' (demo_node ''me'' []) None ?init"
  have "net_loop demo_net_env (Command (Connect ''wss://x'' (demo_node ''me'' []) None)) ?init = Some ?s"
    by (simp add: handle_net_cmd_def)
  then have r: "net_step\<^sup>*\<^sup>* ?init ?s" by (blast intro: net_step.Handled)
  have "nm_ws_tx ?s = Some (nm_ws_channels ?init)"
    by (simp add: ws_connect_def Let_def demo_net_env_def report_def ws_send_def)
  moreover have "nm_ws_channels ?init = 0"
    by (simp add: run_network_manager_def load_cached_def manager_new_def start_local_discovery_def start_task_def
        report_nodes_def report_def Let_def)
  ultimately show ?thesis using r manager_always_consistent [OF r] by auto
qed

end
