(* ===== verification/Network_Sessions.thy ===== *)
theory Network_Sessions
  imports Network_Invariant "HOL-Library.Multiset"
begin

text \<open>
  What the network task promises about sessions, abstractly: a table from nodes to their
  connections, each with whether it counts against the limit of peers, and the connections on
  their way to being closed. A session is opened only for a node that has none and while the limit
  is not reached; it leaves the table only by being closed; and an offer may replace the session of
  the node that makes it. Every handler of the task refines a sequence of such steps, so no
  connection is ever dropped without being closed.
\<close>

section \<open>The specification\<close>

type_synonym sessions = "(string \<Rightarrow> (uuid \<times> bool) option) \<times> uuid multiset"

definition occupied :: "(string \<Rightarrow> (uuid \<times> bool) option) \<Rightarrow> string set" where
  "occupied live = {i. \<exists>u. live i = Some (u, True)}"

inductive session_step :: "uuid \<Rightarrow> nat \<Rightarrow> string option \<Rightarrow> sessions \<Rightarrow> sessions \<Rightarrow> bool"
  for fresh limit offerer where
  Open:
    "live i = None \<Longrightarrow> limit = 0 \<or> card (occupied live) < limit \<Longrightarrow>
     session_step fresh limit offerer (live, closing) (live(i \<mapsto> (fresh, True)), closing)"
| Replace:
    "offerer = Some i \<Longrightarrow> live i = Some (u, b) \<Longrightarrow>
     session_step fresh limit offerer (live, closing) (live(i \<mapsto> (fresh, True)), add_mset u closing)"
| Close:
    "live i = Some (u, b) \<Longrightarrow>
     session_step fresh limit offerer (live, closing) (live(i := None), add_mset u closing)"

abbreviation session_steps :: "uuid \<Rightarrow> nat \<Rightarrow> string option \<Rightarrow> sessions \<Rightarrow> sessions \<Rightarrow> bool" where
  "session_steps fresh limit offerer \<equiv> (session_step fresh limit offerer)\<^sup>*\<^sup>*"

section \<open>The abstraction\<close>

fun closed_by :: "net_task \<Rightarrow> uuid option" where
  "closed_by (CloseConnection u) = Some u"
| "closed_by (CloseAndReport u _) = Some u"
| "closed_by _ = None"

definition view :: "peer_entry \<Rightarrow> uuid \<times> bool" where
  "view p = (conn_of p, occupies_slot p)"

definition sessions_of :: "network_manager \<Rightarrow> sessions" where
  "sessions_of s =
     (\<lambda>i. map_option view (map_of (nm_active_peers s) i), mset (List.map_filter closed_by (nm_tasks s)))"

lemma map_filter_append: "List.map_filter f (xs @ ys) = List.map_filter f xs @ List.map_filter f ys"
  by (induction xs) (simp_all add: List.map_filter_simps split: option.split)

lemma sessions_frame [simp]:
  "sessions_of (report e s) = sessions_of s" "sessions_of (with_backoff now c i f s) = sessions_of s"
  "sessions_of (unfocus i s) = sessions_of s" "sessions_of (reset_backoff i s) = sessions_of s"
  "sessions_of (report_nodes s) = sessions_of s" "sessions_of (ws_send ch msg s) = sessions_of s"
  "sessions_of (report_local_mesh s) = sessions_of s" "sessions_of (announce_dial i s) = sessions_of s"
  "sessions_of (s\<lparr>nm_last_known_nodes := ns\<rparr>) = sessions_of s" "sessions_of (s\<lparr>nm_mesh := m\<rparr>) = sessions_of s"
  "sessions_of (s\<lparr>nm_queue := q\<rparr>) = sessions_of s" "sessions_of (s\<lparr>nm_my_info := me\<rparr>) = sessions_of s"
  "sessions_of (s\<lparr>nm_focused_peer := f'\<rparr>) = sessions_of s" "sessions_of (s\<lparr>nm_turn_credentials := tc\<rparr>) = sessions_of s"
  by (simp_all add: sessions_of_def report_def with_backoff_def unfocus_def reset_backoff_def report_nodes_def
      ws_send_def report_local_mesh_def announce_dial_def)

lemma sessions_task [simp]: "closed_by t = None \<Longrightarrow> sessions_of (start_task t s) = sessions_of s"
  by (simp add: sessions_of_def start_task_def map_filter_append List.map_filter_simps)

lemma sessions_route [simp]: "sessions_of (route_task i sig s) = sessions_of s"
  by (simp add: route_task_def)

lemma sessions_dial_addresses [simp]: "sessions_of (dial_addresses i addrs s) = sessions_of s"
  unfolding dial_addresses_def by (induction addrs arbitrary: s) simp_all

lemma sessions_dial_cached [simp]: "sessions_of (dial_cached i s) = sessions_of s"
  by (simp add: dial_cached_def split: option.split)

lemma bg_send_sessions: "bg_send c s = Some s' \<Longrightarrow> sessions_of s' = sessions_of s"
  by (auto simp: bg_send_def split: if_splits)

section \<open>The two steps in the code\<close>

lemma remove_peer_steps:
  assumes "\<And>u. closed_by (t u) = Some u"
  shows "session_steps fresh limit off (sessions_of s) (sessions_of (remove_peer t i s))"
proof (cases "map_of (nm_active_peers s) i")
  case None
  then show ?thesis by (simp add: remove_peer_def)
next
  case (Some p)
  then have "sessions_of (remove_peer t i s) = ((fst (sessions_of s))(i := None), add_mset (conn_of p) (snd (sessions_of s)))"
    using assms by (auto simp: remove_peer_def sessions_of_def start_task_def map_filter_append List.map_filter_simps)
  moreover have "fst (sessions_of s) i = Some (conn_of p, occupies_slot p)" using Some by (simp add: sessions_of_def view_def)
  ultimately show ?thesis
    using session_step.Close [of "fst (sessions_of s)" i "conn_of p" "occupies_slot p" fresh limit off "snd (sessions_of s)"]
    by simp
qed

lemma slots_taken_occupied:
  assumes "hm_wf (nm_active_peers s)"
  shows "slots_taken (nm_active_peers s) = card (occupied (fst (sessions_of s)))"
proof -
  let ?m = "nm_active_peers s" and ?P = "\<lambda>kv. occupies_slot (snd kv)"
  have "slots_taken ?m = length (filter ?P ?m)"
    by (simp add: slots_taken_def filter_map comp_def)
  also have "\<dots> = card (fst ` set (filter ?P ?m))"
    using assms distinct_card [of "map fst (filter ?P ?m)"] by (simp add: hm_wf_def distinct_map_filter)
  also have "fst ` set (filter ?P ?m) = occupied (fst (sessions_of s))"
    using assms by (force simp: occupied_def sessions_of_def view_def hm_wf_def image_iff)
  finally show ?thesis .
qed

definition slot_free :: "nat \<Rightarrow> network_manager \<Rightarrow> bool" where
  "slot_free limit s \<longleftrightarrow> limit = 0 \<or> card (occupied (fst (sessions_of s))) < limit"

lemma peer_slot_freeD:
  assumes "peer_slot_available L (nm_active_peers s) i" "map_of (nm_active_peers s) i = None" "hm_wf (nm_active_peers s)"
  shows "slot_free (unat (max_peers L)) s"
  using assms by (auto simp: peer_slot_available_def slot_free_def slots_taken_occupied Let_def split: if_splits)

lemma set_entry_new:
  assumes "map_of (nm_active_peers s) i = None" "slot_free limit s" "occupies_slot p"
  shows "session_steps (conn_of p) limit off (sessions_of s) (sessions_of (set_entry i p s))"
proof -
  have "sessions_of (set_entry i p s) = ((fst (sessions_of s))(i \<mapsto> (conn_of p, True)), snd (sessions_of s))"
    using assms(3) by (auto simp: sessions_of_def set_entry_def view_def)
  moreover have "fst (sessions_of s) i = None" using assms(1) by (simp add: sessions_of_def)
  ultimately show ?thesis
    using session_step.Open [of "fst (sessions_of s)" i limit "conn_of p" off "snd (sessions_of s)"] assms(2)
    by (simp add: slot_free_def)
qed

lemma replace_entry:
  assumes "map_of (nm_active_peers s) i = Some q" "occupies_slot p"
  shows "session_step (conn_of p) limit (Some i) (sessions_of s) (sessions_of (set_entry i p (remove_peer CloseConnection i s)))"
proof -
  have "sessions_of (set_entry i p (remove_peer CloseConnection i s))
      = ((fst (sessions_of s))(i \<mapsto> (conn_of p, True)), add_mset (conn_of q) (snd (sessions_of s)))"
    using assms by (auto simp: sessions_of_def set_entry_def view_def remove_peer_def start_task_def
        map_filter_append List.map_filter_simps)
  moreover have "fst (sessions_of s) i = Some (conn_of q, occupies_slot q)"
    using assms(1) by (simp add: sessions_of_def view_def)
  ultimately show ?thesis
    using session_step.Replace [of "Some i" i "fst (sessions_of s)" "conn_of q" "occupies_slot q" "conn_of p" limit
        "snd (sessions_of s)"] by simp
qed

lemma set_entry_same:
  "map_of (nm_active_peers s) i = Some q \<Longrightarrow> view p = view q \<Longrightarrow> sessions_of (set_entry i p s) = sessions_of s"
  by (auto simp: sessions_of_def set_entry_def fun_eq_iff)

lemma remove_peer_gone [simp]: "map_of (nm_active_peers (remove_peer t i s)) i = None"
  by (simp add: remove_peer_def start_task_def split: option.split)

lemma sessions_peers_same:
  assumes "\<And>i. map_option view (map_of m i) = map_option view (map_of (nm_active_peers s) i)"
  shows "sessions_of (s\<lparr>nm_active_peers := m\<rparr>) = sessions_of s"
  using assms by (simp add: sessions_of_def)

section \<open>The handlers\<close>

abbreviation handler_steps :: "net_env \<Rightarrow> string option \<Rightarrow> sessions \<Rightarrow> sessions \<Rightarrow> bool" where
  "handler_steps E off \<equiv> session_steps (ne_conn_id E) (unat (max_peers (ne_limits E))) off"

lemma slot_free_cong: "sessions_of s = sessions_of s' \<Longrightarrow> slot_free n s = slot_free n s'"
  by (simp add: slot_free_def)

lemma dial_sessions:
  assumes "dial E i s = Inr s'" "map_of (nm_active_peers s) i = None" "slot_free (unat (max_peers (ne_limits E))) s"
  shows "handler_steps E off (sessions_of s) (sessions_of s')"
proof -
  obtain p where p: "new_client E i s = Inr p" using assms(1) by (auto simp: dial_def split: sum.splits)
  let ?o = "create_offer (ne_channel E) (ne_offer E) (ne_set_local E) (ne_clock E) (pe_client p)"
  let ?p = "p\<lparr>pe_client := snd ?o\<rparr>"
  from assms(1) p have s': "s' = set_entry i ?p (route_task i (Offer (projr (fst ?o)) False) s)"
    by (auto simp: dial_def split: sum.splits prod.splits)
  have "conn_of ?p = ne_conn_id E" "occupies_slot ?p"
    using new_client_ok [OF p]
    by (simp_all add: conn_of_def occupies_slot_def create_offer_def store_channel_def split: sum.split)
  moreover have "map_of (nm_active_peers (route_task i (Offer (projr (fst ?o)) False) s)) i = None"
    using assms(2) by (simp add: route_task_def)
  ultimately show ?thesis
    using set_entry_new [of "route_task i (Offer (projr (fst ?o)) False) s" i _ ?p] s' assms(3)
    by (simp add: slot_free_def)
qed

lemma fresh_offer_sessions:
  assumes "hm_wf (nm_active_peers s)"
  shows "handler_steps E (Some i) (sessions_of s) (sessions_of (fresh_offer E i sdp s))"
proof (cases "new_client E i (remove_peer CloseConnection i
    (report (OnPeerStateChanged i ConnectingTransport) (report (OnP2pConnecting i) s)))")
  case (Inl e)
  then show ?thesis
    using remove_peer_steps [of CloseConnection _ _ _ "report (OnPeerStateChanged i ConnectingTransport) (report (OnP2pConnecting i) s)" i]
    by (simp add: fresh_offer_def Let_def)
next
  case (Inr p)
  let ?s = "report (OnPeerStateChanged i ConnectingTransport) (report (OnP2pConnecting i) s)"
  let ?r = "remove_peer CloseConnection i ?s" and ?p = "set_remote E sdp p"
  have p: "conn_of ?p = ne_conn_id E" "occupies_slot ?p" using new_client_ok [OF Inr] by (simp_all add: occupies_slot_def)
  have r: "handler_steps E (Some i) (sessions_of s) (sessions_of ?r)"
    using remove_peer_steps [of CloseConnection _ _ _ ?s i] by simp
  have e: "handler_steps E (Some i) (sessions_of s) (sessions_of (set_entry i ?p (route_task i sig ?r)))"
    if slot: "peer_slot_available (ne_limits E) (nm_active_peers s) i" for sig
  proof -
    have task: "sessions_of (set_entry i ?p (route_task i sig ?r)) = sessions_of (set_entry i ?p ?r)"
      by (simp add: sessions_of_def set_entry_def route_task_def map_filter_append List.map_filter_simps)
    show ?thesis
    proof (cases "map_of (nm_active_peers s) i")
      case None
      then have "?r = ?s" by (simp add: remove_peer_def)
      with set_entry_new [of ?s i _ ?p] None p peer_slot_freeD [OF slot None assms] task show ?thesis
        by (simp add: slot_free_def)
    next
      case (Some q)
      then have q: "map_of (nm_active_peers ?s) i = Some q" by simp
      have "session_step (ne_conn_id E) (unat (max_peers (ne_limits E))) (Some i) (sessions_of s) (sessions_of (set_entry i ?p ?r))"
        using replace_entry [OF q p(2), of "unat (max_peers (ne_limits E))"] p(1) by simp
      then show ?thesis using task by (metis r_into_rtranclp)
    qed
  qed
  show ?thesis using r e Inr by (simp add: fresh_offer_def Let_def split: sum.split)
qed

lemma inbound_sessions:
  assumes "hm_wf (nm_active_peers s)"
  shows "handler_steps E (case inb_signal inb of Offer _ _ \<Rightarrow> Some (inb_from_node_id inb) | _ \<Rightarrow> None)
    (sessions_of s) (sessions_of (handle_inbound_signal E inb s))"
proof (cases "inb_signal inb")
  case (Offer sdp restart)
  have "sessions_of (restart_offer E i sdp p s) = sessions_of s" if "map_of (nm_active_peers s) i = Some p" for i p
    using set_entry_same [OF that, of "set_remote E sdp p"]
    by (simp add: restart_offer_def Let_def view_def occupies_slot_def split: sum.split)
  with Offer show ?thesis
    by (auto simp: handle_inbound_signal_def inbound_offer_def fresh_offer_sessions [OF assms] split: option.split)
next
  case (Answer sdp)
  have "sessions_of (inbound_answer E i sdp s) = sessions_of s" for i
    using set_entry_same [of s i]
    by (simp add: inbound_answer_def view_def conn_of_def occupies_slot_def split: option.split)
  with Answer show ?thesis by (simp add: handle_inbound_signal_def)
next
  case (IceCandidate cand mid idx)
  have "sessions_of (inbound_candidate E i cand mid idx s) = sessions_of s" for i
    using set_entry_same [of s i]
    by (simp add: inbound_candidate_def view_def conn_of_def occupies_slot_def add_ice_candidate_def with_ctx_def
        split: option.split)
  with IceCandidate show ?thesis by (simp add: handle_inbound_signal_def)
qed

lemma auto_connect_sessions:
  assumes "auto_connect E i s = Some s'" "hm_wf (nm_active_peers s)"
  shows "handler_steps E off (sessions_of s) (sessions_of s')"
proof (cases "map_of (nm_active_peers s) i")
  case (Some p)
  with assms show ?thesis
    by (auto simp: auto_connect_def Let_def split: if_splits dest!: bg_send_sessions)
next
  case None
  have free: "slot_free (unat (max_peers (ne_limits E))) s" if "peer_slot_available (ne_limits E) (nm_active_peers s) i"
    using peer_slot_freeD [OF that None assms(2)] .
  have "handler_steps E off (sessions_of s) (sessions_of s1)"
    if "dial E i s2 = Inr s1" "sessions_of s2 = sessions_of s" "nm_active_peers s2 = nm_active_peers s"
      "peer_slot_available (ne_limits E) (nm_active_peers s) i" for s1 s2
    using dial_sessions [OF that(1), of off] that(2,3) None free [OF that(4)] slot_free_cong [OF that(2)] by simp
  with None assms show ?thesis
    by (auto simp: auto_connect_def Let_def announce_dial_def split: if_splits sum.splits)
qed

lemma call_sessions:
  assumes "hm_wf (nm_active_peers s)"
  shows "handler_steps E off (sessions_of s) (sessions_of (call E i s))"
proof -
  let ?r = "remove_peer CloseConnection i s"
  have r: "handler_steps E off (sessions_of s) (sessions_of ?r)" by (rule remove_peer_steps) simp
  have "hm_wf (nm_active_peers ?r)" using assms by (simp add: remove_peer_def split: option.split)
  then have free: "slot_free (unat (max_peers (ne_limits E))) ?r"
    if "peer_slot_available (ne_limits E) (nm_active_peers ?r) i"
    using peer_slot_freeD [OF that] by simp
  have "handler_steps E off (sessions_of s) (sessions_of s1)"
    if "dial E i s2 = Inr s1" "sessions_of s2 = sessions_of ?r" "nm_active_peers s2 = nm_active_peers ?r"
      "peer_slot_available (ne_limits E) (nm_active_peers ?r) i" for s1 s2
    using dial_sessions [OF that(1), of off] that(2,3) free [OF that(4)] slot_free_cong [OF that(2)] r
    by (simp add: rtranclp_trans)
  with r show ?thesis
    by (auto simp: call_def Let_def announce_dial_def split: sum.split)
qed

lemma fold_sessions:
  assumes "\<And>x s. session_steps u k off (sessions_of s) (sessions_of (f x s))"
  shows "session_steps u k off (sessions_of s) (sessions_of (fold f xs s))"
proof (induction xs arbitrary: s)
  case (Cons x xs)
  from rtranclp_trans [OF assms Cons] show ?case by simp
qed simp

lemma disconnect_sessions: "session_steps u k off (sessions_of s) (sessions_of (disconnect_peer E i s))"
  using remove_peer_steps [of "\<lambda>c. CloseAndReport c i"] by (simp add: disconnect_peer_def)

lemma merge_sessions: "sessions_of (merge_nodes_list nodes s) = sessions_of s"
proof -
  have "sessions_of (merge_node n s) = sessions_of s" for n s
    by (simp add: merge_node_def Let_def split: option.split)
  then have "sessions_of (fold merge_node nodes s) = sessions_of s"
    by (induction nodes arbitrary: s) simp_all
  then show ?thesis by (simp add: merge_nodes_list_def)
qed

fun offerer_of :: "net_cmd \<Rightarrow> string option" where
  "offerer_of (HandleInboundSignal inb) =
     (case inb_signal inb of Offer _ _ \<Rightarrow> Some (inb_from_node_id inb) | _ \<Rightarrow> None)"
| "offerer_of _ = None"

lemma peer_cmd_sessions:
  assumes "handle_peer_cmd E cmd s = Some s'" "hm_wf (nm_active_peers s)"
  shows "handler_steps E (offerer_of cmd) (sessions_of s) (sessions_of s')"
proof (cases cmd)
  case (PeerConnected i rs)
  have "sessions_of (connected_node i rs s) = sessions_of s" for s
    by (simp add: connected_node_def Let_def split: option.split)
  with PeerConnected assms show ?thesis
    by (auto simp: peer_connected_def Let_def split: option.split)
qed (use assms inbound_sessions in \<open>auto simp: disconnect_sessions disconnect_peer_session_def auto_connect_sessions
    call_sessions merge_sessions\<close>)

lemma mesh_signal_sessions:
  "handle_peer_signal sig s = Some s' \<Longrightarrow> session_steps u k off (sessions_of s) (sessions_of s')"
proof (cases sig)
  case (TunnelEstablished i)
  have "sessions_of (tunnel_node i s) = sessions_of s" for s
    by (simp add: tunnel_node_def Let_def case_prod_unfold split: option.split)
  with TunnelEstablished remove_peer_steps [of CloseConnection u k off "report_local_mesh s" i]
  show "handle_peer_signal sig s = Some s' \<Longrightarrow> session_steps u k off (sessions_of s) (sessions_of s')"
    by (auto simp: tunnel_established_def Let_def split: if_splits)
qed (auto simp: peer_discovered_def Let_def split: if_splits option.splits dest!: bg_send_sessions)

lemma tick_sessions: "handle_tick E s = Some s' \<Longrightarrow> sessions_of s' = sessions_of s"
proof -
  have "auto_connect_all E ids s = Some s' \<Longrightarrow> sessions_of s' = sessions_of s" for ids s
    by (induction ids arbitrary: s) (auto split: if_splits Option.bind_splits dest: bg_send_sessions)
  then show "handle_tick E s = Some s' \<Longrightarrow> sessions_of s' = sessions_of s"
    by (auto simp: handle_tick_def split: network_mode.splits)
qed

lemma link_sessions:
  "sessions_of (transition_to_local_mesh_fallback s) = sessions_of s" "sessions_of (ws_connect E url me turn s) = sessions_of s"
proof -
  have f: "sessions_of (s\<lparr>nm_mode := md\<rparr>) = sessions_of s" "sessions_of (s\<lparr>nm_ws_tx := ch\<rparr>) = sessions_of s"
    "sessions_of (s\<lparr>nm_ws_tasks := n\<rparr>) = sessions_of s" "sessions_of (s\<lparr>nm_ws_url := u\<rparr>) = sessions_of s"
    "sessions_of (s\<lparr>nm_ws_channels := k\<rparr>) = sessions_of s" for s md ch n u k
    by (simp_all add: sessions_of_def)
  show a: "sessions_of (transition_to_local_mesh_fallback s) = sessions_of s" for s
    by (simp add: transition_to_local_mesh_fallback_def Let_def f)
  show "sessions_of (ws_connect E url me turn s) = sessions_of s"
    by (simp add: ws_connect_def Let_def f a)
qed

lemma nodes_list_sessions: "session_steps u k off (sessions_of s) (sessions_of (process_nodes_list E nodes s))"
proof -
  have c: "session_steps u k off (sessions_of s) (sessions_of (remove_peer CloseConnection i s))" for i s
    by (rule remove_peer_steps) simp
  have d: "session_steps u k off (sessions_of s) (sessions_of (drop_missing E nodes i s))" for i s
    using c by (simp add: drop_missing_def)
  have "session_steps u k off (sessions_of s) (sessions_of (renewed_node E n s))" for n s
    using c [of "reset_backoff (ni_id n) s" "ni_id n"] c [of s "ni_id n"]
    by (simp add: renewed_node_def Let_def split: option.split)
  then have "session_steps u k off (sessions_of s) (sessions_of (listed_node E ts n s))" for ts n s
    by (simp add: listed_node_def Let_def)
  note l = fold_sessions [of u k off "listed_node E _", OF this]
  have kept: "sessions_of (retain_nodes E nodes s) = sessions_of s" "sessions_of (learn_nodes nodes s) = sessions_of s" for s
    by (simp_all add: retain_nodes_def learn_nodes_def)
  from rtranclp_trans [OF fold_sessions [of u k off "drop_missing E nodes", OF d] l] show ?thesis
    by (simp add: process_nodes_list_def Let_def kept) (metis kept(2))
qed

lemma close_all_steps:
  "hm_wf m \<Longrightarrow> session_steps u k off (\<lambda>i. map_option view (map_of m i), cl)
     (\<lambda>i. None, cl + mset (map (conn_of \<circ> snd) m))"
proof (induction m arbitrary: cl)
  case (Cons a m)
  obtain i p where a: "a = (i, p)" by (cases a)
  let ?live = "\<lambda>m k. map_option view (map_of m k)"
  from Cons.prems have i: "map_of m i = None" "hm_wf m" by (auto simp: a hm_wf_def map_of_eq_None_iff)
  have "(?live (a # m))(i := None) = ?live m" using i(1) by (auto simp: a)
  with session_step.Close [of "?live (a # m)" i "conn_of p" "occupies_slot p" u k off cl]
  have "session_step u k off (?live (a # m), cl) (?live m, add_mset (conn_of p) cl)" by (simp add: a view_def)
  with Cons.IH [OF i(2), of "add_mset (conn_of p) cl"] show ?case
    by (simp add: a converse_rtranclp_into_rtranclp)
qed simp

lemma reload_sessions:
  assumes "manager_ok s"
  shows "session_steps u k off (sessions_of s) (sessions_of (reload_resources rs s))"
proof -
  have tasks: "mset (List.map_filter closed_by (nm_tasks (fold (\<lambda>p. start_task (CloseConnection (conn_of p))) ps s)))
      = mset (List.map_filter closed_by (nm_tasks s)) + mset (map conn_of ps)" for ps s
    by (induction ps arbitrary: s) (simp_all add: map_filter_append List.map_filter_simps)
  have "hm_wf (nm_active_peers s)" using assms by (simp add: manager_ok_def peers_ok_def hm_all_def)
  from close_all_steps [OF this, of u k off "snd (sessions_of s)"] show ?thesis
    by (simp add: sessions_of_def reload_resources_def Let_def tasks ws_send_def split: option.split)
qed

lemma ws_cmd_sessions:
  assumes "handle_ws_cmd E cmd s = Some s'" "manager_ok s"
  shows "session_steps u k off (sessions_of s) (sessions_of s')"
proof -
  have t: "send_disconnects ids s = Some s' \<Longrightarrow> sessions_of s' = sessions_of s" for ids s
    by (induction ids arbitrary: s) (auto split: Option.bind_splits dest: bg_send_sessions)
  from assms show ?thesis
    by (cases cmd) (auto simp: link_sessions nodes_list_sessions reload_sessions apply_turn_credentials_def
        update_name_def Let_def split: option.splits dest!: bg_send_sessions t)
qed

lemma p2p_cmd_sessions: "sessions_of (handle_p2p_cmd cmd s) = sessions_of s"
proof -
  have c: "view (p\<lparr>pe_client := snd (send_p2p_message msg (pe_client p))\<rparr>) = view p"
    "view (broadcast_to t m p) = view p" "view (add_upload k path p) = view p" for msg p t m k path
    by (simp_all add: view_def conn_of_def occupies_slot_def send_p2p_message_def send_unsigned_def broadcast_to_def add_upload_def with_ctx_def
        split: option.split)
  have "sessions_of (send_to_peer i msg s) = sessions_of s" for i msg
    unfolding send_to_peer_def by (rule sessions_peers_same) (simp add: option.map_comp comp_def c)
  moreover have "sessions_of (broadcast t m s) = sessions_of s" for t m
    unfolding broadcast_def by (rule sessions_peers_same) (simp add: map_of_map option.map_comp comp_def c)
  moreover have "sessions_of (register_upload i k path s) = sessions_of s" for i k path
    unfolding register_upload_def by (rule sessions_peers_same) (simp add: option.map_comp comp_def c)
  ultimately show ?thesis
    by (cases cmd) (simp_all add: ws_command_def send_focused_def split: ws_message.split option.split)
qed

lemma discovery_sessions [simp]: "sessions_of (set_local_discovery b s) = sessions_of s"
  by (simp add: set_local_discovery_def start_local_discovery_def Let_def)
    (simp add: sessions_of_def)

lemma manager_ok_wf: "manager_ok s \<Longrightarrow> hm_wf (nm_active_peers s)"
  by (simp add: manager_ok_def peers_ok_def hm_all_def)

lemma net_cmd_sessions:
  assumes "handle_net_cmd E cmd s = Some s'" "manager_ok s"
  shows "handler_steps E (offerer_of cmd) (sessions_of s) (sessions_of s')"
  using assms peer_cmd_sessions [OF _ manager_ok_wf]
  by (auto simp: handle_net_cmd_def p2p_cmd_sessions split: cmd_group.splits dest: ws_cmd_sessions)

fun event_offerer :: "net_event \<Rightarrow> string option" where
  "event_offerer (Command cmd) = offerer_of cmd"
| "event_offerer _ = None"

lemma net_loop_sessions:
  assumes "net_loop E ev s = Some s'" "manager_ok s"
  shows "handler_steps E (event_offerer ev) (sessions_of s) (sessions_of s')"
  using assms by (cases ev) (auto simp: net_cmd_sessions dest: tick_sessions mesh_signal_sessions)

section \<open>Consequences of the specification\<close>

lemma session_step_keeps:
  assumes "session_step u k off S S'" "fst S i = Some (c, b) \<or> c \<in># snd S"
  shows "(\<exists>b. fst S' i = Some (c, b)) \<or> c \<in># snd S'"
  using assms by (induction rule: session_step.induct) auto

lemma session_steps_keep:
  "session_steps u k off S S' \<Longrightarrow> fst S i = Some (c, b) \<Longrightarrow> (\<exists>b. fst S' i = Some (c, b)) \<or> c \<in># snd S'"
  by (induction rule: rtranclp_induct) (auto dest: session_step_keeps)

lemma session_step_limit:
  assumes "session_step u k off S S'" "k > 0" "finite (occupied (fst S))"
    and "\<forall>i. off = Some i \<longrightarrow> i \<in> occupied (fst S) \<or> fst S i = None"
  shows "card (occupied (fst S')) \<le> max (card (occupied (fst S))) k"
    "finite (occupied (fst S'))"
    "\<forall>i. off = Some i \<longrightarrow> i \<in> occupied (fst S') \<or> fst S' i = None"
proof -
  have ins: "occupied (live(i \<mapsto> (c, True))) = insert i (occupied live)" for live i c
    by (auto simp: occupied_def)
  have del: "occupied (live(i := None)) = occupied live - {i}" for live i
    by (auto simp: occupied_def)
  from assms show "card (occupied (fst S')) \<le> max (card (occupied (fst S))) k"
  proof (induction rule: session_step.induct)
    case (Open live i closing)
    then show ?case unfolding fst_conv ins by (simp add: card_insert_if)
  next
    case (Replace i live c b closing)
    then have "i \<in> occupied live" by simp
    then show ?case unfolding fst_conv ins by (simp add: insert_absorb)
  next
    case (Close live i c b closing)
    then show ?case unfolding fst_conv del by (simp add: card_Diff1_le le_max_iff_disj)
  qed
  from assms show "finite (occupied (fst S'))"
    by (induction rule: session_step.induct) (simp_all add: ins del)
  from assms show "\<forall>i. off = Some i \<longrightarrow> i \<in> occupied (fst S') \<or> fst S' i = None"
    by (induction rule: session_step.induct) (auto simp: ins del)
qed

lemma session_steps_limit:
  assumes "session_steps u k off S S'" "k > 0" "finite (occupied (fst S))"
    and "\<forall>i. off = Some i \<longrightarrow> i \<in> occupied (fst S) \<or> fst S i = None"
  shows "card (occupied (fst S')) \<le> max (card (occupied (fst S))) k"
proof -
  from assms(1) have "card (occupied (fst S')) \<le> max (card (occupied (fst S))) k \<and> finite (occupied (fst S'))
      \<and> (\<forall>i. off = Some i \<longrightarrow> i \<in> occupied (fst S') \<or> fst S' i = None)"
  proof (induction rule: rtranclp_induct)
    case base
    then show ?case using assms(3,4) by simp
  next
    case (step S1 S2)
    with session_step_limit [OF step(2) assms(2)] show ?case by fastforce
  qed
  then show ?thesis by simp
qed

lemma occupied_finite: "finite (occupied (fst (sessions_of s)))"
proof (rule finite_subset)
  show "occupied (fst (sessions_of s)) \<subseteq> dom (map_of (nm_active_peers s))"
    by (auto simp: occupied_def sessions_of_def)
qed (rule finite_dom_map_of)

section \<open>Properties\<close>

text \<open>C7: every handler of the network task implements the abstract table of sessions: what it
  does to the clients is a sequence of opening a session for a node without one while the limit
  allows it, replacing the session of the node whose offer is handled, and closing a session.\<close>

theorem handlers_refine_session_table:
  assumes "manager_ok s" "net_loop E ev s = Some s'"
  shows "(session_step (ne_conn_id E) (unat (max_peers (ne_limits E))) (event_offerer ev))\<^sup>*\<^sup>*
    (sessions_of s) (sessions_of s')"
  using net_loop_sessions [OF assms(2,1)] .

theorem handlers_refine_session_table_witness:
  "(session_step 7 1 None)\<^sup>*\<^sup>* (sessions_of demo_manager)
     (sessions_of (disconnect_peer demo_net_env ''peer'' demo_manager))"
  using handlers_refine_session_table [OF demo_manager_ok, of demo_net_env "Command (DisconnectPeer ''peer'')"]
  by (simp add: handle_net_cmd_def demo_net_env_def set_max_peers_def max_peers_def)

text \<open>C14: no connection is dropped without being closed. In every run of the task, a handler that
  no longer lists a client under its node has spawned a task that closes exactly that connection.\<close>

theorem no_session_lost:
  assumes "net_step\<^sup>*\<^sup>* (fst (run_network_manager me key capacity discovery mesh)) s"
    and "net_loop E ev s = Some s'" "map_of (nm_active_peers s) i = Some p"
  shows "(\<exists>p'. map_of (nm_active_peers s') i = Some p' \<and> conn_of p' = conn_of p)
    \<or> (\<exists>t \<in> set (nm_tasks s'). closed_by t = Some (conn_of p))"
proof -
  have "manager_ok s" using mgr.reachable_inv [OF assms(1)] run_network_manager_ok by blast
  moreover have "fst (sessions_of s) i = Some (conn_of p, occupies_slot p)"
    using assms(3) by (simp add: sessions_of_def view_def)
  ultimately have "(\<exists>b. fst (sessions_of s') i = Some (conn_of p, b)) \<or> conn_of p \<in># snd (sessions_of s')"
    using session_steps_keep [OF net_loop_sessions [OF assms(2)]] by blast
  moreover have "\<exists>t \<in> set ts. closed_by t = Some u" if "u \<in> set (List.map_filter closed_by ts)" for u ts
    using that by (induction ts) (auto simp: List.map_filter_simps split: option.splits)
  ultimately show ?thesis by (auto simp: sessions_of_def view_def)
qed

theorem no_session_lost_witness:
  "\<exists>s p s'. net_step\<^sup>*\<^sup>* (fst (run_network_manager (demo_node ''me'' []) [] 2 False demo_mesh)) s
     \<and> map_of (nm_active_peers s) ''old'' = Some p
     \<and> net_loop demo_net_env (Command (DisconnectPeer ''old'')) s = Some s'
     \<and> ((\<exists>p'. map_of (nm_active_peers s') ''old'' = Some p' \<and> conn_of p' = conn_of p)
        \<or> (\<exists>t \<in> set (nm_tasks s'). closed_by t = Some (conn_of p)))"
proof -
  let ?init = "fst (run_network_manager (demo_node ''me'' []) [] 2 False demo_mesh)"
  let ?off = "HandleInboundSignal \<lparr>inb_from_node_id = ''old'', inb_signal = Offer ''sdp'' False\<rparr>"
  let ?s = "fresh_offer demo_net_env ''old'' ''sdp'' ?init"
  have "net_loop demo_net_env (Command ?off) ?init = Some ?s"
    by (simp add: handle_net_cmd_def handle_inbound_signal_def inbound_offer_def)
  then have r: "net_step\<^sup>*\<^sup>* ?init ?s" by (blast intro: net_step.Handled)
  have e: "nm_active_peers ?init = []"
    by (simp add: run_network_manager_def load_cached_def manager_new_def report_nodes_def report_def Let_def)
  then obtain p where p: "map_of (nm_active_peers ?s) ''old'' = Some p"
    by (simp add: fresh_offer_def Let_def peer_slot_available_def slots_taken_def demo_net_env_def set_max_peers_def
        max_peers_def remove_peer_def new_client_def client_new_def answer_offer_def accept_offer_and_answer_def
        route_task_def set_entry_def)
  obtain s' where s': "net_loop demo_net_env (Command (DisconnectPeer ''old'')) ?s = Some s'"
    by (simp add: handle_net_cmd_def)
  from no_session_lost [OF r s' p] r p s' show ?thesis by blast
qed



text \<open>C37: the exception is real. When the limit is reached, a node that is still listed although
  its connection broke can have a new connection accepted by sending an offer: the limit is
  checked only for nodes that are not listed, and is exceeded by one.\<close>

theorem offer_exceeds_peer_limit:
  assumes "manager_ok s" "map_of (nm_active_peers s) i = Some p" "\<not> occupies_slot p" "pe_remote p \<noteq> Some sdp"
    and "new_client E i (remove_peer CloseConnection i (announce_dial i s)) = Inr q" "answer_offer E sdp = Inr answer"
    and "net_loop E (Command (HandleInboundSignal \<lparr>inb_from_node_id = i, inb_signal = Offer sdp False\<rparr>)) s = Some s'"
  shows "slots_taken (nm_active_peers s') = slots_taken (nm_active_peers s) + 1"
proof -
  let ?r = "remove_peer CloseConnection i (announce_dial i s)"
  have s': "s' = set_entry i (set_remote E sdp q) (route_task i (Answer answer) ?r)"
    using assms(2,4-7)
    by (simp add: handle_net_cmd_def handle_inbound_signal_def inbound_offer_def fresh_offer_def Let_def
        announce_dial_def peer_slot_available_def dom_def)
  have "occupied (fst (sessions_of s')) = insert i (occupied (fst (sessions_of s)))"
    using assms(2) new_client_ok [OF assms(5)]
    by (auto simp: s' occupied_def sessions_of_def set_entry_def route_task_def remove_peer_def announce_dial_def
        view_def occupies_slot_def split: if_splits)
  moreover have "i \<notin> occupied (fst (sessions_of s))"
    using assms(2,3) by (auto simp: occupied_def sessions_of_def view_def)
  ultimately have "card (occupied (fst (sessions_of s'))) = card (occupied (fst (sessions_of s))) + 1"
    using occupied_finite [of s] by simp
  then show ?thesis
    using slots_taken_occupied [OF manager_ok_wf [OF assms(1)]]
      slots_taken_occupied [OF manager_ok_wf [OF net_loop_ok [OF assms(7,1)]]] by simp
qed

theorem offer_exceeds_peer_limit_witness:
  "\<exists>s'. net_loop demo_net_env (Command (HandleInboundSignal \<lparr>inb_from_node_id = ''old'', inb_signal = Offer ''sdp'' False\<rparr>))
      demo_manager = Some s' \<and> unat (max_peers (ne_limits demo_net_env)) = 1 \<and> slots_taken (nm_active_peers s') = 2"
proof -
  obtain s' where s': "net_loop demo_net_env (Command (HandleInboundSignal
      \<lparr>inb_from_node_id = ''old'', inb_signal = Offer ''sdp'' False\<rparr>)) demo_manager = Some s'"
    by (simp add: handle_net_cmd_def)
  have m: "map_of (nm_active_peers demo_manager) ''old'' = Some (demo_entry ''old'' 1 PcDisconnected)"
    by (simp add: demo_manager_def)
  obtain q where q: "new_client demo_net_env ''old'' (remove_peer CloseConnection ''old'' (announce_dial ''old'' demo_manager)) = Inr q"
    by (simp add: new_client_def client_new_def demo_net_env_def)
  have "slots_taken (nm_active_peers s') = slots_taken (nm_active_peers demo_manager) + 1"
    by (rule offer_exceeds_peer_limit [OF demo_manager_ok m _ _ q _ s', of "''answer''"])
      (simp_all add: demo_entry_def occupies_slot_def answer_offer_def accept_offer_and_answer_def demo_net_env_def)
  then have "slots_taken (nm_active_peers s') = 2"
    by (simp add: demo_manager_def demo_entry_def slots_taken_def occupies_slot_def)
  with s' show ?thesis by (simp add: demo_net_env_def set_max_peers_def max_peers_def)
qed

end
