(* ===== verification/Network_Properties.thy ===== *)
theory Network_Properties
  imports Network_Sessions
begin

text \<open>
  The behaviour of single handlers of the network task: when a peer is dialled and by whom, what
  the periodic tick and new relay credentials do to the command channel, how signals travel over
  a tunnel, what a list of nodes from the server does to the peer store, and whom a broadcast
  reaches.
\<close>

section \<open>Facts\<close>

lemma should_retry_queue [simp]: "should_retry E (s\<lparr>nm_queue := q\<rparr>) i = should_retry E s i"
  by (simp add: should_retry_def)

lemma auto_connect_all_iff:
  "auto_connect_all E ids s =
     (let due = filter (should_retry E s) ids
      in if due = [] then Some s
         else if length (nm_queue s) + length due \<le> nm_capacity s
         then Some (s\<lparr>nm_queue := nm_queue s @ map AutoConnect due\<rparr>) else None)"
proof (induction ids arbitrary: s)
  case (Cons i ids)
  show ?case
  proof (cases "should_retry E s i")
    case True
    then show ?thesis
      by (auto simp: bg_send_def Let_def Cons should_retry_queue)
  qed (simp add: Cons)
qed simp

lemma send_disconnects_iff:
  "send_disconnects ids s =
     (if ids = [] then Some s
      else if length (nm_queue s) + length ids \<le> nm_capacity s
      then Some (s\<lparr>nm_queue := nm_queue s @ map DisconnectPeer ids\<rparr>) else None)"
proof (induction ids arbitrary: s)
  case (Cons i ids)
  show ?case by (auto simp: bg_send_def Cons)
qed simp

text \<open>Nothing but \<open>learn_nodes\<close> touches the peer store when a list of nodes is processed.\<close>

lemma peer_steps_mesh [simp]:
  "nm_mesh (remove_peer t i s) = nm_mesh s" "nm_mesh (unfocus i s) = nm_mesh s" "nm_mesh (reset_backoff i s) = nm_mesh s"
  "nm_mesh (report_nodes s) = nm_mesh s"
  by (simp_all add: remove_peer_def unfocus_def reset_backoff_def report_nodes_def split: option.split)

lemma nodes_list_mesh: "nm_mesh (process_nodes_list E nodes s) = nm_mesh (learn_nodes nodes s)"
proof -
  have d: "nm_mesh (fold (drop_missing E nodes) ids s) = nm_mesh s" for ids s
    by (induction ids arbitrary: s) (simp_all add: drop_missing_def)
  have "nm_mesh (renewed_node E n s) = nm_mesh s" for n s
    by (simp add: renewed_node_def Let_def split: option.split)
  then have l: "nm_mesh (fold (listed_node E ts) ns s) = nm_mesh s" for ts ns s
    by (induction ns arbitrary: s) (simp_all add: listed_node_def Let_def)
  show ?thesis by (simp add: process_nodes_list_def Let_def retain_nodes_def d l)
qed

definition refresh_peer :: "node_info \<Rightarrow> peer_config \<Rightarrow> peer_config" where
  "refresh_peer n e = e\<lparr>pc_public_key := ni_public_key n, pc_name := ni_name n, pc_os := ni_os n\<rparr>"

lemma fold_store_node:
  "map_of (fold store_node nodes m) i =
     (case find (\<lambda>n. ni_id n = i \<and> \<not> ni_is_temporary n) (rev nodes) of
        None \<Rightarrow> map_of m i
      | Some n \<Rightarrow> Some (refresh_peer n (case map_of m i of Some e \<Rightarrow> e | None \<Rightarrow> peer_config_default)))"
proof (induction nodes rule: rev_induct)
  case (snoc n nodes)
  have idem: "refresh_peer n (refresh_peer n' e) = refresh_peer n e" for n' e by (simp add: refresh_peer_def)
  have one: "map_of (store_node n m') i = (if ni_id n = i \<and> \<not> ni_is_temporary n
      then Some (refresh_peer n (case map_of m' i of Some e \<Rightarrow> e | None \<Rightarrow> peer_config_default)) else map_of m' i)" for m'
    by (auto simp: store_node_def sync_node_def refresh_peer_def split: option.split)
  show ?case using snoc by (auto simp: one idem split: option.splits)
qed simp

lemma new_tasks_append:
  "nm_tasks s' = nm_tasks s @ ts \<Longrightarrow> drop (length (nm_tasks s)) (nm_tasks s') = ts"
  by simp

subsection \<open>Which connections a handler asks for\<close>

definition may_ask :: "string \<Rightarrow> string option \<Rightarrow> net_task \<Rightarrow> bool" where
  "may_ask me focused t \<longleftrightarrow> (\<forall>d i. t = SendLater d (AutoConnect i) \<longrightarrow> i > me \<or> focused = Some i)"

definition asks_only :: "string option \<Rightarrow> network_manager \<Rightarrow> network_manager \<Rightarrow> bool" where
  "asks_only focused s s' \<longleftrightarrow> nm_my_info s' = nm_my_info s \<and> nm_queue s' = nm_queue s
     \<and> (\<exists>ts. nm_tasks s' = nm_tasks s @ ts \<and> list_all (may_ask (ni_id (nm_my_info s)) focused) ts)"

lemma asks_only_trans: "asks_only f s s' \<Longrightarrow> asks_only f s' s'' \<Longrightarrow> asks_only f s s''"
  by (auto simp: asks_only_def)

lemma asks_only_same:
  "nm_my_info s' = nm_my_info s \<Longrightarrow> nm_queue s' = nm_queue s \<Longrightarrow> nm_tasks s' = nm_tasks s \<Longrightarrow> asks_only f s s'"
  by (simp add: asks_only_def)

lemma asks_only_task:
  "may_ask (ni_id (nm_my_info s)) f t \<Longrightarrow> nm_my_info s' = nm_my_info s \<Longrightarrow> nm_queue s' = nm_queue s \<Longrightarrow>
   nm_tasks s' = nm_tasks s @ [t] \<Longrightarrow> asks_only f s s'"
  by (simp add: asks_only_def)

lemma asks_only_fold: "(\<And>x s. asks_only f s (g x s)) \<Longrightarrow> asks_only f s (fold g xs s)"
  by (induction xs arbitrary: s) (auto intro: asks_only_trans asks_only_same)

lemma peer_steps_ask:
  "asks_only f s (remove_peer CloseConnection i s)" "asks_only f s (unfocus i s)" "asks_only f s (reset_backoff i s)"
  "asks_only f s (with_backoff now c i g s)" "asks_only f s (report_nodes s)" "asks_only f s (report_local_mesh s)"
  "asks_only f s (tunnel_node i s)" "asks_only f s (retain_nodes E nodes s)" "asks_only f s (learn_nodes nodes s)"
  by (auto simp: remove_peer_def unfocus_def reset_backoff_def report_nodes_def report_local_mesh_def tunnel_node_def
      retain_nodes_def learn_nodes_def may_ask_def case_prod_unfold Let_def split: option.split
      intro: asks_only_same asks_only_task)

lemma nodes_list_asks: "asks_only f s (process_nodes_list E nodes s)"
proof -
  have d: "asks_only f s (drop_missing E nodes i s)" for i s
    by (auto simp: drop_missing_def intro: asks_only_same asks_only_trans peer_steps_ask)
  have r: "asks_only f s (renewed_node E n s)" for n s
  proof -
    have "asks_only f s1 (start_task (SendLater 500 (Call i)) (unfocus i (remove_peer CloseConnection i s1)))" for i s1
      by (rule asks_only_trans [OF asks_only_trans [OF peer_steps_ask(1,2)]])
        (rule asks_only_task [where t = "SendLater 500 (Call i)"], simp_all add: may_ask_def)
    then show ?thesis
      by (auto simp: renewed_node_def Let_def split: option.split
          intro: asks_only_same asks_only_trans [OF peer_steps_ask(3)] peer_steps_ask(3))
  qed
  have l: "asks_only f s (listed_node E ts n s)" for ts n s
  proof -
    let ?t = "SendLater (dial_delay ts n) (AutoConnect (ni_id n))"
    have "asks_only f s1 ((if is_dial_target s1 n then start_task ?t s1 else s1)\<lparr>nm_last_known_nodes := ns\<rparr>)" for s1 ns
      by (cases "is_dial_target s1 n")
        (auto simp: is_dial_target_def may_ask_def intro: asks_only_same asks_only_task [where t = ?t])
    from asks_only_trans [OF r this] show ?thesis by (simp add: listed_node_def Let_def)
  qed
  show ?thesis
    unfolding process_nodes_list_def Let_def
    by (rule asks_only_trans [OF peer_steps_ask(9)], rule asks_only_trans [OF asks_only_fold [OF d]],
        rule asks_only_trans [OF asks_only_fold [OF l]], rule asks_only_trans [OF peer_steps_ask(8)])
      (rule peer_steps_ask(5))
qed

lemma peer_discovered_asks: "asks_only f s (peer_discovered n s)"
proof -
  let ?s = "report_local_mesh (report_nodes (s\<lparr>nm_last_known_nodes := hm_insert (ni_id n) n (nm_last_known_nodes s)\<rparr>))"
  have "asks_only f s ?s"
    by (rule asks_only_trans [OF asks_only_trans [OF _ peer_steps_ask(5)] peer_steps_ask(6)]) (rule asks_only_same, simp_all)
  moreover have "ni_id n > ni_id (nm_my_info ?s) \<Longrightarrow> asks_only f ?s (start_task (SendLater 0 (AutoConnect (ni_id n))) ?s)"
    by (rule asks_only_task [where t = "SendLater 0 (AutoConnect (ni_id n))"]) (simp_all add: may_ask_def)
  ultimately show ?thesis by (auto simp: peer_discovered_def Let_def intro: asks_only_trans)
qed

lemma tunnel_established_asks: "asks_only (nm_focused_peer s) s (tunnel_established i s)"
proof -
  define s1 where "s1 = report_local_mesh s"
  define c where "c = (case map_of (nm_active_peers s1) i of Some p \<Rightarrow> pe_pc p = PcConnected | None \<Rightarrow> False)"
  define s2 where "s2 = (if c then s1 else remove_peer CloseConnection i s1)"
  define s3 where "s3 = report_nodes (tunnel_node i s2)"
  let ?f = "nm_focused_peer s"
  have "asks_only ?f s1 s2" by (auto simp: s2_def intro: asks_only_same peer_steps_ask)
  with peer_steps_ask(6) have "asks_only ?f s s2" unfolding s1_def by (rule asks_only_trans)
  from asks_only_trans [OF asks_only_trans [OF this peer_steps_ask(7)] peer_steps_ask(5)]
  have a: "asks_only ?f s s3" by (simp add: s3_def)
  have "nm_focused_peer s3 = nm_focused_peer s"
    by (simp add: s3_def s2_def s1_def report_nodes_def report_local_mesh_def tunnel_node_def remove_peer_def
        case_prod_unfold Let_def split: option.split)
  then have "asks_only ?f s3 (start_task (SendLater 0 (AutoConnect i)) s3)"
    if "i > ni_id (nm_my_info s3) \<or> nm_focused_peer s3 = Some i"
    using that by (intro asks_only_task [where t = "SendLater 0 (AutoConnect i)"]) (auto simp: may_ask_def)
  with a show ?thesis
    by (auto simp: tunnel_established_def Let_def s1_def [symmetric] c_def [symmetric] s2_def [symmetric] s3_def [symmetric]
        intro: asks_only_trans)
qed

lemma asks_onlyD:
  "asks_only f s s' \<Longrightarrow> SendLater d (AutoConnect i) \<in> set (drop (length (nm_tasks s)) (nm_tasks s')) \<Longrightarrow>
   i > ni_id (nm_my_info s) \<or> f = Some i"
  by (fastforce simp: asks_only_def may_ask_def list_all_iff)

lemma asks_only_queue: "asks_only f s s' \<Longrightarrow> nm_queue s' = nm_queue s"
  by (simp add: asks_only_def)

lemma asks_only_requests:
  assumes "asks_only f s s'" "AutoConnect i \<in> set (drop (length (nm_queue s)) (nm_queue s'))
       \<or> (\<exists>d. SendLater d (AutoConnect i) \<in> set (drop (length (nm_tasks s)) (nm_tasks s')))"
  shows "i > ni_id (nm_my_info s) \<or> f = Some i"
  using assms asks_onlyD [OF assms(1)] asks_only_queue [OF assms(1)] by auto

section \<open>Properties\<close>


definition demo_node_known :: network_manager where
  "demo_node_known = demo_manager\<lparr>nm_mode := LocalMeshFallback,
     nm_last_known_nodes := [(''zed'', (demo_node ''zed'' [])\<lparr>ni_app_type := ''desktop''\<rparr>)]\<rparr>"


text \<open>C36: applying new relay credentials asks the task itself to drop every peer, through the same
  channel. With more peers than the channel has room for, the task waits for itself forever.\<close>

theorem turn_refresh_can_block_forever:
  "net_loop E (Command (ApplyTurnCredentials turn)) s = None \<longleftrightarrow>
     nm_active_peers s \<noteq> [] \<and> nm_capacity s < length (nm_queue s) + length (nm_active_peers s)"
  by (auto simp: handle_net_cmd_def apply_turn_credentials_def send_disconnects_iff)

text \<open>C19: a connection that ends reports its own session: the peer is dropped only if the session
  reported is still the current one, and then no other peer is touched. A late report of a session
  that has been replaced changes nothing.\<close>

theorem only_current_session_dropped:
  assumes "net_loop E (Command (DisconnectPeerSession i conn)) s = Some s'"
  shows "if \<exists>p. map_of (nm_active_peers s) i = Some p \<and> conn_of p = conn
    then map_of (nm_active_peers s') = (map_of (nm_active_peers s))(i := None)
      \<and> CloseAndReport conn i \<in> set (nm_tasks s')
      \<and> (\<forall>j. j \<noteq> i \<longrightarrow> map_of (nm_backoff_states s') j = map_of (nm_backoff_states s) j)
    else s' = s"
  using assms
  by (auto simp: handle_net_cmd_def disconnect_peer_session_def disconnect_peer_def remove_peer_def unfocus_def
      start_task_def with_backoff_def split: option.splits)

theorem only_current_session_dropped_witness:
  "net_loop demo_net_env (Command (DisconnectPeerSession ''peer'' 1)) demo_manager = Some demo_manager"
proof -
  obtain s' where s': "net_loop demo_net_env (Command (DisconnectPeerSession ''peer'' 1)) demo_manager = Some s'"
    by (simp add: handle_net_cmd_def)
  from only_current_session_dropped [OF this] have "s' = demo_manager"
    by (simp add: demo_manager_def demo_entry_def conn_of_def split: if_splits)
  with s' show ?thesis by simp
qed

text \<open>C18: automatic dials are paced. A node is dialled only when it has no client and its last
  attempt is at least the cooldown of its number of attempts ago (or there was none), and the dial
  counts as an attempt made now.\<close>

theorem dials_are_paced:
  assumes "net_loop E (Command (AutoConnect i)) s = Some s'" "nm_events s' \<noteq> nm_events s"
    and "map_of (nm_backoff_states s) i = Some b" "\<not> is_connected b"
  shows "map_of (nm_active_peers s) i = None
    \<and> (attempt_count b = 0 \<or> get_cooldown_duration (ne_limits E) (attempt_count b) \<le> ne_now E - last_attempt b)
    \<and> map_of (nm_backoff_states s') i
        = Some \<lparr>attempt_count = attempt_count b + 1, last_attempt = ne_now E, is_connected = False\<rparr>"
proof -
  have cached: "nm_events (dial_cached i s2) = nm_events s2" for s2
  proof -
    have "nm_events (dial_addresses i addrs s2) = nm_events s2" for addrs s2
      unfolding dial_addresses_def by (induction addrs arbitrary: s2) simp_all
    then show ?thesis by (simp add: dial_cached_def split: option.split)
  qed
  have dial: "dial E i s2 = Inr s3 \<Longrightarrow> nm_backoff_states s3 = nm_backoff_states s2" for s2 s3
    by (auto simp: dial_def set_entry_def route_task_def split: sum.splits prod.splits)
  from assms have n: "map_of (nm_active_peers s) i = None"
    by (auto simp: handle_net_cmd_def auto_connect_def Let_def bg_send_def split: option.splits if_splits)
  with assms show ?thesis
    by (auto simp: handle_net_cmd_def auto_connect_def Let_def the_backoff_def cached announce_dial_def cooling_down_def
        not_less dest!: dial split: if_splits sum.splits)
qed

theorem dials_are_paced_witness:
  "\<exists>s'. net_loop (demo_net_env\<lparr>ne_limits := limits_init\<rparr>) (Command (AutoConnect ''zed''))
        (demo_manager\<lparr>nm_ws_tx := Some 0, nm_backoff_states := [(''zed'', backoff_new 5 False)]\<rparr>) = Some s'
     \<and> map_of (nm_backoff_states s') ''zed'' = Some \<lparr>attempt_count = 1, last_attempt = 100000, is_connected = False\<rparr>"
proof -
  let ?E = "demo_net_env\<lparr>ne_limits := limits_init\<rparr>"
  let ?m = "demo_manager\<lparr>nm_ws_tx := Some 0, nm_backoff_states := [(''zed'', backoff_new 5 False)]\<rparr>"
  obtain s' where s': "net_loop ?E (Command (AutoConnect ''zed'')) ?m = Some s'" "nm_events s' \<noteq> nm_events ?m"
    by (simp add: handle_net_cmd_def auto_connect_def Let_def demo_manager_def manager_new_def the_backoff_def
        peer_slot_available_def max_peers_def limits_init_def backoff_new_def cooling_down_def must_wait_for_tunnel_def
        dial_def new_client_def client_new_def create_offer_def announce_dial_def demo_net_env_def with_backoff_def
        report_def set_entry_def route_task_def start_task_def)
  from dials_are_paced [OF s', of "backoff_new 5 False"] s'(1) show ?thesis
    by (simp add: backoff_new_def demo_net_env_def)
qed



end
