(* ===== verification/Network_Signals.thy ===== *)
theory Network_Signals
  imports Network_Properties
begin

text \<open>
  How the network task reaches other nodes: a signal routed over a tunnel or over the server, its
  arrival in the task of the other node, what a list of nodes leaves in the peer store, and whom a
  broadcast addresses.
\<close>

section \<open>Facts\<close>

text \<open>The tunnel message has no place for the flag of an ICE restart.\<close>

definition without_restart :: "rtc_signal \<Rightarrow> rtc_signal" where
  "without_restart sig = (case sig of Offer sdp _ \<Rightarrow> Offer sdp False | _ \<Rightarrow> sig)"

definition inbound :: "string \<Rightarrow> rtc_signal \<Rightarrow> net_event" where
  "inbound i sig = Command (HandleInboundSignal \<lparr>inb_from_node_id = i, inb_signal = sig\<rparr>)"

lemma find_tunnel_None_iff:
  "find_tunnel n tunnels has_ws to k = None \<longleftrightarrow>
     (\<forall>j < (if has_ws then min n 1 else n). map_of (tunnels (k + j)) to = None)"
proof (induction n arbitrary: k)
  case (Suc n)
  have shift: "(\<forall>j < Suc n. Q j) \<longleftrightarrow> Q 0 \<and> (\<forall>j < n. Q (Suc j))" for Q :: "nat \<Rightarrow> bool"
    by (auto simp: All_less_Suc2)
  show ?case using Suc [of "Suc k"] by (auto simp: shift split: option.splits)
qed simp

lemma find_tunnel_Some:
  "find_tunnel n tunnels has_ws to k = Some session \<Longrightarrow> \<exists>j < n. map_of (tunnels (k + j)) to = Some session"
proof (induction n arbitrary: k)
  case (Suc n)
  then show ?case
    by (fastforce split: option.splits if_splits intro: exI [of _ 0] exI [of _ "Suc j" for j])
qed simp

lemma tunnel_signal_arrives:
  "SIGNAL_TX m \<Longrightarrow> nm_discovery_enabled r \<Longrightarrow> length (nm_queue r) < nm_capacity r \<Longrightarrow>
   \<exists>sig. mesh_signals (handle_tunnel_message (tunnel_signal envelope) sender (env_to_node_id envelope) m)
           = mesh_signals m @ [sig]
     \<and> net_loop E (MeshSignal sig) r = Some (r\<lparr>nm_queue := nm_queue r @
         [HandleInboundSignal \<lparr>inb_from_node_id = sender, inb_signal = without_restart (env_signal envelope)\<rparr>]\<rparr>)"
  by (cases "env_signal envelope")
    (simp_all add: tunnel_signal_def tunnel_rtc_signal_def signal_send_def signal_of_def without_restart_def bg_send_def)

section \<open>Properties\<close>

text \<open>A signal leaves this node once. It goes over a tunnel to its addressee if one was found
  and takes it, otherwise over the server channel if there was one when the signal was made; it is
  dropped only if neither exists, and without a server the task looks for a tunnel ten times.\<close>

theorem signal_routed_once:
  "case map_option accepts (find_tunnel 10 tunnels (ch \<noteq> None) (env_to_node_id envelope) 0) of
      Some True \<Rightarrow> (\<exists>session j. j < 10 \<and> map_of (tunnels j) (env_to_node_id envelope) = Some session
         \<and> route_rtc_signal accepts tunnels envelope ch s
             = s\<lparr>nm_mesh := tunnel_send session (tunnel_signal envelope) (nm_mesh s)\<rparr>)
    | r \<Rightarrow> route_rtc_signal accepts tunnels envelope ch s =
        (case ch of Some c \<Rightarrow> s\<lparr>nm_ws_sent := nm_ws_sent s @ [(c, WsRtcSignal envelope)]\<rparr> | None \<Rightarrow> s)
        \<and> (r = None \<and> ch = None \<longrightarrow> (\<forall>j < 10. map_of (tunnels j) (env_to_node_id envelope) = None))"
proof (cases "find_tunnel 10 tunnels (ch \<noteq> None) (env_to_node_id envelope) 0")
  case None
  then have "ch = None \<longrightarrow> (\<forall>j < 10. map_of (tunnels j) (env_to_node_id envelope) = None)"
    unfolding find_tunnel_None_iff by simp
  with None show ?thesis
    by (cases ch) (simp_all add: route_rtc_signal_def ws_send_def)
next
  case (Some session)
  from find_tunnel_Some [OF this]
  have "\<exists>j. j < 10 \<and> map_of (tunnels j) (env_to_node_id envelope) = Some session" by simp
  moreover have "route_rtc_signal accepts tunnels envelope ch s =
      (if accepts session then s\<lparr>nm_mesh := tunnel_send session (tunnel_signal envelope) (nm_mesh s)\<rparr>
       else case ch of Some c \<Rightarrow> s\<lparr>nm_ws_sent := nm_ws_sent s @ [(c, WsRtcSignal envelope)]\<rparr> | None \<Rightarrow> s)"
    using Some by (simp add: route_rtc_signal_def ws_send_def split: option.split)
  moreover have "map_option accepts (find_tunnel 10 tunnels (ch \<noteq> None) (env_to_node_id envelope) 0)
      = Some (accepts session)"
    using Some by simp
  ultimately show ?thesis by (cases "accepts session") (auto intro!: exI [of _ session])
qed

theorem signal_routed_once_witness:
  "route_rtc_signal (\<lambda>_. True) (\<lambda>_. []) \<lparr>env_to_node_id = ''peer'', env_signal = Answer ''sdp''\<rparr> None demo_manager
     = demo_manager"
  using signal_routed_once [where accepts = "\<lambda>_. True" and tunnels = "\<lambda>_. []" and ch = None
      and envelope = "\<lparr>env_to_node_id = ''peer'', env_signal = Answer ''sdp''\<rparr>" and s = demo_manager]
  by (simp add: numeral_eq_Suc)

text \<open>A signal sent over a tunnel reaches the network task of the other node as it was sent,
  in the name of this node, except that an offer no longer says that it restarts ICE.\<close>

theorem tunnel_signal_roundtrip:
  assumes "map_of (tunnels 0) (env_to_node_id envelope) = Some session" "accepts session"
    and "SIGNAL_TX m" "nm_discovery_enabled r" "length (nm_queue r) < nm_capacity r"
  shows "\<exists>msg sig. tunnel_sent (nm_mesh (route_rtc_signal accepts tunnels envelope ch s))
        = tunnel_sent (nm_mesh s) @ [(ts_connection_id session, msg)]
    \<and> mesh_signals (handle_tunnel_message msg sender (env_to_node_id envelope) m) = mesh_signals m @ [sig]
    \<and> net_loop E (MeshSignal sig) r = Some (r\<lparr>nm_queue := nm_queue r @
        [HandleInboundSignal \<lparr>inb_from_node_id = sender, inb_signal = without_restart (env_signal envelope)\<rparr>]\<rparr>)"
proof -
  have "find_tunnel 10 tunnels (ch \<noteq> None) (env_to_node_id envelope) 0 = Some session"
    using assms(1) by (simp add: numeral_eq_Suc)
  then have "tunnel_sent (nm_mesh (route_rtc_signal accepts tunnels envelope ch s))
      = tunnel_sent (nm_mesh s) @ [(ts_connection_id session, tunnel_signal envelope)]"
    using assms(2) by (simp add: route_rtc_signal_def tunnel_send_def)
  with tunnel_signal_arrives [OF assms(3-5)] show ?thesis by blast
qed

theorem tunnel_signal_roundtrip_witness:
  "\<exists>msg sig. tunnel_sent (nm_mesh (route_rtc_signal (\<lambda>_. True) (\<lambda>_. [(''me'', \<lparr>ts_connection_id = 4\<rparr>)])
          \<lparr>env_to_node_id = ''me'', env_signal = Answer ''sdp''\<rparr> None demo_manager)) = [(4, msg)]
    \<and> mesh_signals (handle_tunnel_message msg ''peer'' ''me'' (demo_mesh\<lparr>SIGNAL_TX := True\<rparr>)) = [sig]
    \<and> net_loop demo_net_env (MeshSignal sig) (demo_manager\<lparr>nm_discovery_enabled := True\<rparr>)
        = Some (demo_manager\<lparr>nm_discovery_enabled := True,
            nm_queue := [HandleInboundSignal \<lparr>inb_from_node_id = ''peer'', inb_signal = Answer ''sdp''\<rparr>]\<rparr>)"
  using tunnel_signal_roundtrip [of "\<lambda>_. [(''me'', \<lparr>ts_connection_id = 4\<rparr>)]"
      "\<lparr>env_to_node_id = ''me'', env_signal = Answer ''sdp''\<rparr>" "\<lparr>ts_connection_id = 4\<rparr>" "\<lambda>_. True"
      "demo_mesh\<lparr>SIGNAL_TX := True\<rparr>" "demo_manager\<lparr>nm_discovery_enabled := True\<rparr>" None demo_manager "''peer''" demo_net_env]
  by (simp add: demo_manager_def manager_new_def demo_mesh_def without_restart_def)



text \<open>After a list of nodes from the server the peer store holds exactly its nodes that are
  not temporary, each with the name, system and key listed last; the addresses known before are
  kept for those nodes and forgotten for all others.\<close>

theorem server_list_replaces_store:
  assumes "net_loop E (Command (ProcessNodesList nodes)) s = Some s'"
    and "\<not> mps_poisoned (mesh_store (nm_mesh s))" "hm_wf (mps_peers (mesh_store (nm_mesh s)))"
  shows "map_of (store_load (mesh_store (nm_mesh s'))) i =
     (case find (\<lambda>n. ni_id n = i \<and> \<not> ni_is_temporary n) (rev nodes) of
        None \<Rightarrow> None
      | Some n \<Rightarrow> Some \<lparr>pc_name = ni_name n, pc_public_key = ni_public_key n, pc_os = ni_os n, pc_last_known_addresses =
          (case map_of (store_load (mesh_store (nm_mesh s))) i of Some e \<Rightarrow> pc_last_known_addresses e | None \<Rightarrow> [])\<rparr>)"
proof -
  have "s' = process_nodes_list E nodes s" using assms(1) by (simp add: handle_net_cmd_def)
  then have "store_load (mesh_store (nm_mesh s')) = store_nodes nodes (mps_peers (mesh_store (nm_mesh s)))"
    using assms(2) by (simp add: nodes_list_mesh learn_nodes_def store_load_def store_update_def)
  moreover have "find (\<lambda>n. ni_id n = i \<and> \<not> ni_is_temporary n) (rev nodes) = None \<longleftrightarrow>
      i \<notin> ni_id ` {n \<in> set nodes. \<not> ni_is_temporary n}"
    by (auto simp: find_None_iff)
  ultimately show ?thesis
    using assms(2,3) by (auto simp: store_nodes_def fold_store_node refresh_peer_def peer_config_default_def store_load_def
        split: option.splits)
qed

theorem server_list_replaces_store_witness:
  "\<exists>s'. net_loop demo_net_env (Command (ProcessNodesList [(demo_node ''zed'' [])\<lparr>ni_public_key := ''key''\<rparr>]))
        (demo_manager\<lparr>nm_mesh := demo_mesh\<lparr>mesh_store := \<lparr>mps_peers = [(''gone'', peer_config_default)], mps_poisoned = False\<rparr>\<rparr>\<rparr>) = Some s'
     \<and> map_of (store_load (mesh_store (nm_mesh s'))) ''gone'' = None
     \<and> map_option pc_public_key (map_of (store_load (mesh_store (nm_mesh s'))) ''zed'') = Some ''key''"
proof -
  let ?s = "demo_manager\<lparr>nm_mesh := demo_mesh\<lparr>mesh_store := \<lparr>mps_peers = [(''gone'', peer_config_default)], mps_poisoned = False\<rparr>\<rparr>\<rparr>"
  obtain s' where s': "net_loop demo_net_env (Command (ProcessNodesList [(demo_node ''zed'' [])\<lparr>ni_public_key := ''key''\<rparr>])) ?s = Some s'"
    by (simp add: handle_net_cmd_def)
  from server_list_replaces_store [OF s', of "''gone''"] server_list_replaces_store [OF s', of "''zed''"] s'
  show ?thesis by (auto simp: demo_node_def hm_wf_def)
qed

text \<open>A broadcast queues one message for every connected peer that has announced a resource of
  the type asked for, addressed to that resource of that peer, and nothing for any other.\<close>

theorem broadcast_addresses_each_peer:
  assumes "net_loop E (Command (BroadcastP2pMessage t msg)) s = Some s'" "map_of (nm_active_peers s) i = Some p"
  shows "\<exists>p'. map_of (nm_active_peers s') i = Some p' \<and>
     (case map_of (remote_resources (rtc_ctx (wc_state (pe_client p)))) t of
        None \<Rightarrow> p' = p
      | Some target \<Rightarrow> \<exists>m. outgoing_tx (rtc_ctx (wc_state (pe_client p')))
            = outgoing_tx (rtc_ctx (wc_state (pe_client p))) @ [OutUnsigned m]
          \<and> resource_id m = map_option (\<lambda>_. target) (resource_id msg)
          \<and> allowed_resource_types m = allowed_resource_types msg)"
proof -
  have "map_of (map (\<lambda>(i, p). (i, f p)) m) i = map_option f (map_of m i)" for f :: "peer_entry \<Rightarrow> peer_entry" and m
    by (induction m) auto
  with assms have "map_of (nm_active_peers s') i = Some (broadcast_to t msg p)"
    by (auto simp: handle_net_cmd_def broadcast_def)
  then show ?thesis
    by (cases "map_of (remote_resources (rtc_ctx (wc_state (pe_client p)))) t")
      (auto simp: broadcast_to_def get_remote_resource_id_def send_p2p_message_def send_unsigned_def on_state_def
        with_ctx_def resource_id_set allowed_types_set)
qed

definition demo_terminal_peer :: peer_entry where
  "demo_terminal_peer = (demo_entry ''peer'' 2 PcConnected)\<lparr>pe_client := on_state (with_ctx (\<lambda>ctx. ctx\<lparr>
     remote_resources := [(Terminal, ''tty'')], outgoing_tx := []\<rparr>)) demo_client\<rparr>"

theorem broadcast_addresses_each_peer_witness:
  "\<exists>s' p' m. net_loop demo_net_env (Command (BroadcastP2pMessage Terminal (StartTerminal [])))
        (demo_manager\<lparr>nm_active_peers := [(''peer'', demo_terminal_peer)]\<rparr>) = Some s'
     \<and> map_of (nm_active_peers s') ''peer'' = Some p'
     \<and> outgoing_tx (rtc_ctx (wc_state (pe_client p'))) = [OutUnsigned m] \<and> resource_id m = Some ''tty''"
proof -
  let ?s = "demo_manager\<lparr>nm_active_peers := [(''peer'', demo_terminal_peer)]\<rparr>"
  obtain s' where s': "net_loop demo_net_env (Command (BroadcastP2pMessage Terminal (StartTerminal []))) ?s = Some s'"
    by (simp add: handle_net_cmd_def)
  have "map_of (nm_active_peers ?s) ''peer'' = Some demo_terminal_peer" by simp
  from broadcast_addresses_each_peer [OF s' this] s' show ?thesis
    by (auto simp: demo_terminal_peer_def on_state_def with_ctx_def)
qed

end
