(* ===== verification/Network_Discovery.thy ===== *)
theory Network_Discovery
  imports Network_Signals
begin

text \<open>
  The tasks of the network manager that work on the local network: the start of the tunnel server,
  the advertiser and the scanner (\<open>start_local_discovery\<close> in \<open>network/manager.rs\<close>), and the dial of a
  tunnel (\<open>trigger_cached_peer_reconnections\<close> in \<open>network/mod.rs\<close>), composed of the operations of
  \<open>Local_Mesh\<close> and \<open>Mdns_Discovery\<close>. The node's own description and key are those the task was
  given when it was spawned.
\<close>

section \<open>The tasks\<close>

definition or_keep :: "'a \<Rightarrow> 'a result \<Rightarrow> 'a" where
  "or_keep d r = (case r of Inr x \<Rightarrow> x | Inl _ \<Rightarrow> d)"

definition run_discovery ::
  "crypto_prims \<Rightarrow> os_socket \<Rightarrow> (service_info \<Rightarrow> unit result) \<Rightarrow> unit result \<Rightarrow> node_info \<Rightarrow> string
     \<Rightarrow> network_manager \<times> mdns_daemon \<Rightarrow> network_manager \<times> mdns_daemon" where
  "run_discovery C os accepts browsing me private_key sd =
     (let (s, d) = sd;
          (r, m) = start_tcp_signaling_server C os private_key (nm_mesh s);
          s = s\<lparr>nm_mesh := m\<rparr>;
          (s, d) = (case r of
              Inr port \<Rightarrow> (s, or_keep d (start_mdns_advertiser C accepts (ni_id me) (ni_public_key me) private_key port
                                       (ni_name me) (ni_os me) d))
            | Inl _ \<Rightarrow> (report (OnWsStateChanged LocalMeshError) s, d))
      in (s, or_keep d (start_mdns_scanner browsing d)))"

text \<open>An attempt to dial a tunnel changes nothing unless it succeeds; then the tunnel is served by a
  task of its own.\<close>

definition run_dial ::
  "('n, 't) mesh_prims \<Rightarrow> string \<Rightarrow> u64 \<Rightarrow> uuid \<Rightarrow> tcp_stream result \<Rightarrow> string \<Rightarrow> node_info \<Rightarrow> string
     \<Rightarrow> network_manager \<Rightarrow> network_manager \<times> 't tunnel_task option" where
  "run_dial N version ts conn connected target me private_key s =
     (case connect_to_peer_signaling N version ts conn connected target (ni_id me) private_key (nm_mesh s) of
        Inl _ \<Rightarrow> (s, None)
      | Inr (task, m) \<Rightarrow> (s\<lparr>nm_mesh := m\<rparr>, Some task))"

section \<open>Facts\<close>

lemma fold_discovered_signals [simp]:
  "mesh_signals (sc_mesh (fold (discovered_address p port) ips s)) = mesh_signals (sc_mesh s)"
  by (induction ips arbitrary: s) (simp_all add: discovered_address_def Let_def)

lemma discovery_registers:
  assumes "start_tcp_signaling_server C os priv (nm_mesh s) = (Inr port, m)"
    and "start_mdns_advertiser C accepts (ni_id me) (ni_public_key me) priv port (ni_name me) (ni_os me) d = Inr d1"
    and "run_discovery C os accepts browsing me priv (s, d) = (s', d')"
  shows "md_registered d' = md_registered d1"
  using assms by (auto simp: run_discovery_def or_keep_def start_mdns_scanner_def bind_result_def split: sum.splits)

lemma new_peer_discovered:
  assumes "nm_discovery_enabled s" "map_of (nm_last_known_nodes s) (ni_id n) = None" "ni_app_type n \<noteq> ''web''"
    and "ni_id (nm_my_info s) < ni_id n"
  shows "\<exists>s'. net_loop E (MeshSignal (PeerDiscovered n)) s = Some s'
    \<and> map_of (nm_last_known_nodes s') (ni_id n) = Some n
    \<and> nm_tasks s' = nm_tasks s @ [SendLater 0 (AutoConnect (ni_id n))]"
  using assms
  by (simp add: peer_discovered_def report_nodes_def report_local_mesh_def report_def start_task_def Let_def)

section \<open>Properties\<close>



text \<open>When the tunnel server cannot be started, nothing is advertised and the application is told
  that the local mesh is in error; the scanner runs all the same.\<close>

theorem failed_discovery_reported:
  assumes "start_tcp_signaling_server C os priv (nm_mesh s) = (Inl e, m)"
  shows "run_discovery C os accepts (Inr ()) me priv (s, d)
    = (s\<lparr>nm_mesh := m, nm_events := nm_events s @ [OnWsStateChanged LocalMeshError]\<rparr>, d\<lparr>md_browsing := True\<rparr>)"
  using assms by (simp add: run_discovery_def or_keep_def start_mdns_scanner_def report_def)

theorem failed_discovery_reported_witness:
  "run_discovery demo_crypto \<lparr>os_new = Inl ''EMFILE'', os_bind = Inr (), os_listen = Inr (), os_port = Inr 8308\<rparr>
     (\<lambda>_. Inr ()) (Inr ()) (demo_node ''me'' []) [] (demo_manager, \<lparr>md_registered = [], md_browsing = False\<rparr>)
   = (demo_manager\<lparr>nm_events := [OnWsStateChanged LocalMeshError]\<rparr>, \<lparr>md_registered = [], md_browsing = True\<rparr>)"
proof -
  let ?os = "\<lparr>os_new = Inl ''EMFILE'', os_bind = Inr (), os_listen = Inr (), os_port = Inr 8308\<rparr>"
  have "start_tcp_signaling_server demo_crypto ?os [] (nm_mesh demo_manager) = (Inl ''EMFILE'', nm_mesh demo_manager)"
    by (simp add: start_tcp_signaling_server_def demo_manager_def manager_new_def demo_mesh_def)
  from failed_discovery_reported [OF this] show ?thesis by (simp add: demo_manager_def manager_new_def)
qed

end
