(* ===== verification/Network_Pair.thy ===== *)
theory Network_Pair
  imports Network_Signals Rtc_Lifecycle
begin

text \<open>
  Two nodes with a tunnel between them: the network tasks (\<open>client-core/src/network\<close>), the tunnel tasks
  (\<open>p2p-node/src/local_mesh.rs\<close>) and the clients (\<open>client-core/src/rtc\<close>) composed, from the decision to
  dial to the authentication of both clients. What the WebRTC stack returns is given by the
  environments; the laws of the primitives are hypotheses.
\<close>

section \<open>A signal on its way\<close>

text \<open>The network task of the receiver takes the signals its tunnel task has sent.\<close>

primrec take_signals :: "local_mesh_signal list \<Rightarrow> network_manager \<Rightarrow> network_manager option" where
  "take_signals [] r = Some r"
| "take_signals (sig # sigs) r = Option.bind (handle_peer_signal sig r) (take_signals sigs)"

text \<open>A task of the sender runs; what it puts on its tunnel is handled by the tunnel task of the
  receiver, and the network task of the receiver handles the next command.\<close>

definition hand_over :: "net_env \<Rightarrow> net_task \<Rightarrow> network_manager \<Rightarrow> network_manager \<Rightarrow> (network_manager \<times> network_manager) option" where
  "hand_over E t s r =
     Option.bind (run_net_task (\<lambda>_. True) (\<lambda>_. ACTIVE_TCP_TUNNELS (nm_mesh s)) t s) (\<lambda>s'.
       let msgs = map snd (drop (length (tunnel_sent (nm_mesh s))) (tunnel_sent (nm_mesh s')));
           m = fold (\<lambda>msg. handle_tunnel_message msg (ni_id (nm_my_info s)) (ni_id (nm_my_info r))) msgs (nm_mesh r);
           sigs = drop (length (mesh_signals (nm_mesh r))) (mesh_signals m)
       in Option.bind (take_signals sigs (r\<lparr>nm_mesh := m\<rparr>)) (\<lambda>r'. map_option (Pair s') (net_receive E r')))"

section \<open>What the nodes are ready for\<close>

definition hears :: "network_manager \<Rightarrow> bool" where
  "hears r \<longleftrightarrow> nm_discovery_enabled r \<and> SIGNAL_TX (nm_mesh r) \<and> nm_queue r = [] \<and> 0 < nm_capacity r"

definition may_dial :: "net_env \<Rightarrow> string \<Rightarrow> network_manager \<Rightarrow> bool" where
  "may_dial E i s \<longleftrightarrow>
     map_of (nm_active_peers s) i = None \<and> peer_slot_available (ne_limits E) (nm_active_peers s) i
     \<and> \<not> is_connected (the_backoff (ne_now E) i s) \<and> \<not> cooling_down E (the_backoff (ne_now E) i s)"

definition may_answer :: "net_env \<Rightarrow> string \<Rightarrow> network_manager \<Rightarrow> bool" where
  "may_answer E i s \<longleftrightarrow>
     map_of (nm_active_peers s) i = None \<and> peer_slot_available (ne_limits E) (nm_active_peers s) i"

definition stack_dials :: "net_env \<Rightarrow> string \<Rightarrow> bool" where
  "stack_dials E offer \<longleftrightarrow>
     ne_pc E = Inr () \<and> ne_channel E = Inr () \<and> ne_offer E = Inr offer \<and> ne_set_local E = Inr ()"

definition stack_answers :: "net_env \<Rightarrow> string \<Rightarrow> string \<Rightarrow> bool" where
  "stack_answers E offer answer \<longleftrightarrow>
     ne_pc E = Inr () \<and> ne_set_remote E offer = Inr () \<and> ne_answer E = Inr answer \<and> ne_set_local E = Inr ()"

section \<open>Facts\<close>

lemma hand_over_signal:
  assumes "map_of (ACTIVE_TCP_TUNNELS (nm_mesh s)) (ni_id (nm_my_info r)) = Some session" "hears r"
  shows "\<exists>m. hand_over E (RouteSignal \<lparr>env_to_node_id = ni_id (nm_my_info r), env_signal = sig\<rparr> ch) s r =
    map_option (Pair (s\<lparr>nm_mesh := tunnel_send session
        (tunnel_signal \<lparr>env_to_node_id = ni_id (nm_my_info r), env_signal = sig\<rparr>) (nm_mesh s)\<rparr>))
      (handle_net_cmd E (HandleInboundSignal \<lparr>inb_from_node_id = ni_id (nm_my_info s), inb_signal = without_restart sig\<rparr>)
        (r\<lparr>nm_mesh := (nm_mesh r)\<lparr>mesh_signals := mesh_signals (nm_mesh r) @ [m]\<rparr>\<rparr>))"
proof -
  have "find_tunnel 10 (\<lambda>_. ACTIVE_TCP_TUNNELS (nm_mesh s)) has_ws (ni_id (nm_my_info r)) 0 = Some session" for has_ws
    using assms(1) by (simp add: numeral_eq_Suc)
  note route = this
  have q: "r\<lparr>nm_mesh := M, nm_queue := []\<rparr> = r\<lparr>nm_mesh := M\<rparr>" for M
    using assms(2) by (cases r) (simp add: hears_def)
  from route show ?thesis
    using assms(2)
    by (cases sig)
      (auto simp: q hand_over_def route_rtc_signal_def tunnel_send_def tunnel_signal_def tunnel_rtc_signal_def
        signal_send_def hears_def signal_of_def without_restart_def bg_send_def net_receive_def)
qed

text \<open>The client a dial makes and the one an offer makes.\<close>

lemma dial_makes_client:
  assumes "may_dial E i s" "map_of (ACTIVE_TCP_TUNNELS (nm_mesh s)) i = Some session" "stack_dials E offer"
  shows "\<exists>s' c. net_loop E (Command (AutoConnect i)) s = Some s'
    \<and> client_new (Inr ()) (ne_conn_id E) (ne_clock E) (nm_my_info s) i (nm_private_key s) (mesh_store (nm_mesh s)) (ne_process E) = Inr c
    \<and> map_of (nm_active_peers s') i = Some \<lparr>pe_client = on_state (\<lambda>st. st\<lparr>rtc_last_pong := ne_clock E\<rparr>) (store_channel c),
         pe_pc = PcNew, pe_remote = None, pe_created_at = ne_now E\<rparr>
    \<and> nm_tasks s' = nm_tasks s @ [RouteSignal \<lparr>env_to_node_id = i, env_signal = Offer offer False\<rparr> (nm_ws_tx s)]
    \<and> nm_mesh s' = nm_mesh s \<and> nm_my_info s' = nm_my_info s \<and> nm_queue s' = nm_queue s \<and> nm_capacity s' = nm_capacity s
    \<and> nm_discovery_enabled s' = nm_discovery_enabled s"
  using assms
  by (simp add: handle_net_cmd_def auto_connect_def may_dial_def with_backoff_def Let_def must_wait_for_tunnel_def has_tunnel_def
      announce_dial_def report_def dial_def new_client_def client_new_def stack_dials_def create_offer_def set_entry_def
      route_task_def start_task_def dom_def)

lemma offer_makes_client:
  assumes "may_answer E i s" "stack_answers E offer answer"
  shows "\<exists>s' c. handle_net_cmd E (HandleInboundSignal \<lparr>inb_from_node_id = i, inb_signal = Offer offer False\<rparr>) s = Some s'
    \<and> client_new (Inr ()) (ne_conn_id E) (ne_clock E) (nm_my_info s) i (nm_private_key s) (mesh_store (nm_mesh s)) (ne_process E) = Inr c
    \<and> map_of (nm_active_peers s') i = Some \<lparr>pe_client = c, pe_pc = PcNew, pe_remote = Some offer, pe_created_at = ne_now E\<rparr>
    \<and> nm_tasks s' = nm_tasks s @ [RouteSignal \<lparr>env_to_node_id = i, env_signal = Answer answer\<rparr> (nm_ws_tx s)]
    \<and> nm_mesh s' = nm_mesh s \<and> nm_my_info s' = nm_my_info s"
  using assms
  by (simp add: handle_net_cmd_def handle_inbound_signal_def inbound_offer_def fresh_offer_def may_answer_def stack_answers_def
      remove_peer_def report_def new_client_def client_new_def answer_offer_def accept_offer_and_answer_def set_remote_def
      set_entry_def route_task_def start_task_def Let_def)

lemma answer_completes_client:
  assumes "map_of (nm_active_peers s) i = Some p" "ne_set_remote E answer = Inr ()"
  shows "\<exists>s'. handle_net_cmd E (HandleInboundSignal \<lparr>inb_from_node_id = i, inb_signal = Answer answer\<rparr>) s = Some s'
    \<and> map_of (nm_active_peers s') i = Some (p\<lparr>pe_remote := Some answer\<rparr>)"
  using assms
  by (simp add: handle_net_cmd_def handle_inbound_signal_def inbound_answer_def apply_answer_def set_entry_def)


text \<open>The exchange of an offer and an answer over the tunnel.\<close>

lemma exchange:
  assumes ids: "ia = ni_id (nm_my_info a)" "ib = ni_id (nm_my_info b)"
    and tunnels: "map_of (ACTIVE_TCP_TUNNELS (nm_mesh a)) ib = Some sa" "map_of (ACTIVE_TCP_TUNNELS (nm_mesh b)) ia = Some sb"
    and ready: "may_dial EA ib a" "hears a" "may_answer EB ia b" "hears b"
    and stack: "stack_dials EA offer" "stack_answers EB offer answer" "ne_set_remote EA' answer = Inr ()"
  shows "\<exists>a1 a2 b1 a3 b2 ca cb.
      net_loop EA (Command (AutoConnect ib)) a = Some a1
    \<and> hand_over EB (last (nm_tasks a1)) a1 b = Some (a2, b1)
    \<and> hand_over EA' (last (nm_tasks b1)) b1 a2 = Some (b2, a3)
    \<and> client_new (Inr ()) (ne_conn_id EA) (ne_clock EA) (nm_my_info a) ib (nm_private_key a) (mesh_store (nm_mesh a)) (ne_process EA) = Inr ca
    \<and> client_new (Inr ()) (ne_conn_id EB) (ne_clock EB) (nm_my_info b) ia (nm_private_key b) (mesh_store (nm_mesh b)) (ne_process EB) = Inr cb
    \<and> map_of (nm_active_peers a3) ib = Some \<lparr>pe_client = on_state (\<lambda>st. st\<lparr>rtc_last_pong := ne_clock EA\<rparr>) (store_channel ca),
         pe_pc = PcNew, pe_remote = Some answer, pe_created_at = ne_now EA\<rparr>
    \<and> map_of (nm_active_peers b2) ia = Some \<lparr>pe_client = cb, pe_pc = PcNew, pe_remote = Some offer, pe_created_at = ne_now EB\<rparr>"
proof -
  from dial_makes_client [OF ready(1) tunnels(1) stack(1)] obtain a1 ca where a1:
    "net_loop EA (Command (AutoConnect ib)) a = Some a1"
    "client_new (Inr ()) (ne_conn_id EA) (ne_clock EA) (nm_my_info a) ib (nm_private_key a) (mesh_store (nm_mesh a)) (ne_process EA) = Inr ca"
    "map_of (nm_active_peers a1) ib = Some \<lparr>pe_client = on_state (\<lambda>st. st\<lparr>rtc_last_pong := ne_clock EA\<rparr>) (store_channel ca),
       pe_pc = PcNew, pe_remote = None, pe_created_at = ne_now EA\<rparr>"
    "last (nm_tasks a1) = RouteSignal \<lparr>env_to_node_id = ib, env_signal = Offer offer False\<rparr> (nm_ws_tx a)"
    and same: "nm_mesh a1 = nm_mesh a" "nm_my_info a1 = nm_my_info a" "nm_queue a1 = nm_queue a" "nm_capacity a1 = nm_capacity a"
      "nm_discovery_enabled a1 = nm_discovery_enabled a"
    by auto
  obtain m where h1: "hand_over EB (last (nm_tasks a1)) a1 b = map_option (Pair (a1\<lparr>nm_mesh := tunnel_send sa
        (tunnel_signal \<lparr>env_to_node_id = ib, env_signal = Offer offer False\<rparr>) (nm_mesh a1)\<rparr>))
      (handle_net_cmd EB (HandleInboundSignal \<lparr>inb_from_node_id = ia, inb_signal = Offer offer False\<rparr>)
        (b\<lparr>nm_mesh := (nm_mesh b)\<lparr>mesh_signals := mesh_signals (nm_mesh b) @ [m]\<rparr>\<rparr>))"
    using hand_over_signal [of a1 b sa EB "Offer offer False" "nm_ws_tx a"] tunnels(1) ready(4)
    by (auto simp: a1(4) same ids without_restart_def)
  define a2 where "a2 = a1\<lparr>nm_mesh := tunnel_send sa (tunnel_signal \<lparr>env_to_node_id = ib, env_signal = Offer offer False\<rparr>) (nm_mesh a1)\<rparr>"
  define bm where "bm = b\<lparr>nm_mesh := (nm_mesh b)\<lparr>mesh_signals := mesh_signals (nm_mesh b) @ [m]\<rparr>\<rparr>"
  have "may_answer EB ia bm" using ready(3) by (simp add: bm_def may_answer_def)
  from offer_makes_client [OF this stack(2)] obtain b1 cb where b1:
    "handle_net_cmd EB (HandleInboundSignal \<lparr>inb_from_node_id = ia, inb_signal = Offer offer False\<rparr>) bm = Some b1"
    "client_new (Inr ()) (ne_conn_id EB) (ne_clock EB) (nm_my_info b) ia (nm_private_key b) (mesh_store (nm_mesh b)) (ne_process EB) = Inr cb"
    "map_of (nm_active_peers b1) ia = Some \<lparr>pe_client = cb, pe_pc = PcNew, pe_remote = Some offer, pe_created_at = ne_now EB\<rparr>"
    "last (nm_tasks b1) = RouteSignal \<lparr>env_to_node_id = ia, env_signal = Answer answer\<rparr> (nm_ws_tx bm)"
    "nm_mesh b1 = nm_mesh bm" "nm_my_info b1 = nm_my_info b"
    by (auto simp: bm_def)
  have "hears a2" "ia = ni_id (nm_my_info a2)" using ready(2) by (simp_all add: a2_def hears_def same tunnel_send_def ids)
  moreover have "map_of (ACTIVE_TCP_TUNNELS (nm_mesh b1)) ia = Some sb" using tunnels(2) by (simp add: b1(5) bm_def)
  ultimately obtain m' where h2: "hand_over EA' (last (nm_tasks b1)) b1 a2 = map_option (Pair (b1\<lparr>nm_mesh := tunnel_send sb
        (tunnel_signal \<lparr>env_to_node_id = ia, env_signal = Answer answer\<rparr>) (nm_mesh b1)\<rparr>))
      (handle_net_cmd EA' (HandleInboundSignal \<lparr>inb_from_node_id = ib, inb_signal = Answer answer\<rparr>)
        (a2\<lparr>nm_mesh := (nm_mesh a2)\<lparr>mesh_signals := mesh_signals (nm_mesh a2) @ [m']\<rparr>\<rparr>))"
    using hand_over_signal [of b1 a2 sb EA' "Answer answer" "nm_ws_tx bm"]
    by (auto simp: b1(4,6) ids without_restart_def)
  define am where "am = a2\<lparr>nm_mesh := (nm_mesh a2)\<lparr>mesh_signals := mesh_signals (nm_mesh a2) @ [m']\<rparr>\<rparr>"
  have "map_of (nm_active_peers am) ib = map_of (nm_active_peers a1) ib" by (simp add: am_def a2_def)
  from answer_completes_client [OF this [unfolded a1(3)] stack(3)] obtain a3 where a3:
    "handle_net_cmd EA' (HandleInboundSignal \<lparr>inb_from_node_id = ib, inb_signal = Answer answer\<rparr>) am = Some a3"
    "map_of (nm_active_peers a3) ib = Some \<lparr>pe_client = on_state (\<lambda>st. st\<lparr>rtc_last_pong := ne_clock EA\<rparr>) (store_channel ca),
       pe_pc = PcNew, pe_remote = Some answer, pe_created_at = ne_now EA\<rparr>"
    by auto
  show ?thesis
    using a1(1,2) b1(1,2,3) a3 h1 h2
    unfolding bm_def [symmetric] am_def [symmetric] a2_def [symmetric]
    by (intro exI [of _ a1] exI [of _ a2] exI [of _ b1] exI [of _ a3] exI [of _ "b1\<lparr>nm_mesh := tunnel_send sb
        (tunnel_signal \<lparr>env_to_node_id = ia, env_signal = Answer answer\<rparr>) (nm_mesh b1)\<rparr>"] exI [of _ ca] exI [of _ cb]) simp
qed

section \<open>The channel between the clients\<close>

text \<open>The channel opens with room for a number of frames, and the client writes its handshake.\<close>

definition opened :: "rtc_prims \<Rightarrow> u64 \<Rightarrow> u16 \<Rightarrow> nat \<Rightarrow> webrtc_client \<Rightarrow> webrtc_client" where
  "opened P ts port room c =
     channel_opened P ts port (on_state (\<lambda>st. st\<lparr>rtc_dc_open := True, rtc_dc_room := room\<rparr>) c)"

definition greeting :: "rtc_prims \<Rightarrow> network_manager \<Rightarrow> string \<Rightarrow> u64 \<Rightarrow> u16 \<Rightarrow> secured_p2p_envelope" where
  "greeting P s i ts port =
     \<lparr>sec_mac = None, sec_message = my_handshake (np_crypto (rp_node P)) (nm_private_key s) (nm_my_info s) i ts port\<rparr>"

text \<open>An envelope that BSON encodes and decodes, in frames there is room for.\<close>

definition carries :: "rtc_prims \<Rightarrow> nat \<Rightarrow> secured_p2p_envelope \<Rightarrow> bool" where
  "carries P room env \<longleftrightarrow>
     (\<exists>bson. rp_to_bson P env = Inr bson \<and> bson \<noteq> [] \<and> rp_from_bson P bson = Inr env
        \<and> length (frame_chunks bson 10240) \<le> room)"

text \<open>A client made for the node, on a channel over which nothing has been said.\<close>

definition fresh_client :: "network_manager \<Rightarrow> string \<Rightarrow> webrtc_client \<Rightarrow> bool" where
  "fresh_client s i c \<longleftrightarrow>
     wc_private_key c = nm_private_key s \<and> my_info (rtc_ctx (wc_state c)) = nm_my_info s \<and> rtc_target (wc_state c) = i
     \<and> rtc_dc_sent (wc_state c) = [] \<and> wc_pending c = [] \<and> wc_assembler c = assembler_new
     \<and> peer_max_chunk_size (rtc_ctx (wc_state c)) = 10240"

lemma client_new_fresh:
  assumes "client_new pc conn now (nm_my_info s) i (nm_private_key s) store g = Inr c"
  shows "fresh_client s i (store_channel c)" "fresh_client s i (on_state (\<lambda>st. st\<lparr>rtc_last_pong := t\<rparr>) (store_channel c))"
  using assms by (auto simp: client_new_def fresh_client_def store_channel_def on_state_def context_new_def)

lemma opened_keeps:
  assumes "fresh_client s i c"
  shows "rtc_target (wc_state (opened P ts port room c)) = i" "my_info (rtc_ctx (wc_state (opened P ts port room c))) = nm_my_info s"
    "peer_max_chunk_size (rtc_ctx (wc_state (opened P ts port room c))) = 10240" "wc_assembler (opened P ts port room c) = assembler_new"
proof -
  have "rtc_target (send_plain P msg st) = rtc_target st" for msg st
    by (simp add: send_plain_def send_chunked_binary_def split: sum.split)
  with assms show "rtc_target (wc_state (opened P ts port room c)) = i" "my_info (rtc_ctx (wc_state (opened P ts port room c))) = nm_my_info s"
    "peer_max_chunk_size (rtc_ctx (wc_state (opened P ts port room c))) = 10240" "wc_assembler (opened P ts port room c) = assembler_new"
    by (simp_all add: fresh_client_def opened_def channel_opened_def on_state_def emit_def Let_def)
qed

lemma greeting_accepted:
  assumes "b64_law (np_crypto (rp_node P))" "ed25519_law (np_crypto (rp_node P))" "length seed = 32"
    and "generate_ed25519_keypair (np_crypto (rp_node P)) seed = (nm_private_key s, pub)"
    and "fresh_client s (ni_id (nm_my_info r)) c" "fresh_client r (ni_id (nm_my_info s)) d"
    and "carries P room (greeting P s (ni_id (nm_my_info r)) ts port)"
    and "\<not> too_old (re_now E) ts" "poll_known_key E (ni_id (nm_my_info s)) = Some pub"
  shows "\<exists>d'. channel_messages P E (rtc_dc_sent (wc_state (opened P ts port room c))) (opened P ts' port' room' d) = Some d'
    \<and> is_authenticated (rtc_ctx (wc_state d')) \<and> OnP2pConnected (ni_id (nm_my_info s)) \<in> set (rtc_events (wc_state d'))"
proof -
  obtain bson where bson: "rp_to_bson P (greeting P s (ni_id (nm_my_info r)) ts port) = Inr bson" "bson \<noteq> []"
    "rp_from_bson P bson = Inr (greeting P s (ni_id (nm_my_info r)) ts port)" "length (frame_chunks bson 10240) \<le> room"
    using assms(7) by (auto simp: carries_def)
  define c1 where "c1 = on_state (\<lambda>st. st\<lparr>rtc_dc_open := True, rtc_dc_room := room\<rparr>) c"
  have c: "wc_private_key c1 = nm_private_key s" "rtc_dc_open (wc_state c1)" "rtc_dc_sent (wc_state c1) = []" "wc_pending c1 = []"
    "my_info (rtc_ctx (wc_state c1)) = nm_my_info s" "rtc_target (wc_state c1) = ni_id (nm_my_info r)" "rtc_dc_room (wc_state c1) = room"
    using assms(5) by (simp_all add: c1_def fresh_client_def on_state_def)
  note d = opened_keeps [OF assms(6), of P ts' port' room']
  show ?thesis
    unfolding opened_def [of P ts port room c] c1_def [symmetric]
    using opened_channel_accepted [of "np_crypto (rp_node P)" P seed c1 pub "greeting P s (ni_id (nm_my_info r)) ts port" ts port bson
        "opened P ts' port' room' d" E] assms(1-4,8,9) bson
    by (simp add: c d greeting_def)
qed

section \<open>Properties\<close>

text \<open>C6: two nodes connect. When one node decides to dial the other over the tunnel between them,
  the offer reaches the other node, its answer comes back, and both tables then hold a client for
  the other side whose remote description is what the other side made. When the channel between
  these two clients opens, each is authenticated by the first message of the other. This is so for
  nodes that are free to dial and to answer, know each other's public key, and whose WebRTC stacks
  do what they are asked.\<close>

theorem nodes_connect:
  assumes "ia = ni_id (nm_my_info a)" "ib = ni_id (nm_my_info b)"
    and "map_of (ACTIVE_TCP_TUNNELS (nm_mesh a)) ib = Some sa" "map_of (ACTIVE_TCP_TUNNELS (nm_mesh b)) ia = Some sb"
    and "may_dial EA ib a" "hears a" "may_answer EB ia b" "hears b"
    and "stack_dials EA offer" "stack_answers EB offer answer" "ne_set_remote EA' answer = Inr ()"
    and "b64_law (np_crypto (rp_node P))" "ed25519_law (np_crypto (rp_node P))" "length seed = 32" "length seed' = 32"
    and "generate_ed25519_keypair (np_crypto (rp_node P)) seed = (nm_private_key a, pub)"
    and "generate_ed25519_keypair (np_crypto (rp_node P)) seed' = (nm_private_key b, pub')"
    and "carries P room (greeting P a ib ts port)" "carries P room' (greeting P b ia ts' port')"
    and "\<not> too_old (re_now RB) ts" "poll_known_key RB ia = Some pub"
    and "\<not> too_old (re_now RA) ts'" "poll_known_key RA ib = Some pub'"
  shows "\<exists>a1 a2 b1 a3 b2 pa pb ca cb.
      net_loop EA (Command (AutoConnect ib)) a = Some a1
    \<and> hand_over EB (last (nm_tasks a1)) a1 b = Some (a2, b1)
    \<and> hand_over EA' (last (nm_tasks b1)) b1 a2 = Some (b2, a3)
    \<and> map_of (nm_active_peers a3) ib = Some pa \<and> pe_remote pa = Some answer \<and> conn_of pa = ne_conn_id EA
    \<and> map_of (nm_active_peers b2) ia = Some pb \<and> pe_remote pb = Some offer \<and> conn_of pb = ne_conn_id EB
    \<and> channel_messages P RB (rtc_dc_sent (wc_state (opened P ts port room (pe_client pa))))
        (opened P ts' port' room' (store_channel (pe_client pb))) = Some cb
    \<and> is_authenticated (rtc_ctx (wc_state cb)) \<and> OnP2pConnected ia \<in> set (rtc_events (wc_state cb))
    \<and> channel_messages P RA (rtc_dc_sent (wc_state (opened P ts' port' room' (store_channel (pe_client pb)))))
        (opened P ts port room (pe_client pa)) = Some ca
    \<and> is_authenticated (rtc_ctx (wc_state ca)) \<and> OnP2pConnected ib \<in> set (rtc_events (wc_state ca))"
proof -
  from exchange [OF assms(1-11)] obtain a1 a2 b1 a3 b2 ca cb where run:
    "net_loop EA (Command (AutoConnect ib)) a = Some a1" "hand_over EB (last (nm_tasks a1)) a1 b = Some (a2, b1)"
    "hand_over EA' (last (nm_tasks b1)) b1 a2 = Some (b2, a3)"
    and new: "client_new (Inr ()) (ne_conn_id EA) (ne_clock EA) (nm_my_info a) ib (nm_private_key a) (mesh_store (nm_mesh a)) (ne_process EA) = Inr ca"
      "client_new (Inr ()) (ne_conn_id EB) (ne_clock EB) (nm_my_info b) ia (nm_private_key b) (mesh_store (nm_mesh b)) (ne_process EB) = Inr cb"
    and peers: "map_of (nm_active_peers a3) ib = Some \<lparr>pe_client = on_state (\<lambda>st. st\<lparr>rtc_last_pong := ne_clock EA\<rparr>) (store_channel ca),
         pe_pc = PcNew, pe_remote = Some answer, pe_created_at = ne_now EA\<rparr>"
      "map_of (nm_active_peers b2) ia = Some \<lparr>pe_client = cb, pe_pc = PcNew, pe_remote = Some offer, pe_created_at = ne_now EB\<rparr>"
    by blast
  let ?a = "on_state (\<lambda>st. st\<lparr>rtc_last_pong := ne_clock EA\<rparr>) (store_channel ca)" and ?b = "store_channel cb"
  have fresh: "fresh_client a ib ?a" "fresh_client b ia ?b" using client_new_fresh [OF new(1)] client_new_fresh [OF new(2)] by simp_all
  have conn: "rtc_connection_id (wc_state ?a) = ne_conn_id EA" "rtc_connection_id (wc_state cb) = ne_conn_id EB"
    using new by (auto simp: client_new_def on_state_def store_channel_def)
  obtain cb' where b': "channel_messages P RB (rtc_dc_sent (wc_state (opened P ts port room ?a))) (opened P ts' port' room' ?b) = Some cb'"
    "is_authenticated (rtc_ctx (wc_state cb'))" "OnP2pConnected ia \<in> set (rtc_events (wc_state cb'))"
    using greeting_accepted [OF assms(12-14,16) fresh [unfolded assms(1,2)], of room ts port RB ts' port' room'] assms(1,2,18,20,21) by auto
  obtain ca' where a': "channel_messages P RA (rtc_dc_sent (wc_state (opened P ts' port' room' ?b))) (opened P ts port room ?a) = Some ca'"
    "is_authenticated (rtc_ctx (wc_state ca'))" "OnP2pConnected ib \<in> set (rtc_events (wc_state ca'))"
    using greeting_accepted [OF assms(12,13,15,17) fresh(2,1) [unfolded assms(1,2)], of room' ts' port' RA ts port room] assms(1,2,19,22,23) by auto
  show ?thesis
    by (rule exI [of _ a1], rule exI [of _ a2], rule exI [of _ b1], rule exI [of _ a3], rule exI [of _ b2])
      (use run peers conn a' b' in \<open>simp add: conn_of_def\<close>)
qed

text \<open>Two concrete nodes.\<close>

definition pair_greeting :: "string \<Rightarrow> string \<Rightarrow> secured_p2p_envelope" where
  "pair_greeting i j = \<lparr>sec_mac = None, sec_message = my_handshake demo_crypto demo_pair_key (demo_node i []) j 100000 0\<rparr>"

definition pair_wire :: rtc_prims where
  "pair_wire = \<lparr>rp_node = demo_prims,
     rp_to_bson = (\<lambda>env. Inr (if env = pair_greeting ''me'' ''peer'' then [1] else [2])),
     rp_from_bson = (\<lambda>b. Inr (if b = [1] then pair_greeting ''me'' ''peer'' else pair_greeting ''peer'' ''me''))\<rparr>"

definition pair_node :: "string \<Rightarrow> string \<Rightarrow> network_manager" where
  "pair_node i j = (manager_new (demo_node i []) demo_pair_key 2
     (demo_mesh\<lparr>ACTIVE_TCP_TUNNELS := [(j, \<lparr>ts_connection_id = 4\<rparr>)], SIGNAL_TX := True\<rparr>))\<lparr>nm_discovery_enabled := True\<rparr>"

definition pair_env :: "string \<Rightarrow> rtc_env" where
  "pair_env i = demo_env\<lparr>re_key_polls := (\<lambda>_. insert_known_public_key i demo_pair_key known_registry_new)\<rparr>"

lemma pair_node_ready:
  "hears (pair_node i j)" "may_answer demo_net_env j (pair_node i j)" "may_dial demo_net_env j (pair_node i j)"
  "stack_dials demo_net_env ''offer''" "stack_answers demo_net_env ''offer'' ''answer''"
  by (simp_all add: hears_def may_answer_def may_dial_def pair_node_def manager_new_def demo_net_env_def peer_slot_available_def
      slots_taken_def set_max_peers_def max_peers_def the_backoff_def backoff_new_def cooling_down_def stack_dials_def stack_answers_def)

lemma pair_wire_carries:
  "carries pair_wire 1 (pair_greeting ''me'' ''peer'')" "carries pair_wire 1 (pair_greeting ''peer'' ''me'')"
proof -
  have "length (frame_chunks [x] 10240) = 1" for x :: u8 by (simp add: frame_chunks_def frame_loop.simps Let_def)
  moreover have "pair_greeting ''me'' ''peer'' \<noteq> pair_greeting ''peer'' ''me''"
    by (simp add: pair_greeting_def my_handshake_def demo_node_def)
  ultimately show "carries pair_wire 1 (pair_greeting ''me'' ''peer'')" "carries pair_wire 1 (pair_greeting ''peer'' ''me'')"
    by (simp_all add: carries_def pair_wire_def)
qed

theorem nodes_connect_witness:
  "\<exists>a1 a2 b1 a3 b2 pa pb. net_loop demo_net_env (Command (AutoConnect ''peer'')) (pair_node ''me'' ''peer'') = Some a1
    \<and> hand_over demo_net_env (last (nm_tasks a1)) a1 (pair_node ''peer'' ''me'') = Some (a2, b1)
    \<and> hand_over demo_net_env (last (nm_tasks b1)) b1 a2 = Some (b2, a3)
    \<and> map_of (nm_active_peers a3) ''peer'' = Some pa \<and> pe_remote pa = Some ''answer''
    \<and> map_of (nm_active_peers b2) ''me'' = Some pb \<and> pe_remote pb = Some ''offer''"
proof -
  let ?a = "pair_node ''me'' ''peer''" and ?b = "pair_node ''peer'' ''me''"
  have n: "ni_id (nm_my_info (pair_node i j)) = i" "nm_private_key (pair_node i j) = demo_pair_key"
    "map_of (ACTIVE_TCP_TUNNELS (nm_mesh (pair_node i j))) j = Some \<lparr>ts_connection_id = 4\<rparr>" for i j
    by (simp_all add: pair_node_def manager_new_def demo_node_def)
  have w: "np_crypto (rp_node pair_wire) = demo_crypto" by (simp add: pair_wire_def demo_prims_def)
  have g: "greeting pair_wire (pair_node i j) j 100000 0 = pair_greeting i j" for i j
    by (simp add: greeting_def pair_greeting_def w n(2)) (simp add: pair_node_def manager_new_def)
  have k: "poll_known_key (pair_env i) i = Some demo_pair_key" "\<not> too_old (re_now (pair_env i)) 100000" for i
    by (simp_all add: poll_known_key_def pair_env_def demo_env_def too_old_def insert_known_public_key_def get_known_public_key_def upt_rec)
  have r: "ne_set_remote demo_net_env ''answer'' = Inr ()" by (simp add: demo_net_env_def)
  note connect = nodes_connect [OF n(1) [symmetric] n(1) [symmetric] n(3) n(3) pair_node_ready(3,1,2,1,4,5) r,
      where P = pair_wire and seed = "replicate 32 7" and seed' = "replicate 32 7" and pub = demo_pair_key and pub' = demo_pair_key
        and room = 1 and room' = 1 and ts = 100000 and ts' = 100000 and port = 0 and port' = 0
        and RB = "pair_env ''me''" and RA = "pair_env ''peer''", unfolded w n(2) g]
  show ?thesis
    using connect [OF demo_crypto_laws(1,3) length_replicate length_replicate demo_keypair demo_keypair pair_wire_carries k(2,1,2,1)]
    by blast
qed



end
