(* ===== verification/Video_Utils.thy ===== *)
theory Video_Utils
  imports P2P_Prelude
begin

text \<open>
  \<open>client-core/src/rtc/video_utils.rs\<close>: the conversion of a captured frame (four bytes per pixel:
  blue, green, red, alpha) into the three planes of YUV 4:2:0 and back. The arithmetic on \<open>i32\<close> is
  on \<open>int\<close>, with a lemma that no intermediate value leaves the range of \<open>i32\<close>; \<open>>> 8\<close> is a division
  that rounds down. The loops write into their buffers with \<open>xs[i := v]\<close>; that the unguarded writes
  are in range, where the source would panic, is proved. With the feature \<open>simd-yuv\<close> the
  conversion proper is done by the crate \<open>yuv\<close>, which is an argument here.
\<close>

section \<open>Pixels\<close>

definition clamp_u8 :: "int \<Rightarrow> u8" where
  "clamp_u8 x = word_of_int (clamp_int 0 255 x)"

definition luma :: "int \<Rightarrow> int \<Rightarrow> int \<Rightarrow> u8" where
  "luma b g r = clamp_u8 ((r * 77 + g * 150 + b * 29) div 256)"

definition chroma_u :: "int \<Rightarrow> int \<Rightarrow> int \<Rightarrow> u8" where
  "chroma_u b g r = clamp_u8 ((- r * 43 - g * 85 + b * 128) div 256 + 128)"

definition chroma_v :: "int \<Rightarrow> int \<Rightarrow> int \<Rightarrow> u8" where
  "chroma_v b g r = clamp_u8 ((r * 128 - g * 107 - b * 21) div 256 + 128)"

definition to_bgra :: "u8 \<Rightarrow> u8 \<Rightarrow> u8 \<Rightarrow> u8 list" where
  "to_bgra y u v =
     (let c = uint y - 16; d = uint u - 128; e = uint v - 128
      in [clamp_u8 ((298 * c + 516 * d + 128) div 256),
          clamp_u8 ((298 * c - 100 * d - 208 * e + 128) div 256),
          clamp_u8 ((298 * c + 409 * e + 128) div 256), 255])"

section \<open>Encoding\<close>

record yuv_planes =
  y_plane :: "u8 list"
  u_plane :: "u8 list"
  v_plane :: "u8 list"

text \<open>The source pixel that is nearest to a pixel of the result.\<close>

definition src_index :: "nat \<Rightarrow> nat \<Rightarrow> nat \<Rightarrow> nat \<Rightarrow> nat \<Rightarrow> nat \<Rightarrow> nat" where
  "src_index src_w src_h dst_w dst_h dy dx = ((dy * src_h) div dst_h * src_w + (dx * src_w) div dst_w) * 4"

definition uv_index :: "nat \<Rightarrow> nat \<Rightarrow> nat \<Rightarrow> nat" where
  "uv_index dst_w dy dx = (dy div 2) * (dst_w div 2) + dx div 2"

definition encode_pixel ::
  "u8 list \<Rightarrow> nat \<Rightarrow> nat \<Rightarrow> nat \<Rightarrow> nat \<Rightarrow> nat \<Rightarrow> nat \<Rightarrow> yuv_planes \<Rightarrow> yuv_planes" where
  "encode_pixel bgra src_w src_h dst_w dst_h dy dx p =
     (let src_idx = src_index src_w src_h dst_w dst_h dy dx
      in if src_idx + 3 < length bgra
         then let b = uint (bgra ! src_idx); g = uint (bgra ! (src_idx + 1)); r = uint (bgra ! (src_idx + 2));
                  p = p\<lparr>y_plane := (y_plane p)[dy * dst_w + dx := luma b g r]\<rparr>
              in if dy mod 2 = 0 \<and> dx mod 2 = 0
                 then let uv_idx = uv_index dst_w dy dx
                      in if uv_idx < length (u_plane p) \<and> uv_idx < length (v_plane p)
                         then p\<lparr>u_plane := (u_plane p)[uv_idx := chroma_u b g r],
                                v_plane := (v_plane p)[uv_idx := chroma_v b g r]\<rparr>
                         else p
                 else p
         else p)"

definition bgra_to_yuv420p :: "u8 list \<Rightarrow> nat \<Rightarrow> nat \<Rightarrow> nat \<Rightarrow> nat \<Rightarrow> u8 list" where
  "bgra_to_yuv420p bgra src_w src_h dst_w dst_h =
     (let y_size = dst_w * dst_h; uv_size = (dst_w div 2) * (dst_h div 2);
          p = fold (\<lambda>dy. fold (\<lambda>dx. encode_pixel bgra src_w src_h dst_w dst_h dy dx) [0..<dst_w]) [0..<dst_h]
                \<lparr>y_plane = replicate y_size 0, u_plane = replicate uv_size 0, v_plane = replicate uv_size 0\<rparr>
      in y_plane p @ u_plane p @ v_plane p)"

section \<open>Decoding\<close>

definition decode_pixel ::
  "u8 list \<Rightarrow> u8 list \<Rightarrow> u8 list \<Rightarrow> nat \<Rightarrow> nat \<Rightarrow> nat \<Rightarrow> nat \<Rightarrow> nat \<Rightarrow> nat \<Rightarrow> u8 list \<Rightarrow> u8 list" where
  "decode_pixel y u v width y_stride u_stride v_stride h w out =
     (let y_idx = h * y_stride + w; u_idx = (h div 2) * u_stride + w div 2; v_idx = (h div 2) * v_stride + w div 2
      in if y_idx \<ge> length y \<or> u_idx \<ge> length u \<or> v_idx \<ge> length v then out
         else let bgra = to_bgra (y ! y_idx) (u ! u_idx) (v ! v_idx); off = (h * width + w) * 4
              in if off + 3 < length out
                 then out[off := bgra ! 0, off + 1 := bgra ! 1, off + 2 := bgra ! 2, off + 3 := bgra ! 3]
                 else out)"

definition yuv420p_to_bgra ::
  "u8 list \<Rightarrow> u8 list \<Rightarrow> u8 list \<Rightarrow> nat \<Rightarrow> nat \<Rightarrow> nat \<Rightarrow> nat \<Rightarrow> nat \<Rightarrow> u8 list \<Rightarrow> u8 list" where
  "yuv420p_to_bgra y u v width height y_stride u_stride v_stride out =
     fold (\<lambda>h. fold (\<lambda>w. decode_pixel y u v width y_stride u_stride v_stride h w) [0..<width]) [0..<height] out"

section \<open>With the feature \<open>simd-yuv\<close>\<close>

definition scale_pixel ::
  "u8 list \<Rightarrow> nat \<Rightarrow> nat \<Rightarrow> nat \<Rightarrow> nat \<Rightarrow> nat \<Rightarrow> nat \<Rightarrow> u8 list \<Rightarrow> u8 list" where
  "scale_pixel bgra src_w src_h dst_w dst_h dy dx buf =
     (let src_idx = src_index src_w src_h dst_w dst_h dy dx; dst_idx = (dy * dst_w + dx) * 4
      in if src_idx + 3 < length bgra \<and> dst_idx + 3 < length buf
         then buf[dst_idx := bgra ! src_idx, dst_idx + 1 := bgra ! (src_idx + 1),
                  dst_idx + 2 := bgra ! (src_idx + 2), dst_idx + 3 := bgra ! (src_idx + 3)]
         else buf)"

definition scale_bgra :: "u8 list \<Rightarrow> nat \<Rightarrow> nat \<Rightarrow> nat \<Rightarrow> nat \<Rightarrow> u8 list" where
  "scale_bgra bgra src_w src_h dst_w dst_h =
     (if src_w = dst_w \<and> src_h = dst_h then bgra
      else fold (\<lambda>dy. fold (\<lambda>dx. scale_pixel bgra src_w src_h dst_w dst_h dy dx) [0..<dst_w]) [0..<dst_h]
             (replicate (dst_w * dst_h * 4) 0))"

text \<open>\<open>copy_from_slice\<close> panics unless both slices have the same length; so does slicing out of range.\<close>

definition copy_plane :: "u8 list \<Rightarrow> nat \<Rightarrow> nat \<Rightarrow> u8 list \<Rightarrow> u8 list option" where
  "copy_plane plane from to out =
     (if from \<le> to \<and> to \<le> length out \<and> length plane = to - from
      then Some (take from out @ plane @ drop to out) else None)"

definition bgra_to_yuv420p_simd ::
  "(u8 list \<Rightarrow> nat \<Rightarrow> nat \<Rightarrow> yuv_planes) \<Rightarrow> u8 list \<Rightarrow> nat \<Rightarrow> nat \<Rightarrow> nat \<Rightarrow> nat \<Rightarrow> u8 list option" where
  "bgra_to_yuv420p_simd convert bgra src_w src_h dst_w dst_h =
     (let w = dst_w; h = dst_h; planar = convert (scale_bgra bgra src_w src_h dst_w dst_h) w h;
          out = replicate (w * h + (w div 2 * h div 2) * 2) 0;
          y_size = w * h; uv_size = (w div 2) * (h div 2)
      in Option.bind (copy_plane (y_plane planar) 0 y_size out) (\<lambda>out.
         Option.bind (copy_plane (u_plane planar) y_size (y_size + uv_size) out) (\<lambda>out.
         copy_plane (v_plane planar) (y_size + uv_size) (length out) out)))"

text \<open>The crate's decoder returns a result and leaves a buffer; a failure is only logged.\<close>

record yuv_planar_image =
  pi_y_plane :: "u8 list"
  pi_y_stride :: u32
  pi_u_plane :: "u8 list"
  pi_u_stride :: u32
  pi_v_plane :: "u8 list"
  pi_v_stride :: u32
  pi_width :: u32
  pi_height :: u32

definition yuv420p_to_bgra_simd ::
  "(yuv_planar_image \<Rightarrow> u8 list \<Rightarrow> u32 \<Rightarrow> unit result \<times> u8 list) \<Rightarrow> u8 list \<Rightarrow> u8 list \<Rightarrow> u8 list \<Rightarrow> nat \<Rightarrow> nat
     \<Rightarrow> nat \<Rightarrow> nat \<Rightarrow> nat \<Rightarrow> u8 list \<Rightarrow> u8 list" where
  "yuv420p_to_bgra_simd yuv420_to_bgra y u v width height y_stride u_stride v_stride out =
     snd (yuv420_to_bgra
       \<lparr>pi_y_plane = y, pi_y_stride = word_of_nat y_stride, pi_u_plane = u, pi_u_stride = word_of_nat u_stride,
        pi_v_plane = v, pi_v_stride = word_of_nat v_stride, pi_width = word_of_nat width, pi_height = word_of_nat height\<rparr>
       out (word_of_nat (width * 4)))"

section \<open>Loops over the pixels of an image\<close>

lemma fold_rows: "fold (\<lambda>y. fold (\<lambda>x. f y x) xs) ys s = fold (\<lambda>(y, x). f y x) (List.product ys xs) s"
  by (induction ys arbitrary: s) (simp_all add: fold_map o_def)

text \<open>What follows a pixel in the order of the loops is to its right or below.\<close>

lemma pixels_split:
  assumes "y < h" "x < w"
  obtains as bs where "List.product [0..<h] [0..<w] = as @ (y, x) # bs"
    "\<forall>(y', x') \<in> set bs. y < y' \<or> y = y' \<and> x < x'"
proof -
  have ys: "[0..<h] = [0..<y] @ y # [Suc y..<h]" and xs: "[0..<w] = [0..<x] @ x # [Suc x..<w]"
    using assms upt_add_eq_append [of 0 y "h - y"] upt_add_eq_append [of 0 x "w - x"] by (simp_all add: upt_conv_Cons)
  have app: "List.product (as @ bs) cs = List.product as cs @ List.product bs cs" for as bs :: "nat list" and cs :: "nat list"
    by (induction as) simp_all
  have "List.product [0..<h] [0..<w] = (List.product [0..<y] [0..<w] @ map (Pair y) [0..<x]) @ (y, x) #
      (map (Pair y) [Suc x..<w] @ List.product [Suc y..<h] [0..<w])"
    unfolding ys app by (simp add: xs)
  moreover have "\<forall>(y', x') \<in> set (map (Pair y) [Suc x..<w] @ List.product [Suc y..<h] [0..<w]). y < y' \<or> y = y' \<and> x < x'"
    by auto
  ultimately show thesis by (rule that)
qed

text \<open>A loop over the pixels whose body writes some positions of a buffer: the last write to a
  position is the one that stays.\<close>

locale pixel_loop =
  fixes step :: "nat \<times> nat \<Rightarrow> 'a list \<Rightarrow> 'a list"
    and writes :: "nat \<times> nat \<Rightarrow> nat \<Rightarrow> bool"
    and val :: "nat \<times> nat \<Rightarrow> nat \<Rightarrow> 'a"
    and n :: nat
  assumes length_step: "length xs = n \<Longrightarrow> length (step q xs) = n"
    and nth_step: "length xs = n \<Longrightarrow> i < n \<Longrightarrow> step q xs ! i = (if writes q i then val q i else xs ! i)"
begin

lemma length_loop: "length xs = n \<Longrightarrow> length (fold step ps xs) = n"
  by (induction ps arbitrary: xs) (simp_all add: length_step)

lemma loop_skips: "length xs = n \<Longrightarrow> i < n \<Longrightarrow> \<forall>q \<in> set ps. \<not> writes q i \<Longrightarrow> fold step ps xs ! i = xs ! i"
  by (induction ps arbitrary: xs) (simp_all add: length_step nth_step)

lemma loop_nth:
  assumes "length xs = n" "i < n" "y < h" "x < w" "writes (y, x) i"
    and "\<And>y' x'. y' < h \<Longrightarrow> x' < w \<Longrightarrow> writes (y', x') i \<Longrightarrow> y' < y \<or> y' = y \<and> x' \<le> x"
  shows "fold step (List.product [0..<h] [0..<w]) xs ! i = val (y, x) i"
proof -
  obtain as bs where s: "List.product [0..<h] [0..<w] = as @ (y, x) # bs" "\<forall>(y', x') \<in> set bs. y < y' \<or> y = y' \<and> x < x'"
    using pixels_split [OF assms(3,4)] .
  have "\<not> writes q i" if q: "q \<in> set bs" for q
  proof -
    have "q \<in> set (List.product [0..<h] [0..<w])" using q by (simp only: s set_append) simp
    with assms(6) [of "fst q" "snd q"] q s(2) show ?thesis by (auto simp: prod.case_eq_if)
  qed
  with assms(1,2,5) show ?thesis
    unfolding s(1) by (simp add: loop_skips nth_step length_step length_loop)
qed

end

lemma mult_less_of_div: "(a :: nat) < b div k \<Longrightarrow> k * a < b"
proof -
  assume a: "a < b div k"
  then have "0 < k" by (cases k) simp_all
  with a have "k * a < k * (b div k)" by simp
  also have "\<dots> \<le> b" by simp
  finally show ?thesis .
qed

lemma row_major_less: "(y :: nat) < h \<Longrightarrow> x < w \<Longrightarrow> y * w + x < w * h"
proof -
  assume "y < h" "x < w"
  then have "y * w + x < Suc y * w" by simp
  also have "\<dots> \<le> h * w" using \<open>y < h\<close> by (intro mult_le_mono1) simp
  finally show ?thesis by (simp add: mult.commute)
qed

section \<open>Facts on the encoder\<close>

definition at_pixel :: "(int \<Rightarrow> int \<Rightarrow> int \<Rightarrow> 'a) \<Rightarrow> u8 list \<Rightarrow> nat \<Rightarrow> 'a" where
  "at_pixel f bgra i = f (uint (bgra ! i)) (uint (bgra ! (i + 1))) (uint (bgra ! (i + 2)))"

text \<open>The parts of \<open>encode_pixel\<close> that write the plane of the luma and the two planes of the chroma.\<close>

definition luma_step :: "u8 list \<Rightarrow> nat \<Rightarrow> (nat \<times> nat \<Rightarrow> nat) \<Rightarrow> nat \<times> nat \<Rightarrow> u8 list \<Rightarrow> u8 list" where
  "luma_step bgra w src q xs =
     (if src q + 3 < length bgra then xs[fst q * w + snd q := at_pixel luma bgra (src q)] else xs)"

definition chroma_writes :: "u8 list \<Rightarrow> nat \<Rightarrow> (nat \<times> nat \<Rightarrow> nat) \<Rightarrow> nat \<times> nat \<Rightarrow> nat \<Rightarrow> bool" where
  "chroma_writes bgra w src q j \<longleftrightarrow> (fst q mod 2 = 0 \<and> snd q mod 2 = 0) \<and> src q + 3 < length bgra
     \<and> j = uv_index w (fst q) (snd q)"

definition chroma_step ::
  "(int \<Rightarrow> int \<Rightarrow> int \<Rightarrow> u8) \<Rightarrow> u8 list \<Rightarrow> nat \<Rightarrow> (nat \<times> nat \<Rightarrow> nat) \<Rightarrow> nat \<times> nat \<Rightarrow> u8 list \<Rightarrow> u8 list" where
  "chroma_step f bgra w src q xs =
     (let j = uv_index w (fst q) (snd q)
      in if chroma_writes bgra w src q j then xs[j := at_pixel f bgra (src q)] else xs)"

interpretation luma_loop: pixel_loop "luma_step bgra w src" "\<lambda>q i. src q + 3 < length bgra \<and> i = fst q * w + snd q"
  "\<lambda>q i. at_pixel luma bgra (src q)" n for bgra w src n
  by unfold_locales (simp_all add: luma_step_def nth_list_update)

interpretation chroma_loop: pixel_loop "chroma_step f bgra w src" "chroma_writes bgra w src"
  "\<lambda>q i. at_pixel f bgra (src q)" n for f bgra w src n
  by unfold_locales (auto simp: chroma_step_def chroma_writes_def nth_list_update Let_def)

lemma encode_loops:
  fixes bgra sw sh dw dh
  defines "src \<equiv> \<lambda>(dy, dx). src_index sw sh dw dh dy dx"
  assumes "length (u_plane p) = length (v_plane p)"
  shows "fold (\<lambda>(dy, dx). encode_pixel bgra sw sh dw dh dy dx) ps p =
    \<lparr>y_plane = fold (luma_step bgra dw src) ps (y_plane p), u_plane = fold (chroma_step chroma_u bgra dw src) ps (u_plane p),
     v_plane = fold (chroma_step chroma_v bgra dw src) ps (v_plane p)\<rparr>"
  using assms(2)
proof (induction ps arbitrary: p)
  case (Cons q ps)
  obtain dy dx where q: "q = (dy, dx)" by (cases q)
  let ?p = "encode_pixel bgra sw sh dw dh dy dx p" and ?j = "uv_index dw dy dx"
  have "y_plane ?p = luma_step bgra dw src q (y_plane p)"
    by (simp add: encode_pixel_def luma_step_def at_pixel_def src_def q Let_def)
  moreover define i ev where "i = src_index sw sh dw dh dy dx" and "ev \<longleftrightarrow> dy mod 2 = 0 \<and> dx mod 2 = 0"
  have "u_plane ?p = chroma_step chroma_u bgra dw src q (u_plane p) \<and> v_plane ?p = chroma_step chroma_v bgra dw src q (v_plane p)"
    using Cons.prems
    unfolding encode_pixel_def chroma_step_def chroma_writes_def at_pixel_def src_def q Let_def fst_conv snd_conv prod.case
      i_def [symmetric] ev_def [symmetric]
    by (cases "i + 3 < length bgra"; cases ev; cases "?j < length (v_plane p)") (simp_all add: not_less list_update_beyond)
  ultimately have "?p = \<lparr>y_plane = luma_step bgra dw src q (y_plane p),
      u_plane = chroma_step chroma_u bgra dw src q (u_plane p), v_plane = chroma_step chroma_v bgra dw src q (v_plane p)\<rparr>"
    by simp
  moreover have "length (chroma_step chroma_u bgra dw src q (u_plane p)) = length (chroma_step chroma_v bgra dw src q (v_plane p))"
    using Cons.prems by (simp add: chroma_loop.length_step)
  ultimately show ?case by (simp add: q Cons.IH)
qed simp

lemma src_in_range:
  assumes "dy < dh" "dx < dw" "0 < sw" "0 < sh" "4 * (sw * sh) \<le> length bgra"
  shows "src_index sw sh dw dh dy dx + 3 < length bgra"
proof -
  have "dy * sh div dh < sh" "dx * sw div dw < sw"
    using assms by (simp_all add: div_less_iff_less_mult mult.commute)
  from row_major_less [OF this] show ?thesis using assms(5) by (simp add: src_index_def)
qed

lemma chroma_last:
  assumes "j < (w div 2) * (h div 2)" "y' < (h :: nat)" "x' < (w :: nat)" "y' mod 2 = 0" "x' mod 2 = 0"
    and "j = uv_index w y' x'"
  shows "y' < 2 * (j div (w div 2)) \<or> y' = 2 * (j div (w div 2)) \<and> x' \<le> 2 * (j mod (w div 2))"
proof (cases "x' div 2 < w div 2")
  case True
  then have "j div (w div 2) = y' div 2" "j mod (w div 2) = x' div 2" using assms(6) by (simp_all add: uv_index_def)
  moreover have "y' = 2 * (y' div 2)" "x' = 2 * (x' div 2)" using assms(4,5) by presburger+
  ultimately show ?thesis by linarith
next
  case False
  then have "x' div 2 = w div 2" using assms(3,5) by auto
  then have "j = Suc (y' div 2) * (w div 2)" using assms(6) by (simp add: uv_index_def)
  moreover have "w div 2 \<noteq> 0" using assms(1) by (metis mult_0 not_less_zero)
  ultimately have "j div (w div 2) = Suc (y' div 2)" by (metis nonzero_mult_div_cancel_right)
  moreover have "y' = 2 * (y' div 2)" using assms(4) by presburger
  ultimately show ?thesis by linarith
qed

text \<open>The reference: every sample of a plane is that of the nearest source pixel, of the pixel itself
  for the luma and of the top left pixel of a block of two by two for the chroma.\<close>

definition plane_spec ::
  "(int \<Rightarrow> int \<Rightarrow> int \<Rightarrow> u8) \<Rightarrow> nat \<Rightarrow> u8 list \<Rightarrow> nat \<Rightarrow> nat \<Rightarrow> nat \<Rightarrow> nat \<Rightarrow> u8 list" where
  "plane_spec f k bgra sw sh dw dh =
     map (\<lambda>j. at_pixel f bgra (src_index sw sh dw dh (k * (j div (dw div k))) (k * (j mod (dw div k)))))
       [0..<(dw div k) * (dh div k)]"

lemma luma_plane:
  assumes "0 < sw" "0 < sh" "4 * (sw * sh) \<le> length bgra"
  shows "fold (luma_step bgra dw (\<lambda>(dy, dx). src_index sw sh dw dh dy dx)) (List.product [0..<dh] [0..<dw]) (replicate (dw * dh) 0)
    = plane_spec luma 1 bgra sw sh dw dh"
proof (rule nth_equalityI)
  fix i assume "i < length (fold (luma_step bgra dw (\<lambda>(dy, dx). src_index sw sh dw dh dy dx)) (List.product [0..<dh] [0..<dw]) (replicate (dw * dh) 0))"
  then have i: "i < dw * dh" by (simp add: luma_loop.length_loop [of _ "dw * dh"])
  then have "0 < dw" by (cases dw) simp_all
  with i have q: "i div dw < dh" "i mod dw < dw" by (simp_all add: div_less_iff_less_mult mult.commute)
  have "fold (luma_step bgra dw (\<lambda>(dy, dx). src_index sw sh dw dh dy dx)) (List.product [0..<dh] [0..<dw]) (replicate (dw * dh) 0) ! i
      = at_pixel luma bgra (src_index sw sh dw dh (i div dw) (i mod dw))"
    using q i src_in_range [OF q assms]
    by (subst luma_loop.loop_nth [of _ "dw * dh" i "i div dw" dh "i mod dw" dw]) auto
  with i show "fold (luma_step bgra dw (\<lambda>(dy, dx). src_index sw sh dw dh dy dx)) (List.product [0..<dh] [0..<dw]) (replicate (dw * dh) 0) ! i
      = plane_spec luma 1 bgra sw sh dw dh ! i"
    by (simp add: plane_spec_def)
qed (simp add: plane_spec_def luma_loop.length_loop [of _ "dw * dh"])

lemma chroma_plane:
  assumes "0 < sw" "0 < sh" "4 * (sw * sh) \<le> length bgra"
  shows "fold (chroma_step f bgra dw (\<lambda>(dy, dx). src_index sw sh dw dh dy dx)) (List.product [0..<dh] [0..<dw])
      (replicate ((dw div 2) * (dh div 2)) 0) = plane_spec f 2 bgra sw sh dw dh" (is "?l = _")
proof (rule nth_equalityI)
  let ?n = "(dw div 2) * (dh div 2)"
  show len: "length ?l = length (plane_spec f 2 bgra sw sh dw dh)"
    by (simp add: plane_spec_def chroma_loop.length_loop [of _ ?n])
  fix i assume "i < length ?l"
  then have i: "i < ?n" by (simp add: chroma_loop.length_loop [of _ ?n])
  define y x where "y = 2 * (i div (dw div 2))" and "x = 2 * (i mod (dw div 2))"
  have cw: "0 < dw div 2" using i by (metis mult_0 not_less_zero gr0I)
  then have "i div (dw div 2) < dh div 2" "i mod (dw div 2) < dw div 2"
    using i by (simp_all only: div_less_iff_less_mult mult.commute mod_less_divisor)
  then have q: "y < dh" "x < dw" by (simp_all add: y_def x_def)
  have "uv_index dw y x = i" "y mod 2 = 0" "x mod 2 = 0"
    using div_mult_mod_eq [of i "dw div 2"] by (simp_all add: uv_index_def y_def x_def)
  then have "?l ! i = at_pixel f bgra (src_index sw sh dw dh y x)"
    using q i src_in_range [OF q assms] chroma_last [of i dw dh]
    by (subst chroma_loop.loop_nth [of _ ?n i y dh x dw]) (auto simp: chroma_writes_def y_def x_def)
  with i show "?l ! i = plane_spec f 2 bgra sw sh dw dh ! i"
    by (simp add: plane_spec_def y_def x_def)
qed

section \<open>Facts on the decoder and the scaler\<close>

text \<open>Four bytes written at once.\<close>

definition write4 :: "u8 list \<Rightarrow> nat \<Rightarrow> u8 list \<Rightarrow> u8 list" where
  "write4 xs m p = xs[m * 4 := p ! 0, m * 4 + 1 := p ! 1, m * 4 + 2 := p ! 2, m * 4 + 3 := p ! 3]"

lemma length_write4 [simp]: "length (write4 xs m p) = length xs"
  by (simp add: write4_def)

lemma write4_nth:
  assumes "m * 4 + 3 < length xs" "i < length xs"
  shows "write4 xs m p ! i = (if i div 4 = m then p ! (i mod 4) else xs ! i)"
proof -
  obtain d k where i: "i = d * 4 + k" "k < 4" by (metis div_mult_mod_eq mod_less_divisor zero_less_numeral)
  then have dk: "i div 4 = d" "i mod 4 = k" by simp_all
  have "k \<in> {0, 1, 2, 3}" using i(2) by auto
  then show ?thesis
  proof (cases "d = m")
    case True
    with \<open>k \<in> {0, 1, 2, 3}\<close> assms(1) show ?thesis unfolding dk write4_def unfolding i(1) by (elim insertE emptyE) simp_all
  next
    case False
    then have "m * 4 \<noteq> i" "m * 4 + 1 \<noteq> i" "m * 4 + 2 \<noteq> i" "m * 4 + 3 \<noteq> i" unfolding i(1) using i(2) by presburger+
    with False show ?thesis by (simp add: dk write4_def)
  qed
qed

definition decodable :: "u8 list \<Rightarrow> u8 list \<Rightarrow> u8 list \<Rightarrow> nat \<Rightarrow> nat \<Rightarrow> nat \<Rightarrow> nat \<Rightarrow> nat \<Rightarrow> bool" where
  "decodable y u v ys us vs h w \<longleftrightarrow> h * ys + w < length y \<and> (h div 2) * us + w div 2 < length u \<and> (h div 2) * vs + w div 2 < length v"

definition decoded :: "u8 list \<Rightarrow> u8 list \<Rightarrow> u8 list \<Rightarrow> nat \<Rightarrow> nat \<Rightarrow> nat \<Rightarrow> nat \<Rightarrow> nat \<Rightarrow> u8 list" where
  "decoded y u v ys us vs h w = to_bgra (y ! (h * ys + w)) (u ! ((h div 2) * us + w div 2)) (v ! ((h div 2) * vs + w div 2))"

lemma decode_pixel_alt:
  "decode_pixel y u v width ys us vs h w out =
     (if decodable y u v ys us vs h w \<and> (h * width + w) * 4 + 3 < length out
      then write4 out (h * width + w) (decoded y u v ys us vs h w) else out)"
proof -
  have "(length y \<le> h * ys + w \<or> length u \<le> (h div 2) * us + w div 2 \<or> length v \<le> (h div 2) * vs + w div 2)
      = (\<not> decodable y u v ys us vs h w)"
    by (simp only: decodable_def not_less de_Morgan_conj)
  then show ?thesis by (simp only: decode_pixel_def Let_def decoded_def write4_def if_not_P split: if_split) simp
qed

interpretation decode_loop: pixel_loop "\<lambda>q. decode_pixel y u v width ys us vs (fst q) (snd q)"
  "\<lambda>q i. decodable y u v ys us vs (fst q) (snd q) \<and> (fst q * width + snd q) * 4 + 3 < n \<and> i div 4 = fst q * width + snd q"
  "\<lambda>q i. decoded y u v ys us vs (fst q) (snd q) ! (i mod 4)" n for y u v width ys us vs n
proof unfold_locales
  fix xs :: "u8 list" and q :: "nat \<times> nat" and i
  assume "length xs = n" "i < n"
  then show "decode_pixel y u v width ys us vs (fst q) (snd q) xs ! i =
      (if decodable y u v ys us vs (fst q) (snd q) \<and> (fst q * width + snd q) * 4 + 3 < n \<and> i div 4 = fst q * width + snd q
       then decoded y u v ys us vs (fst q) (snd q) ! (i mod 4) else xs ! i)"
    by (simp add: decode_pixel_alt write4_nth del: add_mult_distrib distrib_right)
qed (simp add: decode_pixel_alt)

definition four :: "u8 list \<Rightarrow> nat \<Rightarrow> u8 list" where
  "four xs k = [xs ! k, xs ! (k + 1), xs ! (k + 2), xs ! (k + 3)]"

lemma scale_pixel_alt:
  "scale_pixel bgra sw sh dw dh dy dx buf =
     (if src_index sw sh dw dh dy dx + 3 < length bgra \<and> (dy * dw + dx) * 4 + 3 < length buf
      then write4 buf (dy * dw + dx) (four bgra (src_index sw sh dw dh dy dx)) else buf)"
  by (simp add: scale_pixel_def Let_def write4_def four_def numeral_eq_Suc)

interpretation scale_loop: pixel_loop "\<lambda>q. scale_pixel bgra sw sh dw dh (fst q) (snd q)"
  "\<lambda>q i. src_index sw sh dw dh (fst q) (snd q) + 3 < length bgra \<and> (fst q * dw + snd q) * 4 + 3 < n \<and> i div 4 = fst q * dw + snd q"
  "\<lambda>q i. four bgra (src_index sw sh dw dh (fst q) (snd q)) ! (i mod 4)" n for bgra sw sh dw dh n
proof unfold_locales
  fix xs :: "u8 list" and q :: "nat \<times> nat" and i
  assume "length xs = n" "i < n"
  then show "scale_pixel bgra sw sh dw dh (fst q) (snd q) xs ! i =
      (if src_index sw sh dw dh (fst q) (snd q) + 3 < length bgra \<and> (fst q * dw + snd q) * 4 + 3 < n \<and> i div 4 = fst q * dw + snd q
       then four bgra (src_index sw sh dw dh (fst q) (snd q)) ! (i mod 4) else xs ! i)"
    by (simp add: scale_pixel_alt write4_nth)
qed (simp add: scale_pixel_alt)

lemma pixel_of_byte:
  assumes "i div 4 < (w :: nat) * h"
  shows "i div 4 div w < h" "i div 4 mod w < w" "i div 4 div w * w + i div 4 mod w = i div 4"
proof -
  have "0 < w" using assms by (metis gr0I mult_0 not_less_zero)
  with assms show "i div 4 div w < h" "i div 4 mod w < w" "i div 4 div w * w + i div 4 mod w = i div 4"
    by (simp_all only: div_less_iff_less_mult [of w] mult.commute [of h w] mod_less_divisor div_mult_mod_eq)
qed

text \<open>Of a byte buffer of the right size every byte belongs to one pixel.\<close>

lemma byte_pixel_unique:
  assumes "(w' :: nat) < width" "i div 4 = h' * width + w'"
  shows "h' = i div 4 div width \<and> w' = i div 4 mod width"
  using assms by simp

lemma fold_pairs: "fold (\<lambda>(y, x). f y x) ps s = fold (\<lambda>q. f (fst q) (snd q)) ps s"
  by (simp add: case_prod_unfold)

lemma concat_replicate_nth: "length p = k \<Longrightarrow> i < n * k \<Longrightarrow> concat (replicate n p) ! i = p ! (i mod k)"
proof (induction n arbitrary: i)
  case (Suc n)
  then show ?case by (cases "i < k") (auto simp: nth_append le_mod_geq [symmetric])
qed simp

lemma solid_nth: "i < n * 4 \<Longrightarrow> concat (replicate n [b, g, r, a]) ! i = [b, g, r, a] ! (i mod 4)"
  by (rule concat_replicate_nth) simp_all

lemma length_solid [simp]: "length (concat (replicate n [b, g, r, a])) = n * 4"
  by (induction n) simp_all

lemma solid_at_pixel: "m < n \<Longrightarrow> at_pixel f (concat (replicate n [b, g, r, a])) (m * 4) = f (uint b) (uint g) (uint r)"
  using solid_nth [of "m * 4" n b g r a] solid_nth [of "m * 4 + 1" n b g r a] solid_nth [of "m * 4 + 2" n b g r a]
  by (simp add: at_pixel_def mod_Suc)

lemma decoder_facts:
  assumes "i < length out"
  shows "length (yuv420p_to_bgra y u v width height ys us vs out) = length out"
    and "yuv420p_to_bgra y u v width height ys us vs out ! i =
     (let h = i div 4 div width; w = i div 4 mod width
      in if i div 4 < width * height \<and> (i div 4) * 4 + 3 < length out \<and> decodable y u v ys us vs h w
         then decoded y u v ys us vs h w ! (i mod 4) else out ! i)"
proof -
  let ?W = "\<lambda>q i. decodable y u v ys us vs (fst q) (snd q) \<and> (fst q * width + snd q) * 4 + 3 < length out \<and> i div 4 = fst q * width + snd q"
  show "length (yuv420p_to_bgra y u v width height ys us vs out) = length out"
    by (simp add: yuv420p_to_bgra_def fold_rows fold_pairs decode_loop.length_loop)
  define h w where "h = i div 4 div width" and "w = i div 4 mod width"
  have loop: "yuv420p_to_bgra y u v width height ys us vs out =
      fold (\<lambda>q. decode_pixel y u v width ys us vs (fst q) (snd q)) (List.product [0..<height] [0..<width]) out"
    by (simp add: yuv420p_to_bgra_def fold_rows fold_pairs)
  have only: "h' = h \<and> w' = w" if "w' < width" "?W (h', w') i" for h' w'
    using byte_pixel_unique [of w' width i h'] that by (simp add: h_def w_def)
  let ?c = "i div 4 < width * height \<and> (i div 4) * 4 + 3 < length out \<and> decodable y u v ys us vs h w"
  have "yuv420p_to_bgra y u v width height ys us vs out ! i = (if ?c then decoded y u v ys us vs h w ! (i mod 4) else out ! i)"
  proof (cases ?c)
    case True
    from pixel_of_byte [of i width height] True have q: "h < height" "w < width" "h * width + w = i div 4"
      by (simp_all only: h_def w_def)
    with True have W: "?W (h, w) i" by (simp only: fst_conv snd_conv)
    have "fold (\<lambda>q. decode_pixel y u v width ys us vs (fst q) (snd q)) (List.product [0..<height] [0..<width]) out ! i
        = decoded y u v ys us vs (fst (h, w)) (snd (h, w)) ! (i mod 4)"
      by (rule decode_loop.loop_nth [OF refl assms q(1,2) W]) (use only in blast)
    with True show ?thesis unfolding loop by simp
  next
    case False
    have "\<not> ?W q i" if "q \<in> set (List.product [0..<height] [0..<width])" for q
    proof
      assume W: "?W q i"
      obtain h' w' where q: "q = (h', w')" "h' < height" "w' < width" using \<open>q \<in> _\<close> by auto
      with only W have "h' = h" "w' = w" by blast+
      with False W q row_major_less [OF q(2,3)] show False by (simp only: fst_conv snd_conv) simp
    qed
    then have "fold (\<lambda>q. decode_pixel y u v width ys us vs (fst q) (snd q)) (List.product [0..<height] [0..<width]) out ! i = out ! i"
      by (intro decode_loop.loop_skips [OF refl assms] ballI)
    with False show ?thesis unfolding loop by (simp only: if_False)
  qed
  then show "yuv420p_to_bgra y u v width height ys us vs out ! i =
     (let h = i div 4 div width; w = i div 4 mod width
      in if i div 4 < width * height \<and> (i div 4) * 4 + 3 < length out \<and> decodable y u v ys us vs h w
         then decoded y u v ys us vs h w ! (i mod 4) else out ! i)"
    unfolding Let_def h_def w_def .
qed

lemma encoder_facts:
  assumes "0 < sw" "0 < sh" "4 * (sw * sh) \<le> length bgra"
  shows "bgra_to_yuv420p bgra sw sh dw dh
    = plane_spec luma 1 bgra sw sh dw dh @ plane_spec chroma_u 2 bgra sw sh dw dh @ plane_spec chroma_v 2 bgra sw sh dw dh"
  unfolding bgra_to_yuv420p_def Let_def fold_rows
  by (simp add: encode_loops luma_plane [OF assms] chroma_plane [OF assms])

lemma mult_less_of_sides:
  "(a :: nat) \<le> a' \<Longrightarrow> b \<le> b' \<Longrightarrow> 0 < a' \<Longrightarrow> 0 < b' \<Longrightarrow> a < a' \<or> b < b' \<Longrightarrow> a * b < a' * b'"
proof (elim disjE)
  assume "b \<le> b'" "0 < b'" "a < a'"
  then show "a * b < a' * b'" using le_less_trans [of "a * b" "a * b'" "a' * b'"] by simp
next
  assume "a \<le> a'" "0 < a'" "b < b'"
  then show "a * b < a' * b'" using le_less_trans [of "a * b" "a' * b" "a' * b'"] by simp
qed

section \<open>Properties\<close>

text \<open>C21: the conversion of a frame is exactly its reference, also when it is scaled and when a side
  is odd: each plane holds the samples of the nearest source pixels, the chroma planes those of
  every second pixel of every second row. With an odd width the last pixel of a row writes its
  chroma where the next row begins; that row overwrites it.\<close>

theorem encoder_matches_reference:
  assumes "0 < sw" "0 < sh" "4 * (sw * sh) \<le> length bgra"
  shows "bgra_to_yuv420p bgra sw sh dw dh
    = plane_spec luma 1 bgra sw sh dw dh @ plane_spec chroma_u 2 bgra sw sh dw dh @ plane_spec chroma_v 2 bgra sw sh dw dh"
  using assms by (rule encoder_facts)

theorem encoder_matches_reference_witness:
  "bgra_to_yuv420p [10, 20, 30, 255, 40, 50, 60, 255] 2 1 2 1 = plane_spec luma 1 [10, 20, 30, 255, 40, 50, 60, 255] 2 1 2 1
   \<and> plane_spec luma 1 [10, 20, 30, 255, 40, 50, 60, 255] 2 1 2 1 = [luma 10 20 30, luma 40 50 60]"
  using encoder_matches_reference [of 2 1 "[10, 20, 30, 255, 40, 50, 60, 255]" 2 1]
  by (simp add: plane_spec_def upt_rec at_pixel_def src_index_def)

text \<open>Decoding writes every pixel of the picture that the planes cover and the buffer has room for
  with the colour of its samples, and leaves every other byte of the buffer alone.\<close>

theorem decoder_exact:
  assumes "i < length out"
  shows "length (yuv420p_to_bgra y u v width height ys us vs out) = length out
   \<and> yuv420p_to_bgra y u v width height ys us vs out ! i =
     (let h = i div 4 div width; w = i div 4 mod width
      in if i div 4 < width * height \<and> (i div 4) * 4 + 3 < length out \<and> decodable y u v ys us vs h w
         then decoded y u v ys us vs h w ! (i mod 4) else out ! i)"
  using decoder_facts [OF assms] by blast

theorem decoder_exact_witness:
  "yuv420p_to_bgra [16, 235] [128] [128] 2 1 2 1 1 [1, 1, 1, 1, 1, 1, 1, 1, 7] ! 4 = 255
   \<and> yuv420p_to_bgra [16, 235] [128] [128] 2 1 2 1 1 [1, 1, 1, 1, 1, 1, 1, 1, 7] ! 8 = 7"
  using decoder_exact [of 4 "[1, 1, 1, 1, 1, 1, 1, 1, 7]" "[16, 235]" "[128]" "[128]" 2 1 2 1 1]
    decoder_exact [of 8 "[1, 1, 1, 1, 1, 1, 1, 1, 7]" "[16, 235]" "[128]" "[128]" 2 1 2 1 1]
  by (simp add: decodable_def decoded_def to_bgra_def clamp_u8_def clamp_int_def Let_def)

definition grey_back :: "u8 \<Rightarrow> u8" where
  "grey_back g = clamp_u8 ((298 * (uint g - 16) + 128) div 256)"

lemma uint_u8: "0 \<le> uint (g :: u8)" "uint (g :: u8) \<le> 255"
  using uint_bounded [of g] by simp_all

lemma grey_encoded: "luma (uint g) (uint g) (uint g) = (g :: u8)" "chroma_u (uint g) (uint g) (uint g) = 128"
  "chroma_v (uint g) (uint g) (uint g) = 128"
proof -
  have "(uint g * 77 + uint g * 150 + uint g * 29) div 256 = uint g" by simp
  then show "luma (uint g) (uint g) (uint g) = g"
    using uint_u8 [of g] by (simp add: luma_def clamp_u8_def clamp_int_def)
qed (simp_all add: chroma_u_def chroma_v_def clamp_u8_def clamp_int_def)

lemma uint_clamp_u8: "uint (clamp_u8 x) = clamp_int 0 255 x"
  using clamp_int_bounds [of 0 255 x] by (simp add: clamp_u8_def uint_word_of_int take_bit_int_eq_self)

lemma grey_bound:
  "0 \<le> u \<Longrightarrow> u \<le> 255 \<Longrightarrow> 256 * x \<le> 298 * u - 4640 \<Longrightarrow> 298 * u - 4640 < 256 * x + 256 \<Longrightarrow> \<bar>clamp_int 0 255 x - u\<bar> \<le> 20"
  by (auto simp: clamp_int_def abs_le_iff)

lemma grey_back_error: "\<bar>uint (grey_back g) - uint g\<bar> \<le> 20" "uint g \<le> 16 \<Longrightarrow> grey_back g = 0" "235 \<le> uint g \<Longrightarrow> grey_back g = 255"
proof -
  define x where "x = (298 * (uint g - 16) + 128) div 256"
  let ?e = "298 * (uint g - 16) + 128"
  have "0 \<le> ?e mod 256" "?e mod 256 < 256" "?e = x * 256 + ?e mod 256" unfolding x_def by simp_all
  then have x: "256 * x \<le> 298 * uint g - 4640" "298 * uint g - 4640 < 256 * x + 256" by auto
  have g: "0 \<le> uint g" "uint g \<le> 255" using uint_u8 by simp_all
  have gb: "grey_back g = clamp_u8 x" by (simp only: grey_back_def x_def)
  show "\<bar>uint (grey_back g) - uint g\<bar> \<le> 20"
    unfolding gb uint_clamp_u8 using g x by (rule grey_bound)
  show "grey_back g = 0" if "uint g \<le> 16"
  proof -
    have "x \<le> 0" using x that by linarith
    then have "clamp_int 0 255 x = 0" by (simp add: clamp_int_def)
    then show ?thesis by (simp add: gb clamp_u8_def)
  qed
  show "grey_back g = 255" if "235 \<le> uint g"
  proof -
    have "255 \<le> x" using x that by linarith
    then have "clamp_int 0 255 x = 255" by (simp add: clamp_int_def)
    then show ?thesis by (simp add: gb clamp_u8_def)
  qed
qed

lemma grey_frame_planes:
  assumes "bgra = concat (replicate (w * h) [g, g, g, a])" "0 < w" "0 < h"
  shows "bgra_to_yuv420p bgra w h w h = replicate (w * h) g @ replicate ((w div 2) * (h div 2)) 128 @ replicate ((w div 2) * (h div 2)) 128"
proof -
  have src: "src_index w h w h y x = (y * w + x) * 4" for y x using assms(2,3) by (simp add: src_index_def)
  have plane: "plane_spec f k bgra w h w h = replicate ((w div k) * (h div k)) (f (uint g) (uint g) (uint g))" if "0 < k" for f k
  proof (rule nth_equalityI)
    fix j assume "j < length (plane_spec f k bgra w h w h)"
    then have j: "j < (w div k) * (h div k)" by (simp add: plane_spec_def)
    then have wk: "0 < w div k" by (metis gr0I mult_0 not_less_zero)
    with j have "j div (w div k) < h div k" "j mod (w div k) < w div k"
      by (simp_all only: div_less_iff_less_mult [of "w div k"] mult.commute [of "h div k"] mod_less_divisor)
    with that have "k * (j div (w div k)) < h" "k * (j mod (w div k)) < w"
      by (simp_all add: mult_less_of_div)
    from solid_at_pixel [OF row_major_less [OF this], of f g g g a] j show "plane_spec f k bgra w h w h ! j = replicate ((w div k) * (h div k)) (f (uint g) (uint g) (uint g)) ! j"
      by (simp add: plane_spec_def src assms(1))
  qed (simp add: plane_spec_def)
  have "4 * (w * h) \<le> length bgra" using assms(1) by simp
  from encoder_facts [OF assms(2,3) this] show ?thesis by (simp add: plane grey_encoded)
qed

lemma decoded_solid:
  assumes "0 < w" "0 < h" "even w" "even h"
  shows "yuv420p_to_bgra (replicate (w * h) y) (replicate ((w div 2) * (h div 2)) u) (replicate ((w div 2) * (h div 2)) v)
      w h w (w div 2) (w div 2) (replicate (w * h * 4) 0) = concat (replicate (w * h) (to_bgra y u v))" (is "?d = _")
proof (rule nth_equalityI)
  obtain b g r a where p: "to_bgra y u v = [b, g, r, a]" by (simp add: to_bgra_def Let_def)
  have len: "length ?d = w * h * 4"
    using decoder_facts(1) [of 0 "replicate (w * h * 4) (0 :: u8)"] assms(1,2) by simp
  then show "length ?d = length (concat (replicate (w * h) (to_bgra y u v)))" by (simp add: p)
  fix i assume "i < length ?d"
  with len have i: "i < w * h * 4" by simp
  then have k: "i div 4 < w * h" by (simp add: less_mult_imp_div_less)
  define hh ww where "hh = i div 4 div w" and "ww = i div 4 mod w"
  from pixel_of_byte [OF k] have q: "hh < h" "ww < w" "hh * w + ww = i div 4" by (simp_all only: hh_def ww_def)
  have "hh div 2 < h div 2" "ww div 2 < w div 2" using q(1,2) assms(3,4) by presburger+
  then have uv: "(hh div 2) * (w div 2) + ww div 2 < (w div 2) * (h div 2)" by (rule row_major_less)
  have dec: "decodable (replicate (w * h) y) (replicate ((w div 2) * (h div 2)) u) (replicate ((w div 2) * (h div 2)) v)
      w (w div 2) (w div 2) hh ww"
    using uv k q(3) by (simp only: decodable_def length_replicate simp_thms)
  have "?d ! i = to_bgra y u v ! (i mod 4)"
    using decoder_facts(2) [of i "replicate (w * h * 4) (0 :: u8)"] i k dec uv q(3)
    by (simp add: Let_def hh_def [symmetric] ww_def [symmetric] decoded_def)
  with i show "?d ! i = concat (replicate (w * h) (to_bgra y u v)) ! i" by (simp add: concat_replicate_nth [of _ 4] p)
qed

text \<open>C40: without \<open>simd-yuv\<close> a grey frame does not keep its level. The encoder uses the full range of
  the luma and the decoder the limited one, so the level \<open>v\<close> comes back as \<open>(298 (v - 16) + 128) / 256\<close>:
  it is off by up to 20, all levels up to 16 become black and all from 235 white.\<close>

theorem grey_frame_not_preserved:
  assumes "0 < w" "0 < h" "even w" "even h" "bgra = concat (replicate (w * h) [g, g, g, a])"
    and "yuv = bgra_to_yuv420p bgra w h w h" "uv_size = (w div 2) * (h div 2)"
  shows "yuv420p_to_bgra (take (w * h) yuv) (take uv_size (drop (w * h) yuv)) (drop (w * h + uv_size) yuv)
      w h w (w div 2) (w div 2) (replicate (w * h * 4) 0)
      = concat (replicate (w * h) [grey_back g, grey_back g, grey_back g, 255])
    \<and> \<bar>uint (grey_back g) - uint g\<bar> \<le> 20 \<and> (uint g \<le> 16 \<longrightarrow> grey_back g = 0) \<and> (235 \<le> uint g \<longrightarrow> grey_back g = 255)"
proof -
  have "yuv = replicate (w * h) g @ replicate uv_size 128 @ replicate uv_size 128"
    using grey_frame_planes [OF assms(5,1,2)] assms(6,7) by simp
  moreover have "to_bgra g 128 128 = [grey_back g, grey_back g, grey_back g, 255]"
    by (simp add: to_bgra_def grey_back_def Let_def)
  ultimately show ?thesis
    using decoded_solid [OF assms(1-4), of g 128 128] grey_back_error [of g] assms(7) by simp
qed

theorem grey_frame_not_preserved_witness:
  "(let bgra = concat (replicate (2 * 2) [235, 235, 235, 255]); yuv = bgra_to_yuv420p bgra 2 2 2 2
    in yuv420p_to_bgra (take (2 * 2) yuv) (take 1 (drop (2 * 2) yuv)) (drop (2 * 2 + 1) yuv) 2 2 2 1 1 (replicate (2 * 2 * 4) 0)
       = concat (replicate (2 * 2) [255, 255, 255, 255]))"
  using grey_frame_not_preserved [of 2 2 "concat (replicate (2 * 2) [235, 235, 235, 255])" 235 255 _ 1, OF _ _ _ _ refl refl]
  by (simp add: Let_def)

text \<open>With \<open>simd-yuv\<close> a frame with an odd side cannot be converted. The planes of the crate
  round half sizes up, the buffer they are copied into rounds them down, and copying between slices
  of different lengths panics. With even sides the result is the three planes in order.\<close>

theorem simd_conversion_needs_even_sides:
  assumes "\<And>img w h. length (y_plane (convert img w h)) = w * h
      \<and> length (u_plane (convert img w h)) = (w + 1) div 2 * ((h + 1) div 2)
      \<and> length (v_plane (convert img w h)) = (w + 1) div 2 * ((h + 1) div 2)"
    and "0 < dw" "0 < dh"
  shows "bgra_to_yuv420p_simd convert bgra sw sh dw dh =
     (if even dw \<and> even dh
      then let p = convert (scale_bgra bgra sw sh dw dh) dw dh in Some (y_plane p @ u_plane p @ v_plane p) else None)"
proof -
  define c where "c = (dw + 1) div 2 * ((dh + 1) div 2)"
  define n where "n = dw div 2 * (dh div 2)"
  let ?p = "convert (scale_bgra bgra sw sh dw dh) dw dh"
  have len: "length (y_plane ?p) = dw * dh" "length (u_plane ?p) = c" "length (v_plane ?p) = c"
    using assms(1) by (simp_all add: c_def)
  show ?thesis
  proof (cases "even dw \<and> even dh")
    case True
    then obtain a b where "dw = 2 * a" "dh = 2 * b" by (auto elim!: evenE)
    then have "c = n" "dw div 2 * dh div 2 = n" by (simp_all add: c_def n_def)
    with True len show ?thesis
      by (simp add: bgra_to_yuv420p_simd_def copy_plane_def Let_def n_def [symmetric])
  next
    case False
    have "dw div 2 \<le> (dw + 1) div 2" "dh div 2 \<le> (dh + 1) div 2" "0 < (dw + 1) div 2" "0 < (dh + 1) div 2"
      "dw div 2 < (dw + 1) div 2 \<or> dh div 2 < (dh + 1) div 2" using False assms(2,3) by presburger+
    then have "n < c" unfolding n_def c_def by (intro mult_less_of_sides)
    with False len show ?thesis
      by (simp add: bgra_to_yuv420p_simd_def copy_plane_def Let_def n_def [symmetric] split: bind_split)
  qed
qed

theorem simd_conversion_needs_even_sides_witness:
  "bgra_to_yuv420p_simd (\<lambda>img w h. \<lparr>y_plane = replicate (w * h) 0, u_plane = replicate ((w + 1) div 2 * ((h + 1) div 2)) 0,
      v_plane = replicate ((w + 1) div 2 * ((h + 1) div 2)) 0\<rparr>) [] 4 4 3 2 = None"
  by (subst simd_conversion_needs_even_sides) simp_all

text \<open>Scaling picks the nearest source pixel for every pixel of the result.\<close>

theorem scaled_frame_exact:
  assumes "0 < sw" "0 < sh" "4 * (sw * sh) \<le> length bgra" "\<not> (sw = dw \<and> sh = dh)" "i < dw * dh * 4"
  shows "scale_bgra bgra sw sh dw dh ! i = bgra ! (src_index sw sh dw dh (i div 4 div dw) (i div 4 mod dw) + i mod 4)"
proof -
  define y x where "y = i div 4 div dw" and "x = i div 4 mod dw"
  have "i div 4 < dw * dh" using assms(5) by (simp add: less_mult_imp_div_less)
  from pixel_of_byte [OF this] have q: "y < dh" "x < dw" "y * dw + x = i div 4" by (simp_all only: y_def x_def)
  have fits: "(y * dw + x) * 4 + 3 < dw * dh * 4" using mult_le_mono1 [OF Suc_leI [OF row_major_less [OF q(1,2)]], of 4] by simp
  have "fold (\<lambda>q. scale_pixel bgra sw sh dw dh (fst q) (snd q)) (List.product [0..<dh] [0..<dw]) (replicate (dw * dh * 4) 0) ! i
      = four bgra (src_index sw sh dw dh (fst (y, x)) (snd (y, x))) ! (i mod 4)"
  proof (rule scale_loop.loop_nth [OF length_replicate assms(5) q(1,2)])
    show "src_index sw sh dw dh (fst (y, x)) (snd (y, x)) + 3 < length bgra \<and> (fst (y, x) * dw + snd (y, x)) * 4 + 3 < dw * dh * 4
        \<and> i div 4 = fst (y, x) * dw + snd (y, x)"
      using src_in_range [OF q(1,2) assms(1-3)] fits q(3) by (simp only: fst_conv snd_conv simp_thms)
    fix y' x' assume "x' < dw" "src_index sw sh dw dh (fst (y', x')) (snd (y', x')) + 3 < length bgra
      \<and> (fst (y', x') * dw + snd (y', x')) * 4 + 3 < dw * dh * 4 \<and> i div 4 = fst (y', x') * dw + snd (y', x')"
    then have "y' = y \<and> x' = x" unfolding y_def x_def by (intro byte_pixel_unique) (simp_all only: fst_conv snd_conv)
    then show "y' < y \<or> y' = y \<and> x' \<le> x" by blast
  qed
  moreover have "four bgra k ! (i mod 4) = bgra ! (k + i mod 4)" for k
  proof -
    have "i mod 4 \<in> {0, 1, 2, 3}" by auto
    then show ?thesis by (elim insertE emptyE) (simp_all add: four_def)
  qed
  ultimately show ?thesis using assms(4) by (auto simp: scale_bgra_def fold_rows fold_pairs y_def x_def)
qed

text \<open>No intermediate value of the conversions leaves the range of \<open>i32\<close>.\<close>

lemma i32_range:
  assumes "b \<in> {0..255 :: int}" "g \<in> {0..255}" "r \<in> {0..255}"
  shows "r * 77 + g * 150 + b * 29 \<in> {0..2147483647}"
    and "- r * 43 - g * 85 + b * 128 \<in> {-2147483648..2147483647}" "r * 128 - g * 107 - b * 21 \<in> {-2147483648..2147483647}"
    and "298 * (b - 16) + 516 * (g - 128) + 128 \<in> {-2147483648..2147483647}"
    and "298 * (b - 16) - 100 * (g - 128) - 208 * (r - 128) + 128 \<in> {-2147483648..2147483647}"
    and "298 * (b - 16) + 409 * (r - 128) + 128 \<in> {-2147483648..2147483647}"
  using assms by simp_all

end
