(* ===== verification/Float64.thy ===== *)
theory Float64
  imports Complex_Main P2P_Prelude
begin

text \<open>
  The arithmetic of Rust's \<open>f64\<close> as far as the program uses it: every operation returns the exact
  rational result rounded to 53 significant bits, to the nearest, ties to even. The exponent is
  not bounded: the values of the program stay far away from overflow and from subnormal numbers.
  A \<open>Duration\<close> and the monotonic clock are counted in nanoseconds.
\<close>

section \<open>Rounding\<close>

definition round_half_even :: "rat \<Rightarrow> int" where
  "round_half_even y =
     (let f = \<lfloor>y\<rfloor>; d = y - of_int f
      in if d < 1 / 2 then f else if d > 1 / 2 then f + 1 else if even f then f else f + 1)"

fun log2_nat :: "nat \<Rightarrow> nat" where
  "log2_nat n = (if n < 2 then 0 else Suc (log2_nat (n div 2)))"

declare log2_nat.simps [simp del]

text \<open>The greatest power of two that is not above a positive number.\<close>

definition f64_exponent :: "rat \<Rightarrow> int" where
  "f64_exponent x =
     (let (p, q) = quotient_of x; d = int (log2_nat (nat p)) - int (log2_nat (nat q))
      in if 2 powi d \<le> x then d else d - 1)"

definition f64_round :: "rat \<Rightarrow> rat" where
  "f64_round x =
     (if x = 0 then 0
      else let u = 2 powi (f64_exponent \<bar>x\<bar> - 52) in sgn x * (of_int (round_half_even (\<bar>x\<bar> / u)) * u))"

definition f64_add :: "rat \<Rightarrow> rat \<Rightarrow> rat" where "f64_add x y = f64_round (x + y)"
definition f64_sub :: "rat \<Rightarrow> rat \<Rightarrow> rat" where "f64_sub x y = f64_round (x - y)"
definition f64_mul :: "rat \<Rightarrow> rat \<Rightarrow> rat" where "f64_mul x y = f64_round (x * y)"
definition f64_div :: "rat \<Rightarrow> rat \<Rightarrow> rat" where "f64_div x y = f64_round (x / y)"
definition f64_of_nat :: "nat \<Rightarrow> rat" where "f64_of_nat n = f64_round (of_nat n)"

text \<open>\<open>as usize\<close> truncates and saturates at zero.\<close>

definition f64_to_nat :: "rat \<Rightarrow> nat" where "f64_to_nat x = nat \<lfloor>x\<rfloor>"

definition as_secs_f64 :: "nat \<Rightarrow> rat" where
  "as_secs_f64 ns = f64_add (f64_of_nat (ns div 1000000000)) (f64_div (f64_of_nat (ns mod 1000000000)) 1000000000)"

definition from_secs_f64 :: "rat \<Rightarrow> nat" where
  "from_secs_f64 secs = nat (round_half_even (secs * 1000000000))"

section \<open>The error of an operation\<close>

lemma round_half_even_error: "\<bar>of_int (round_half_even y) - y\<bar> \<le> 1 / 2"
proof -
  have "of_int \<lfloor>y\<rfloor> \<le> y" "y < of_int \<lfloor>y\<rfloor> + 1" using floor_correct [of y] by simp_all
  then show ?thesis by (simp add: round_half_even_def Let_def)
qed

lemma log2_nat_bounds: "0 < n \<Longrightarrow> 2 ^ log2_nat n \<le> n \<and> n < 2 * 2 ^ log2_nat n"
proof (induction n rule: log2_nat.induct)
  case (1 n)
  show ?case
  proof (cases "n < 2")
    case False
    then have "2 ^ log2_nat (n div 2) \<le> n div 2" "n div 2 < 2 * 2 ^ log2_nat (n div 2)" using 1 by auto
    with False show ?thesis by (simp add: log2_nat.simps [of n]) linarith
  qed (use 1 in \<open>simp add: log2_nat.simps\<close>)
qed

lemma f64_exponent_le:
  assumes "0 < x"
  shows "2 powi f64_exponent x \<le> x"
proof -
  obtain p q where pq: "quotient_of x = (p, q)" by (cases "quotient_of x")
  have q: "0 < q" using pq by (rule quotient_of_denom_pos)
  have x: "x = of_int p / of_int q" using pq by (rule quotient_of_div)
  have p: "0 < p" using assms q by (simp add: x zero_less_divide_iff)
  define a b where "a = log2_nat (nat p)" and "b = log2_nat (nat q)"
  have "2 ^ a \<le> nat p" "nat q < 2 * 2 ^ b"
    using log2_nat_bounds [of "nat p"] log2_nat_bounds [of "nat q"] p q unfolding a_def b_def by linarith+
  then have "int (2 ^ a) \<le> p" "q < int (2 * 2 ^ b)" using p q by linarith+
  then have i: "2 ^ a \<le> p" "q < 2 * 2 ^ b" by simp_all
  have "2 powi (int a - int b - 1) = (2 ^ a :: rat) / (2 * 2 ^ b)"
    by (simp add: power_int_diff power_int_add)
  also have "\<dots> \<le> of_int p / of_int q"
  proof (rule frac_le)
    show "(2 ^ a :: rat) \<le> of_int p" using i(1) by (metis of_int_le_iff of_int_numeral of_int_power)
    show "(of_int q :: rat) \<le> 2 * 2 ^ b" using i(2) by (metis less_imp_le of_int_le_iff of_int_mult of_int_numeral of_int_power)
  qed (use p q in simp_all)
  finally show ?thesis
    by (simp add: f64_exponent_def pq a_def b_def x [symmetric] Let_def)
qed

lemma f64_error: "\<bar>f64_round x - x\<bar> \<le> \<bar>x\<bar> / 2 ^ 53"
proof (cases "x = 0")
  case False
  define u :: rat where "u = 2 powi (f64_exponent \<bar>x\<bar> - 52)"
  define r :: rat where "r = of_int (round_half_even (\<bar>x\<bar> / u))"
  have u: "0 < u" by (simp add: u_def)
  have "u * 2 ^ 52 = 2 powi f64_exponent \<bar>x\<bar>"
    by (simp add: u_def power_int_diff)
  with f64_exponent_le [of "\<bar>x\<bar>"] False have le: "u * 2 ^ 52 \<le> \<bar>x\<bar>" by simp
  have "\<bar>r - \<bar>x\<bar> / u\<bar> \<le> 1 / 2" unfolding r_def by (rule round_half_even_error)
  then have "\<bar>r - \<bar>x\<bar> / u\<bar> * u \<le> u / 2" using mult_right_mono [of "\<bar>r - \<bar>x\<bar> / u\<bar>" "1 / 2" u] u by simp
  moreover have "\<bar>r - \<bar>x\<bar> / u\<bar> * u = \<bar>r * u - \<bar>x\<bar>\<bar>"
  proof -
    have "\<bar>r - \<bar>x\<bar> / u\<bar> * u = \<bar>(r - \<bar>x\<bar> / u) * u\<bar>" using u by (simp only: abs_mult abs_of_pos)
    also have "(r - \<bar>x\<bar> / u) * u = r * u - \<bar>x\<bar>" using u by (simp add: left_diff_distrib)
    finally show ?thesis .
  qed
  ultimately have "\<bar>r * u - \<bar>x\<bar>\<bar> \<le> u / 2" by simp
  moreover have "f64_round x = sgn x * (r * u)" using False by (simp add: f64_round_def r_def u_def Let_def)
  moreover have "\<bar>sgn x * (r * u) - x\<bar> = \<bar>r * u - \<bar>x\<bar>\<bar>"
    using False by (cases "0 < x") (auto simp: sgn_if abs_minus_commute)
  ultimately show ?thesis using le by simp
qed (simp add: f64_round_def)

section \<open>Whole numbers are exact\<close>

lemma round_half_even_int [simp]: "round_half_even (of_int n) = n"
  by (simp add: round_half_even_def)

lemma f64_round_nat:
  assumes "n < 2 ^ 53"
  shows "f64_round (of_nat n) = of_nat n"
proof (cases "n = 0")
  case False
  define e where "e = f64_exponent (of_nat n)"
  have "2 powi e \<le> (of_nat n :: rat)" unfolding e_def using f64_exponent_le False by simp
  also have "(of_nat n :: rat) < 2 ^ 53" using assms by (metis of_nat_less_iff of_nat_numeral of_nat_power)
  finally have "(2 :: rat) powi e < 2 powi 53" by (simp add: power_int_def)
  then have "e < 53" by (rule power_int_le_imp_less_exp [rotated]) simp_all
  then have "52 - e = int (nat (52 - e))" by simp
  then have inv: "(1 :: rat) / 2 powi (e - 52) = of_int (2 ^ nat (52 - e))"
    by (metis minus_diff_eq of_int_numeral of_int_power power_int_minus_divide power_int_of_nat)
  have "(of_nat n :: rat) / 2 powi (e - 52) = of_int (int n * 2 ^ nat (52 - e))"
    using arg_cong [OF inv, of "\<lambda>r. of_nat n * r"] by simp
  then have "round_half_even (of_nat n / 2 powi (e - 52)) = int n * 2 ^ nat (52 - e)"
    by (simp only: round_half_even_int)
  moreover have "of_int (int n * 2 ^ nat (52 - e)) * (2 :: rat) powi (e - 52) = of_nat n"
    using arg_cong [OF inv, of "\<lambda>r. of_nat n * r * 2 powi (e - 52)"] by simp
  ultimately show ?thesis using False by (simp add: f64_round_def Let_def e_def)
qed (simp add: f64_round_def)

lemma f64_of_nat_exact: "n < 2 ^ 53 \<Longrightarrow> f64_of_nat n = of_nat n"
  by (simp add: f64_of_nat_def f64_round_nat)

lemma f64_round_nonneg: "0 \<le> x \<Longrightarrow> 0 \<le> f64_round x"
proof -
  assume "0 \<le> x"
  then have "\<bar>x\<bar> / 2 ^ 53 \<le> x" by (simp add: divide_le_eq)
  with f64_error [of x] show ?thesis unfolding abs_le_iff by linarith
qed

text \<open>A duration in seconds, up to three units of its last place.\<close>

lemma as_secs_f64_error:
  assumes "ns < 2 ^ 80"
  shows "\<bar>as_secs_f64 ns - of_nat ns / 10 ^ 9\<bar> \<le> 3 * (of_nat ns / 10 ^ 9) / 2 ^ 53"
proof -
  define k m where "k = ns div 1000000000" and "m = ns mod 1000000000"
  define s :: rat where "s = of_nat ns / 10 ^ 9"
  define a a' :: rat where "a = of_nat m / 10 ^ 9" and "a' = f64_round a"
  have ns: "ns = k * 1000000000 + m" by (simp add: k_def m_def)
  have s: "s = of_nat k + a" by (simp add: s_def a_def ns field_simps)
  have "k < 2 ^ 53" "m < 2 ^ 53" using assms by (simp_all add: k_def m_def less_mult_imp_div_less)
  then have f: "as_secs_f64 ns = f64_round (of_nat k + a')"
    by (simp add: as_secs_f64_def f64_add_def f64_div_def f64_of_nat_exact k_def [symmetric] m_def [symmetric] a'_def a_def)
  have a: "0 \<le> a" "a \<le> s" using s by (simp_all add: a_def)
  define d :: rat where "d = s / 2 ^ 53"
  have d: "a / 2 ^ 53 \<le> d" "0 \<le> d" "d \<le> s" using a by (simp_all add: d_def divide_right_mono divide_le_eq)
  have a': "\<bar>a' - a\<bar> \<le> d" using f64_error [of a] a d(1) by (simp add: a'_def)
  then have pos: "0 \<le> of_nat k + a'" "of_nat k + a' \<le> 2 * s"
    using a d s f64_round_nonneg [OF a(1)] unfolding abs_le_iff a'_def by simp_all
  then have "\<bar>of_nat k + a'\<bar> / 2 ^ 53 \<le> 2 * d" unfolding d_def using divide_right_mono [OF pos(2), of "2 ^ 53"] by simp
  with f64_error [of "of_nat k + a'"] have "\<bar>f64_round (of_nat k + a') - (of_nat k + a')\<bar> \<le> 2 * d" by linarith
  with a' have "\<bar>f64_round (of_nat k + a') - s\<bar> \<le> 3 * d" unfolding abs_le_iff s by linarith
  then show ?thesis unfolding f s_def [symmetric] by (simp add: d_def)
qed

end
