(* ===== verification/Token_Bucket.thy ===== *)
theory Token_Bucket
  imports Float64 Rate_Limits
begin

text \<open>
  The pacing of bulk data in \<open>client-core/src/limits.rs\<close>: one bucket of tokens for the process, one
  token per byte. A sender takes its tokens under the lock of the bucket, possibly more than there
  are, and then sleeps until the debt would be paid. The second component of the result is the
  time it sleeps, in nanoseconds.
\<close>

section \<open>The bucket\<close>

record bucket =
  tokens :: rat
  bucket_last :: nat

definition bucket_new :: "nat \<Rightarrow> bucket" where
  "bucket_new now = \<lparr>tokens = 0, bucket_last = now\<rparr>"

definition send_rate :: "limits_state \<Rightarrow> rat" where
  "send_rate L = f64_mul (f64_of_nat (unat (bandwidth_limit_kbps L))) 1024"

definition take_tokens :: "rat \<Rightarrow> nat \<Rightarrow> nat \<Rightarrow> bucket \<Rightarrow> bucket" where
  "take_tokens rate now bytes b =
     \<lparr>tokens = f64_sub (min (f64_add (tokens b) (f64_mul (as_secs_f64 (now - bucket_last b)) rate)) rate) (f64_of_nat bytes),
      bucket_last = now\<rparr>"

definition acquire_send_tokens :: "limits_state \<Rightarrow> nat \<Rightarrow> nat \<Rightarrow> bucket \<Rightarrow> bucket \<times> nat" where
  "acquire_send_tokens L now bytes b =
     (if bandwidth_limit_kbps L = 0 then (b, 0)
      else let rate = send_rate L; b = take_tokens rate now bytes b
           in (b, if tokens b < 0 then from_secs_f64 (f64_div (- tokens b) rate) else 0))"

text \<open>Several senders, in the order in which they get the lock.\<close>

definition acquire_all :: "limits_state \<Rightarrow> (nat \<times> nat) list \<Rightarrow> bucket \<Rightarrow> bucket" where
  "acquire_all L calls b = fold (\<lambda>(now, bytes) b. fst (acquire_send_tokens L now bytes b)) calls b"

section \<open>Facts\<close>

lemma send_rate_exact:
  "send_rate L = of_nat (unat (bandwidth_limit_kbps L) * 1024)" "send_rate L \<le> 2 ^ 42"
  "bandwidth_limit_kbps L \<noteq> 0 \<Longrightarrow> 1024 \<le> send_rate L"
proof -
  define k where "k = unat (bandwidth_limit_kbps L)"
  have k: "k < 2 ^ 32" using unat_u32_less [of "bandwidth_limit_kbps L"] by (simp add: k_def)
  then have "f64_round (of_nat (k * 1024)) = of_nat (k * 1024)" by (intro f64_round_nat) simp
  with k show r: "send_rate L = of_nat (unat (bandwidth_limit_kbps L) * 1024)"
    by (simp add: send_rate_def f64_mul_def f64_of_nat_exact k_def [symmetric])
  have "of_nat (k * 1024) \<le> (of_nat (2 ^ 42) :: rat)" using k by (intro of_nat_mono) simp
  then show "send_rate L \<le> 2 ^ 42" by (simp add: r k_def)
  show "1024 \<le> send_rate L" if "bandwidth_limit_kbps L \<noteq> 0"
  proof -
    have "1 \<le> k" using that by (simp add: k_def Suc_le_eq unat_gt_0)
    then have "of_nat 1024 \<le> (of_nat (k * 1024) :: rat)" by (intro of_nat_mono) simp
    then show ?thesis by (simp add: r k_def)
  qed
qed

text \<open>One step loses at most a byte to rounding, as long as the figures stay below \<open>2 ^ 48\<close>.\<close>

lemma f64_error_byte: "\<bar>x\<bar> \<le> 2 ^ 49 \<Longrightarrow> \<bar>f64_round x - x\<bar> \<le> 1 / 16"
  using f64_error [of x] divide_right_mono [of "\<bar>x\<bar>" "2 ^ 49" "2 ^ 53"] by simp

lemma credit_error:
  assumes "0 < rate" "rate \<le> 2 ^ 42" "1024 \<le> rate" "of_nat ns / 10 ^ 9 * rate \<le> 2 ^ 47"
  shows "\<bar>f64_mul (as_secs_f64 ns) rate - of_nat ns / 10 ^ 9 * rate\<bar> \<le> 1 / 4"
proof -
  define s :: rat where "s = of_nat ns / 10 ^ 9"
  define s' where "s' = as_secs_f64 ns"
  have s: "0 \<le> s" "s * rate \<le> 2 ^ 47" using assms(4) by (simp_all add: s_def)
  then have "s * 1024 \<le> 2 ^ 47" using mult_left_mono [OF assms(3) s(1)] by linarith
  then have "of_nat ns \<le> (2 :: rat) ^ 37 * 10 ^ 9" by (simp add: s_def)
  then have "of_nat ns \<le> (of_nat (2 ^ 37 * 10 ^ 9) :: rat)" by simp
  then have "ns \<le> 2 ^ 37 * 10 ^ 9" by (simp only: of_nat_le_iff)
  then have "ns < 2 ^ 80" by simp
  from as_secs_f64_error [OF this] have e: "\<bar>s' - s\<bar> \<le> 3 * s / 2 ^ 53" by (simp add: s_def s'_def)
  have "\<bar>s' * rate - s * rate\<bar> = \<bar>s' - s\<bar> * rate" using assms(1) by (simp add: left_diff_distrib [symmetric] abs_mult)
  also have "\<dots> \<le> (3 * s / 2 ^ 53) * rate" using e assms(1) by (intro mult_right_mono) simp_all
  also have "\<dots> = 3 * (s * rate) / 2 ^ 53" by simp
  also have "\<dots> \<le> 3 * 2 ^ 47 / 2 ^ 53" using s(2) by (intro divide_right_mono mult_left_mono) simp_all
  finally have d: "\<bar>s' * rate - s * rate\<bar> \<le> 3 / 64" by simp
  moreover have "0 \<le> s * rate" using s(1) assms(1) by simp
  ultimately have "\<bar>s' * rate\<bar> \<le> 2 ^ 49" using s(2) unfolding abs_le_iff by simp
  from f64_error_byte [OF this] d show ?thesis unfolding f64_mul_def s_def [symmetric] s'_def [symmetric] abs_le_iff by linarith
qed

lemma take_tokens_step:
  assumes "1024 \<le> rate" "rate \<le> 2 ^ 42" "of_nat (now - bucket_last b) / 10 ^ 9 * rate \<le> 2 ^ 47"
    and "\<bar>tokens b\<bar> \<le> 2 ^ 47" "bytes \<le> 2 ^ 46"
  shows "tokens (take_tokens rate now bytes b) \<le> tokens b + of_nat (now - bucket_last b) / 10 ^ 9 * rate - of_nat bytes + 1"
    and "tokens (take_tokens rate now bytes b) \<le> rate + 1"
    and "min (tokens b) 0 - of_nat bytes - 1 \<le> tokens (take_tokens rate now bytes b)"
proof -
  define c where "c = of_nat (now - bucket_last b) / 10 ^ 9 * rate"
  define p where "p = f64_mul (as_secs_f64 (now - bucket_last b)) rate"
  define t1 where "t1 = f64_add (tokens b) p"
  define t2 where "t2 = min t1 rate"
  define t3 where "t3 = f64_sub t2 (of_nat bytes)"
  have c: "0 \<le> c" "c \<le> 2 ^ 47" using assms(1,3) by (simp_all add: c_def)
  have p: "\<bar>p - c\<bar> \<le> 1 / 4" unfolding p_def c_def using assms(1-3) by (intro credit_error) simp_all
  have "\<bar>tokens b + p\<bar> \<le> 2 ^ 49" using assms(4) c p unfolding abs_le_iff by simp
  from f64_error_byte [OF this] have t1: "\<bar>t1 - (tokens b + p)\<bar> \<le> 1 / 16" by (simp add: t1_def f64_add_def)
  have bytes: "of_nat bytes \<le> (2 :: rat) ^ 46" using of_nat_mono [OF assms(5), where 'a = rat] by simp
  have "\<bar>t2 - of_nat bytes\<bar> \<le> 2 ^ 49"
    using t1 p c assms(1,2,4) bytes unfolding abs_le_iff t2_def by (simp add: min_def)
  from f64_error_byte [OF this] have t3: "\<bar>t3 - (t2 - of_nat bytes)\<bar> \<le> 1 / 16" by (simp add: t3_def f64_sub_def)
  have "bytes < 2 ^ 53" using assms(5) by simp
  then have b': "tokens (take_tokens rate now bytes b) = t3"
    by (simp add: take_tokens_def t3_def t2_def t1_def p_def f64_of_nat_exact)
  have t2: "t2 \<le> t1" "t2 \<le> rate" "t2 = t1 \<or> t2 = rate" by (simp_all add: t2_def min_def)
  show "tokens (take_tokens rate now bytes b) \<le> tokens b + of_nat (now - bucket_last b) / 10 ^ 9 * rate - of_nat bytes + 1"
    using t1 t2(1) t3 p unfolding b' c_def [symmetric] abs_le_iff by linarith
  show "tokens (take_tokens rate now bytes b) \<le> rate + 1"
    using t2(2) t3 unfolding b' abs_le_iff using of_nat_0_le_iff [of bytes, where 'a = rat] by linarith
  show "min (tokens b) 0 - of_nat bytes - 1 \<le> tokens (take_tokens rate now bytes b)"
    using t1 t2(3) t3 p c assms(1) unfolding b' abs_le_iff by (auto simp: min_def)
qed

lemma acquire_all_snoc:
  "bandwidth_limit_kbps L \<noteq> 0 \<Longrightarrow> acquire_all L (calls @ [(now, bytes)]) b = take_tokens (send_rate L) now bytes (acquire_all L calls b)"
  by (simp add: acquire_all_def acquire_send_tokens_def Let_def)

definition total_bytes :: "(nat \<times> nat) list \<Rightarrow> nat" where
  "total_bytes calls = sum_list (map snd calls)"

definition end_of :: "nat \<Rightarrow> (nat \<times> nat) list \<Rightarrow> nat" where
  "end_of start calls = (if calls = [] then start else fst (last calls))"

lemma bucket_run:
  assumes "bandwidth_limit_kbps L \<noteq> 0" "sorted (start # map fst calls)" "total_bytes calls \<le> 2 ^ 46" "length calls \<le> 2 ^ 45"
    and "of_nat (end_of start calls - start) / 10 ^ 9 * send_rate L \<le> 2 ^ 47"
  defines "b \<equiv> acquire_all L calls (bucket_new start)"
  shows "tokens b + of_nat (total_bytes calls) \<le> of_nat (end_of start calls - start) / 10 ^ 9 * send_rate L + of_nat (length calls)
    \<and> tokens b \<le> send_rate L + 1 \<and> - of_nat (total_bytes calls + length calls) \<le> tokens b \<and> bucket_last b = end_of start calls"
  using assms(2-5) unfolding b_def
proof (induction calls rule: rev_induct)
  case Nil
  then show ?case
    using send_rate_exact(3) [OF assms(1)] by (simp add: acquire_all_def bucket_new_def total_bytes_def end_of_def)
next
  case (snoc x calls)
  obtain now bytes where x: "x = (now, bytes)" by (cases x)
  let ?b = "acquire_all L calls (bucket_new start)" and ?r = "send_rate L"
  have r: "1024 \<le> ?r" "?r \<le> 2 ^ 42" using send_rate_exact [of L] assms(1) by simp_all
  have order: "start \<le> end_of start calls" "end_of start calls \<le> now"
    using snoc.prems(1) last_in_set [of calls] by (auto simp: x end_of_def sorted_append)
  have e: "end_of start (calls @ [x]) = now" by (simp add: end_of_def x)
  have tot: "total_bytes (calls @ [x]) = total_bytes calls + bytes" by (simp add: total_bytes_def x)
  have elapsed: "of_nat (now - start) = (of_nat (end_of start calls - start) + of_nat (now - end_of start calls) :: rat)"
    using order by (simp add: of_nat_diff)
  have c: "of_nat (end_of start calls - start) / 10 ^ 9 * ?r + of_nat (now - end_of start calls) / 10 ^ 9 * ?r = of_nat (now - start) / 10 ^ 9 * ?r"
    by (simp add: elapsed add_divide_distrib distrib_right)
  have nn: "0 \<le> of_nat (end_of start calls - start) / 10 ^ 9 * ?r" "0 \<le> of_nat (now - end_of start calls) / 10 ^ 9 * ?r"
    using r by simp_all
  have IH: "tokens ?b + of_nat (total_bytes calls) \<le> of_nat (end_of start calls - start) / 10 ^ 9 * ?r + of_nat (length calls)"
    "tokens ?b \<le> ?r + 1" "- of_nat (total_bytes calls + length calls) \<le> tokens ?b" "bucket_last ?b = end_of start calls"
    using snoc.IH snoc.prems c nn by (auto simp: e tot sorted_append)
  have small: "of_nat (total_bytes calls + length calls) \<le> (2 :: rat) ^ 47"
  proof -
    have "total_bytes calls + length calls \<le> 2 ^ 47" using snoc.prems(2,3) by (simp add: tot)
    from of_nat_mono [OF this, where 'a = rat] show ?thesis by simp
  qed
  have tk: "\<bar>tokens ?b\<bar> \<le> 2 ^ 47" using IH(2,3) small r(2) unfolding abs_le_iff by simp
  have "of_nat (now - end_of start calls) / 10 ^ 9 * ?r \<le> 2 ^ 47" using snoc.prems(4) c nn(1) by (simp add: e)
  note step = take_tokens_step [OF r, of now ?b bytes, unfolded IH(4), OF this tk]
  have "bytes \<le> 2 ^ 46" using snoc.prems(2) by (simp add: tot)
  note step = step [OF this]
  have "acquire_all L (calls @ [x]) (bucket_new start) = take_tokens ?r now bytes ?b"
    using assms(1) by (simp add: x acquire_all_snoc)
  then show ?case
    using step IH c by (auto simp: e tot take_tokens_def min_def split: if_splits)
qed

lemma wait_covers_debt:
  assumes "1024 \<le> rate" "0 \<le> debt" "debt \<le> 2 ^ 47"
  shows "debt \<le> of_nat (from_secs_f64 (f64_div debt rate) + 1) / 10 ^ 9 * rate + 1"
proof -
  define q where "q = f64_div debt rate"
  define y where "y = q * 1000000000"
  have exact: "0 \<le> debt / rate" using assms by simp
  have "\<bar>q - debt / rate\<bar> \<le> debt / rate / 2 ^ 53"
    using f64_error [of "debt / rate"] unfolding q_def f64_div_def abs_of_nonneg [OF exact] .
  then have "debt / rate - q \<le> debt / rate / 2 ^ 53" unfolding abs_le_iff by linarith
  then have "(debt / rate - q) * rate \<le> debt / rate / 2 ^ 53 * rate" using assms(1) by (intro mult_right_mono) simp_all
  then have "debt - q * rate \<le> debt / 2 ^ 53" using assms(1) by (simp add: left_diff_distrib)
  also have "\<dots> \<le> 2 ^ 47 / 2 ^ 53" using assms(3) by (intro divide_right_mono) simp_all
  finally have q: "debt - q * rate \<le> 1 / 2" by simp
  have "0 \<le> q" unfolding q_def f64_div_def using exact by (rule f64_round_nonneg)
  have "y \<le> of_int (round_half_even y) + 1" using round_half_even_error [of y] unfolding abs_le_iff by simp
  also have "\<dots> \<le> of_nat (nat (round_half_even y) + 1)" by (cases "0 \<le> round_half_even y") simp_all
  finally have "q \<le> of_nat (from_secs_f64 q + 1) / 10 ^ 9" by (simp add: y_def from_secs_f64_def)
  then have "q * rate \<le> of_nat (from_secs_f64 q + 1) / 10 ^ 9 * rate" using assms(1) by (intro mult_right_mono) simp_all
  with q show ?thesis unfolding q_def by linarith
qed

lemma let_through:
  assumes "bandwidth_limit_kbps L \<noteq> 0" "sorted (start # map fst (calls @ [(now, bytes)]))"
    and "total_bytes (calls @ [(now, bytes)]) \<le> 2 ^ 46" "length calls < 2 ^ 45"
    and "of_nat (now - start) / 10 ^ 9 * of_nat (unat (bandwidth_limit_kbps L) * 1024) \<le> (2 ^ 47 :: rat)"
    and "acquire_send_tokens L now bytes (acquire_all L calls (bucket_new start)) = (b, wait)"
  shows "(of_nat (total_bytes (calls @ [(now, bytes)])) :: rat)
     \<le> of_nat (unat (bandwidth_limit_kbps L) * 1024) * of_nat (now + wait + 1 - start) / 10 ^ 9 + of_nat (length calls + 2)"
proof -
  let ?r = "send_rate L" and ?calls = "calls @ [(now, bytes)]"
  have b: "b = acquire_all L ?calls (bucket_new start)" "wait = (if tokens b < 0 then from_secs_f64 (f64_div (- tokens b) ?r) else 0)"
    using assms(1,6) by (auto simp: acquire_all_snoc acquire_send_tokens_def Let_def)
  have r: "1024 \<le> ?r" using send_rate_exact(3) [OF assms(1)] .
  have e: "end_of start ?calls = now" by (simp add: end_of_def)
  have run: "tokens b + of_nat (total_bytes ?calls) \<le> of_nat (now - start) / 10 ^ 9 * ?r + of_nat (length ?calls)"
    "- of_nat (total_bytes ?calls + length ?calls) \<le> tokens b"
    using bucket_run [OF assms(1-3), unfolded e] assms(4,5) unfolding b(1) send_rate_exact(1) [symmetric] by simp_all
  have "total_bytes ?calls + length ?calls \<le> 2 ^ 47" using assms(3,4) by simp
  from of_nat_mono [OF this, where 'a = rat] run(2) have "- tokens b \<le> 2 ^ 47" by simp
  then have w: "- tokens b \<le> of_nat (wait + 1) / 10 ^ 9 * ?r + 1"
    using wait_covers_debt [OF r, of "- tokens b"] r by (auto simp: b(2) intro: order_trans [of _ 0])
  have "start \<le> now" using assms(2) by (simp add: sorted_append)
  then have "of_nat (now + wait + 1 - start) = (of_nat (now - start) + of_nat (wait + 1) :: rat)" by (simp add: of_nat_diff)
  then have "?r * of_nat (now + wait + 1 - start) / 10 ^ 9 = of_nat (now - start) / 10 ^ 9 * ?r + of_nat (wait + 1) / 10 ^ 9 * ?r"
    by (simp only: add_divide_distrib distrib_right distrib_left times_divide_eq_left times_divide_eq_right mult.commute)
  with run(1) w show ?thesis unfolding send_rate_exact(1) [symmetric] by (simp add: add_divide_distrib)
qed

section \<open>Properties\<close>

text \<open>C22: the limit holds in the long run, rounding included. When a call returns, that is at its
  time plus the time it sleeps, all the data let through since the bucket was made is at most the
  configured rate times the time passed (and one nanosecond), plus one byte per call.\<close>

theorem bandwidth_limit_holds:
  assumes "bandwidth_limit_kbps L \<noteq> 0" "sorted (start # map fst (calls @ [(now, bytes)]))"
    and "total_bytes (calls @ [(now, bytes)]) \<le> 2 ^ 46" "length calls < 2 ^ 45"
    and "of_nat (now - start) / 10 ^ 9 * of_nat (unat (bandwidth_limit_kbps L) * 1024) \<le> (2 ^ 47 :: rat)"
    and "acquire_send_tokens L now bytes (acquire_all L calls (bucket_new start)) = (b, wait)"
  shows "(of_nat (total_bytes (calls @ [(now, bytes)])) :: rat)
     \<le> of_nat (unat (bandwidth_limit_kbps L) * 1024) * of_nat (now + wait + 1 - start) / 10 ^ 9 + of_nat (length calls + 2)"
  by (rule let_through [OF assms])

theorem bandwidth_limit_holds_witness:
  "(of_nat (total_bytes [(5, 4096)]) :: rat) \<le> of_nat (unat (16 :: u32) * 1024) * of_nat (5 + snd (acquire_send_tokens
       (set_bandwidth_limit_kbps 16 limits_init) 5 4096 (bucket_new 5)) + 1 - 5) / 10 ^ 9 + of_nat 2"
proof -
  let ?L = "set_bandwidth_limit_kbps 16 limits_init"
  have k: "bandwidth_limit_kbps ?L = 16"
    by (simp add: set_bandwidth_limit_kbps_def bandwidth_limit_kbps_def effective_kbps_def MIN_KBPS_def)
  obtain b wait where w: "acquire_send_tokens ?L 5 4096 (bucket_new 5) = (b, wait)" by (cases "acquire_send_tokens ?L 5 4096 (bucket_new 5)")
  have w': "acquire_send_tokens ?L 5 4096 (acquire_all ?L [] (bucket_new 5)) = (b, wait)" using w by (simp add: acquire_all_def)
  show ?thesis
    using bandwidth_limit_holds [where L = ?L and start = 5 and calls = "[]" and now = 5 and bytes = 4096, OF _ _ _ _ _ w'] k
    by (simp add: total_bytes_def w)
qed

end
