(* ===== verification/Paced_Sending.thy ===== *)
theory Paced_Sending
  imports Token_Bucket Rtc_Client
begin

text \<open>
  The senders of \<open>client-core/src/rtc/mod.rs\<close> together with the token bucket of \<open>limits.rs\<close>: the task that
  writes outbound payloads, and the callback of an opened channel that writes what was queued.
  A sender has a clock of its own (nanoseconds) that passes the time it sleeps. Between its steps
  other tasks change the client and other senders use the bucket, whose lock orders all calls.
\<close>

section \<open>Senders\<close>

text \<open>\<open>ps_calls\<close> is the history of all calls of \<open>acquire_send_tokens\<close>, \<open>ps_sent\<close> the number of bytes
  this sender asked for.\<close>

record paced =
  ps_client :: webrtc_client
  ps_bucket :: bucket
  ps_clock :: nat
  ps_calls :: "(nat \<times> nat) list"
  ps_sent :: nat

definition paced_new :: "nat \<Rightarrow> webrtc_client \<Rightarrow> paced" where
  "paced_new start c = \<lparr>ps_client = c, ps_bucket = bucket_new start, ps_clock = start, ps_calls = [], ps_sent = 0\<rparr>"

definition acquire_for :: "limits_state \<Rightarrow> nat \<Rightarrow> paced \<Rightarrow> paced" where
  "acquire_for L bytes s =
     (let now = max (ps_clock s) (bucket_last (ps_bucket s));
          (b, wait) = acquire_send_tokens L now bytes (ps_bucket s)
      in s\<lparr>ps_bucket := b, ps_clock := now + wait, ps_calls := ps_calls s @ [(now, bytes)], ps_sent := ps_sent s + bytes\<rparr>)"

text \<open>The bytes for which a payload that can be written asks the bucket.\<close>

fun tokens_needed :: "rtc_prims \<Rightarrow> outbound_p2p_payload \<Rightarrow> webrtc_client \<Rightarrow> nat option" where
  "tokens_needed P (OutMessage msg) c =
     (if wc_has_channel c \<and> rtc_dc_open (wc_state c)
      then case rp_to_bson P msg of
             Inr bson_bytes \<Rightarrow> if is_bulk_stream (sec_message msg) then Some (length bson_bytes) else None
           | Inl _ \<Rightarrow> None
      else None)"
| "tokens_needed P (OutBinary b) c = (if wc_has_channel c \<and> rtc_dc_open (wc_state c) then Some (length b) else None)"
| "tokens_needed P (OutUnsigned _) c = None"

definition paced_payload ::
  "limits_state \<Rightarrow> rtc_prims \<Rightarrow> (nat \<Rightarrow> bool \<times> (string, string) hmap) \<Rightarrow> outbound_p2p_payload \<Rightarrow> paced \<Rightarrow> paced" where
  "paced_payload L P polls payload s =
     (case outbound_sign (rp_node P) polls payload of
        None \<Rightarrow> s
      | Some payload' \<Rightarrow>
          (let s = (case tokens_needed P payload' (ps_client s) of Some n \<Rightarrow> acquire_for L n s | None \<Rightarrow> s)
           in s\<lparr>ps_client := outbound_write P payload' (ps_client s)\<rparr>))"

definition paced_envelope :: "limits_state \<Rightarrow> rtc_prims \<Rightarrow> secured_p2p_envelope \<Rightarrow> paced \<Rightarrow> paced" where
  "paced_envelope L P msg s =
     (case rp_to_bson P msg of
        Inr bson_bytes \<Rightarrow>
          (let s = (if is_bulk_stream (sec_message msg) then acquire_for L (length bson_bytes) s else s)
           in s\<lparr>ps_client := on_state (\<lambda>st. snd (send_chunked_binary bson_bytes 10240 st)) (ps_client s)\<rparr>)
      | Inl _ \<Rightarrow> s)"

definition paced_opened :: "limits_state \<Rightarrow> rtc_prims \<Rightarrow> u64 \<Rightarrow> u16 \<Rightarrow> paced \<Rightarrow> paced" where
  "paced_opened L P ts local_port s =
     (let c = ps_client s;
          st = emit (OnPeerStateChanged (rtc_target (wc_state c)) Authenticating) (wc_state c);
          st = send_plain P (my_handshake (np_crypto (rp_node P)) (wc_private_key c)
                (my_info (rtc_ctx st)) (rtc_target st) ts local_port) st;
          s = s\<lparr>ps_client := c\<lparr>wc_state := st, wc_pending := []\<rparr>\<rparr>;
          s = fold (paced_envelope L P) (wc_pending c) s
      in s\<lparr>ps_client := (ps_client s)\<lparr>wc_ping_task := True\<rparr>\<rparr>)"

section \<open>Interleaving\<close>

datatype paced_event =
    PayloadTaken "nat \<Rightarrow> bool \<times> (string, string) hmap" outbound_p2p_payload
  | ChannelOpens u64 u16
  | TimePasses nat \<comment> \<open>the sender waits for something else\<close>
  | OtherSender nat nat \<comment> \<open>the time and the bytes it asks for\<close>
  | OtherTask "webrtc_client \<Rightarrow> webrtc_client" \<comment> \<open>what it does to the client\<close>

fun paced_step :: "limits_state \<Rightarrow> rtc_prims \<Rightarrow> paced_event \<Rightarrow> paced \<Rightarrow> paced" where
  "paced_step L P (PayloadTaken polls payload) s = paced_payload L P polls payload s"
| "paced_step L P (ChannelOpens ts port) s = paced_opened L P ts port s"
| "paced_step L P (TimePasses d) s = s\<lparr>ps_clock := ps_clock s + d\<rparr>"
| "paced_step L P (OtherSender t bytes) s =
     (let now = max t (bucket_last (ps_bucket s))
      in s\<lparr>ps_bucket := fst (acquire_send_tokens L now bytes (ps_bucket s)), ps_calls := ps_calls s @ [(now, bytes)]\<rparr>)"
| "paced_step L P (OtherTask f) s = s\<lparr>ps_client := f (ps_client s)\<rparr>"

text \<open>The same without a bucket.\<close>

fun unpaced_step :: "rtc_prims \<Rightarrow> paced_event \<Rightarrow> webrtc_client \<Rightarrow> webrtc_client" where
  "unpaced_step P (PayloadTaken polls payload) c = outbound_payload P polls payload c"
| "unpaced_step P (ChannelOpens ts port) c = channel_opened P ts port c"
| "unpaced_step P (OtherTask f) c = f c"
| "unpaced_step P _ c = c"

section \<open>Pacing only delays\<close>

lemma acquire_for_client [simp]: "ps_client (acquire_for L n s) = ps_client s"
  by (simp add: acquire_for_def case_prod_unfold Let_def)

lemma paced_envelope_client:
  "ps_client (paced_envelope L P msg s) = on_state (send_envelope_default P msg) (ps_client s)"
  by (simp add: paced_envelope_def send_envelope_default_def on_state_def Let_def split: sum.split)

lemma paced_envelopes_client:
  "ps_client (fold (paced_envelope L P) msgs s) = on_state (fold (send_envelope_default P) msgs) (ps_client s)"
  by (induction msgs arbitrary: s) (simp_all add: paced_envelope_client on_state_def)

lemma paced_step_client: "ps_client (paced_step L P e s) = unpaced_step P e (ps_client s)"
  by (cases e)
    (simp_all add: paced_payload_def outbound_payload_def paced_opened_def channel_opened_def paced_envelopes_client
      on_state_def Let_def split: option.split)

lemma paced_run_client: "ps_client (fold (paced_step L P) events s) = fold (unpaced_step P) events (ps_client s)"
  by (induction events arbitrary: s) (simp_all add: paced_step_client)

section \<open>The rate\<close>

text \<open>The ranges within which a number of bytes or of tokens is exact up to one byte.\<close>

definition run_small :: "limits_state \<Rightarrow> nat \<Rightarrow> (nat \<times> nat) list \<Rightarrow> bool" where
  "run_small L start calls \<longleftrightarrow> total_bytes calls \<le> 2 ^ 46 \<and> length calls \<le> 2 ^ 45
     \<and> of_nat (end_of start calls - start) / 10 ^ 9 * of_nat (unat (bandwidth_limit_kbps L) * 1024) \<le> (2 ^ 47 :: rat)"

definition within_rate :: "limits_state \<Rightarrow> nat \<Rightarrow> nat \<Rightarrow> nat \<Rightarrow> nat \<Rightarrow> bool" where
  "within_rate L start clock calls sent \<longleftrightarrow>
     (of_nat sent :: rat) \<le> of_nat (unat (bandwidth_limit_kbps L) * 1024) * of_nat (clock + 1 - start) / 10 ^ 9 + of_nat (calls + 1)"

definition paced_inv :: "limits_state \<Rightarrow> nat \<Rightarrow> paced \<Rightarrow> bool" where
  "paced_inv L start s \<longleftrightarrow>
     ps_bucket s = acquire_all L (ps_calls s) (bucket_new start) \<and> sorted (start # map fst (ps_calls s))
     \<and> bucket_last (ps_bucket s) = end_of start (ps_calls s) \<and> start \<le> ps_clock s
     \<and> ps_sent s \<le> total_bytes (ps_calls s)
     \<and> (run_small L start (ps_calls s) \<longrightarrow> within_rate L start (ps_clock s) (length (ps_calls s)) (ps_sent s))"

lemma within_rate_mono:
  assumes "within_rate L start clock k sent" "clock \<le> clock'" "k \<le> k'"
  shows "within_rate L start clock' k' sent"
proof -
  let ?r = "of_nat (unat (bandwidth_limit_kbps L) * 1024) :: rat"
  have "of_nat (clock + 1 - start) \<le> (of_nat (clock' + 1 - start) :: rat)" using assms(2) by (intro of_nat_mono) simp
  then have "?r * of_nat (clock + 1 - start) / 10 ^ 9 \<le> ?r * of_nat (clock' + 1 - start) / 10 ^ 9"
    by (intro divide_right_mono mult_left_mono of_nat_0_le_iff) simp_all
  moreover have "of_nat (k + 1) \<le> (of_nat (k' + 1) :: rat)" using assms(3) by (intro of_nat_mono) simp
  ultimately show ?thesis using assms(1) unfolding within_rate_def by linarith
qed

lemma run_small_prefix:
  assumes "run_small L start (calls @ [(now, n)])" "end_of start calls \<le> now"
  shows "run_small L start calls"
proof -
  let ?r = "of_nat (unat (bandwidth_limit_kbps L) * 1024) :: rat"
  have "of_nat (end_of start calls - start) \<le> (of_nat (now - start) :: rat)" using assms(2) by (intro of_nat_mono) simp
  then have "of_nat (end_of start calls - start) / 10 ^ 9 * ?r \<le> of_nat (now - start) / 10 ^ 9 * ?r"
    by (intro mult_right_mono divide_right_mono of_nat_0_le_iff) simp_all
  moreover have "end_of start (calls @ [(now, n)]) = now" by (simp add: end_of_def)
  ultimately show ?thesis using assms(1) unfolding run_small_def by (auto simp: total_bytes_def)
qed

lemma sorted_end_of:
  assumes "sorted (start # map fst calls)" "end_of start calls \<le> now"
  shows "sorted (start # map fst (calls @ [(now, n)]))"
proof -
  have "fst x \<le> now" if "x \<in> set calls" for x
  proof -
    from that obtain i where i: "i < length calls" "x = calls ! i" by (auto simp: in_set_conv_nth)
    then have "map fst calls ! i \<le> map fst calls ! (length calls - 1)"
      using assms(1) by (intro sorted_nth_mono) auto
    then show ?thesis using i assms(2) by (auto simp: end_of_def last_conv_nth split: if_splits)
  qed
  moreover have "start \<le> now" using assms by (cases calls rule: rev_cases) (auto simp: end_of_def)
  ultimately show ?thesis using assms(1) by (auto simp: sorted_append)
qed

lemma any_call:
  assumes "bandwidth_limit_kbps L \<noteq> 0" "paced_inv L start s" "now = max t (bucket_last (ps_bucket s))"
    and "acquire_send_tokens L now n (ps_bucket s) = (b, wait)"
  shows "b = acquire_all L (ps_calls s @ [(now, n)]) (bucket_new start)"
    "sorted (start # map fst (ps_calls s @ [(now, n)]))" "bucket_last b = now" "end_of start (ps_calls s) \<le> now"
proof -
  have s: "ps_bucket s = acquire_all L (ps_calls s) (bucket_new start)" "sorted (start # map fst (ps_calls s))"
    and e: "end_of start (ps_calls s) \<le> now"
    using assms(2,3) by (auto simp: paced_inv_def)
  show "end_of start (ps_calls s) \<le> now" by (rule e)
  show "sorted (start # map fst (ps_calls s @ [(now, n)]))" by (rule sorted_end_of [OF s(2) e])
  show "b = acquire_all L (ps_calls s @ [(now, n)]) (bucket_new start)" "bucket_last b = now"
    using assms(1,4) s(1) by (auto simp: acquire_all_snoc acquire_send_tokens_def take_tokens_def Let_def)
qed

lemma acquire_for_inv:
  assumes "bandwidth_limit_kbps L \<noteq> 0" "paced_inv L start s"
  shows "paced_inv L start (acquire_for L n s)"
proof -
  define now where "now = max (ps_clock s) (bucket_last (ps_bucket s))"
  obtain b wait where bw: "acquire_send_tokens L now n (ps_bucket s) = (b, wait)" by fastforce
  note call = any_call [OF assms now_def bw]
  have s: "ps_bucket s = acquire_all L (ps_calls s) (bucket_new start)" "start \<le> ps_clock s" "ps_sent s \<le> total_bytes (ps_calls s)"
    using assms(2) by (auto simp: paced_inv_def)
  have sent: "ps_sent s + n \<le> total_bytes (ps_calls s @ [(now, n)])" using s(3) by (simp add: total_bytes_def)
  have e: "end_of start (ps_calls s @ [(now, n)]) = now" by (simp add: end_of_def)
  have "within_rate L start (now + wait) (length (ps_calls s @ [(now, n)])) (ps_sent s + n)"
    if "run_small L start (ps_calls s @ [(now, n)])"
  proof -
    have "(of_nat (total_bytes (ps_calls s @ [(now, n)])) :: rat)
        \<le> of_nat (unat (bandwidth_limit_kbps L) * 1024) * of_nat (now + wait + 1 - start) / 10 ^ 9 + of_nat (length (ps_calls s) + 2)"
      using that e by (intro let_through [OF assms(1) call(2) _ _ _ bw [unfolded s(1)]]) (auto simp: run_small_def)
    moreover have "(of_nat (ps_sent s + n) :: rat) \<le> of_nat (total_bytes (ps_calls s @ [(now, n)]))" by (rule of_nat_mono [OF sent])
    ultimately show ?thesis unfolding within_rate_def by simp
  qed
  moreover have "acquire_for L n s = s\<lparr>ps_bucket := b, ps_clock := now + wait, ps_calls := ps_calls s @ [(now, n)], ps_sent := ps_sent s + n\<rparr>"
    using bw by (simp add: acquire_for_def now_def [symmetric])
  moreover have "start \<le> now + wait" using s(2) by (simp add: now_def)
  ultimately show ?thesis using call sent e unfolding paced_inv_def by simp
qed

lemma paced_inv_client [simp]: "paced_inv L start (s\<lparr>ps_client := c\<rparr>) = paced_inv L start s"
  by (simp add: paced_inv_def)

lemma paced_envelope_inv:
  assumes "bandwidth_limit_kbps L \<noteq> 0" "paced_inv L start s"
  shows "paced_inv L start (paced_envelope L P msg s)"
  using assms by (simp add: paced_envelope_def Let_def acquire_for_inv split: sum.split)

lemma paced_envelopes_inv:
  assumes "bandwidth_limit_kbps L \<noteq> 0" "paced_inv L start s"
  shows "paced_inv L start (fold (paced_envelope L P) msgs s)"
  using assms(2) by (induction msgs arbitrary: s) (simp_all add: paced_envelope_inv [OF assms(1)])

lemma paced_step_inv:
  assumes "bandwidth_limit_kbps L \<noteq> 0" "paced_inv L start s"
  shows "paced_inv L start (paced_step L P e s)"
proof (cases e)
  case (OtherSender t n)
  define now where "now = max t (bucket_last (ps_bucket s))"
  obtain b wait where bw: "acquire_send_tokens L now n (ps_bucket s) = (b, wait)" by fastforce
  note call = any_call [OF assms now_def bw]
  have "within_rate L start (ps_clock s) (length (ps_calls s @ [(now, n)])) (ps_sent s)"
    if "run_small L start (ps_calls s @ [(now, n)])"
    using assms(2) run_small_prefix [OF that call(4)] by (auto simp: paced_inv_def intro: within_rate_mono)
  moreover have "paced_step L P e s = s\<lparr>ps_bucket := b, ps_calls := ps_calls s @ [(now, n)]\<rparr>"
    using bw by (simp add: OtherSender now_def [symmetric] Let_def)
  moreover have "end_of start (ps_calls s @ [(now, n)]) = now" by (simp add: end_of_def)
  ultimately show ?thesis using call assms(2) unfolding paced_inv_def by (simp add: total_bytes_def)
next
  case (TimePasses d)
  then show ?thesis using assms(2) by (auto simp: paced_inv_def intro: within_rate_mono)
qed (use assms in \<open>simp_all add: paced_payload_def paced_opened_def Let_def acquire_for_inv paced_envelopes_inv split: option.split\<close>)

lemma paced_run_inv:
  assumes "bandwidth_limit_kbps L \<noteq> 0" "paced_inv L start s"
  shows "paced_inv L start (fold (paced_step L P) events s)"
  using assms(2) by (induction events arbitrary: s) (simp_all add: paced_step_inv [OF assms(1)])

lemma paced_new_inv: "paced_inv L start (paced_new start c)"
proof -
  have "within_rate L start start 0 0"
    unfolding within_rate_def semiring_1_class.of_nat_0 by (intro add_nonneg_nonneg divide_nonneg_nonneg mult_nonneg_nonneg of_nat_0_le_iff) simp_all
  then show ?thesis
    by (simp add: paced_inv_def paced_new_def acquire_all_def bucket_new_def end_of_def total_bytes_def)
qed

section \<open>Properties\<close>



end
