(* ===== verification/Write_Lock.thy ===== *)
theory Write_Lock
  imports Rtc_Client
begin

text \<open>
  The write lock of a data channel. In the rest of the development \<open>send_chunked_binary\<close> of
  \<open>client-core/src/rtc/mod.rs\<close> is one step, although the tasks of a client (the outbound task, the
  answers to a peer, the ping task, the callback of an opened channel) call it concurrently and it
  yields after each frame. Here it is taken apart: each task asks for the lock, takes it, writes one
  frame at a time and gives it back, in any interleaving with the others, and the channel may close
  at any moment, so that the next write fails and the task gives up. What is shown is that the
  frames on the wire are those of one message after the other, so that the single step is right;
  what would happen without the lock is in \<open>Chunking\<close> (\<open>interleaved_writers_corrupt\<close>).
\<close>

section \<open>Writers\<close>

text \<open>A message with its chunk size; a task has nothing to write, waits for the lock, or holds it and
  has frames left.\<close>

datatype writer = NoWrite | WaitsForLock nat bytes | Writes "(nat \<times> bytes) list"

definition framed :: "nat \<times> bytes \<Rightarrow> (nat \<times> bytes) list" where
  "framed p = map (Pair (fst p)) (frame_chunks (snd p) (fst p))"

text \<open>\<open>ch_order\<close> is the history of the messages whose task got the lock. A frame on the wire is
  recorded with the chunk size it was made with.\<close>

record data_channel =
  ch_open :: bool
  ch_lock :: "nat option"
  ch_writers :: "nat \<Rightarrow> writer"
  ch_wire :: "(nat \<times> bytes) list"
  ch_order :: "(nat \<times> bytes) list"

definition channel_start :: data_channel where
  "channel_start = \<lparr>ch_open = True, ch_lock = None, ch_writers = (\<lambda>_. NoWrite), ch_wire = [], ch_order = []\<rparr>"

definition writer_becomes :: "nat \<Rightarrow> writer \<Rightarrow> data_channel \<Rightarrow> data_channel" where
  "writer_becomes i w ch = ch\<lparr>ch_writers := (ch_writers ch)(i := w)\<rparr>"

inductive channel_step :: "data_channel \<Rightarrow> data_channel \<Rightarrow> bool" where
  Asks: "ch_writers ch i = NoWrite \<Longrightarrow> channel_step ch (writer_becomes i (WaitsForLock m data) ch)"
| Locks: "ch_writers ch i = WaitsForLock m data \<Longrightarrow> ch_lock ch = None \<Longrightarrow>
    channel_step ch (writer_becomes i (Writes (framed (m, data)))
      (ch\<lparr>ch_lock := Some i, ch_order := ch_order ch @ [(m, data)]\<rparr>))"
| Sends: "ch_writers ch i = Writes (f # fs) \<Longrightarrow> ch_open ch \<Longrightarrow>
    channel_step ch (writer_becomes i (Writes fs) (ch\<lparr>ch_wire := ch_wire ch @ [f]\<rparr>))"
| Fails: "ch_writers ch i = Writes (f # fs) \<Longrightarrow> \<not> ch_open ch \<Longrightarrow>
    channel_step ch (writer_becomes i NoWrite (ch\<lparr>ch_lock := None\<rparr>))"
| Unlocks: "ch_writers ch i = Writes [] \<Longrightarrow> channel_step ch (writer_becomes i NoWrite (ch\<lparr>ch_lock := None\<rparr>))"
| Closes: "channel_step ch (ch\<lparr>ch_open := False\<rparr>)"

section \<open>The invariant\<close>

fun is_writing :: "writer \<Rightarrow> bool" where
  "is_writing (Writes _) = True"
| "is_writing _ = False"

definition frames_left :: "data_channel \<Rightarrow> (nat \<times> bytes) list" where
  "frames_left ch =
     (case ch_lock ch of None \<Rightarrow> [] | Some i \<Rightarrow> (case ch_writers ch i of Writes fs \<Rightarrow> fs | _ \<Rightarrow> []))"

text \<open>Only the holder of the lock writes; while the channel is open, what is on the wire and what the
  holder has left are the messages in the order in which the lock was taken.\<close>

definition serialised :: "data_channel \<Rightarrow> bool" where
  "serialised ch \<longleftrightarrow>
     (\<forall>i. is_writing (ch_writers ch i) \<longleftrightarrow> ch_lock ch = Some i)
     \<and> (ch_open ch \<longrightarrow> concat (map framed (ch_order ch)) = ch_wire ch @ frames_left ch)
     \<and> (\<exists>rest. concat (map framed (ch_order ch)) = ch_wire ch @ rest)"

lemma writer_becomes_simps [simp]:
  "ch_writers (writer_becomes i w ch) = (ch_writers ch)(i := w)" "ch_lock (writer_becomes i w ch) = ch_lock ch"
  "ch_wire (writer_becomes i w ch) = ch_wire ch" "ch_order (writer_becomes i w ch) = ch_order ch"
  "ch_open (writer_becomes i w ch) = ch_open ch"
  by (simp_all add: writer_becomes_def)

lemma serialised_holder:
  assumes "serialised ch" "ch_writers ch i = Writes fs"
  shows "ch_lock ch = Some i" "frames_left ch = fs"
proof -
  have "is_writing (ch_writers ch i)" using assms(2) by simp
  then show "ch_lock ch = Some i" using assms(1) by (simp add: serialised_def del: is_writing.simps)
  then show "frames_left ch = fs" using assms(2) by (simp add: frames_left_def)
qed

lemma serialised_step:
  assumes "channel_step ch ch'" "serialised ch"
  shows "serialised ch'"
  using assms
proof cases
  case (Asks i m data)
  then have "\<not> is_writing (ch_writers ch i)" by simp
  then have "ch_lock ch \<noteq> Some i" using assms(2) by (simp add: serialised_def del: is_writing.simps)
  moreover from this have "frames_left ch' = frames_left ch"
    using Asks by (auto simp: frames_left_def split: option.split)
  ultimately show ?thesis using Asks assms(2) by (auto simp: serialised_def)
next
  case (Locks i m data)
  then show ?thesis using assms(2) by (auto simp: serialised_def frames_left_def)
next
  case (Sends i f fs)
  then show ?thesis using assms(2) serialised_holder [OF assms(2) Sends(2)] by (auto simp: serialised_def frames_left_def)
next
  case (Fails i f fs)
  then show ?thesis using assms(2) serialised_holder [OF assms(2) Fails(2)] by (auto simp: serialised_def frames_left_def)
next
  case (Unlocks i)
  then show ?thesis using assms(2) serialised_holder [OF assms(2) Unlocks(2)] by (auto simp: serialised_def frames_left_def)
next
  case Closes
  then show ?thesis using assms(2) by (auto simp: serialised_def)
qed

interpretation write_lock: transition_invariant channel_step serialised
  by unfold_locales (rule serialised_step)

lemma channel_start_serialised: "serialised channel_start"
  by (simp add: serialised_def channel_start_def frames_left_def)

section \<open>The single step is right\<close>

lemma send_all_room:
  assumes "rtc_dc_open s" "length (concat (map framed msgs)) \<le> rtc_dc_room s"
  shows "rtc_dc_sent (fold (\<lambda>(m, data) s. snd (send_chunked_binary data m s)) msgs s)
    = rtc_dc_sent s @ map snd (concat (map framed msgs))"
  using assms
proof (induction msgs arbitrary: s)
  case (Cons p msgs)
  let ?s = "snd (send_frames (frame_chunks (snd p) (fst p)) s)"
  have fits: "length (frame_chunks (snd p) (fst p)) \<le> rtc_dc_room s" using Cons.prems(2) by (simp add: framed_def)
  note room = send_frames_room [OF Cons.prems(1) this]
  have "length (concat (map framed msgs)) \<le> rtc_dc_room ?s" using Cons.prems(2) room by (simp add: framed_def [of p])
  from Cons.IH [OF _ this] room show ?case
    by (simp add: case_prod_unfold send_chunked_binary_def framed_def comp_def)
qed simp

section \<open>Properties\<close>

text \<open>C9: concurrent writers do not disturb each other. In every interleaving of the tasks that write
  to a channel, what the peer has put together at any moment is a prefix of the messages in the
  order in which their tasks got the lock; when no task is writing and the channel is open, it is
  all of them, nothing is left over, and the wire is what the model's single step leaves there.\<close>

theorem write_lock_serialises:
  assumes "channel_step\<^sup>*\<^sup>* channel_start ch" "list_all (\<lambda>(m, data). 1 \<le> m \<and> m \<le> 65535 \<and> data \<noteq> []) (ch_order ch)"
    and "rtc_dc_open s" "rtc_dc_sent s = []" "length (ch_wire ch) \<le> rtc_dc_room s"
  shows "(\<exists>rest. map snd (ch_order ch) = fst (assemble (ch_wire ch) assembler_new) @ rest)
    \<and> (ch_open ch \<and> ch_lock ch = None \<longrightarrow>
         assemble (ch_wire ch) assembler_new = (map snd (ch_order ch), assembler_new)
         \<and> map snd (ch_wire ch) = rtc_dc_sent (fold (\<lambda>(m, data) s. snd (send_chunked_binary data m s)) (ch_order ch) s))"
proof -
  have inv: "serialised ch" by (rule write_lock.reachable_inv [OF assms(1) channel_start_serialised])
  have ok: "list_all sendable_chunked (ch_order ch)" using assms(2) by (simp add: sendable_list case_prod_unfold)
  have f: "framed = (\<lambda>p. map (Pair (fst p)) (frame_chunks (snd p) (fst p)))" by (simp add: fun_eq_iff framed_def)
  obtain rest where "concat (map framed (ch_order ch)) = ch_wire ch @ rest" using inv by (auto simp: serialised_def)
  then have "\<exists>rest. map snd (ch_order ch) = fst (assemble (ch_wire ch) assembler_new) @ rest"
    unfolding f by (rule chunks.deliver_no_reordering [OF ok])
  moreover have "assemble (ch_wire ch) assembler_new = (map snd (ch_order ch), assembler_new)
      \<and> map snd (ch_wire ch) = rtc_dc_sent (fold (\<lambda>(m, data) s. snd (send_chunked_binary data m s)) (ch_order ch) s)"
    if "ch_open ch" "ch_lock ch = None"
  proof -
    have w: "ch_wire ch = concat (map framed (ch_order ch))" using inv that by (simp add: serialised_def frames_left_def)
    have "length (concat (map framed (ch_order ch))) \<le> rtc_dc_room s" using assms(5) by (simp only: w)
    from send_all_room [OF assms(3) this] chunks.deliver_stream [OF ok] show ?thesis by (simp add: w f assms(4))
  qed
  ultimately show ?thesis by blast
qed

theorem write_lock_serialises_witness:
  "\<exists>ch. channel_step\<^sup>*\<^sup>* channel_start ch \<and> ch_writers ch 1 = WaitsForLock 2 [9]
     \<and> assemble (ch_wire ch) assembler_new = ([[1, 2, 3]], assembler_new)"
proof -
  define c1 where "c1 = writer_becomes 0 (WaitsForLock 2 [1, 2, 3]) channel_start"
  define c2 where "c2 = writer_becomes 1 (WaitsForLock 2 [9]) c1"
  define c3 where "c3 = writer_becomes 0 (Writes (framed (2, [1, 2, 3]))) (c2\<lparr>ch_lock := Some 0, ch_order := ch_order c2 @ [(2, [1, 2, 3])]\<rparr>)"
  define c4 where "c4 = writer_becomes 0 (Writes [(2, [0, 1, 3])]) (c3\<lparr>ch_wire := ch_wire c3 @ [(2, [0, 2, 1, 2])]\<rparr>)"
  define c5 where "c5 = writer_becomes 0 (Writes []) (c4\<lparr>ch_wire := ch_wire c4 @ [(2, [0, 1, 3])]\<rparr>)"
  define c6 where "c6 = writer_becomes 0 NoWrite (c5\<lparr>ch_lock := None\<rparr>)"
  note defs = c6_def c5_def c4_def c3_def c2_def c1_def channel_start_def
  have f: "framed (2, [1, 2, 3]) = [(2, [0, 2, 1, 2]), (2, [0, 1, 3])]" by code_simp
  have "channel_step channel_start c1" unfolding c1_def by (rule Asks) (simp add: channel_start_def)
  moreover have "channel_step c1 c2" unfolding c2_def by (rule Asks) (simp add: c1_def channel_start_def)
  moreover have "channel_step c2 c3" unfolding c3_def by (rule Locks) (simp_all add: c2_def c1_def channel_start_def)
  moreover have "channel_step c3 c4" unfolding c4_def by (rule Sends) (simp_all add: c3_def c2_def c1_def channel_start_def f)
  moreover have "channel_step c4 c5" unfolding c5_def by (rule Sends) (simp_all add: c4_def c3_def c2_def c1_def channel_start_def)
  moreover have "channel_step c5 c6" unfolding c6_def by (rule Unlocks) (simp add: c5_def)
  ultimately have run: "channel_step\<^sup>*\<^sup>* channel_start c6" by (meson converse_rtranclp_into_rtranclp rtranclp.rtrancl_refl)
  have "assemble (ch_wire c6) assembler_new = (map snd (ch_order c6), assembler_new)"
    using write_lock_serialises [OF run, of "demo_rtc\<lparr>rtc_dc_room := 5\<rparr>"] by (simp add: defs demo_rtc_def)
  then have "assemble (ch_wire c6) assembler_new = ([[1, 2, 3]], assembler_new)" by (simp add: defs)
  moreover have "ch_writers c6 1 = WaitsForLock 2 [9]" by (simp add: defs)
  ultimately show ?thesis using run by blast
qed

end
