(* ===== verification/Rtc_Video.thy ===== *)
theory Rtc_Video
  imports Video_Utils Float64 Rtc_Client
begin

text \<open>
  The tasks of \<open>client-core/src/rtc/mod.rs\<close> that move video, and \<open>client-core/src/desktop.rs\<close>: on the host
  the task that takes captured frames, scales, converts and encodes them, and the one that listens
  for requests of a key frame; on the viewer the task that depacketizes, decodes and hands frames to
  the application. The encoder and the decoder (crate \<open>openh264\<close>), the RTP depacketizer and the
  track (crate \<open>webrtc\<close>) are arguments. Each loop is a function of one turn; the pauses between turns
  are not modelled.
\<close>

section \<open>The host: frames\<close>

record captured_frame =
  cf_data :: bytes
  cf_width :: nat
  cf_height :: nat

datatype desktop_stream_status = StatusStarting string | StatusActive nat nat | StatusError string | StatusStopped

definition scaled :: "nat \<Rightarrow> nat \<Rightarrow> nat" where
  "scaled this other = f64_to_nat (f64_mul (f64_of_nat this) (f64_div (f64_of_nat 1280) (f64_of_nat other)))"

definition even_side :: "nat \<Rightarrow> nat" where
  "even_side n = (if n mod 2 \<noteq> 0 then n - 1 else n)"

definition target_dims :: "bool \<Rightarrow> nat \<Rightarrow> nat \<Rightarrow> nat \<times> nat" where
  "target_dims original_size w h =
     (let (w, h) = (if \<not> original_size \<and> (w > 1280 \<or> h > 1280)
                    then if w > h then (1280, scaled h w) else (scaled w h, 1280)
                    else (w, h))
      in (even_side w, even_side h))"

text \<open>The planes as the encoder reads them, through pointers and strides of type \<open>i32\<close>.\<close>

record simple_yuv_source =
  ys_width :: int
  ys_height :: int
  ys_y :: bytes
  ys_u :: bytes
  ys_v :: bytes

definition as_i32 :: "nat \<Rightarrow> int" where
  "as_i32 n = sint (word_of_nat n :: i32)"

definition div_i32 :: "int \<Rightarrow> int \<Rightarrow> int" where
  "div_i32 a b = sgn a * sgn b * (\<bar>a\<bar> div \<bar>b\<bar>)"

definition y_stride :: "simple_yuv_source \<Rightarrow> int" where "y_stride src = ys_width src"
definition u_stride :: "simple_yuv_source \<Rightarrow> int" where "u_stride src = div_i32 (ys_width src) 2"
definition v_stride :: "simple_yuv_source \<Rightarrow> int" where "v_stride src = div_i32 (ys_width src) 2"

record ('e) video_prims =
  vp_new :: "nat \<Rightarrow> nat \<Rightarrow> u32 \<Rightarrow> 'e result"
  vp_set_bitrate :: "u32 \<Rightarrow> 'e \<Rightarrow> bool \<times> 'e" \<comment> \<open>whether the library took it\<close>
  vp_force_intra :: "'e \<Rightarrow> 'e"
  vp_encode :: "simple_yuv_source \<Rightarrow> 'e \<Rightarrow> bytes result \<times> 'e"

text \<open>What the task keeps, the flags it shares with other tasks, and the samples written.\<close>

record ('e) video_task =
  vt_encoder :: "'e option"
  vt_width :: nat
  vt_height :: nat
  vt_bitrate :: u32
  vt_none_frames :: nat
  vt_frame_count :: nat
  vt_running :: bool
  vt_stop :: bool
  vt_original_size :: bool
  vt_target_bitrate :: u32
  vt_force_keyframe :: bool
  vt_frame :: "captured_frame option"
  vt_samples :: "bytes list"

definition video_task_new :: "bool \<Rightarrow> u32 \<Rightarrow> 'e video_task" where
  "video_task_new original_size bitrate =
     \<lparr>vt_encoder = None, vt_width = 0, vt_height = 0, vt_bitrate = 0, vt_none_frames = 0, vt_frame_count = 0,
      vt_running = True, vt_stop = False, vt_original_size = original_size, vt_target_bitrate = bitrate,
      vt_force_keyframe = False, vt_frame = None, vt_samples = []\<rparr>"

text \<open>The capturer replaces a frame that has not been taken.\<close>

definition on_frame :: "captured_frame \<Rightarrow> 'e video_task \<Rightarrow> 'e video_task" where
  "on_frame f t = t\<lparr>vt_frame := Some f\<rparr>"

text \<open>The encoder for a frame of the given size: \<open>None\<close> if it cannot be made.\<close>

definition prepare_encoder :: "'e video_prims \<Rightarrow> nat \<Rightarrow> nat \<Rightarrow> 'e video_task \<Rightarrow> 'e video_task option" where
  "prepare_encoder V target_w target_h t =
     (let target_bitrate = vt_target_bitrate t
      in case vt_encoder t of
           Some enc \<Rightarrow>
             (if vt_width t \<noteq> target_w \<or> vt_height t \<noteq> target_h
              then (case vp_new V target_w target_h target_bitrate of
                      Inr e \<Rightarrow> Some (t\<lparr>vt_encoder := Some e, vt_width := target_w, vt_height := target_h, vt_bitrate := target_bitrate\<rparr>)
                    | Inl _ \<Rightarrow> None)
              else if vt_bitrate t \<noteq> target_bitrate
              then (let (ok, enc) = vp_set_bitrate V target_bitrate enc
                    in Some (t\<lparr>vt_encoder := Some enc, vt_bitrate := (if ok then target_bitrate else vt_bitrate t)\<rparr>))
              else Some t)
         | None \<Rightarrow>
             (case vp_new V target_w target_h target_bitrate of
                Inr e \<Rightarrow> Some (t\<lparr>vt_encoder := Some e, vt_width := target_w, vt_height := target_h, vt_bitrate := target_bitrate\<rparr>)
              | Inl _ \<Rightarrow> None))"

definition frame_source :: "captured_frame \<Rightarrow> nat \<Rightarrow> nat \<Rightarrow> simple_yuv_source" where
  "frame_source frame width height =
     (let y_size = width * height; uv_size = (width div 2) * (height div 2);
          yuv_data = bgra_to_yuv420p (cf_data frame) (cf_width frame) (cf_height frame) width height
      in \<lparr>ys_width = as_i32 width, ys_height = as_i32 height,
          ys_y = take y_size yuv_data, ys_u = take uv_size (drop y_size yuv_data), ys_v = drop (y_size + uv_size) yuv_data\<rparr>)"

definition encode_frame :: "'e video_prims \<Rightarrow> captured_frame \<Rightarrow> 'e video_task \<Rightarrow> bytes \<times> 'e video_task" where
  "encode_frame V frame t =
     (let yuv_source = frame_source frame (vt_width t) (vt_height t);
          t = t\<lparr>vt_frame_count := vt_frame_count t + 1\<rparr>
      in case vt_encoder t of
           None \<Rightarrow> ([], t\<lparr>vt_force_keyframe := False\<rparr>)
         | Some enc \<Rightarrow>
             (let enc = (if vt_force_keyframe t then vp_force_intra V enc else enc);
                  (r, enc) = vp_encode V yuv_source enc
              in (case r of Inr bits \<Rightarrow> bits | Inl _ \<Rightarrow> [], t\<lparr>vt_encoder := Some enc, vt_force_keyframe := False\<rparr>)))"

text \<open>One turn. Whether the track takes the sample is an argument.\<close>

definition video_turn :: "'e video_prims \<Rightarrow> bool \<Rightarrow> 'e video_task \<Rightarrow> 'e video_task" where
  "video_turn V track_ok t =
     (if \<not> vt_running t then t
      else if vt_stop t then t\<lparr>vt_running := False\<rparr>
      else case vt_frame t of
        None \<Rightarrow> t\<lparr>vt_none_frames := vt_none_frames t + 1\<rparr>
      | Some frame \<Rightarrow>
          (let t = t\<lparr>vt_frame := None, vt_none_frames := 0\<rparr>;
               (target_w, target_h) = target_dims (vt_original_size t) (cf_width frame) (cf_height frame)
           in case prepare_encoder V target_w target_h t of
                None \<Rightarrow> t
              | Some t \<Rightarrow>
                  (let (bits, t) = encode_frame V frame t
                   in if bits = [] then t
                      else if track_ok then t\<lparr>vt_samples := vt_samples t @ [bits]\<rparr>
                      else t\<lparr>vt_running := False\<rparr>)))"

section \<open>The host: requests of a key frame\<close>

datatype rtcp_packet = PictureLossIndication | FullIntraRequest | OtherPacket
datatype rtcp_read = RtcpPackets "rtcp_packet list" | RtcpClosed | RtcpTimeout

definition want_key :: "rtcp_packet list \<Rightarrow> bool" where
  "want_key packets = list_ex (\<lambda>p. p = PictureLossIndication \<or> p = FullIntraRequest) packets"

text \<open>The second component tells whether the task goes on.\<close>

definition rtcp_turn :: "rtcp_read \<Rightarrow> 'e video_task \<Rightarrow> 'e video_task \<times> bool" where
  "rtcp_turn r t =
     (if vt_stop t then (t, False)
      else case r of
        RtcpPackets packets \<Rightarrow> (if want_key packets then t\<lparr>vt_force_keyframe := True\<rparr> else t, True)
      | RtcpClosed \<Rightarrow> (t, False)
      | RtcpTimeout \<Rightarrow> (t, True))"

section \<open>The viewer\<close>

definition video_track_id :: "string \<Rightarrow> string" where
  "video_track_id rid = ''video-'' @ rid"

definition clean_res_id :: "string \<Rightarrow> string" where
  "clean_res_id raw_track_id = (case strip_prefix ''video-'' raw_track_id of Some rid \<Rightarrow> rid | None \<Rightarrow> raw_track_id)"

record decoded_picture =
  dp_width :: nat
  dp_height :: nat
  dp_y :: bytes
  dp_u :: bytes
  dp_v :: bytes
  dp_y_stride :: nat
  dp_u_stride :: nat
  dp_v_stride :: nat

record ('d, 'c) viewer_prims =
  wp_depacketize :: "bytes \<Rightarrow> 'd \<Rightarrow> bytes result \<times> 'd"
  wp_decode :: "bytes \<Rightarrow> 'c \<Rightarrow> decoded_picture option result \<times> 'c"

record ('d, 'c) viewer_task =
  wt_depacketizer :: 'd
  wt_decoder :: 'c
  wt_buffer :: bytes
  wt_size :: nat \<comment> \<open>the compressed bytes since the last picture\<close>
  wt_last_pli :: int \<comment> \<open>milliseconds on the monotonic clock\<close>
  wt_plis :: "int list" \<comment> \<open>when a picture loss was reported\<close>
  wt_events :: "local_p2p_event list"
  wt_running :: bool

definition viewer_new :: "int \<Rightarrow> 'd \<Rightarrow> 'c \<Rightarrow> ('d, 'c) viewer_task" where
  "viewer_new now d c =
     \<lparr>wt_depacketizer = d, wt_decoder = c, wt_buffer = [], wt_size = 0, wt_last_pli = now - 10000, wt_plis = [],
      wt_events = [], wt_running = True\<rparr>"

definition viewer_end :: "string \<Rightarrow> ('d, 'c) viewer_task \<Rightarrow> ('d, 'c) viewer_task" where
  "viewer_end track_id t =
     t\<lparr>wt_running := False, wt_events := wt_events t @ [RemoteDesktopStopped (clean_res_id track_id)]\<rparr>"

definition show_picture :: "string \<Rightarrow> decoded_picture \<Rightarrow> ('d, 'c) viewer_task \<Rightarrow> ('d, 'c) viewer_task" where
  "show_picture track_id p t =
     (let target_len = dp_width p * dp_height p * 4;
          buf = (if length (wt_buffer t) \<noteq> target_len then replicate target_len 0 else wt_buffer t);
          buf = yuv420p_to_bgra (dp_y p) (dp_u p) (dp_v p) (dp_width p) (dp_height p)
                  (dp_y_stride p) (dp_u_stride p) (dp_v_stride p) buf
      in t\<lparr>wt_buffer := buf, wt_size := 0,
           wt_events := wt_events t @ [RemoteDesktopFrame (clean_res_id track_id) buf
             (word_of_nat (dp_width p)) (word_of_nat (dp_height p)) (word_of_nat (wt_size t))]\<rparr>)"

definition report_loss :: "int \<Rightarrow> ('d, 'c) viewer_task \<Rightarrow> ('d, 'c) viewer_task" where
  "report_loss now t =
     (if now - wt_last_pli t \<ge> 200 then t\<lparr>wt_last_pli := now, wt_plis := wt_plis t @ [now]\<rparr> else t)"

text \<open>One turn: whether the connection still exists, and what the track returns.\<close>

definition viewer_turn ::
  "('d, 'c) viewer_prims \<Rightarrow> string \<Rightarrow> int \<Rightarrow> bool \<Rightarrow> bytes result \<Rightarrow> ('d, 'c) viewer_task \<Rightarrow> ('d, 'c) viewer_task" where
  "viewer_turn W track_id now alive rtp t =
     (if \<not> wt_running t then t
      else if \<not> alive then viewer_end track_id t
      else case rtp of
        Inl _ \<Rightarrow> viewer_end track_id t
      | Inr payload \<Rightarrow>
          (let t = t\<lparr>wt_size := wt_size t + length payload\<rparr>
           in case wp_depacketize W payload (wt_depacketizer t) of
                (Inl _, d) \<Rightarrow> t\<lparr>wt_depacketizer := d\<rparr>
              | (Inr nal, d) \<Rightarrow>
                  (let t = t\<lparr>wt_depacketizer := d\<rparr>
                   in if nal = [] then t
                      else case wp_decode W ([0, 0, 0, 1] @ nal) (wt_decoder t) of
                             (Inr (Some p), c) \<Rightarrow> show_picture track_id p (t\<lparr>wt_decoder := c\<rparr>)
                           | (Inr None, c) \<Rightarrow> t\<lparr>wt_decoder := c\<rparr>
                           | (Inl _, c) \<Rightarrow> report_loss now (t\<lparr>wt_decoder := c\<rparr>))))"

section \<open>Facts\<close>

lemma scaled_le:
  assumes "this \<le> other" "1280 < other" "other < 2 ^ 53"
  shows "scaled this other \<le> 1280"
proof -
  define x :: rat where "x = 1280 / of_nat other"
  define d where "d = f64_round x"
  define m where "m = f64_round (of_nat this * d)"
  have o: "(0 :: rat) < of_nat other" using assms(2) by simp
  have x: "0 \<le> x" "of_nat this * x \<le> 1280"
    using assms(1) o by (simp_all add: x_def pos_divide_le_eq)
  have d: "0 \<le> d" "d \<le> x + x / 2 ^ 53"
    using f64_round_nonneg [OF x(1)] f64_error [of x] x(1) unfolding d_def abs_le_iff by simp_all
  have "of_nat this * d \<le> of_nat this * (x + x / 2 ^ 53)" using d(2) by (intro mult_left_mono) simp_all
  also have "\<dots> = of_nat this * x + of_nat this * x / 2 ^ 53" by (simp add: distrib_left)
  also have "\<dots> \<le> 1280 + 1280 / 2 ^ 53" using x(2) by (intro add_mono divide_right_mono) simp_all
  finally have td: "0 \<le> of_nat this * d" "of_nat this * d \<le> 1280 + 1 / 2 ^ 40" using d(1) by simp_all
  then have "m \<le> of_nat this * d + of_nat this * d / 2 ^ 53"
    using f64_error [of "of_nat this * d"] unfolding m_def abs_le_iff by simp
  also have "\<dots> \<le> 1280 + 1 / 2 ^ 40 + (1280 + 1 / 2 ^ 40) / 2 ^ 53" using td(2) by (intro add_mono divide_right_mono) simp_all
  also have "\<dots> < 1281" by simp
  finally have "\<lfloor>m\<rfloor> < 1281" by (simp add: floor_less_iff)
  then have "nat \<lfloor>m\<rfloor> \<le> 1280" by linarith
  moreover have "scaled this other = nat \<lfloor>m\<rfloor>"
    using assms by (simp add: scaled_def f64_to_nat_def f64_mul_def f64_div_def f64_of_nat_exact m_def d_def x_def)
  ultimately show ?thesis by simp
qed

lemma even_side: "even (even_side n)" "even_side n \<le> n"
  by (simp_all add: even_side_def) presburger

lemma length_yuv: "length (bgra_to_yuv420p bgra sw sh w h) = w * h + 2 * ((w div 2) * (h div 2))"
  unfolding bgra_to_yuv420p_def Let_def fold_rows
  by (simp add: encode_loops luma_loop.length_loop [of _ "w * h"] chroma_loop.length_loop [of _ "(w div 2) * (h div 2)"])

lemma as_i32_small: "n < 2 ^ 31 \<Longrightarrow> as_i32 n = int n"
proof -
  assume n: "n < 2 ^ 31"
  then have "take_bit 32 n = n" by (intro take_bit_nat_eq_self) simp
  moreover have "signed_take_bit 31 (int n) = int n" using n by (intro signed_take_bit_int_eq_self) simp_all
  ultimately show ?thesis by (simp add: as_i32_def sint_uint unsigned_of_nat)
qed

lemma frame_source_fits:
  assumes "w < 2 ^ 31" "h < 2 ^ 31" "src = frame_source f w h"
  shows "ys_width src = int w \<and> ys_height src = int h
    \<and> int (length (ys_y src)) = y_stride src * ys_height src
    \<and> int (length (ys_u src)) = u_stride src * (ys_height src div 2)
    \<and> int (length (ys_v src)) = v_stride src * (ys_height src div 2)"
proof -
  have two: "div_i32 (int w) 2 = int (w div 2)" by (cases "w = 0") (simp_all add: div_i32_def zdiv_int)
  show ?thesis
    unfolding assms(3) frame_source_def Let_def y_stride_def u_stride_def v_stride_def
    using as_i32_small [OF assms(1)] as_i32_small [OF assms(2)] by (simp add: two length_yuv zdiv_int)
qed

text \<open>The laws of an encoder the code relies on: it is made for a size and keeps it.\<close>

definition encoder_law :: "('e \<Rightarrow> nat \<times> nat) \<Rightarrow> 'e video_prims \<Rightarrow> bool" where
  "encoder_law size_of V \<longleftrightarrow>
     (\<forall>w h b e. vp_new V w h b = Inr e \<longrightarrow> size_of e = (w, h)) \<and> (\<forall>b e. size_of (snd (vp_set_bitrate V b e)) = size_of e)
     \<and> (\<forall>e. size_of (vp_force_intra V e) = size_of e) \<and> (\<forall>src e. size_of (snd (vp_encode V src e)) = size_of e)"

definition encoder_fits :: "('e \<Rightarrow> nat \<times> nat) \<Rightarrow> 'e video_task \<Rightarrow> bool" where
  "encoder_fits size_of t \<longleftrightarrow> even (vt_width t) \<and> even (vt_height t)
     \<and> (\<forall>e. vt_encoder t = Some e \<longrightarrow> size_of e = (vt_width t, vt_height t))"

lemma prepare_fits:
  assumes "encoder_law size_of V" "encoder_fits size_of t" "even w" "even h" "prepare_encoder V w h t = Some t'"
  shows "encoder_fits size_of t' \<and> vt_width t' = w \<and> vt_height t' = h \<and> vt_encoder t' \<noteq> None"
  using assms
  by (auto simp: prepare_encoder_def encoder_law_def encoder_fits_def Let_def case_prod_unfold split: option.splits sum.splits if_splits)

lemma encode_fits:
  "encoder_law size_of V \<Longrightarrow> encoder_fits size_of t \<Longrightarrow> encoder_fits size_of (snd (encode_frame V f t))"
  by (auto simp: encode_frame_def encoder_law_def encoder_fits_def Let_def case_prod_unfold split: option.splits if_splits)

lemma target_dims_even: "target_dims original w h = (w', h') \<Longrightarrow> even w' \<and> even h'"
  by (auto simp: target_dims_def Let_def even_side split: if_splits)

lemma video_turn_fits:
  assumes "encoder_law size_of V" "encoder_fits size_of t"
  shows "encoder_fits size_of (video_turn V ok t)"
proof (cases "vt_running t \<and> \<not> vt_stop t")
  case True
  show ?thesis
  proof (cases "vt_frame t")
    case (Some f)
    let ?t = "t\<lparr>vt_frame := None, vt_none_frames := 0\<rparr>"
    obtain w h where wh: "target_dims (vt_original_size t) (cf_width f) (cf_height f) = (w, h)" by (cases "target_dims (vt_original_size t) (cf_width f) (cf_height f)")
    have t: "encoder_fits size_of ?t" using assms(2) by (simp add: encoder_fits_def)
    show ?thesis
    proof (cases "prepare_encoder V w h ?t")
      case None
      with True Some wh t show ?thesis by (simp add: video_turn_def Let_def)
    next
      case (Some t')
      with prepare_fits [OF assms(1) t, of w h t'] target_dims_even [OF wh]
      have "encoder_fits size_of (snd (encode_frame V f t'))" using encode_fits [OF assms(1)] by blast
      with True \<open>vt_frame t = Some f\<close> wh Some show ?thesis
        by (auto simp: video_turn_def Let_def case_prod_unfold encoder_fits_def)
    qed
  qed (use True assms(2) in \<open>simp add: video_turn_def encoder_fits_def\<close>)
qed (use assms(2) in \<open>auto simp: video_turn_def encoder_fits_def\<close>)

subsection \<open>All that happens to a host stream\<close>

datatype video_event =
    Captured captured_frame
  | VideoTurn bool
  | RtcpTurn rtcp_read
  | StopStream
  | ChangeStream bool u32 \<comment> \<open>a repeated request sets the flags\<close>

fun video_step :: "'e video_prims \<Rightarrow> video_event \<Rightarrow> 'e video_task \<Rightarrow> 'e video_task" where
  "video_step V (Captured f) t = on_frame f t"
| "video_step V (VideoTurn ok) t = video_turn V ok t"
| "video_step V (RtcpTurn r) t = fst (rtcp_turn r t)"
| "video_step V StopStream t = t\<lparr>vt_stop := True\<rparr>"
| "video_step V (ChangeStream original bitrate) t = t\<lparr>vt_original_size := original, vt_target_bitrate := bitrate\<rparr>"

lemma video_step_fits:
  "encoder_law size_of V \<Longrightarrow> encoder_fits size_of t \<Longrightarrow> encoder_fits size_of (video_step V e t)"
proof (cases e)
  case (VideoTurn ok)
  assume "encoder_law size_of V" "encoder_fits size_of t"
  with VideoTurn show ?thesis by (simp add: video_turn_fits)
qed (auto simp: on_frame_def rtcp_turn_def encoder_fits_def split: rtcp_read.split)

lemma video_run_fits:
  "encoder_law size_of V \<Longrightarrow> encoder_fits size_of t \<Longrightarrow> encoder_fits size_of (fold (video_step V) events t)"
  by (induction events arbitrary: t) (simp_all add: video_step_fits)

subsection \<open>All that happens to a viewer\<close>

definition viewer_run ::
  "('d, 'c) viewer_prims \<Rightarrow> string \<Rightarrow> (int \<times> bool \<times> bytes result) list \<Rightarrow> ('d, 'c) viewer_task \<Rightarrow> ('d, 'c) viewer_task" where
  "viewer_run W track_id inputs t = fold (\<lambda>(now, alive, rtp). viewer_turn W track_id now alive rtp) inputs t"

definition whole_frame :: "string \<Rightarrow> local_p2p_event \<Rightarrow> bool" where
  "whole_frame rid e \<longleftrightarrow> (\<exists>data w h n. e = RemoteDesktopFrame rid data (word_of_nat w) (word_of_nat h) n \<and> length data = w * h * 4)"

definition viewer_ok :: "string \<Rightarrow> ('d, 'c) viewer_task \<Rightarrow> bool" where
  "viewer_ok rid t \<longleftrightarrow>
     (\<exists>frames. wt_events t = frames @ (if wt_running t then [] else [RemoteDesktopStopped rid]) \<and> list_all (whole_frame rid) frames)
     \<and> sorted_wrt (\<lambda>a b. a + 200 \<le> b) (wt_plis t) \<and> (\<forall>p \<in> set (wt_plis t). p \<le> wt_last_pli t)"

lemma length_decoded: "length (yuv420p_to_bgra y u v w h ys us vs out) = length out"
  by (simp add: yuv420p_to_bgra_def fold_rows fold_pairs decode_loop.length_loop)

lemma clean_video_track_id: "clean_res_id (video_track_id rid) = rid"
  by (simp add: clean_res_id_def video_track_id_def strip_prefix_def)

lemma viewer_ok_cong:
  "wt_events t' = wt_events t \<Longrightarrow> wt_running t' = wt_running t \<Longrightarrow> wt_plis t' = wt_plis t \<Longrightarrow> wt_last_pli t' = wt_last_pli t \<Longrightarrow>
   viewer_ok rid t' = viewer_ok rid t"
  by (simp add: viewer_ok_def)

lemma viewer_end_ok: "viewer_ok rid t \<Longrightarrow> wt_running t \<Longrightarrow> clean_res_id track_id = rid \<Longrightarrow> viewer_ok rid (viewer_end track_id t)"
  by (auto simp: viewer_ok_def viewer_end_def)

lemma show_picture_ok:
  assumes "viewer_ok rid t" "wt_running t" "clean_res_id track_id = rid"
  shows "viewer_ok rid (show_picture track_id p t)"
proof -
  have "whole_frame rid (RemoteDesktopFrame rid buf (word_of_nat (dp_width p)) (word_of_nat (dp_height p)) n)"
    if "length buf = dp_width p * dp_height p * 4" for buf n
    using that by (auto simp: whole_frame_def)
  with assms show ?thesis by (auto simp: viewer_ok_def show_picture_def length_decoded Let_def)
qed

lemma report_loss_ok: "viewer_ok rid t \<Longrightarrow> viewer_ok rid (report_loss now t)"
  by (fastforce simp: viewer_ok_def report_loss_def sorted_wrt_append)

lemma viewer_turn_ok:
  assumes "viewer_ok rid t" "clean_res_id track_id = rid"
  shows "viewer_ok rid (viewer_turn W track_id now alive rtp t)"
proof -
  have k: "viewer_ok rid (t\<lparr>wt_size := n, wt_depacketizer := d, wt_decoder := c\<rparr>)" "viewer_ok rid (t\<lparr>wt_size := n, wt_depacketizer := d\<rparr>)"
    for n d c using assms(1) by (simp_all add: viewer_ok_def)
  show ?thesis
    using assms
    by (auto simp: viewer_turn_def Let_def k viewer_end_ok show_picture_ok report_loss_ok
        split: sum.splits option.splits prod.splits)
qed

lemma viewer_run_ok: "viewer_ok rid t \<Longrightarrow> clean_res_id track_id = rid \<Longrightarrow> viewer_ok rid (viewer_run W track_id inputs t)"
  unfolding viewer_run_def by (induction inputs arbitrary: t) (auto simp: viewer_turn_ok)

section \<open>Properties\<close>

text \<open>Whatever size is captured, the picture that is encoded has even sides, and at most 1280 on
  either unless the original size was asked for, in the rounding arithmetic of the code.\<close>

theorem encoded_size_bounded:
  assumes "w < 2 ^ 53" "h < 2 ^ 53" "target_dims original w h = (w', h')"
  shows "even w' \<and> even h' \<and> (original \<or> w' \<le> 1280 \<and> h' \<le> 1280) \<and> (original \<longrightarrow> w' \<le> w \<and> h' \<le> h \<and> w \<le> w' + 1 \<and> h \<le> h' + 1)"
proof -
  have es: "even_side n \<le> 1280" if "n \<le> 1280" for n using even_side(2) [of n] that by linarith
  have "n \<le> even_side n + 1" for n by (simp add: even_side_def)
  with assms es scaled_le [of h w] scaled_le [of w h] show ?thesis
    by (auto simp: target_dims_def Let_def even_side split: if_splits)
qed

theorem encoded_size_bounded_witness: "snd (target_dims True 1921 1081) = 1080 \<and> even (fst (target_dims True 1921 1081))"
  using encoded_size_bounded [of 1921 1081 True "fst (target_dims True 1921 1081)" "snd (target_dims True 1921 1081)"]
  by (simp add: target_dims_def even_side_def)


definition demo_video :: "(nat \<times> nat) video_prims" where
  "demo_video = \<lparr>vp_new = (\<lambda>w h b. Inr (w, h)), vp_set_bitrate = (\<lambda>b e. (True, e)), vp_force_intra = id,
     vp_encode = (\<lambda>src e. (Inr [1], e))\<rparr>"

definition demo_frame :: captured_frame where
  "demo_frame = \<lparr>cf_data = replicate 24 0, cf_width = 3, cf_height = 2\<rparr>"


text \<open>A viewer's request for a key frame is honoured by the next frame: the encoder is told to make
  an intra frame before it encodes, and the request is forgotten. Requests that come together count
  as one.\<close>

theorem key_frame_request_honoured:
  assumes "vt_running t" "\<not> vt_stop t" "want_key packets" "vt_frame t = Some f"
    and "target_dims (vt_original_size t) (cf_width f) (cf_height f) = (w, h)"
    and "prepare_encoder V w h (t\<lparr>vt_force_keyframe := True, vt_frame := None, vt_none_frames := 0\<rparr>) = Some t'"
    and "vt_encoder t' = Some enc"
  shows "vt_encoder (video_turn V ok (fst (rtcp_turn (RtcpPackets packets) t)))
        = Some (snd (vp_encode V (frame_source f (vt_width t') (vt_height t')) (vp_force_intra V enc)))
    \<and> \<not> vt_force_keyframe (video_turn V ok (fst (rtcp_turn (RtcpPackets packets) t)))"
proof -
  have fk: "vt_force_keyframe t'"
    using assms(6) by (auto simp: prepare_encoder_def Let_def case_prod_unfold split: option.splits sum.splits if_splits)
  let ?t = "fst (rtcp_turn (RtcpPackets packets) t)"
  have eq: "?t = t\<lparr>vt_force_keyframe := True\<rparr>" using assms(2,3) by (simp add: rtcp_turn_def)
  have "prepare_encoder V w h (?t\<lparr>vt_frame := None, vt_none_frames := 0\<rparr>) = Some t'" using assms(6) by (simp add: eq)
  moreover have "encode_frame V f t' = (let (r, e) = vp_encode V (frame_source f (vt_width t') (vt_height t')) (vp_force_intra V enc)
      in (case r of Inr bits \<Rightarrow> bits | Inl _ \<Rightarrow> [], t'\<lparr>vt_frame_count := vt_frame_count t' + 1, vt_encoder := Some e, vt_force_keyframe := False\<rparr>))"
    using assms(7) fk by (simp add: encode_frame_def Let_def case_prod_unfold)
  ultimately have "vt_encoder (video_turn V ok ?t) = Some (snd (vp_encode V (frame_source f (vt_width t') (vt_height t')) (vp_force_intra V enc)))
      \<and> \<not> vt_force_keyframe (video_turn V ok ?t)"
    using assms(1,2,4,5) by (auto simp: video_turn_def eq Let_def case_prod_unfold)
  then show ?thesis .
qed

theorem key_frame_request_honoured_witness:
  "\<not> vt_force_keyframe (video_turn demo_video True (fst (rtcp_turn (RtcpPackets [OtherPacket, PictureLossIndication])
      ((video_task_new True 800000)\<lparr>vt_frame := Some demo_frame\<rparr>))))"
proof -
  let ?t = "(video_task_new True 800000)\<lparr>vt_frame := Some demo_frame\<rparr> :: (nat \<times> nat) video_task"
  have wh: "target_dims (vt_original_size ?t) (cf_width demo_frame) (cf_height demo_frame) = (2, 2)"
    by (simp add: video_task_new_def target_dims_def even_side_def demo_frame_def)
  obtain t' where "prepare_encoder demo_video 2 2 (?t\<lparr>vt_force_keyframe := True, vt_frame := None, vt_none_frames := 0\<rparr>) = Some t'"
    "vt_encoder t' = Some (2, 2)"
    by (simp add: prepare_encoder_def demo_video_def video_task_new_def)
  from key_frame_request_honoured [OF _ _ _ _ wh this, of "[OtherPacket, PictureLossIndication]" True] show ?thesis
    by (auto simp: video_task_new_def want_key_def)
qed

text \<open>C25: what a viewer's application sees of a stream is a sequence of whole pictures, four bytes for
  each pixel, for the resource the host streams, then one notice that the stream has stopped and
  nothing more; reports of lost pictures are at least 200 milliseconds apart.\<close>

theorem viewer_stream_wellformed:
  "let t = viewer_run W (video_track_id rid) inputs (viewer_new now d c)
   in \<exists>frames. wt_events t = frames @ (if wt_running t then [] else [RemoteDesktopStopped rid])
      \<and> list_all (whole_frame rid) frames \<and> sorted_wrt (\<lambda>a b. a + 200 \<le> b) (wt_plis t)"
proof -
  have "viewer_ok rid (viewer_new now d c)" by (simp add: viewer_ok_def viewer_new_def)
  from viewer_run_ok [OF this clean_video_track_id] show ?thesis by (auto simp: Let_def viewer_ok_def)
qed

end
