(* ===== verification/Account_Client.thy ===== *)
theory Account_Client
  imports Api_Types
begin

text \<open>
  \<open>client-core/src/auth.rs\<close>: the requests to the account service, and the write-once cells of
  \<open>launcher.rs\<close> and \<open>desktop.rs\<close>. The HTTP client (crate \<open>reqwest\<close>) is a function from a request to what
  comes back, an error of the connection or a response; how a status is printed and how BSON and
  JSON are written and read are arguments.
\<close>

section \<open>Requests and responses\<close>

record device_profile =
  dpr_display_name :: "string option"
  dpr_os :: "string option"
  dpr_app_type :: "string option"
  dpr_version :: "string option"
  dpr_resources :: "shared_resource list"

datatype request_body = RefreshBody refresh_request | LoginBody login_request | DeviceBody string bytes | NoBody

record http_request =
  rq_url :: string
  rq_headers :: "(string \<times> string) list"
  rq_body :: request_body

text \<open>The body can fail to arrive after the status has.\<close>

record http_response =
  rs_status :: nat
  rs_text :: "string result"

record account_env =
  ae_http :: "http_request \<Rightarrow> http_response result"
  ae_status_text :: "nat \<Rightarrow> string"
  ae_bson_profile :: "device_profile \<Rightarrow> bytes result"
  ae_parse_refresh :: "string \<Rightarrow> refresh_response result"
  ae_parse_login :: "string \<Rightarrow> login_response result"
  ae_parse_device :: "string \<Rightarrow> device result"

definition is_success :: "nat \<Rightarrow> bool" where
  "is_success status \<longleftrightarrow> 200 \<le> status \<and> status < 300"

definition prefix_err :: "string \<Rightarrow> 'a result \<Rightarrow> 'a result" where
  "prefix_err p r = map_err (\<lambda>e. p @ e) r"

text \<open>\<open>resp.json()\<close> reads the body and parses it.\<close>

definition read_json :: "(string \<Rightarrow> 'a result) \<Rightarrow> http_response \<Rightarrow> 'a result" where
  "read_json parse resp = bind_result (rs_text resp) parse"

section \<open>Operations\<close>

definition refresh_access_token ::
  "account_env \<Rightarrow> string \<Rightarrow> string \<Rightarrow> turn_region \<Rightarrow> refresh_response result" where
  "refresh_access_token A api_target refresh_token region =
     (case ae_http A \<lparr>rq_url = api_target @ ''/account/refresh_token'', rq_headers = [],
              rq_body = RefreshBody \<lparr>rrq_refresh_token = refresh_token, rrq_region = region\<rparr>\<rparr> of
        Inr resp \<Rightarrow>
          (if is_success (rs_status resp)
           then let text = (case rs_text resp of Inr t \<Rightarrow> t | Inl _ \<Rightarrow> [])
                in prefix_err ''Failed to parse response: '' (ae_parse_refresh A text)
           else Inl (''Server returned error status: '' @ ae_status_text A (rs_status resp)))
      | Inl e \<Rightarrow> Inl (''Connection error: '' @ e))"

definition login :: "account_env \<Rightarrow> string \<Rightarrow> string \<Rightarrow> string \<Rightarrow> turn_region \<Rightarrow> login_response result" where
  "login A api_target name password region =
     bind_result (prefix_err ''Connection error: '' (ae_http A \<lparr>rq_url = api_target @ ''/account/login'', rq_headers = [],
          rq_body = LoginBody \<lparr>lrq_login = name, lrq_password = password, lrq_region = region\<rparr>\<rparr>)) (\<lambda>resp.
       if \<not> is_success (rs_status resp)
       then Inl (''Invalid login or password ('' @ ae_status_text A (rs_status resp) @ '')'')
       else prefix_err ''Failed to parse login response: '' (read_json (ae_parse_login A) resp))"

definition logoff :: "account_env \<Rightarrow> string \<Rightarrow> string \<Rightarrow> string option \<Rightarrow> unit result" where
  "logoff A api_target refresh_token access_token =
     (let cookie = ''RefreshToken='' @ refresh_token @ (case access_token of Some t \<Rightarrow> ''; AccessToken='' @ t | None \<Rightarrow> [])
      in bind_result (prefix_err ''Connection error: '' (ae_http A \<lparr>rq_url = api_target @ ''/account/logoff'',
            rq_headers = [(''cookie'', cookie)], rq_body = NoBody\<rparr>)) (\<lambda>resp.
         if \<not> is_success (rs_status resp)
         then Inl (''logoff failed ('' @ ae_status_text A (rs_status resp) @ '')'')
         else Inr ()))"

definition register_device :: "account_env \<Rightarrow> string \<Rightarrow> string \<Rightarrow> string \<Rightarrow> device_profile \<Rightarrow> device result" where
  "register_device A api_target access_token node_id profile =
     (let profile = profile\<lparr>dpr_resources := map without_config (dpr_resources profile)\<rparr>
      in bind_result (prefix_err ''Failed to encode device profile: '' (ae_bson_profile A profile)) (\<lambda>bson_bytes.
         bind_result (prefix_err ''Connection error: '' (ae_http A \<lparr>rq_url = api_target @ ''/account/devices'',
            rq_headers = [(''authorization'', ''Bearer '' @ access_token)], rq_body = DeviceBody node_id bson_bytes\<rparr>)) (\<lambda>resp.
         if \<not> is_success (rs_status resp)
         then Inl (''Device registration failed ('' @ ae_status_text A (rs_status resp) @ '')'')
         else prefix_err ''Failed to parse device response: '' (read_json (ae_parse_device A) resp))))"

section \<open>Write-once cells\<close>

text \<open>A \<open>OnceLock\<close> takes the first value and returns any other to its caller.\<close>

definition once_lock_set :: "'p \<Rightarrow> 'p option \<Rightarrow> ('p + unit) \<times> 'p option" where
  "once_lock_set provider cell = (case cell of None \<Rightarrow> (Inr (), Some provider) | Some _ \<Rightarrow> (Inl provider, cell))"

definition install_app_launch_provider :: "'p \<Rightarrow> 'p option \<Rightarrow> ('p + unit) \<times> 'p option" where
  "install_app_launch_provider provider cell = once_lock_set provider cell"

definition app_launch_provider :: "'p option \<Rightarrow> 'p option" where
  "app_launch_provider cell = cell"

definition install_desktop_provider :: "'p \<Rightarrow> 'p option \<Rightarrow> ('p + unit) \<times> 'p option" where
  "install_desktop_provider provider cell = once_lock_set provider cell"

definition desktop_provider :: "'p option \<Rightarrow> 'p option" where
  "desktop_provider cell = cell"

section \<open>What a registration reveals and when it succeeds\<close>

lemma read_json_Inr [simp]:
  "read_json parse resp = Inr d \<longleftrightarrow> (\<exists>t. rs_text resp = Inr t \<and> parse t = Inr d)"
  by (simp add: read_json_def)

lemma prefix_err_Inr [simp]: "prefix_err p r = Inr a \<longleftrightarrow> r = Inr a"
  by (simp add: prefix_err_def)

definition hide_configs :: "device_profile \<Rightarrow> device_profile" where
  "hide_configs p = p\<lparr>dpr_resources := map without_config (dpr_resources p)\<rparr>"

lemma register_device_hidden:
  "register_device A url tok nid (hide_configs p) = register_device A url tok nid p"
proof -
  have "without_config \<circ> without_config = without_config"
    by (simp add: fun_eq_iff without_config_def)
  then show ?thesis
    by (simp add: register_device_def hide_configs_def)
qed

lemma register_device_Inr:
  "register_device A url tok nid p = Inr d \<longleftrightarrow>
     (\<exists>b resp t. ae_bson_profile A (hide_configs p) = Inr b \<and>
        ae_http A \<lparr>rq_url = url @ ''/account/devices'', rq_headers = [(''authorization'', ''Bearer '' @ tok)],
                   rq_body = DeviceBody nid b\<rparr> = Inr resp \<and>
        is_success (rs_status resp) \<and> rs_text resp = Inr t \<and> ae_parse_device A t = Inr d)"
  by (auto simp: register_device_def hide_configs_def Let_def split: if_splits)

lemma hide_configs_iff:
  "s = hide_configs p \<longleftrightarrow> s\<lparr>dpr_resources := []\<rparr> = p\<lparr>dpr_resources := []\<rparr>
     \<and> dpr_resources s = map (\<lambda>r. r\<lparr>res_config := None\<rparr>) (dpr_resources p)"
  by (cases s; cases p) (auto simp: hide_configs_def without_config_def[abs_def])

text \<open>C28: The configuration of a resource, which holds the credentials and paths of this node, has
  no influence on what a registration sends or answers: two profiles that differ in nothing else
  are treated alike by every account service, and what is encoded has no configuration. A
  registration succeeds exactly when the profile could be encoded, the service answered with a 2xx
  status and the body of its answer arrived and is a device.\<close>

theorem registration_hides_configurations:
  assumes "p\<lparr>dpr_resources := []\<rparr> = q\<lparr>dpr_resources := []\<rparr>"
    and "map without_config (dpr_resources p) = map without_config (dpr_resources q)"
  shows "register_device A url tok nid p = register_device A url tok nid q
    \<and> (\<forall>d. register_device A url tok nid p = Inr d \<longleftrightarrow>
         (\<exists>sent b resp t. (sent\<lparr>dpr_resources := []\<rparr> = p\<lparr>dpr_resources := []\<rparr>
            \<and> dpr_resources sent = map (\<lambda>r. r\<lparr>res_config := None\<rparr>) (dpr_resources p))
            \<and> ae_bson_profile A sent = Inr b
            \<and> ae_http A \<lparr>rq_url = url @ ''/account/devices'',
                          rq_headers = [(''authorization'', ''Bearer '' @ tok)], rq_body = DeviceBody nid b\<rparr> = Inr resp
            \<and> (200 \<le> rs_status resp \<and> rs_status resp < 300)
            \<and> rs_text resp = Inr t \<and> ae_parse_device A t = Inr d))"
proof -
  have "hide_configs p = hide_configs q"
    using assms by (cases p; cases q) (simp add: hide_configs_def)
  then have "register_device A url tok nid p = register_device A url tok nid q"
    using register_device_hidden by metis
  then show ?thesis
    unfolding hide_configs_iff[symmetric] is_success_def[symmetric] register_device_Inr by simp
qed

text \<open>The witness runs a service that accepts the device and echoes its name.\<close>

definition sample_profile :: "string option \<Rightarrow> device_profile" where
  "sample_profile c = \<lparr>dpr_display_name = None, dpr_os = Some ''linux'', dpr_app_type = None, dpr_version = None,
     dpr_resources = [\<lparr>res_id = ''r'', res_name = ''folder'', res_type = SyncFolder, res_config = c,
       res_is_active = True, res_session_token = None\<rparr>]\<rparr>"

definition sample_account :: account_env where
  "sample_account = \<lparr>
     ae_http = (\<lambda>r. case rq_body r of DeviceBody nid b \<Rightarrow> Inr \<lparr>rs_status = 201, rs_text = Inr nid\<rparr> | _ \<Rightarrow> Inl ''closed''),
     ae_status_text = (\<lambda>_. ''status''),
     ae_bson_profile = (\<lambda>p. Inr [of_nat (length (dpr_resources p))]),
     ae_parse_refresh = (\<lambda>_. Inl ''json''), ae_parse_login = (\<lambda>_. Inl ''json''),
     ae_parse_device = (\<lambda>t. Inr \<lparr>dev_id = t, dev_name = t, dev_resources = [], dev_created_at = 0, dev_last_used = 0\<rparr>)\<rparr>"

theorem registration_hides_configurations_witness:
  "register_device sample_account ''u'' ''t'' ''n'' (sample_profile (Some ''secret'')) =
     register_device sample_account ''u'' ''t'' ''n'' (sample_profile None)
   \<and> (\<exists>d. register_device sample_account ''u'' ''t'' ''n'' (sample_profile (Some ''secret'')) = Inr d)"
proof
  show "register_device sample_account ''u'' ''t'' ''n'' (sample_profile (Some ''secret'')) =
     register_device sample_account ''u'' ''t'' ''n'' (sample_profile None)"
    using registration_hides_configurations
      [of "sample_profile (Some ''secret'')" "sample_profile None" sample_account "''u''" "''t''" "''n''"]
    by (simp add: sample_profile_def without_config_def)
  show "\<exists>d. register_device sample_account ''u'' ''t'' ''n'' (sample_profile (Some ''secret'')) = Inr d"
    by (simp add: register_device_Inr sample_account_def is_success_def)
qed

section \<open>The first provider stays\<close>

lemma once_lock_set_keeps:
  "fold (\<lambda>p cell. snd (once_lock_set p cell)) ps (Some q) = Some q"
  by (induction ps) (simp_all add: once_lock_set_def)

text \<open>Whatever is installed later, a cell keeps the first provider.\<close>

lemma first_provider_stays:
  "app_launch_provider (fold (\<lambda>p cell. snd (install_app_launch_provider p cell)) (p # ps) None) = Some p"
  "desktop_provider (fold (\<lambda>p cell. snd (install_desktop_provider p cell)) (q # qs) None) = Some q"
  using once_lock_set_keeps[of ps p] once_lock_set_keeps[of qs q]
  by (simp_all add: app_launch_provider_def desktop_provider_def install_app_launch_provider_def
      install_desktop_provider_def once_lock_set_def)

end
