(* ===== verification/Unit_Tests.thy ===== *)
theory Unit_Tests
  imports Network_Types Video_Utils Float64 "HOL-Library.Sublist"
begin

text \<open>
  The repository's own unit tests, run on the model: each definition is one test function of the
  sources, its assertions in order, and each lemma says that it passes. They check the translation
  against what the authors of the code expect of it. Tests of what is a parameter here (the wire
  formats, random keys, the cryptographic primitives) are left out; the test helpers are definitions
  too.
\<close>

named_theorems tested \<open>the definitions of the tests\<close>

section \<open>\<open>client-core/src/limits.rs\<close>\<close>

definition a_non_zero_rate_is_raised_to_the_floor_and_zero_stays_unlimited :: bool where [tested]:
  "a_non_zero_rate_is_raised_to_the_floor_and_zero_stays_unlimited \<longleftrightarrow>
     effective_kbps 0 = 0 \<and> effective_kbps 1 = MIN_KBPS \<and> effective_kbps (MIN_KBPS - 1) = MIN_KBPS \<and> effective_kbps 512 = 512"

lemma raised_to_the_floor_passes: "a_non_zero_rate_is_raised_to_the_floor_and_zero_stays_unlimited"
  by code_simp

definition queue_depth_scales_with_the_rate_instead_of_collapsing_to_a_floor :: bool where [tested]:
  "queue_depth_scales_with_the_rate_instead_of_collapsing_to_a_floor \<longleftrightarrow>
     (let CHUNK = 16 * 1024
      in queue_slots_for 0 CHUNK = Some DEFAULT_QUEUE_SLOTS \<and> queue_slots_for 1024 CHUNK = Some 128
         \<and> queue_slots_for 2048 CHUNK = Some 256 \<and> queue_slots_for (64 * 1024) CHUNK = Some DEFAULT_QUEUE_SLOTS
         \<and> queue_slots_for MIN_KBPS CHUNK = Some MIN_QUEUE_SLOTS)"

lemmas queue_defs = queue_slots_for_def saturating_mul_def clamp_u64_def QUEUE_SECONDS_def DEFAULT_QUEUE_SLOTS_def
  MIN_QUEUE_SLOTS_def MIN_KBPS_def Let_def

lemma queue_depth_passes: "queue_depth_scales_with_the_rate_instead_of_collapsing_to_a_floor"
  by (simp add: tested queue_defs)

text \<open>The seconds a queue holds, in the arithmetic of \<open>f64\<close>.\<close>

definition queue_seconds :: "u32 \<Rightarrow> rat option" where
  "queue_seconds kbps =
     map_option (\<lambda>slots. f64_div (f64_of_nat (unat (slots * (16 * 1024)))) (f64_mul (f64_of_nat (unat kbps)) 1024))
       (queue_slots_for kbps (16 * 1024))"

definition between_the_clamps_every_queue_holds_the_same_number_of_seconds :: bool where [tested]:
  "between_the_clamps_every_queue_holds_the_same_number_of_seconds \<longleftrightarrow>
     list_all (\<lambda>kbps. case queue_seconds kbps of
         Some seconds \<Rightarrow> \<bar>f64_sub seconds (f64_of_nat (unat QUEUE_SECONDS))\<bar> < 1 / 2 | None \<Rightarrow> False) [256, 512, 1024, 4096]"

lemma between_the_clamps_passes: "between_the_clamps_every_queue_holds_the_same_number_of_seconds"
proof -
  have "f64_round 2 = 2" "f64_round 0 = 0" using f64_round_nat [of 2] f64_round_nat [of 0] by simp_all
  moreover have "f64_round (numeral k) = numeral k" if "(numeral k :: nat) < 2 ^ 53" for k
    using f64_round_nat [OF that] by simp
  ultimately show ?thesis
    by (simp add: tested queue_seconds_def queue_defs f64_of_nat_exact f64_div_def f64_mul_def f64_sub_def)
qed

definition outside_the_clamps_the_backlog_is_documented_to_differ :: bool where [tested]:
  "outside_the_clamps_the_backlog_is_documented_to_differ \<longleftrightarrow>
     (case queue_seconds MIN_KBPS of
        Some seconds \<Rightarrow> seconds > f64_of_nat (unat QUEUE_SECONDS) \<and> seconds = 8 | None \<Rightarrow> False)"

lemma outside_the_clamps_passes: "outside_the_clamps_the_backlog_is_documented_to_differ"
proof -
  have "f64_round (numeral k) = numeral k" if "(numeral k :: nat) < 2 ^ 53" for k
    using f64_round_nat [OF that] by simp
  then show ?thesis
    by (simp add: tested queue_seconds_def queue_defs f64_of_nat_exact f64_div_def f64_mul_def)
qed

definition the_default_timeouts_reproduce_the_previous_hardcoded_ladders :: bool where [tested]:
  "the_default_timeouts_reproduce_the_previous_hardcoded_ladders \<longleftrightarrow>
     (let t = timeouts_default
      in ping_interval_secs t = 15 \<and> pong_timeout_ms t = 45000 \<and> ws_connect_secs t = 5 \<and> ice_recovery_grace_secs t = 3
         \<and> ice_signaling_stable_secs t = 5 \<and> ice_teardown_secs t = 12
         \<and> list_all (\<lambda>(attempt, expected). redial_backoff t attempt = Some expected)
             [(0, 0), (1, 5), (2, 10), (3, 15), (4, 30), (5, 60), (6, 120), (99, 120)]
         \<and> list_all (\<lambda>(attempt, expected). dial_stuck t attempt = Some expected)
             [(0, 3), (1, 3), (2, 5), (3, 15), (4, 30), (5, 60), (99, 60)])"

lemma default_timeouts_pass: "the_default_timeouts_reproduce_the_previous_hardcoded_ladders"
  by code_simp

definition a_pong_timeout_that_would_kill_healthy_sessions_is_raised :: bool where [tested]:
  "a_pong_timeout_that_would_kill_healthy_sessions_is_raised \<longleftrightarrow>
     map_option pong_timeout_ms (sanitised (timeouts_default\<lparr>ping_interval_secs := 20, pong_timeout_ms := 5000\<rparr>)) = Some 60000
     \<and> map_option pong_timeout_ms (sanitised (timeouts_default\<lparr>ping_interval_secs := 10, pong_timeout_ms := 90000\<rparr>)) = Some 90000
     \<and> map_option ping_interval_secs (sanitised (timeouts_default\<lparr>ping_interval_secs := 0\<rparr>)) = Some 1"

lemma pong_timeout_passes: "a_pong_timeout_that_would_kill_healthy_sessions_is_raised"
  by (simp add: tested sanitised_def clamp_u64_def saturating_mul_def timeouts_default_def Let_def)

definition only_the_bulk_streams_are_charged :: bool where [tested]:
  "only_the_bulk_streams_are_charged \<longleftrightarrow>
     is_bulk_stream (FileChunk 0 0 (replicate 8 0)) \<and> is_bulk_stream (HttpResponseChunk ''r'' 0 (replicate 8 0))
     \<and> \<not> is_bulk_stream (Ping 0) \<and> \<not> is_bulk_stream (Pong 0) \<and> \<not> is_bulk_stream (TerminalInput ''r'' (replicate 8 0))
     \<and> \<not> is_bulk_stream (SocksData ''r'' 0 (replicate 8 0))"

lemma only_bulk_passes: "only_the_bulk_streams_are_charged"
  by (simp add: tested)

definition the_setters_reach_the_getters :: bool where [tested]:
  "the_setters_reach_the_getters \<longleftrightarrow>
     (let s = set_max_peers 0 limits_init; s3 = set_max_peers 3 s; s = set_max_peers 0 s3;
          b = set_bandwidth_limit_kbps 0 s; b1 = set_bandwidth_limit_kbps 1 b
      in max_peers (set_max_peers 0 limits_init) = 0 \<and> max_peers s3 = 3 \<and> bandwidth_limit_kbps b = 0 \<and> bandwidth_limit_kbps b1 = MIN_KBPS)"

lemma setters_pass: "the_setters_reach_the_getters"
  by code_simp

section \<open>\<open>client-core/src/network/types.rs\<close>\<close>

definition first_attempt_has_zero_cooldown :: bool where [tested]:
  "first_attempt_has_zero_cooldown \<longleftrightarrow> get_cooldown_duration limits_init 0 div 1000 = 0"

definition cooldown_increases_with_attempts :: bool where [tested]:
  "cooldown_increases_with_attempts \<longleftrightarrow>
     (let d1 = get_cooldown_duration limits_init 1; d2 = get_cooldown_duration limits_init 2; d3 = get_cooldown_duration limits_init 3
      in d1 < d2 \<and> d2 < d3)"

definition attempt_5_is_60_seconds :: bool where [tested]:
  "attempt_5_is_60_seconds \<longleftrightarrow> get_cooldown_duration limits_init 5 div 1000 = 60"

definition high_attempt_count_caps_at_120_seconds :: bool where [tested]:
  "high_attempt_count_caps_at_120_seconds \<longleftrightarrow>
     get_cooldown_duration limits_init 6 div 1000 = 120 \<and> get_cooldown_duration limits_init 100 div 1000 = 120"

definition network_mode_equality :: bool where [tested]:
  "network_mode_equality \<longleftrightarrow> WebSocketConnected = WebSocketConnected \<and> WebSocketConnecting \<noteq> LocalMeshFallback"

lemma cooldown_tests_pass:
  "first_attempt_has_zero_cooldown" "cooldown_increases_with_attempts" "attempt_5_is_60_seconds"
  "high_attempt_count_caps_at_120_seconds" "network_mode_equality"
  by (simp_all add: tested get_cooldown_duration_def get_timeouts_def limits_init_def timeouts_default_def redial_backoff_def
      index_array_def Let_def)

section \<open>\<open>client-core/src/rtc/chunking.rs\<close>\<close>

text \<open>The helper of the tests: \<open>None\<close> is a panic.\<close>

fun rt_loop :: "bytes list \<Rightarrow> nat \<Rightarrow> chunk_assembler \<Rightarrow> bytes list \<Rightarrow> bytes list option" where
  "rt_loop [] m asm completed = Some completed"
| "rt_loop (frame # frames) m asm completed =
     (case push asm frame m of
        (Complete msg, asm) \<Rightarrow> rt_loop frames m asm (completed @ [msg])
      | (Incomplete, asm) \<Rightarrow> rt_loop frames m asm completed
      | (Ignored, asm) \<Rightarrow> rt_loop frames m asm completed
      | _ \<Rightarrow> None)"

definition round_trip :: "bytes \<Rightarrow> nat \<Rightarrow> bytes option" where
  "round_trip data m =
     (case rt_loop (frame_chunks data m) m assembler_new [] of Some [msg] \<Rightarrow> Some msg | _ \<Rightarrow> None)"

definition round_trip_small_single_chunk :: bool where [tested]:
  "round_trip_small_single_chunk \<longleftrightarrow>
     (let msg = as_bytes ''hello world'' in round_trip msg DEFAULT_MAX_CHUNK_PAYLOAD = Some msg)"

lemma small_single_chunk_passes: "round_trip_small_single_chunk"
  by code_simp

definition round_trip_exact_multiple_needs_terminator :: bool where [tested]:
  "round_trip_exact_multiple_needs_terminator \<longleftrightarrow>
     (let m = 100; msg = map word_of_nat [0..<200]; frames = frame_chunks msg m
      in length frames = 3 \<and> is_terminator (last frames) \<and> round_trip msg m = Some msg)"

lemma exact_multiple_passes: "round_trip_exact_multiple_needs_terminator"
  by code_simp

definition empty_message_yields_no_payload :: bool where [tested]:
  "empty_message_yields_no_payload \<longleftrightarrow>
     (let frames = frame_chunks [] DEFAULT_MAX_CHUNK_PAYLOAD
      in frames = [[0, 0]] \<and> fst (push assembler_new (frames ! 0) DEFAULT_MAX_CHUNK_PAYLOAD) = Ignored)"

definition too_small_frame_is_reported :: bool where [tested]:
  "too_small_frame_is_reported \<longleftrightarrow> fst (push assembler_new [127] 10240) = TooSmall 1"

definition length_mismatch_resets_buffer :: bool where [tested]:
  "length_mismatch_resets_buffer \<longleftrightarrow>
     (let bad = u16_to_be_bytes 500 @ [1, 2, 3]; (r, asm) = push assembler_new bad 10240
      in r = LengthMismatch 500 3 \<and> buffered_len asm = 0)"

lemma bad_frame_tests_pass:
  "empty_message_yields_no_payload" "too_small_frame_is_reported" "length_mismatch_resets_buffer"
  by code_simp+

section \<open>\<open>nodeinnet-p2p/src/p2p.rs\<close>\<close>

definition sync_folder_is_only_local :: bool where [tested]:
  "sync_folder_is_only_local \<longleftrightarrow> is_only_local SyncFolder"
definition filesystem_is_not_only_local :: bool where [tested]:
  "filesystem_is_not_only_local \<longleftrightarrow> \<not> is_only_local Filesystem"
definition terminal_is_only_remote :: bool where [tested]:
  "terminal_is_only_remote \<longleftrightarrow> is_only_remote Terminal"
definition shared_network_is_only_remote :: bool where [tested]:
  "shared_network_is_only_remote \<longleftrightarrow> is_only_remote SharedNetwork"
definition remote_desktop_is_only_remote :: bool where [tested]:
  "remote_desktop_is_only_remote \<longleftrightarrow> is_only_remote RemoteDesktop"

lemma resource_type_tests_pass:
  "sync_folder_is_only_local" "filesystem_is_not_only_local" "terminal_is_only_remote" "shared_network_is_only_remote"
  "remote_desktop_is_only_remote"
  by (simp_all add: tested)

definition registry_string_variant_returns_value :: bool where [tested]:
  "registry_string_variant_returns_value \<longleftrightarrow> as_string (StringValue ''hello'') = ''hello''"
definition registry_expand_string_returns_value :: bool where [tested]:
  "registry_expand_string_returns_value \<longleftrightarrow> as_string (ExpandString ''%APPDATA%'') = ''%APPDATA%''"
definition registry_multi_string_joins_with_newline :: bool where [tested]:
  "registry_multi_string_joins_with_newline \<longleftrightarrow> as_string (MultiString [''a'', ''b'']) = ''a'' @ [char_of (10 :: nat)] @ ''b''"
definition registry_dword_formats_hex_and_decimal :: bool where [tested]:
  "registry_dword_formats_hex_and_decimal \<longleftrightarrow> as_string (DWord 255) = ''0x000000FF (255)''"
definition registry_qword_formats_hex_and_decimal :: bool where [tested]:
  "registry_qword_formats_hex_and_decimal \<longleftrightarrow> as_string (QWord 1) = ''0x0000000000000001 (1)''"
definition registry_unknown_returns_label :: bool where [tested]:
  "registry_unknown_returns_label \<longleftrightarrow> as_string Unknown = ''(Unknown Type)''"

lemma registry_value_tests_pass:
  "registry_string_variant_returns_value" "registry_expand_string_returns_value" "registry_multi_string_joins_with_newline"
  "registry_dword_formats_hex_and_decimal" "registry_qword_formats_hex_and_decimal" "registry_unknown_returns_label"
  by code_simp+

definition every_variant :: "uuid \<Rightarrow> p2p_message list" where
  "every_variant i =
     [AppListRequest ''placeholder'' i, AppListResponse ''placeholder'' (Some i) [] [] None None,
      AppLaunchRequest ''placeholder'' i i ''a'', AppStopRequest ''placeholder'' i i,
      AppActionResponse ''placeholder'' i None None None]"

definition every_variant_is_anchored_to_the_network_resource :: "uuid \<Rightarrow> bool" where [tested]:
  "every_variant_is_anchored_to_the_network_resource i \<longleftrightarrow>
     list_all (\<lambda>msg. allowed_resource_types msg = [SharedNetwork]) (every_variant i)"
definition every_variant_names_its_resource :: "uuid \<Rightarrow> bool" where [tested]:
  "every_variant_names_its_resource i \<longleftrightarrow> list_all (\<lambda>msg. resource_id msg \<noteq> None) (every_variant i)"
definition every_variant_can_be_retagged :: "uuid \<Rightarrow> bool" where [tested]:
  "every_variant_can_be_retagged i \<longleftrightarrow>
     list_all (\<lambda>msg. resource_id (set_resource_id msg ''network-abc'') = Some ''network-abc'') (every_variant i)"

lemma launch_tests_pass:
  "every_variant_is_anchored_to_the_network_resource i" "every_variant_names_its_resource i" "every_variant_can_be_retagged i"
  by (simp_all add: tested every_variant_def)

definition asking_for :: "u64 \<Rightarrow> u64 option \<Rightarrow> p2p_message" where
  "asking_for offset len = FileDownloadRequest ''res'' ''/share/data.bin'' 0 offset len"

definition a_ranged_request_is_still_signed_against_its_resource :: bool where [tested]:
  "a_ranged_request_is_still_signed_against_its_resource \<longleftrightarrow> resource_id (asking_for 4 (Some 3)) = Some ''res''"

lemma ranged_request_passes: "a_ranged_request_is_still_signed_against_its_resource"
  by (simp add: tested asking_for_def)

section \<open>\<open>nodeinnet-p2p/src/lib.rs\<close>\<close>

definition make_node :: "string \<Rightarrow> string \<Rightarrow> string \<Rightarrow> shared_resource list \<Rightarrow> node_info" where
  "make_node i name pub_key resources =
     \<lparr>ni_id = i, ni_name = name, ni_os = ''linux'', ni_version = ''1.0'', ni_app_type = ''test'', ni_build_type = ''debug'',
      ni_public_key = pub_key, ni_resources = resources, ni_is_online = True, ni_last_used = 0, ni_is_temporary = False\<rparr>"

definition unknown_node_returns_none_before_update :: bool where [tested]:
  "unknown_node_returns_none_before_update \<longleftrightarrow>
     get_known_public_key known_registry_new ''nonexistent_node_xyz'' = None
     \<and> get_known_peer_name known_registry_new ''nonexistent_node_xyz'' = None"

text \<open>The tests share the cells, so they run on any registry.\<close>

definition update_and_get_public_key :: "known_registry \<Rightarrow> bool" where [tested]:
  "update_and_get_public_key k \<longleftrightarrow>
     get_known_public_key (update_known_public_keys [make_node ''test_node_pk_001'' ''Node One'' ''pubkey_abc'' []] k)
       ''test_node_pk_001'' = Some ''pubkey_abc''"

definition update_and_get_peer_name :: "known_registry \<Rightarrow> bool" where [tested]:
  "update_and_get_peer_name k \<longleftrightarrow>
     get_known_peer_name (update_known_public_keys [make_node ''test_node_name_001'' ''My Device'' ''key'' []] k)
       ''test_node_name_001'' = Some ''My Device''"

definition update_and_get_resource_name :: "known_registry \<Rightarrow> bool" where [tested]:
  "update_and_get_resource_name k \<longleftrightarrow>
     (let resource = \<lparr>res_id = ''res_001'', res_name = ''My Files'', res_type = Filesystem, res_config = None,
            res_is_active = True, res_session_token = None\<rparr>
      in get_known_resource_name (update_known_public_keys [make_node ''test_node_res_001'' ''Node'' ''key'' [resource]] k)
           ''test_node_res_001'' ''res_001'' = Some ''My Files'')"

definition update_multiple_nodes_all_accessible :: "known_registry \<Rightarrow> bool" where [tested]:
  "update_multiple_nodes_all_accessible k \<longleftrightarrow>
     (let k = update_known_public_keys [make_node ''multi_a'' ''Alpha'' ''key_a'' [], make_node ''multi_b'' ''Beta'' ''key_b'' []] k
      in get_known_public_key k ''multi_a'' = Some ''key_a'' \<and> get_known_public_key k ''multi_b'' = Some ''key_b''
         \<and> get_known_peer_name k ''multi_a'' = Some ''Alpha'' \<and> get_known_peer_name k ''multi_b'' = Some ''Beta'')"

definition update_overwrites_existing_key :: "known_registry \<Rightarrow> bool" where [tested]:
  "update_overwrites_existing_key k \<longleftrightarrow>
     (let k1 = update_known_public_keys [make_node ''test_node_overwrite'' ''Old Name'' ''old_key'' []] k;
          k2 = update_known_public_keys [make_node ''test_node_overwrite'' ''New Name'' ''new_key'' []] k1
      in get_known_public_key k1 ''test_node_overwrite'' = Some ''old_key''
         \<and> get_known_public_key k2 ''test_node_overwrite'' = Some ''new_key''
         \<and> get_known_peer_name k2 ''test_node_overwrite'' = Some ''New Name'')"

definition unknown_resource_returns_none :: bool where [tested]:
  "unknown_resource_returns_none \<longleftrightarrow> get_known_resource_name known_registry_new ''no_such_node'' ''no_such_res'' = None"

lemma registry_tests_pass:
  "unknown_node_returns_none_before_update" "update_and_get_public_key k" "update_and_get_peer_name k"
  "update_and_get_resource_name k" "update_multiple_nodes_all_accessible k" "update_overwrites_existing_key k"
  "unknown_resource_returns_none"
  by (simp_all add: tested make_node_def update_known_public_keys_def get_known_public_key_def get_known_peer_name_def
      get_known_resource_name_def known_registry_new_def hm_insert_all_def Let_def)

section \<open>\<open>nodeinnet-api/src/rtc.rs\<close>\<close>

definition main_region_stays_on_the_central_relay :: "(string \<Rightarrow> string \<Rightarrow> string option) \<Rightarrow> int \<Rightarrow> bool" where [tested]:
  "main_region_stays_on_the_central_relay mac now \<longleftrightarrow>
     map_option turn_uris (get_turn_credentials mac now None ''alice'' ''topsecret'' Main) = Some [CENTRAL_RELAY]"

definition region_round_trips_through_its_string_form :: bool where [tested]:
  "region_round_trips_through_its_string_form \<longleftrightarrow>
     list_all (\<lambda>r. region_parse (region_as_str r) = Some r) [Auto, Eu, Us, Main, Custom] \<and> region_parse ''moon'' = None"

definition eu_region_drops_us_relays_but_keeps_the_central_one :: "(string \<Rightarrow> string \<Rightarrow> string option) \<Rightarrow> int \<Rightarrow> bool" where [tested]:
  "eu_region_drops_us_relays_but_keeps_the_central_one mac now \<longleftrightarrow>
     (case get_turn_credentials mac now None ''alice'' ''topsecret'' Eu of
        None \<Rightarrow> False
      | Some creds \<Rightarrow> list_ex (\<lambda>u. u = CENTRAL_RELAY) (turn_uris creds)
          \<and> list_ex (\<lambda>u. sublist ''eu.node.in.net'' u) (turn_uris creds)
          \<and> \<not> list_ex (\<lambda>u. sublist ''us.node.in.net'' u) (turn_uris creds))"

definition undeployed_region_falls_back_to_every_relay :: "(string \<Rightarrow> string \<Rightarrow> string option) \<Rightarrow> int \<Rightarrow> bool" where [tested]:
  "undeployed_region_falls_back_to_every_relay mac now \<longleftrightarrow>
     (case (get_turn_credentials mac now None ''alice'' ''topsecret'' Us, get_turn_credentials mac now None ''alice'' ''topsecret'' Auto) of
        (Some creds, Some auto) \<Rightarrow> list_ex (\<lambda>u. u = CENTRAL_RELAY) (turn_uris creds) \<and> turn_uris creds = turn_uris auto
      | _ \<Rightarrow> False)"

definition auto_region_offers_every_relay :: "(string \<Rightarrow> string \<Rightarrow> string option) \<Rightarrow> int \<Rightarrow> bool" where [tested]:
  "auto_region_offers_every_relay mac now \<longleftrightarrow>
     map_option (\<lambda>c. length (turn_uris c)) (get_turn_credentials mac now None ''alice'' ''topsecret'' Auto)
       = Some (1 + length EU_RELAYS + length US_RELAYS)"

text \<open>For every key the MAC takes and at every time.\<close>

lemma turn_tests_pass:
  assumes "\<And>key text. mac key text \<noteq> None"
  shows "main_region_stays_on_the_central_relay mac now" "region_round_trips_through_its_string_form"
    "eu_region_drops_us_relays_but_keeps_the_central_one mac now" "undeployed_region_falls_back_to_every_relay mac now"
    "auto_region_offers_every_relay mac now"
proof -
  have trim: "trim [] = []" by code_simp
  have m: "\<exists>p. mac ''topsecret'' t = Some p" for t using assms by blast
  obtain p where p: "mac ''topsecret'' (show_int (now + 24 * 3600) @ '':'' @ ''alice'') = Some p" using m by blast
  have sub: "sublist ''eu.node.in.net'' ''turn:eu.node.in.net:3478''"
    "\<not> sublist ''us.node.in.net'' ''turn:node.in.net:3478''" "\<not> sublist ''us.node.in.net'' ''turn:eu.node.in.net:3478''"
    "\<not> sublist ''us.node.in.net'' ''turns:eu.node.in.net:443?transport=tcp''"
    by code_simp+
  note facts = tested get_turn_credentials_def Let_def trim CENTRAL_RELAY_def EU_RELAYS_def US_RELAYS_def
  show "main_region_stays_on_the_central_relay mac now" "undeployed_region_falls_back_to_every_relay mac now"
    "auto_region_offers_every_relay mac now"
    using p by (simp_all add: facts)
  show "region_round_trips_through_its_string_form" by code_simp
  show "eu_region_drops_us_relays_but_keeps_the_central_one mac now"
    using p sub by (simp add: facts)
qed

section \<open>\<open>client-core/src/lib.rs\<close> and \<open>p2p-node/src\<close>\<close>

definition the_measured_skew_reaches_the_message :: bool where [tested]:
  "the_measured_skew_reaches_the_message \<longleftrightarrow> sublist ''91500'' (failure_text (ClockSkew 91500))"
definition the_transport_state_reaches_the_message :: bool where [tested]:
  "the_transport_state_reaches_the_message \<longleftrightarrow> sublist ''Failed'' (failure_text (Transport ''Failed''))"
definition a_blocked_resource_is_named :: bool where [tested]:
  "a_blocked_resource_is_named \<longleftrightarrow> sublist ''fs-root'' (failure_text (BadHmac ''fs-root''))"

lemma failure_tests_pass:
  "the_measured_skew_reaches_the_message" "the_transport_state_reaches_the_message" "a_blocked_resource_is_named"
proof -
  have n: "show_nat 91500 = ''91500''" by (simp add: show_nat.simps digit_char_def, code_simp)
  have u: "unat (91500 :: u64) = 91500" by simp
  show "the_measured_skew_reaches_the_message" unfolding tested failure_text.simps u n by (meson sublist_appendI append_assoc)
  show "the_transport_state_reaches_the_message" unfolding tested failure_text.simps by (meson sublist_appendI append_assoc)
  show "a_blocked_resource_is_named" unfolding tested failure_text.simps by (meson sublist_appendI append_assoc)
qed

definition make_test_context :: node_context where
  "make_test_context = context_new (make_node ''test_node_ctx'' ''Test Node'' ''key'' []) ''test-peer'' memory_peer_store_default"

definition node_context_starts_unauthenticated :: bool where [tested]:
  "node_context_starts_unauthenticated \<longleftrightarrow> \<not> is_authenticated make_test_context"
definition node_context_default_chunk_size_is_10240 :: bool where [tested]:
  "node_context_default_chunk_size_is_10240 \<longleftrightarrow> peer_max_chunk_size make_test_context = 10240"
definition shutdown_clears_session_keys :: bool where [tested]:
  "shutdown_clears_session_keys \<longleftrightarrow>
     (let ctx = make_test_context\<lparr>session_keys := hm_insert ''res1'' ''token1'' (session_keys make_test_context)\<rparr>
      in session_keys ctx \<noteq> [] \<and> session_keys (shutdown ctx) = [])"

lemma context_tests_pass:
  "node_context_starts_unauthenticated" "node_context_default_chunk_size_is_10240" "shutdown_clears_session_keys"
  by (simp_all add: tested make_test_context_def context_new_def shutdown_def hm_insert_def)

definition write_then_read_packet_roundtrip :: bool where [tested]:
  "write_then_read_packet_roundtrip \<longleftrightarrow>
     (let data = as_bytes ''hello p2p tunnel'' in map_sum id fst (read_packet (write_packet data)) = Inr data)"
definition empty_packet_roundtrip :: bool where [tested]:
  "empty_packet_roundtrip \<longleftrightarrow> map_sum id fst (read_packet (write_packet [])) = Inr []"

lemma packet_tests_pass: "write_then_read_packet_roundtrip" "empty_packet_roundtrip"
  by (simp_all add: tested read_packet_def write_packet_def u32_to_be_bytes_def u32_from_be_bytes_def MAX_PACKET_def Let_def as_bytes_def)

section \<open>\<open>client-core/src/rtc/video_utils.rs\<close>\<close>

definition output_size_matches_yuv420p_formula :: bool where [tested]:
  "output_size_matches_yuv420p_formula \<longleftrightarrow>
     (let w = 8; h = 8; yuv = bgra_to_yuv420p (replicate (w * h * 4) 0) w h w h
      in length yuv = w * h + (w div 2) * (h div 2) * 2)"
definition downscaled_output_has_correct_size :: bool where [tested]:
  "downscaled_output_has_correct_size \<longleftrightarrow>
     (let src_w = 8; src_h = 8; dst_w = 4; dst_h = 4; yuv = bgra_to_yuv420p (replicate (src_w * src_h * 4) 128) src_w src_h dst_w dst_h
      in length yuv = dst_w * dst_h + (dst_w div 2) * (dst_h div 2) * 2)"
definition pure_black_input_produces_nonempty_output :: bool where [tested]:
  "pure_black_input_produces_nonempty_output \<longleftrightarrow> bgra_to_yuv420p (replicate (4 * 4 * 4) 0) 4 4 4 4 \<noteq> []"

lemma yuv_size_tests_pass:
  "output_size_matches_yuv420p_formula" "downscaled_output_has_correct_size" "pure_black_input_produces_nonempty_output"
proof -
  have l: "length (bgra_to_yuv420p bgra sw sh w h) = w * h + 2 * ((w div 2) * (h div 2))" for bgra sw sh w h
    unfolding bgra_to_yuv420p_def Let_def fold_rows
    by (simp add: encode_loops luma_loop.length_loop [of _ "w * h"] chroma_loop.length_loop [of _ "(w div 2) * (h div 2)"])
  show "output_size_matches_yuv420p_formula" "downscaled_output_has_correct_size" by (simp_all add: tested l)
  show "pure_black_input_produces_nonempty_output" using l [of "replicate (4 * 4 * 4) 0" 4 4 4 4] by (auto simp: tested)
qed

end
