(* ===== verification/Spec2Isabelle.thy ===== *)
theory Spec2Isabelle
  imports P2P_Prelude Api_Types Api_Crypto P2p_Messages P2p_Registry Rate_Limits Chunking Local_Mesh
    Mdns_Discovery Node_Context Client_Types Rtc_Session Rtc_Client Rtc_Lifecycle
    Network_Types Network_Peers Network_Manager Network_Invariant Network_Sessions Network_Properties
    Network_Signals Network_Discovery Network_Pair Video_Utils Float64 Token_Bucket Paced_Sending Write_Lock
    Rtc_Video Account_Client Unit_Tests
begin

text \<open>
  A verification development for the peer-to-peer library of \<^emph>\<open>node.in.net\<close>: four Rust crates under
  \<open>src/\<close> that let the nodes of an account find each other, open authenticated WebRTC connections and
  use each other's resources.

  \<^bold>\<open>The program.\<close>
  \<^item> \<open>nodeinnet-api\<close> holds the data exchanged with the server and the wrappers around the
    cryptographic primitives; \<open>nodeinnet-p2p\<close> holds the messages peers exchange, the registry of known
    public keys and the peer store.
  \<^item> \<open>p2p-node\<close> holds the context of a connection (which resources are shared, which session keys
    are in force, how a message is checked and answered), the encrypted TCP tunnels of the local
    network, and their discovery over mDNS.
  \<^item> \<open>client-core\<close> holds the WebRTC client of one peer and the network task that owns all clients: it
    talks to the server, routes signals, decides whom to dial and when, and hands the application's
    commands to the clients.
  A signal travels from a client through the network task over a tunnel or the server to the
  network task of the other node, which opens or updates its client; once the data channel is open
  the two nodes authenticate by signed handshakes and exchange messages that carry a MAC under a
  session key of the resource they address.

  \<^bold>\<open>The theories\<close>, in the order of the code; state is a record, an operation a function on it, an
  error a value of a sum or option type, and static cells of the process are fields of the record
  of the component that uses them.
  \<^item> \<open>P2P_Prelude\<close>: hash maps as association lists without duplicate keys, results, big-endian
    words, decimal numbers; the locale \<open>transition_invariant\<close> for step relations.
  \<^item> \<open>Api_Types\<close> (\<open>lib.rs\<close>, \<open>account.rs\<close>, \<open>ws.rs\<close>, \<open>rtc.rs\<close>), \<open>Api_Crypto\<close> (\<open>crypto.rs\<close>): the primitives are
    the record \<open>crypto_prims\<close>; \<open>b64_law\<close>, \<open>hex_law\<close> and \<open>ed25519_law\<close> state what the code relies on.
  \<^item> \<open>P2p_Messages\<close> (\<open>p2p.rs\<close>), \<open>P2p_Registry\<close> (\<open>nodeinnet-p2p/src/lib.rs\<close>; locale \<open>peer_store\<close>).
  \<^item> \<open>Float64\<close>: the arithmetic of \<open>f64\<close> as rational arithmetic with rounding to the nearest even
    number of 53 bits. \<open>Rate_Limits\<close> and \<open>Token_Bucket\<close> (\<open>limits.rs\<close>), \<open>Chunking\<close> (\<open>rtc/chunking.rs\<close>).
  \<^item> \<open>Local_Mesh\<close> (\<open>local_mesh.rs\<close>): packets, both Noise handshakes, the tunnel task;
    \<open>Mdns_Discovery\<close> (\<open>mdns_discovery.rs\<close>).
  \<^item> \<open>Node_Context\<close> (\<open>p2p-node/src/lib.rs\<close>): sending, the access check, the answer to a handshake.
  \<^item> \<open>Client_Types\<close> (\<open>client-core/src/lib.rs\<close>), \<open>Rtc_Session\<close> (\<open>rtc/core.rs\<close> and the receiving half of
    \<open>rtc/mod.rs\<close>), \<open>Rtc_Client\<close> (the rest of \<open>rtc/mod.rs\<close>), \<open>Rtc_Lifecycle\<close>: the callbacks and tasks of one
    client as the step relation \<open>client_step\<close>, with invariants over every interleaving.
    \<open>Write_Lock\<close> takes the single step \<open>send_chunked_binary\<close> apart into concurrent writers (\<open>channel_step\<close>)
    and shows that it is right; \<open>Paced_Sending\<close> runs the senders with the token bucket.
  \<^item> \<open>Network_Types\<close>, \<open>Network_Peers\<close>, \<open>Network_Manager\<close> (\<open>network/types.rs\<close>, \<open>mod.rs\<close>, \<open>manager.rs\<close>,
    \<open>peer_orchestrator.rs\<close>, \<open>ws_client.rs\<close>, \<open>p2p_transfer.rs\<close>): every command, the tick and every signal
    of the local mesh; \<open>Network_Discovery\<close> composes the task that starts the discovery.
    \<open>Network_Invariant\<close> has the step relation \<open>net_step\<close> and its invariant; \<open>Network_Sessions\<close> an abstract
    table of sessions and the proof that every handler implements it; \<open>Network_Properties\<close> and
    \<open>Network_Signals\<close> what single handlers do. \<open>Network_Pair\<close> composes two nodes: network tasks, tunnels
    and clients from a dial to mutual authentication.
  \<^item> \<open>Video_Utils\<close> (\<open>rtc/video_utils.rs\<close>): the pixel loops and their reference definitions (locale
    \<open>pixel_loop\<close>). \<open>Rtc_Video\<close> (the video tasks of \<open>rtc/mod.rs\<close>, the data of \<open>desktop.rs\<close>): one turn of each
    task as a function, streams as folds over events.
  \<^item> \<open>Account_Client\<close> (\<open>auth.rs\<close>, the cells of \<open>launcher.rs\<close> and \<open>desktop.rs\<close>): the requests to the account
    service.
  \<^item> \<open>Unit_Tests\<close>: the unit tests of the sources as definitions, each shown to pass on the model.

  \<^bold>\<open>What is shown.\<close> Messages that name a resource take effect only with a valid MAC on an
  authenticated connection; requests only for shared resources of the right type; tunnels only with
  nodes whose known key verifies. Framing, packets, signatures, MACs and tunnelled signals round
  trip. A new client is inert until its peer is authenticated and two nodes that know each other's
  keys do authenticate, from the dial over the tunnel between them on. Concurrent writers of a channel
  do not disturb each other. The network task keeps its tables consistent, implements the abstract table
  of sessions, loses no session, paces its dials and keeps to the peer limit up to one exception.
  The conversion of video frames equals its reference, the encoder always fits the frames it is
  given, a viewer is shown whole pictures and then one end, and bulk data keeps to the configured
  rate, rounding of \<open>f64\<close> included. The registration of a device reveals no configuration. The theorems of kind \<^emph>\<open>error\<close> state where the
  code does not do what it means to: each is a proved behaviour of the model.

  \<^bold>\<open>Bounds and fuel.\<close> No operation needs fuel: loops are folds over the data, a retry loop of the code
  with a fixed number of attempts is a recursion on that number (ten in \<open>find_tunnel\<close>, twenty-five
  polls in \<open>auth_gate\<close>). A handler that may never return is \<open>None\<close>: taking a lock it already holds, or
  sending on a full channel that only it empties. Machine integers are words where they can wrap or
  truncate, natural numbers otherwise.

  \<^bold>\<open>Not modelled.\<close> Log lines; the wire formats BSON and JSON, Noise, mDNS, WebRTC, H.264, the TLS and
  WebSocket sockets and the cryptographic primitives, which are code of other packages and appear
  as arguments; the HTTP client of \<open>auth.rs\<close>, likewise an argument; the traits of \<open>launcher.rs\<close> and
  \<open>desktop.rs\<close>, which the application implements; infinities and NaN, which no computed \<open>f64\<close> here can be;
  pauses other than those of \<open>acquire_send_tokens\<close>, so that the loops of the video tasks are turns without
  delays and a channel whose buffer is full is one that has no room; the thread wrappers \<open>start_network_thread\<close> and \<open>spawn_network_task\<close>.
\<close>

end
